(* ===== verification/Prelude.thy ===== *)
theory Prelude
  imports Main "HOL-Library.Word" "HOL-Library.Multiset" "HOL-Library.Sublist"
begin

text \<open>
  The part of Go's semantics the components share: the outcome of a call (a value, a
  non-nil error, or a panic), nil pointers and nil maps, computations over a mutable
  receiver, and range loops over a map, whose iteration order the language leaves open.
\<close>

section \<open>Outcomes of a call\<close>

text \<open>
  A Go error is a value: one the operator builds itself (errors.New, fmt.Errorf) is given
  by its text, one that comes back from a library by its dynamic type and its text.
\<close>

datatype go_error = ErrorString string | ExtError string string

datatype go_panic = NilDeref | NilMapWrite | PanicValue string

datatype 'a res = Ok 'a | Err go_error | Panic go_panic

type_synonym int32 = "32 word"

named_theorems go_simps \<open>characteristic equations of the Go control flow\<close>

fun bind_res :: "'a res \<Rightarrow> ('a \<Rightarrow> 'b res) \<Rightarrow> 'b res" where
  "bind_res (Ok x) f = f x"
| "bind_res (Err e) f = Err e"
| "bind_res (Panic p) f = Panic p"

fun is_Ok :: "'a res \<Rightarrow> bool" where
  "is_Ok (Ok x) = True"
| "is_Ok (Err e) = False"
| "is_Ok (Panic p) = False"

text \<open>Reading through a pointer: nil panics.\<close>

fun deref :: "'a option \<Rightarrow> 'a res" where
  "deref None = Panic NilDeref"
| "deref (Some x) = Ok x"

lemma bind_res_Ok_iff [go_simps]:
  "bind_res m f = Ok y \<longleftrightarrow> (\<exists>x. m = Ok x \<and> f x = Ok y)"
  by (cases m) auto

lemma bind_res_Err_iff:
  "bind_res m f = Err e \<longleftrightarrow> m = Err e \<or> (\<exists>x. m = Ok x \<and> f x = Err e)"
  by (cases m) auto

lemma bind_res_Panic_iff:
  "bind_res m f = Panic p \<longleftrightarrow> m = Panic p \<or> (\<exists>x. m = Ok x \<and> f x = Panic p)"
  by (cases m) auto

lemma bind_res_assoc: "bind_res (bind_res m f) g = bind_res m (\<lambda>x. bind_res (f x) g)"
  by (cases m) auto

lemma deref_Ok_iff [go_simps]: "deref p = Ok x \<longleftrightarrow> p = Some x"
  by (cases p) auto

lemma is_Ok_iff: "is_Ok m \<longleftrightarrow> (\<exists>x. m = Ok x)"
  by (cases m) auto

section \<open>Computations over a mutable receiver\<close>

text \<open>
  A method with a pointer receiver is a function from the receiver's state to an outcome
  and the state it leaves. What a method has written stays written when it fails later:
  the state is returned beside an error and beside a panic too.
\<close>

type_synonym ('s, 'a) eff = "'s \<Rightarrow> 'a res \<times> 's"

definition ret_eff :: "'a \<Rightarrow> ('s, 'a) eff" where
  "ret_eff x = (\<lambda>s. (Ok x, s))"

definition lift_res :: "'a res \<Rightarrow> ('s, 'a) eff" where
  "lift_res r = (\<lambda>s. (r, s))"

definition modify_eff :: "('s \<Rightarrow> 's) \<Rightarrow> ('s, unit) eff" where
  "modify_eff g = (\<lambda>s. (Ok (), g s))"

text \<open>A method that reads its receiver first.\<close>

definition ask_eff :: "('s \<Rightarrow> ('s, 'a) eff) \<Rightarrow> ('s, 'a) eff" where
  "ask_eff f = (\<lambda>s. f s s)"

definition bind_eff :: "('s, 'a) eff \<Rightarrow> ('a \<Rightarrow> ('s, 'b) eff) \<Rightarrow> ('s, 'b) eff" where
  "bind_eff m f = (\<lambda>s. case m s of
      (Ok x, t) \<Rightarrow> f x t
    | (Err e, t) \<Rightarrow> (Err e, t)
    | (Panic p, t) \<Rightarrow> (Panic p, t))"

lemma ret_eff_apply [simp, go_simps]: "ret_eff x s = (Ok x, s)"
  by (simp add: ret_eff_def)

lemma lift_res_apply [simp, go_simps]: "lift_res r s = (r, s)"
  by (simp add: lift_res_def)

lemma modify_eff_apply [simp, go_simps]: "modify_eff g s = (Ok (), g s)"
  by (simp add: modify_eff_def)

lemma ask_eff_apply [simp, go_simps]: "ask_eff f s = f s s"
  by (simp add: ask_eff_def)

lemma bind_eff_cases [go_simps]:
  "m s = (Ok x, t) \<Longrightarrow> bind_eff m f s = f x t"
  "m s = (Err e, t) \<Longrightarrow> bind_eff m f s = (Err e, t)"
  "m s = (Panic p, t) \<Longrightarrow> bind_eff m f s = (Panic p, t)"
  by (simp_all add: bind_eff_def)

lemma bind_eff_ret [simp]: "bind_eff (ret_eff x) f = f x"
  by (simp add: bind_eff_def ret_eff_def)

lemma bind_eff_ret_right [simp]: "bind_eff m ret_eff = m"
  by (auto simp: bind_eff_def ret_eff_def fun_eq_iff split: prod.splits res.splits)

lemma bind_eff_assoc: "bind_eff (bind_eff m f) g = bind_eff m (\<lambda>x. bind_eff (f x) g)"
  by (auto simp: bind_eff_def fun_eq_iff split: prod.splits res.splits)

lemma bind_eff_Ok_iff:
  "bind_eff m f s = (Ok y, u) \<longleftrightarrow> (\<exists>x t. m s = (Ok x, t) \<and> f x t = (Ok y, u))"
  by (auto simp: bind_eff_def split: prod.splits res.splits)

lemma bind_eff_Err_iff:
  "bind_eff m f s = (Err e, u) \<longleftrightarrow>
     m s = (Err e, u) \<or> (\<exists>x t. m s = (Ok x, t) \<and> f x t = (Err e, u))"
  by (auto simp: bind_eff_def split: prod.splits res.splits)

lemma bind_eff_Panic_iff:
  "bind_eff m f s = (Panic p, u) \<longleftrightarrow>
     m s = (Panic p, u) \<or> (\<exists>x t. m s = (Ok x, t) \<and> f x t = (Panic p, u))"
  by (auto simp: bind_eff_def split: prod.splits res.splits)

lemma bind_eff_lift_res [simp]:
  "bind_eff (lift_res (Ok x)) f s = f x s"
  "bind_eff (lift_res (Err e)) f s = (Err e, s)"
  "bind_eff (lift_res (Panic p)) f s = (Panic p, s)"
  by (simp_all add: bind_eff_def)

lemma bind_eff_lift_res_split:
  "bind_eff (lift_res r) f s =
     (case r of Ok x \<Rightarrow> f x s | Err e \<Rightarrow> (Err e, s) | Panic p \<Rightarrow> (Panic p, s))"
  by (simp add: bind_eff_def split: res.splits)

lemma bind_eff_lift_lift: "bind_eff (lift_res m) (\<lambda>x. lift_res (f x)) = lift_res (bind_res m f)"
  by (cases m) (simp_all add: fun_eq_iff)

lemma bind_eff_modify [simp]: "bind_eff (modify_eff g) f s = f () (g s)"
  by (simp add: bind_eff_def modify_eff_def)

text \<open>
  A computation over one of two states that stand side by side: a receiver, and what is
  outside the process.
\<close>

definition on_fst :: "('s, 'a) eff \<Rightarrow> ('s \<times> 'w, 'a) eff" where
  "on_fst m = (\<lambda>(s, w). case m s of (x, t) \<Rightarrow> (x, (t, w)))"

definition on_snd :: "('w, 'a) eff \<Rightarrow> ('s \<times> 'w, 'a) eff" where
  "on_snd m = (\<lambda>(s, w). case m w of (x, v) \<Rightarrow> (x, (s, v)))"

lemma on_fst_apply [simp, go_simps]: "on_fst m (s, w) = (case m s of (x, t) \<Rightarrow> (x, (t, w)))"
  by (simp add: on_fst_def)

lemma on_snd_apply [simp, go_simps]: "on_snd m (s, w) = (case m w of (x, v) \<Rightarrow> (x, (s, v)))"
  by (simp add: on_snd_def)

text \<open>First the receiver, then the outside: the second runs when the first has succeeded.\<close>

lemma on_fst_then_snd:
  "bind_eff (on_fst m) (\<lambda>x. on_snd (f x)) (s, w) =
     (case m s of (Ok x, t) \<Rightarrow> (case f x w of (y, v) \<Rightarrow> (y, (t, v)))
      | (Err e, t) \<Rightarrow> (Err e, (t, w)) | (Panic p, t) \<Rightarrow> (Panic p, (t, w)))"
  by (simp add: bind_eff_def split: prod.splits res.splits)

text \<open>A step that only ever grows a history keeps every prefix of it.\<close>

lemma bind_eff_mono:
  assumes "\<And>s x t. m s = (x, t) \<Longrightarrow> prefix (hist s) (hist t)"
    and "\<And>a s x t. f a s = (x, t) \<Longrightarrow> prefix (hist s) (hist t)"
    and "bind_eff m f s = (x, t)"
  shows "prefix (hist s) (hist t)"
proof (cases "m s")
  case (Pair r u)
  then have *: "prefix (hist s) (hist u)" by (rule assms(1))
  show ?thesis
  proof (cases r)
    case (Ok y)
    then have "f y u = (x, t)" using Pair assms(3) by (simp add: bind_eff_def)
    from assms(2) [OF this] * show ?thesis by (blast intro: prefix_order.trans)
  qed (use Pair assms(3) * in \<open>auto simp: bind_eff_def\<close>)
qed

section \<open>Lists\<close>

text \<open>Cutting a list at the first occurrence of a separator is unambiguous.\<close>

lemma append_sep_eq_last:
  assumes "a \<notin> set r" and "a \<notin> set r'"
  shows "x @ a # r = x' @ a # r' \<longleftrightarrow> x = x' \<and> r = r'"
proof
  assume eq: "x @ a # r = x' @ a # r'"
  have "length (takeWhile (\<lambda>c. c \<noteq> a) (rev (x @ a # r))) = length r"
    "length (takeWhile (\<lambda>c. c \<noteq> a) (rev (x' @ a # r'))) = length r'"
    using assms by (auto simp: takeWhile_append)
  with eq show "x = x' \<and> r = r'" by simp
qed simp

lemma append_sep_eq:
  "a \<notin> set x \<Longrightarrow> a \<notin> set x' \<Longrightarrow> x @ a # r = x' @ a # r' \<longleftrightarrow> x = x' \<and> r = r'"
proof (induction x arbitrary: x')
  case Nil
  then show ?case by (cases x') auto
next
  case (Cons y x)
  then show ?case by (cases x') auto
qed

section \<open>Maps and range loops\<close>

text \<open>
  A Go map is a partial function; the order in which a range loop visits it is any
  arrangement of its keys. A loop takes the arrangement as a list of keys.
\<close>

type_synonym 'v go_map = "string \<rightharpoonup> 'v"

definition range_order :: "'k list \<Rightarrow> ('k \<rightharpoonup> 'v) \<Rightarrow> bool" where
  "range_order ks m \<longleftrightarrow> distinct ks \<and> set ks = dom m"

fun range_entries :: "'k list \<Rightarrow> ('k \<rightharpoonup> 'v) \<Rightarrow> ('k \<times> 'v) list" where
  "range_entries [] m = []"
| "range_entries (k # ks) m =
     (case m k of None \<Rightarrow> range_entries ks m | Some v \<Rightarrow> (k, v) # range_entries ks m)"

fun range_loop :: "('k \<Rightarrow> 'v \<Rightarrow> ('s, unit) eff) \<Rightarrow> ('k \<times> 'v) list \<Rightarrow> ('s, unit) eff" where
  "range_loop body [] = ret_eff ()"
| "range_loop body ((k, v) # kvs) = bind_eff (body k v) (\<lambda>_. range_loop body kvs)"

text \<open>Copying a map entry by entry, as the loops that clone label maps do.\<close>

definition copy_entries :: "('k \<times> 'v) list \<Rightarrow> ('k \<rightharpoonup> 'v) \<Rightarrow> ('k \<rightharpoonup> 'v)" where
  "copy_entries kvs m = foldl (\<lambda>acc (k, v). acc(k \<mapsto> v)) m kvs"

lemma set_range_entries:
  "set (range_entries ks m) = {(k, v). k \<in> set ks \<and> m k = Some v}"
  by (induction ks) (auto split: option.splits)

lemma fst_range_entries: "set ks \<subseteq> dom m \<Longrightarrow> map fst (range_entries ks m) = ks"
  by (induction ks) auto

lemma range_order_fst: "range_order ks m \<Longrightarrow> map fst (range_entries ks m) = ks"
  by (simp add: range_order_def fst_range_entries)

lemma range_order_entries_mset:
  assumes "range_order ks m" and "range_order ks' m"
  shows "mset (range_entries ks m) = mset (range_entries ks' m)"
proof -
  have d: "distinct (range_entries js m)" if "range_order js m" for js
    using that range_order_fst [OF that] by (metis distinct_map range_order_def)
  have "set (range_entries ks m) = set (range_entries ks' m)"
    using assms by (simp add: set_range_entries range_order_def)
  then show ?thesis
    using d [OF assms(1)] d [OF assms(2)] set_eq_iff_mset_eq_distinct by blast
qed

lemma copy_entries_map_add:
  assumes "distinct (map fst kvs)"
  shows "copy_entries kvs m = m ++ map_of kvs"
  using assms
proof (induction kvs arbitrary: m)
  case Nil
  then show ?case by (simp add: copy_entries_def)
next
  case (Cons kv kvs)
  obtain k v where kv: "kv = (k, v)" by force
  have "copy_entries (kv # kvs) m = copy_entries kvs (m(k \<mapsto> v))"
    by (simp add: copy_entries_def kv)
  also have "\<dots> = m(k \<mapsto> v) ++ map_of kvs" using Cons by simp
  also have "\<dots> = m ++ map_of (kv # kvs)" using Cons.prems kv
    by (simp add: map_add_upd_left map_of_eq_None_iff flip: fun_upd_def)
      (metis map_add_upd_left dom_map_of_conv_image_fst)
  finally show ?case .
qed

lemma map_of_range_entries:
  "map_of (range_entries ks m) k = (if k \<in> set ks then m k else None)"
  by (induction ks) (auto split: option.splits)

text \<open>The copy is the map itself, whatever the order of the visit.\<close>

lemma copy_entries_range:
  assumes "range_order ks m"
  shows "copy_entries (range_entries ks m) Map.empty = m"
proof -
  have "distinct (map fst (range_entries ks m))"
    using assms range_order_fst [OF assms] by (simp add: range_order_def)
  moreover have "map_of (range_entries ks m) = m"
    using assms by (auto simp: fun_eq_iff map_of_range_entries range_order_def)
  ultimately show ?thesis by (simp add: copy_entries_map_add)
qed

lemma mset_concat_map_cong:
  assumes "mset xs = mset ys"
  shows "mset (concat (map g xs)) = mset (concat (map g ys))"
proof -
  have "mset (concat (map g zs)) = sum_mset (image_mset (mset \<circ> g) (mset zs))" for zs
    by (induction zs) auto
  with assms show ?thesis by simp
qed

section \<open>Loops that collect\<close>

text \<open>
  The interface of a loop body that appends to a collection: what it appends, and whether
  it fails, depends on the entry alone and not on what has been collected. Such a loop
  collects the same things in every iteration order.
\<close>

locale collecting_loop =
  fixes body :: "'k \<Rightarrow> 'v \<Rightarrow> ('s, unit) eff"
    and out :: "'k \<Rightarrow> 'v \<Rightarrow> 'r list res"
    and items :: "'s \<Rightarrow> 'r list"
  assumes body_Ok: "out k v = Ok rs \<Longrightarrow> \<exists>t. body k v s = (Ok (), t) \<and> items t = items s @ rs"
    and body_Err: "out k v = Err e \<Longrightarrow> body k v s = (Err e, s)"
    and body_Panic: "out k v = Panic p \<Longrightarrow> body k v s = (Panic p, s)"
begin

lemma loop_Ok:
  assumes "\<And>k v. (k, v) \<in> set kvs \<Longrightarrow> out k v = Ok (f k v)"
  shows "\<exists>t. range_loop body kvs s = (Ok (), t)
           \<and> items t = items s @ concat (map (\<lambda>(k, v). f k v) kvs)"
  using assms
proof (induction kvs arbitrary: s)
  case Nil
  then show ?case by simp
next
  case (Cons kv kvs)
  obtain k v where kv: "kv = (k, v)" by force
  obtain u where u: "body k v s = (Ok (), u)" "items u = items s @ f k v"
    using body_Ok [of k v "f k v" s] Cons.prems kv by auto
  obtain t where "range_loop body kvs u = (Ok (), t)"
    "items t = items u @ concat (map (\<lambda>(k, v). f k v) kvs)"
    using Cons.IH [of u] Cons.prems by auto
  with u kv show ?case by (auto simp: bind_eff_def)
qed

lemma body_Ok_only_if:
  assumes "body k v s = (Ok (), t)"
  shows "\<exists>rs. out k v = Ok rs"
proof (cases "out k v")
  case (Err e)
  from body_Err [OF this, of s] assms show ?thesis by simp
next
  case (Panic p)
  from body_Panic [OF this, of s] assms show ?thesis by simp
qed simp

lemma loop_Ok_only_if:
  assumes "range_loop body kvs s = (Ok (), t)" and "(k, v) \<in> set kvs"
  shows "\<exists>rs. out k v = Ok rs"
  using assms
proof (induction kvs arbitrary: s)
  case Nil
  then show ?case by simp
next
  case (Cons kv kvs)
  obtain k' v' where kv: "kv = (k', v')" by force
  obtain u where u: "body k' v' s = (Ok (), u)" "range_loop body kvs u = (Ok (), t)"
    using Cons.prems(1) kv by (auto simp: bind_eff_Ok_iff)
  from body_Ok_only_if [OF u(1)] Cons.IH [OF u(2)] Cons.prems(2) kv show ?case by auto
qed

text \<open>The loop succeeds exactly when the body succeeds on every entry.\<close>

lemma loop_Ok_iff:
  "(\<exists>t. range_loop body kvs s = (Ok (), t)) \<longleftrightarrow> (\<forall>(k, v) \<in> set kvs. is_Ok (out k v))"
proof
  assume "\<exists>t. range_loop body kvs s = (Ok (), t)"
  then show "\<forall>(k, v) \<in> set kvs. is_Ok (out k v)"
    using loop_Ok_only_if by (fastforce simp: is_Ok_iff)
next
  assume "\<forall>(k, v) \<in> set kvs. is_Ok (out k v)"
  then have "\<And>k v. (k, v) \<in> set kvs \<Longrightarrow> out k v = Ok (case out k v of Ok rs \<Rightarrow> rs)"
    by (fastforce simp: is_Ok_iff)
  from loop_Ok [OF this] show "\<exists>t. range_loop body kvs s = (Ok (), t)" by blast
qed

lemma loop_collects:
  assumes "range_loop body kvs s = (Ok (), t)"
  shows "items t = items s @
           concat (map (\<lambda>(k, v). case out k v of Ok rs \<Rightarrow> rs | _ \<Rightarrow> []) kvs)"
proof -
  have ok: "\<And>k v. (k, v) \<in> set kvs \<Longrightarrow>
      out k v = Ok (case out k v of Ok rs \<Rightarrow> rs | _ \<Rightarrow> [])"
    using loop_Ok_only_if [OF assms] by fastforce
  from loop_Ok [OF this, of kvs s] assms show ?thesis by auto
qed

text \<open>Two visits of the same map in different orders collect the same multiset.\<close>

lemma loop_order_irrelevant:
  assumes "mset kvs = mset kvs'"
    and "range_loop body kvs s = (Ok (), t)"
  shows "\<exists>t'. range_loop body kvs' s = (Ok (), t') \<and> mset (items t') = mset (items t)"
proof -
  let ?g = "\<lambda>(k, v). case out k v of Ok rs \<Rightarrow> rs | _ \<Rightarrow> []"
  have "\<forall>(k, v) \<in> set kvs'. is_Ok (out k v)"
    using assms loop_Ok_iff [of kvs s] mset_eq_setD [OF assms(1)] by blast
  then obtain t' where t': "range_loop body kvs' s = (Ok (), t')"
    using loop_Ok_iff [of kvs' s] by blast
  have "mset (concat (map ?g kvs)) = mset (concat (map ?g kvs'))"
    using assms(1) by (rule mset_concat_map_cong)
  with loop_collects [OF t'] loop_collects [OF assms(2)] t' show ?thesis by auto
qed

end

end
