(* ===== verification/Api_Types.thy ===== *)
theory Api_Types
  imports Prelude
begin

text \<open>
  The data the operator works on: the HbaseCluster resource of api/v1alpha1, the fields of
  the Kubernetes objects the operator writes, and the values it takes from the operator-go
  library. A pointer field is an option, nil being \<open>None\<close>. A library value the operator
  only passes on has an opaque type.
\<close>

section \<open>Library values\<close>

typedecl OverridesSpec
typedecl RoleConfigSpec
typedecl LoggingConfigSpec
typedecl RoleGroupConfigRest
typedecl ClusterOperationSpec
typedecl ImageRest
typedecl ObjectMetaRest
typedecl ListMeta
typedecl Condition

text \<open>
  The type and the metadata of a Kubernetes object: the fields the operator reads, and the
  rest. A list of objects has metadata of its own, a status a list of conditions.
\<close>

record TypeMeta =
  tm_Kind :: string
  tm_APIVersion :: string

record ObjectMeta =
  om_Name :: string
  om_Namespace :: string
  om_rest :: ObjectMetaRest

text \<open>The image reference the library builds: the field the operator overwrites, and the rest.\<close>

record Image =
  KubedoopVersion :: string
  image_rest :: ImageRest

record ImageOptions =
  io_Custom :: string
  io_Repo :: string
  io_PullPolicy :: string

record LoggingSpec =
  Containers :: "LoggingConfigSpec go_map option"

record RoleGroupConfigSpec =
  Logging :: "LoggingSpec option"
  rgc_rest :: RoleGroupConfigRest

text \<open>The options record of the library's builders, filled in by option functions.\<close>

record Options =
  opt_ClusterName :: string
  opt_RoleName :: string
  opt_RoleGroupName :: string
  opt_Labels :: "string go_map"
  opt_Annotations :: "string go_map"

definition zero_Options :: Options where
  "zero_Options = \<lparr>opt_ClusterName = '''', opt_RoleName = '''', opt_RoleGroupName = '''',
     opt_Labels = Map.empty, opt_Annotations = Map.empty\<rparr>"

text \<open>Option functions are run one after the other on the zero record.\<close>

definition apply_options :: "(Options \<Rightarrow> Options) list \<Rightarrow> Options" where
  "apply_options opts = foldl (\<lambda>acc f. f acc) zero_Options opts"

record GroupVersionKind =
  Group :: string
  Version :: string
  Kind :: string

record ClusterInfo =
  GVK :: GroupVersionKind
  ci_ClusterName :: string

record RoleInfo =
  ri_ClusterInfo :: ClusterInfo
  ri_RoleName :: string

record RoleGroupInfo =
  rgi_RoleInfo :: RoleInfo
  rgi_RoleGroupName :: string

record OIDCProvider =
  Hostname :: string
  OidcPort :: int
  RootPath :: string
  ProviderHint :: string

record AuthenticationClass =
  ac_OIDC :: "OIDCProvider option"

section \<open>The HbaseCluster resource\<close>

record ImageSpec =
  is_Custom :: string
  is_Repo :: string
  is_KubedoopVersion :: string
  is_ProductVersion :: string
  is_PullPolicy :: string
  is_PullSecretName :: string

definition DefaultRepository :: string where
  "DefaultRepository = ''quay.io/zncdatadev''"

definition DefaultProductVersion :: string where
  "DefaultProductVersion = ''2.6.1''"

definition DefaultProductName :: string where
  "DefaultProductName = ''hbase''"

record OidcSpec =
  ClientCredentialsSecret :: string
  ExtraScopes :: "string list option"

record AuthenticationSpec =
  AuthenticationClassName :: string
  Oidc :: "OidcSpec option"
  KerberosSecretClass :: string
  TlsSecretClass :: string

record ClusterConfigSpec =
  ZookeeperConfigMapName :: string
  HdfsConfigMapName :: string
  ListenerClass :: string
  Authentication :: "AuthenticationSpec option"
  VectorAggregatorConfigMapName :: string

record MasterConfigSpec =
  mc_RoleGroupConfigSpec :: "RoleGroupConfigSpec option"

record MasterRoleGroupSpec =
  mg_Replicas :: "int32 option"
  mg_Config :: "MasterConfigSpec option"
  mg_OverridesSpec :: "OverridesSpec option"

record MasterSpec =
  ms_Config :: "MasterConfigSpec option"
  ms_RoleGroups :: "MasterRoleGroupSpec go_map"
  ms_RoleConfig :: "RoleConfigSpec option"
  ms_OverridesSpec :: "OverridesSpec option"

record RegionConfigSpec =
  rc_RoleGroupConfigSpec :: "RoleGroupConfigSpec option"

record RegionServerRoleGroupSpec =
  rg_Replicas :: "int32 option"
  rg_Config :: "RegionConfigSpec option"
  rg_OverridesSpec :: "OverridesSpec option"

record RegionServerSpec =
  rs_Config :: "RegionConfigSpec option"
  rs_RoleGroups :: "RegionServerRoleGroupSpec go_map"
  rs_RoleConfig :: "RoleConfigSpec option"
  rs_OverridesSpec :: "OverridesSpec option"

record RestServerConfigSpec =
  tc_RoleGroupConfigSpec :: "RoleGroupConfigSpec option"

record RestServerRoleGroupSpec =
  tg_Replicas :: "int32 option"
  tg_Config :: "RestServerConfigSpec option"
  tg_OverridesSpec :: "OverridesSpec option"

record RestServerSpec =
  ts_Config :: "RestServerConfigSpec option"
  ts_RoleGroups :: "RestServerRoleGroupSpec go_map"
  ts_RoleConfig :: "RoleConfigSpec option"
  ts_OverridesSpec :: "OverridesSpec option"

record HbaseClusterSpec =
  hs_Image :: "ImageSpec option"
  hs_ClusterConfigSpec :: "ClusterConfigSpec option"
  hs_ClusterOperationSpec :: "ClusterOperationSpec option"
  hs_MasterSpec :: "MasterSpec option"
  hs_RegionServerSpec :: "RegionServerSpec option"
  hs_RestServerSpec :: "RestServerSpec option"

text \<open>
  The default of the image field: the marker at HbaseClusterSpec.Image, with the defaults of
  the fields of ImageSpec the marker does not name. The API server fills it into a resource
  that leaves the image out, before the resource is stored.
\<close>

definition default_image :: ImageSpec where
  "default_image = \<lparr>is_Custom = '''', is_Repo = DefaultRepository, is_KubedoopVersion = '''',
     is_ProductVersion = '''', is_PullPolicy = ''IfNotPresent'', is_PullSecretName = ''hbase''\<rparr>"

definition with_default_image :: "HbaseClusterSpec \<Rightarrow> HbaseClusterSpec" where
  "with_default_image spec = (case hs_Image spec of None \<Rightarrow> spec\<lparr>hs_Image := Some default_image\<rparr> | Some i \<Rightarrow> spec)"

record HbaseClusterStatus =
  st_Conditions :: "Condition list option"

text \<open>The resource, and the list of resources the API server answers with.\<close>

record HbaseCluster =
  hc_TypeMeta :: TypeMeta
  hc_ObjectMeta :: ObjectMeta
  hc_Spec :: HbaseClusterSpec
  hc_Status :: HbaseClusterStatus

record HbaseClusterList =
  hl_TypeMeta :: TypeMeta
  hl_ListMeta :: ListMeta
  hl_Items :: "HbaseCluster list option"

section \<open>Kubernetes objects\<close>

datatype Protocol = ProtocolTCP

record ContainerPort =
  PortName :: string
  PortNumber :: int32
  PortProtocol :: Protocol

record VolumeMount =
  MountName :: string
  MountPath :: string

datatype EnvVarSource = SecretKeyRef string string | FieldRef string

record EnvVar =
  EnvName :: string
  EnvValue :: string
  EnvFrom :: "EnvVarSource option"

definition env_value :: "string \<Rightarrow> string \<Rightarrow> EnvVar" where
  "env_value n v = \<lparr>EnvName = n, EnvValue = v, EnvFrom = None\<rparr>"

definition env_from :: "string \<Rightarrow> EnvVarSource \<Rightarrow> EnvVar" where
  "env_from n src = \<lparr>EnvName = n, EnvValue = '''', EnvFrom = Some src\<rparr>"

datatype AccessMode = ReadWriteOnce

record PVCTemplate =
  pvc_Annotations :: "string go_map"
  pvc_StorageClassName :: string
  pvc_AccessModes :: "AccessMode list"
  pvc_RequestStorage :: string

datatype VolumeSource =
    ConfigMapVolume int32 string
  | EphemeralVolume PVCTemplate

record Volume =
  VolumeName :: string
  VolumeSrc :: VolumeSource

record ProbeHandler =
  TCPSocketPort :: string

record Probe =
  Handler :: ProbeHandler
  InitialDelaySeconds :: int32
  PeriodSeconds :: int32
  FailureThreshold :: int32
  TimeoutSeconds :: int32

record ConfigMap =
  Data :: "string go_map option"

section \<open>The library's constants and the client\<close>

text \<open>
  The constants the operator reads from operator-go and the Kubernetes API, the names the
  library derives from a role group, and the helpers without state.
\<close>

record opgo =
  KubedoopRoot :: string
  KubedoopConfigDir :: string
  KubedoopConfigDirMount :: string
  LabelKubernetesInstance :: string
  LabelKubernetesName :: string
  LabelKubernetesComponent :: string
  LabelHostname :: string
  DefaultHardPodAffinitySymmetricWeight :: int32
  VectorConfigFile :: string
  ClusterInternal :: string
  IndentTab4Spaces :: "string \<Rightarrow> string"
  GetFullName :: "RoleGroupInfo \<Rightarrow> string"
  GetLabels :: "RoleGroupInfo \<Rightarrow> string go_map"
  GetAnnotations :: "RoleGroupInfo \<Rightarrow> string go_map"
  GetClusterName :: "RoleGroupInfo \<Rightarrow> string"
  GetRoleName :: "RoleGroupInfo \<Rightarrow> string"
  GetGroupName :: "RoleGroupInfo \<Rightarrow> string"

text \<open>
  The documented meaning of the accessors of a role group: they return the fields the
  operator put into it.
\<close>

definition accessors_ok :: "opgo \<Rightarrow> bool" where
  "accessors_ok K \<longleftrightarrow>
     (\<forall>info. GetClusterName K info = ci_ClusterName (ri_ClusterInfo (rgi_RoleInfo info))
           \<and> GetRoleName K info = ri_RoleName (rgi_RoleInfo info)
           \<and> GetGroupName K info = rgi_RoleGroupName info)"

text \<open>
  The client bound to the owning resource: the owner's namespace and UID, and the reads
  from the owner's namespace, which may fail.
\<close>

record client =
  OwnerNamespace :: string
  OwnerUID :: string
  LookupConfigMap :: "string \<Rightarrow> ConfigMap res"
  LookupAuthenticationClass :: "string \<Rightarrow> AuthenticationClass res"

text \<open>
  A concrete library and client, for evaluating the model: the directory layout of a
  Kubedoop image, labels made of the role's names, and an API server that knows nothing.
\<close>

definition sample_opgo :: opgo where
  "sample_opgo = \<lparr>
     KubedoopRoot = ''/kubedoop/'',
     KubedoopConfigDir = ''/kubedoop/config'',
     KubedoopConfigDirMount = ''/kubedoop/mount/config/'',
     LabelKubernetesInstance = ''app.kubernetes.io/instance'',
     LabelKubernetesName = ''app.kubernetes.io/name'',
     LabelKubernetesComponent = ''app.kubernetes.io/component'',
     LabelHostname = ''kubernetes.io/hostname'',
     DefaultHardPodAffinitySymmetricWeight = 1,
     VectorConfigFile = ''vector.yaml'',
     ClusterInternal = ''cluster-internal'',
     IndentTab4Spaces = id,
     GetFullName = (\<lambda>info. ci_ClusterName (ri_ClusterInfo (rgi_RoleInfo info)) @ ''-''
        @ ri_RoleName (rgi_RoleInfo info) @ ''-'' @ rgi_RoleGroupName info),
     GetLabels = (\<lambda>info. [''component'' \<mapsto> ri_RoleName (rgi_RoleInfo info)]),
     GetAnnotations = (\<lambda>info. Map.empty),
     GetClusterName = (\<lambda>info. ci_ClusterName (ri_ClusterInfo (rgi_RoleInfo info))),
     GetRoleName = (\<lambda>info. ri_RoleName (rgi_RoleInfo info)),
     GetGroupName = rgi_RoleGroupName\<rparr>"

definition sample_client :: client where
  "sample_client = \<lparr>OwnerNamespace = ''default'', OwnerUID = ''uid-1'',
     LookupConfigMap = (\<lambda>n. Err (ExtError ''StatusError'' ''not found'')),
     LookupAuthenticationClass = (\<lambda>n. Err (ExtError ''StatusError'' ''not found''))\<rparr>"

definition sample_info :: "string \<Rightarrow> RoleGroupInfo" where
  "sample_info role =
     \<lparr>rgi_RoleInfo = \<lparr>ri_ClusterInfo =
          \<lparr>GVK = \<lparr>Group = ''hbase.kubedoop.dev'', Version = ''v1alpha1'', Kind = ''HbaseCluster''\<rparr>,
           ci_ClusterName = ''hbase''\<rparr>,
        ri_RoleName = role\<rparr>,
      rgi_RoleGroupName = ''default''\<rparr>"

lemma accessors_ok_sample: "accessors_ok sample_opgo"
  by (simp add: accessors_ok_def sample_opgo_def)

end
