(* ===== verification/Znode.thy ===== *)
theory Znode
  imports Api_Types Go_Strings
begin

text \<open>
  The ZooKeeper discovery data: internal/controller/common/zookeeper.go. A
  \<open>ZnodeConfiguration\<close> wraps a pointer to a ConfigMap; \<open>AddData\<close> takes a connection
  string apart and stores its parts, the getters read them back.
\<close>

section \<open>The component\<close>

definition ZookeeperHostsKey :: string where
  "ZookeeperHostsKey = ''ZOOKEEPER_HOSTS''"

definition ZookeeperClientPortKey :: string where
  "ZookeeperClientPortKey = ''ZOOKEEPER_PORT''"

definition ZookeeperChrootKey :: string where
  "ZookeeperChrootKey = ''ZOOKEEPER_CHROOT''"

definition ZookeeperKey :: string where
  "ZookeeperKey = ''zookeeper''"

record ZnodeConfiguration =
  zn_ConfigMap :: "ConfigMap option"

text \<open>A store into the Data map: nil pointers and nil maps panic.\<close>

definition put_data :: "string \<Rightarrow> string \<Rightarrow> (ZnodeConfiguration, unit) eff" where
  "put_data k v = (\<lambda>c. case zn_ConfigMap c of
       None \<Rightarrow> (Panic NilDeref, c)
     | Some cm \<Rightarrow> (case Data cm of
         None \<Rightarrow> (Panic NilMapWrite, c)
       | Some d \<Rightarrow> (Ok (), c\<lparr>zn_ConfigMap := Some (cm\<lparr>Data := Some (d(k \<mapsto> v))\<rparr>)\<rparr>)))"

definition AddData :: "string \<Rightarrow> (ZnodeConfiguration, unit) eff" where
  "AddData zookeeper =
     (let parts = Split CHR ''/'' zookeeper
      in if length parts \<noteq> 3 then lift_res (Err (ErrorString ''invalid zookeeper string''))
         else let hostAndPort = Split CHR '':'' (parts ! 0)
              in if length hostAndPort \<noteq> 2
                 then lift_res (Err (ErrorString ''invalid host and port''))
                 else bind_eff (put_data ZookeeperHostsKey (hostAndPort ! 0)) (\<lambda>_.
                      bind_eff (put_data ZookeeperClientPortKey (hostAndPort ! 1)) (\<lambda>_.
                      bind_eff (put_data ZookeeperChrootKey (parts ! 2)) (\<lambda>_.
                      put_data ZookeeperKey zookeeper))))"

text \<open>Reading a missing key of the map, or of a nil map, gives the comma-ok result false.\<close>

definition get_data :: "string \<Rightarrow> ZnodeConfiguration \<Rightarrow> string res" where
  "get_data k c = bind_res (deref (zn_ConfigMap c)) (\<lambda>cm.
     case (case Data cm of None \<Rightarrow> None | Some d \<Rightarrow> d k) of
       None \<Rightarrow> Err (ErrorString (''key '' @ k @ '' not found in configmap''))
     | Some v \<Rightarrow> Ok v)"

definition GetQuorum :: "ZnodeConfiguration \<Rightarrow> string res" where
  "GetQuorum = get_data ZookeeperHostsKey"

definition GetClientPort :: "ZnodeConfiguration \<Rightarrow> string res" where
  "GetClientPort = get_data ZookeeperClientPortKey"

definition GetChroot :: "ZnodeConfiguration \<Rightarrow> string res" where
  "GetChroot = get_data ZookeeperChrootKey"

definition GetZookeeper :: "ZnodeConfiguration \<Rightarrow> string res" where
  "GetZookeeper = get_data ZookeeperKey"

lemmas znode_keys =
  ZookeeperHostsKey_def ZookeeperClientPortKey_def ZookeeperChrootKey_def ZookeeperKey_def

lemmas znode_getters = GetQuorum_def GetClientPort_def GetChroot_def GetZookeeper_def

section \<open>The store behind the getters\<close>

text \<open>
  The interface the four getters and AddData share: a record with named text fields that
  may be absent. A put changes one field, and a get sees the last put.
\<close>

locale field_store =
  fixes put :: "string \<Rightarrow> string \<Rightarrow> ('s, unit) eff"
    and get :: "string \<Rightarrow> 's \<Rightarrow> string res"
    and ready :: "'s \<Rightarrow> bool"
  assumes put_Ok: "ready s \<Longrightarrow> \<exists>t. put k v s = (Ok (), t) \<and> ready t
      \<and> get k t = Ok v \<and> (\<forall>k'. k' \<noteq> k \<longrightarrow> get k' t = get k' s)"
begin

text \<open>Writing several fields one after the other, last write first in the list.\<close>

fun put_all :: "(string \<times> string) list \<Rightarrow> ('s, unit) eff" where
  "put_all [] = ret_eff ()"
| "put_all ((k, v) # kvs) = bind_eff (put k v) (\<lambda>_. put_all kvs)"

lemma put_all_Ok:
  assumes "ready s" and "distinct (map fst kvs)"
  shows "\<exists>t. put_all kvs s = (Ok (), t) \<and> ready t
     \<and> (\<forall>k. get k t = (case map_of kvs k of Some v \<Rightarrow> Ok v | None \<Rightarrow> get k s))"
  using assms
proof (induction kvs arbitrary: s)
  case Nil
  then show ?case by simp
next
  case (Cons kv kvs)
  obtain k v where kv: "kv = (k, v)" by force
  obtain u where u: "put k v s = (Ok (), u)" "ready u" "get k u = Ok v"
      "\<forall>k'. k' \<noteq> k \<longrightarrow> get k' u = get k' s"
    using put_Ok [OF Cons.prems(1), of k v] by blast
  obtain t where t: "put_all kvs u = (Ok (), t)" "ready t"
      "\<forall>k. get k t = (case map_of kvs k of Some v \<Rightarrow> Ok v | None \<Rightarrow> get k u)"
    using Cons.IH [OF u(2)] Cons.prems(2) by auto
  have "map_of kvs k = None"
    using Cons.prems(2) kv by (simp add: map_of_eq_None_iff)
  then have "get k' t = (case map_of ((k, v) # kvs) k' of Some v \<Rightarrow> Ok v | None \<Rightarrow> get k' s)" for k'
    using t(3) u(3,4) by (auto split: option.split)
  with t(1,2) u(1) show ?case by (auto simp: kv bind_eff_def)
qed

end

definition znode_ready :: "ZnodeConfiguration \<Rightarrow> bool" where
  "znode_ready c = (case zn_ConfigMap c of None \<Rightarrow> False | Some cm \<Rightarrow> Data cm \<noteq> None)"

interpretation znode: field_store put_data get_data znode_ready
proof unfold_locales
  fix s k v
  assume "znode_ready s"
  then show "\<exists>t. put_data k v s = (Ok (), t) \<and> znode_ready t \<and> get_data k t = Ok v
      \<and> (\<forall>k'. k' \<noteq> k \<longrightarrow> get_data k' t = get_data k' s)"
    by (auto simp: znode_ready_def put_data_def get_data_def split: option.splits)
qed

lemma length3_conv: "length xs = 3 \<longleftrightarrow> (\<exists>a b c. xs = [a, b, c])"
  by (auto simp: numeral_3_eq_3 length_Suc_conv)

lemma length2_conv: "length xs = 2 \<longleftrightarrow> (\<exists>a b. xs = [a, b])"
  by (auto simp: numeral_2_eq_2 length_Suc_conv)

text \<open>A well-formed connection string: host, port, one path component that is skipped, chroot.\<close>

definition connection :: "string \<Rightarrow> string \<Rightarrow> string \<Rightarrow> string \<Rightarrow> string" where
  "connection host port mid chroot = host @ '':'' @ port @ ''/'' @ mid @ ''/'' @ chroot"

definition connection_parts :: "string \<Rightarrow> string \<Rightarrow> string \<Rightarrow> string \<Rightarrow> bool" where
  "connection_parts host port mid chroot \<longleftrightarrow>
     CHR '':'' \<notin> set host \<and> CHR '':'' \<notin> set port \<and>
     CHR ''/'' \<notin> set host \<and> CHR ''/'' \<notin> set port \<and> CHR ''/'' \<notin> set mid \<and> CHR ''/'' \<notin> set chroot"

text \<open>
  The strings that pass both length checks are exactly those of this shape.
\<close>

lemma connection_iff:
  "(length (Split CHR ''/'' z) = 3 \<and> length (Split CHR '':'' (Split CHR ''/'' z ! 0)) = 2) \<longleftrightarrow>
     (\<exists>host port mid chroot. connection_parts host port mid chroot
        \<and> z = connection host port mid chroot)"
  (is "?l \<longleftrightarrow> ?r")
proof
  assume ?l
  then obtain a m c h p where ps: "Split CHR ''/'' z = [a, m, c]" and hp: "Split CHR '':'' a = [h, p]"
    by (auto simp: length3_conv length2_conv)
  have z: "z = Join [a, m, c] ''/''" and a: "a = Join [h, p] '':''"
    using Join_Split [of "CHR ''/''" z] Join_Split [of "CHR '':''" a] ps hp by simp_all
  have "CHR ''/'' \<notin> set a" "CHR ''/'' \<notin> set m" "CHR ''/'' \<notin> set c"
    "CHR '':'' \<notin> set h" "CHR '':'' \<notin> set p"
    using Split_parts [of _ "CHR ''/''" z] Split_parts [of _ "CHR '':''" a] ps hp by simp_all
  then have "connection_parts h p m c" using a by (simp add: connection_parts_def)
  moreover have "z = connection h p m c" using z a by (simp add: connection_def)
  ultimately show ?r by blast
next
  assume ?r
  then obtain h p m c where parts: "connection_parts h p m c" and z: "z = connection h p m c"
    by blast
  have "Split CHR ''/'' z = [h @ '':'' @ p, m, c]"
    using parts by (subst Split_eq_iff) (simp_all add: connection_parts_def z connection_def)
  moreover have "Split CHR '':'' (h @ '':'' @ p) = [h, p]"
    using parts by (subst Split_eq_iff) (simp_all add: connection_parts_def)
  ultimately show ?l by simp
qed

lemma connection_Split:
  assumes "connection_parts h p m c"
  shows "Split CHR ''/'' (connection h p m c) = [h @ '':'' @ p, m, c]"
    and "Split CHR '':'' (h @ '':'' @ p) = [h, p]"
  using assms
  by (subst Split_eq_iff; simp add: connection_parts_def connection_def)+

text \<open>AddData on a well-formed string is four puts.\<close>

lemma AddData_connection:
  assumes "connection_parts h p m c"
  shows "AddData (connection h p m c) =
     znode.put_all [(ZookeeperHostsKey, h), (ZookeeperClientPortKey, p),
        (ZookeeperChrootKey, c), (ZookeeperKey, connection h p m c)]"
  using connection_Split [OF assms] by (simp add: AddData_def fun_eq_iff)

lemma AddData_malformed:
  assumes "\<not> (length (Split CHR ''/'' z) = 3 \<and> length (Split CHR '':'' (Split CHR ''/'' z ! 0)) = 2)"
  shows "\<exists>msg. AddData z c = (Err (ErrorString msg), c)"
  using assms by (auto simp: AddData_def Let_def)

section \<open>Properties\<close>

text \<open>
  C16. Round trip of the connection string. On a ConfigMap with a data map, AddData
  succeeds exactly on the strings of the form host:port/x/chroot (no further colon or
  slash), the getters then return host, port, chroot and the string itself, every other
  key keeps its value, and a string of any other form is an error that leaves the
  ConfigMap as it was.
\<close>

theorem AddData_roundtrip:
  assumes "znode_ready c"
  shows "case AddData z c of
      (Ok (), d) \<Rightarrow> (\<exists>host port mid chroot. connection_parts host port mid chroot
          \<and> z = connection host port mid chroot
          \<and> GetQuorum d = Ok host \<and> GetClientPort d = Ok port
          \<and> GetChroot d = Ok chroot \<and> GetZookeeper d = Ok z
          \<and> (\<forall>k. k \<notin> {ZookeeperHostsKey, ZookeeperClientPortKey, ZookeeperChrootKey, ZookeeperKey}
                \<longrightarrow> get_data k d = get_data k c))
    | (Err e, d) \<Rightarrow> d = c \<and> (\<nexists>host port mid chroot. connection_parts host port mid chroot
          \<and> z = connection host port mid chroot)
    | (Panic p, d) \<Rightarrow> False"
proof (cases "\<exists>host port mid chroot. connection_parts host port mid chroot
          \<and> z = connection host port mid chroot")
  case True
  then obtain h p m r where parts: "connection_parts h p m r" and z: "z = connection h p m r"
    by blast
  let ?kvs = "[(ZookeeperHostsKey, h), (ZookeeperClientPortKey, p), (ZookeeperChrootKey, r),
     (ZookeeperKey, z)]"
  obtain d where d: "AddData z c = (Ok (), d)"
      "\<forall>k. get_data k d = (case map_of ?kvs k of Some v \<Rightarrow> Ok v | None \<Rightarrow> get_data k c)"
    using znode.put_all_Ok [OF assms, of ?kvs] AddData_connection [OF parts]
    by (auto simp: z znode_keys)
  have "GetQuorum d = Ok h \<and> GetClientPort d = Ok p \<and> GetChroot d = Ok r \<and> GetZookeeper d = Ok z"
    using d(2) by (simp add: znode_getters znode_keys)
  moreover have "\<forall>k. k \<notin> {ZookeeperHostsKey, ZookeeperClientPortKey, ZookeeperChrootKey, ZookeeperKey}
      \<longrightarrow> get_data k d = get_data k c"
    using d(2) by simp
  ultimately show ?thesis unfolding d(1) prod.case res.case unit.case using parts z by blast
next
  case False
  then obtain msg where "AddData z c = (Err (ErrorString msg), c)"
    using connection_iff [of z] AddData_malformed [of z c] by blast
  with False show ?thesis by simp
qed

definition ready_znode :: ZnodeConfiguration where
  "ready_znode = \<lparr>zn_ConfigMap = Some \<lparr>Data = Some Map.empty\<rparr>\<rparr>"

theorem AddData_roundtrip_witness:
  "\<exists>d. AddData ''zk:2181/x/znode-1'' ready_znode = (Ok (), d) \<and> GetZookeeper d = Ok ''zk:2181/x/znode-1''"
proof -
  have ready: "znode_ready ready_znode" by (simp add: znode_ready_def ready_znode_def)
  have "connection_parts ''zk'' ''2181'' ''x'' ''znode-1''"
    "''zk:2181/x/znode-1'' = connection ''zk'' ''2181'' ''x'' ''znode-1''"
    by (simp_all add: connection_parts_def connection_def)
  then have conn: "\<exists>host port mid chroot. connection_parts host port mid chroot
      \<and> ''zk:2181/x/znode-1'' = connection host port mid chroot"
    by blast
  obtain q d where run: "AddData ''zk:2181/x/znode-1'' ready_znode = (q, d)" by force
  note all = AddData_roundtrip [OF ready, of "''zk:2181/x/znode-1''", unfolded run prod.case]
  show ?thesis
  proof (cases q)
    case (Ok u)
    have u: "u = ()" by (rule unit_eq)
    from all [unfolded Ok u res.case unit.case]
    have "GetZookeeper d = Ok ''zk:2181/x/znode-1''" by blast
    with run [unfolded Ok u] show ?thesis by blast
  next
    case (Err e)
    from all [unfolded Err res.case] conn show ?thesis by blast
  next
    case (Panic p)
    from all [unfolded Panic res.case] show ?thesis ..
  qed
qed

text \<open>
  A configuration that is not ready. On a nil ConfigMap or a nil data map a well-formed
  string panics and writes nothing, a malformed one is still reported as an error; and the
  string that the comment above AddData gives as its example, with a single slash, is a
  malformed one on every configuration.
\<close>

theorem AddData_not_ready:
  "AddData z \<lparr>zn_ConfigMap = None\<rparr> \<in>
      (\<lambda>r. (r, \<lparr>zn_ConfigMap = None\<rparr>)) ` {Panic NilDeref, Err (ErrorString ''invalid zookeeper string''),
        Err (ErrorString ''invalid host and port'')}
   \<and> (fst (AddData z \<lparr>zn_ConfigMap = None\<rparr>) = Panic NilDeref
        \<longleftrightarrow> fst (AddData z \<lparr>zn_ConfigMap = Some \<lparr>Data = None\<rparr>\<rparr>) = Panic NilMapWrite)
   \<and> (fst (AddData z \<lparr>zn_ConfigMap = None\<rparr>) = Panic NilDeref
        \<longleftrightarrow> (\<exists>host port mid chroot. connection_parts host port mid chroot
              \<and> z = connection host port mid chroot))
   \<and> snd (AddData z \<lparr>zn_ConfigMap = Some \<lparr>Data = None\<rparr>\<rparr>) = \<lparr>zn_ConfigMap = Some \<lparr>Data = None\<rparr>\<rparr>
   \<and> AddData (''simple-zk-server-primary-0.simple-zk-server-primary.default.svc.cluster.local:2181''
         @ ''/znode-0f8ba74a-7fb1-4d0a-81a5-7259a56defda'') c
       = (Err (ErrorString ''invalid zookeeper string''), c)"
  unfolding connection_iff [symmetric]
  by (simp add: AddData_def put_data_def bind_eff_def Let_def)

end
