(* ===== verification/Go_Path.thy ===== *)
theory Go_Path
  imports Go_Strings
begin

text \<open>
  The functions \<open>path.Clean\<close> and \<open>path.Join\<close> of Go's standard library. Clean works on the
  components between slashes, as the package documents it: empty and ``.'' components are
  dropped, an inner ``..'' takes the component before it away, a ``..'' at the root of a
  rooted path is dropped, and an empty result is written ``.''.
\<close>

section \<open>Clean\<close>

text \<open>The components kept so far are held in reverse, as a stack.\<close>

fun clean_comps :: "bool \<Rightarrow> string list \<Rightarrow> string list \<Rightarrow> string list" where
  "clean_comps rooted [] stack = rev stack"
| "clean_comps rooted (c # cs) stack =
     (if c = '''' \<or> c = ''.'' then clean_comps rooted cs stack
      else if c = ''..'' then
        (case stack of
           [] \<Rightarrow> clean_comps rooted cs (if rooted then [] else [''..''])
         | t # ts \<Rightarrow> if t = ''..'' then clean_comps rooted cs (''..'' # stack)
                     else clean_comps rooted cs ts)
      else clean_comps rooted cs (c # stack))"

definition path_rooted :: "string \<Rightarrow> bool" where
  "path_rooted p = (case p of [] \<Rightarrow> False | c # _ \<Rightarrow> c = CHR ''/'')"

definition path_Clean :: "string \<Rightarrow> string" where
  "path_Clean p =
     (let comps = clean_comps (path_rooted p) (Split CHR ''/'' p) []
      in if path_rooted p then ''/'' @ Join comps ''/''
         else if comps = [] then ''.'' else Join comps ''/'')"

section \<open>Join\<close>

text \<open>
  The elements are appended to a buffer with slashes between them; an element is skipped
  while the buffer is still empty and the element is empty too.
\<close>

fun join_buf :: "string \<Rightarrow> string list \<Rightarrow> string" where
  "join_buf buf [] = buf"
| "join_buf buf (e # es) =
     (if buf = [] \<and> e = [] then join_buf buf es
      else if buf = [] then join_buf e es
      else join_buf (buf @ ''/'' @ e) es)"

definition path_Join :: "string list \<Rightarrow> string" where
  "path_Join elems =
     (if \<forall>e \<in> set elems. e = [] then [] else path_Clean (join_buf [] elems))"

section \<open>Facts\<close>

text \<open>A plain name: a component that Clean keeps as it is.\<close>

definition plain_name :: "string \<Rightarrow> bool" where
  "plain_name f \<longleftrightarrow> f \<noteq> '''' \<and> f \<noteq> ''.'' \<and> f \<noteq> ''..'' \<and> CHR ''/'' \<notin> set f"

text \<open>
  The normal form of a stack of components: no empty component, no ``.'', and ``..'' only
  in a path that is not rooted and only below everything else.
\<close>

definition ok_comp :: "string \<Rightarrow> bool" where
  "ok_comp c \<longleftrightarrow> c \<noteq> '''' \<and> c \<noteq> ''.'' \<and> CHR ''/'' \<notin> set c"

fun nf_stack :: "bool \<Rightarrow> string list \<Rightarrow> bool" where
  "nf_stack rooted [] = True"
| "nf_stack rooted (c # st) =
     (ok_comp c \<and> nf_stack rooted st \<and> (c = ''..'' \<longrightarrow> \<not> rooted \<and> set st \<subseteq> {''..''}))"

lemma nf_stack_append: "nf_stack r (xs @ ys) \<Longrightarrow> nf_stack r ys"
  by (induction xs) auto

lemma nf_stack_ok: "nf_stack r st \<Longrightarrow> c \<in> set st \<Longrightarrow> ok_comp c"
  by (induction st) auto

lemma clean_comps_nf:
  assumes "nf_stack r st" and "\<forall>c \<in> set cs. CHR ''/'' \<notin> set c"
  shows "nf_stack r (rev (clean_comps r cs st))"
  using assms
  by (induction r cs st rule: clean_comps.induct)
    (auto simp: ok_comp_def split: list.splits)

lemma clean_comps_fixed:
  assumes "nf_stack r (rev cs @ st)"
  shows "clean_comps r cs st = rev st @ cs"
  using assms
proof (induction cs arbitrary: st)
  case (Cons c cs)
  from Cons.prems have top: "nf_stack r (rev cs @ c # st)" by simp
  then have nf: "nf_stack r (c # st)" by (rule nf_stack_append)
  from top have IH: "clean_comps r cs (c # st) = rev (c # st) @ cs" by (rule Cons.IH)
  show ?case
  proof (cases "c = ''..''")
    case True
    with nf have "\<not> r" "set st \<subseteq> {''..''}" by auto
    with IH True show ?thesis by (cases st) auto
  next
    case False
    with nf IH show ?thesis by (simp add: ok_comp_def)
  qed
qed simp

lemma path_comps_nf: "nf_stack r (rev (clean_comps r (Split CHR ''/'' p) []))"
  by (rule clean_comps_nf) (auto dest: Split_parts)

lemma path_comps_ok:
  "c \<in> set (clean_comps r (Split CHR ''/'' p) []) \<Longrightarrow> ok_comp c"
  using nf_stack_ok [OF path_comps_nf, of c r p] by simp

lemma ok_comps_Split:
  assumes "\<forall>c \<in> set cs. ok_comp c" and "cs \<noteq> []"
  shows "Split CHR ''/'' (Join cs ''/'') = cs"
  using assms by (simp add: Split_Join ok_comp_def)

lemma ok_comps_Join_first:
  assumes "\<forall>c \<in> set cs. ok_comp c" and "cs \<noteq> []"
  shows "\<exists>x xs. Join cs ''/'' = x # xs \<and> x \<noteq> CHR ''/''"
proof (cases cs)
  case (Cons c cs')
  with assms obtain x xs where "c = x # xs" "x \<noteq> CHR ''/''"
    by (cases c) (auto simp: ok_comp_def)
  with Cons show ?thesis by (cases cs') auto
qed (use assms in simp)

lemma ok_comps_Join_neq:
  assumes "\<forall>c \<in> set cs. ok_comp c"
  shows "Join cs ''/'' \<noteq> ''.''" "Join cs ''/'' \<noteq> ''/''" "Join cs ''/'' = [] \<longleftrightarrow> cs = []"
proof -
  show "Join cs ''/'' \<noteq> ''/''" "Join cs ''/'' = [] \<longleftrightarrow> cs = []"
    using ok_comps_Join_first [OF assms] by (cases cs; force)+
  show "Join cs ''/'' \<noteq> ''.''"
  proof
    assume dot: "Join cs ''/'' = ''.''"
    then have "cs \<noteq> []" by auto
    with ok_comps_Split [OF assms] dot have "cs = [''.'']" by (simp add: Split_no_sep)
    with assms show False by (simp add: ok_comp_def)
  qed
qed

lemma path_rooted_simps [simp]:
  "path_rooted [] = False"
  "path_rooted (c # p) = (c = CHR ''/'')"
  by (simp_all add: path_rooted_def)

text \<open>Cleaning a cleaned path changes nothing.\<close>

lemma path_Clean_idem [simp]: "path_Clean (path_Clean p) = path_Clean p"
proof -
  let ?r = "path_rooted p"
  define cs where "cs = clean_comps ?r (Split CHR ''/'' p) []"
  have ok: "\<forall>c \<in> set cs. ok_comp c" by (simp add: cs_def path_comps_ok)
  have fixed: "clean_comps ?r cs [] = cs"
    using clean_comps_fixed [of ?r cs "[]"] path_comps_nf [of ?r p] by (simp add: cs_def)
  show ?thesis
  proof (cases ?r)
    case True
    have "clean_comps True (Split CHR ''/'' (''/'' @ Join cs ''/'')) [] = cs"
      using fixed True ok_comps_Split [OF ok] by (cases "cs = []") auto
    with True cs_def show ?thesis by (simp add: path_Clean_def Let_def)
  next
    case False
    show ?thesis
    proof (cases "cs = []")
      case True
      with False cs_def show ?thesis by (simp add: path_Clean_def Let_def)
    next
      case ne: False
      then have "\<not> path_rooted (Join cs ''/'')" using ok_comps_Join_first [OF ok] by auto
      with ne False fixed ok_comps_Split [OF ok ne] cs_def show ?thesis
        by (simp add: path_Clean_def Let_def)
    qed
  qed
qed

lemma clean_comps_snoc:
  assumes "plain_name f"
  shows "clean_comps r (cs @ [f]) st = clean_comps r cs st @ [f]"
  using assms
  by (induction r cs st rule: clean_comps.induct)
    (auto simp: plain_name_def split: list.split)

lemma Split_append_last:
  assumes "c \<notin> set f"
  shows "Split c (p @ c # f) = Split c p @ [f]"
proof (induction p)
  case Nil
  with assms show ?case by (simp add: Split_no_sep)
next
  case (Cons x p)
  then show ?case by (cases "Split c p") auto
qed

lemma path_rooted_append: "p \<noteq> [] \<Longrightarrow> path_rooted (p @ q) = path_rooted p"
  by (cases p) auto

lemma Join_snoc: "ps \<noteq> [] \<Longrightarrow> Join (ps @ [f]) sep = Join ps sep @ sep @ f"
proof (induction ps rule: induct_list012)
  case (3 p q ps)
  then show ?case by (simp add: Join_Cons)
qed auto

text \<open>
  Cleaning a directory followed by a plain name: the cleaned directory, a slash unless the
  directory is the root, and the name. The directory ``.'' disappears.
\<close>

definition under_dir :: "string \<Rightarrow> string \<Rightarrow> string" where
  "under_dir d f = (if d = ''/'' then ''/'' @ f else if d = ''.'' then f else d @ ''/'' @ f)"

lemma path_Clean_file:
  assumes "plain_name f" and "d \<noteq> []"
  shows "path_Clean (d @ ''/'' @ f) = under_dir (path_Clean d) f"
proof -
  let ?r = "path_rooted d"
  define cs where "cs = clean_comps ?r (Split CHR ''/'' d) []"
  have ok: "\<forall>c \<in> set cs. ok_comp c" by (simp add: cs_def path_comps_ok)
  have root: "path_rooted (d @ ''/'' @ f) = ?r"
    using assms(2) by (rule path_rooted_append)
  have comps: "clean_comps ?r (Split CHR ''/'' (d @ ''/'' @ f)) [] = cs @ [f]"
    using assms by (simp add: plain_name_def Split_append_last clean_comps_snoc cs_def)
  have lhs: "path_Clean (d @ ''/'' @ f) =
     (if ?r then ''/'' @ Join (cs @ [f]) ''/'' else Join (cs @ [f]) ''/'')"
    unfolding path_Clean_def root Let_def comps by simp
  have rhs: "path_Clean d =
     (if ?r then ''/'' @ Join cs ''/'' else if cs = [] then ''.'' else Join cs ''/'')"
    by (simp add: path_Clean_def Let_def cs_def)
  show ?thesis
    unfolding lhs rhs under_dir_def
    using ok_comps_Join_neq [OF ok] by (cases "cs = []") (auto simp: Join_snoc)
qed

text \<open>Joining a plain name to a non-empty directory.\<close>

lemma path_Join_file:
  assumes "plain_name f" and "d \<noteq> []"
  shows "path_Join [d, f] = under_dir (path_Clean d) f"
  using assms path_Clean_file [OF assms] by (simp add: path_Join_def)

lemma path_Join_empty_file:
  assumes "plain_name f"
  shows "path_Join [[], f] = f"
  using assms by (auto simp: path_Join_def path_Clean_def plain_name_def Split_no_sep
      path_rooted_def split: list.split)

lemma path_Join_one: "p \<noteq> [] \<Longrightarrow> path_Join [p] = path_Clean p"
  by (simp add: path_Join_def)

lemma path_Join_clean: "path_Join ps = [] \<or> path_Clean (path_Join ps) = path_Join ps"
  by (simp add: path_Join_def)

lemma path_Clean_neq_Nil [simp]: "path_Clean p \<noteq> []"
  using ok_comps_Join_neq(3) [of "clean_comps (path_rooted p) (Split CHR ''/'' p) []"]
    path_comps_ok [of _ "path_rooted p" p]
  by (auto simp: path_Clean_def Let_def)

text \<open>
  A file under a joined directory: whatever the root is, the path of the file is the
  directory's path, a slash and the name.
\<close>

lemma path_Join_nested:
  assumes "plain_name d" and "plain_name f"
  shows "path_Join [path_Join [root, d], f] = path_Join [root, d] @ ''/'' @ f"
proof -
  have *: "path_Join [root, d] \<noteq> ''/''" "path_Join [root, d] \<noteq> ''.''" "path_Join [root, d] \<noteq> []"
    "path_Clean (path_Join [root, d]) = path_Join [root, d]"
  proof -
    have "path_Join [root, d] = (if root = [] then d else under_dir (path_Clean root) d)"
      using assms(1) by (simp add: path_Join_file path_Join_empty_file)
    then show "path_Join [root, d] \<noteq> ''/''" "path_Join [root, d] \<noteq> ''.''"
        and ne: "path_Join [root, d] \<noteq> []"
      using assms(1) by (auto simp: under_dir_def plain_name_def append_eq_Cons_conv)
    from ne show "path_Clean (path_Join [root, d]) = path_Join [root, d]"
      using path_Join_clean [of "[root, d]"] by simp
  qed
  then show ?thesis
    using path_Join_file [OF assms(2) *(3)] by (simp add: under_dir_def)
qed

end
