(* ===== verification/Krb5.thy ===== *)
theory Krb5
  imports Api_Types Go_Path
begin

text \<open>
  Kerberos and TLS: internal/controller/authz/krb5.go. The configuration turns two secret
  classes into volumes, mounts, environment variables, configuration properties and a
  start-up script for the containers of a role.
\<close>

section \<open>Paths and constants\<close>

definition TlsStorePassword :: string where
  "TlsStorePassword = ''changeit''"

definition TlsStoreDir :: "opgo \<Rightarrow> string" where
  "TlsStoreDir K = path_Join [KubedoopRoot K, ''tls'']"

definition TrustoreFile :: "opgo \<Rightarrow> string" where
  "TrustoreFile K = path_Join [TlsStoreDir K, ''truststore.p12'']"

definition KeystoreFile :: "opgo \<Rightarrow> string" where
  "KeystoreFile K = path_Join [TlsStoreDir K, ''keystore.p12'']"

definition TrustoreType :: string where
  "TrustoreType = ''pkcs12''"

definition KeystoreType :: string where
  "KeystoreType = ''pkcs12''"

definition ConfigDir :: "opgo \<Rightarrow> string" where
  "ConfigDir K = path_Join [KubedoopRoot K, ''conf'']"

definition AuthenticationType :: string where
  "AuthenticationType = ''kerberos''"

definition KerberosDir :: "opgo \<Rightarrow> string" where
  "KerberosDir K = path_Join [KubedoopRoot K, ''kerberos'']"

definition Krb5ConfigFile :: "opgo \<Rightarrow> string" where
  "Krb5ConfigFile K = path_Join [KerberosDir K, ''krb5.conf'']"

definition KetytabFile :: "opgo \<Rightarrow> string" where
  "KetytabFile K = path_Join [KerberosDir K, ''keytab'']"

section \<open>The configuration and its methods\<close>

record HbaseKerberosConfig =
  kc_Namespace :: string
  kc_ClusterName :: string
  kc_KerberosSecretClass :: string
  kc_TlsSecretClass :: string

definition NewHbaseKerberosConfig ::
    "string \<Rightarrow> string \<Rightarrow> string \<Rightarrow> string \<Rightarrow> string \<Rightarrow> string \<Rightarrow> HbaseKerberosConfig" where
  "NewHbaseKerberosConfig namespace clustername rolename rolegroupname
       kerberosSecretClass tlsSecretClass =
     \<lparr>kc_Namespace = namespace, kc_ClusterName = clustername,
      kc_KerberosSecretClass = kerberosSecretClass, kc_TlsSecretClass = tlsSecretClass\<rparr>"

definition getPrincipal :: "HbaseKerberosConfig \<Rightarrow> string \<Rightarrow> string" where
  "getPrincipal c service =
     (let host = kc_ClusterName c @ ''.'' @ kc_Namespace c @ ''.svc.cluster.local''
      in service @ ''/'' @ host @ ''@${env.KERBEROS_REALM}'')"

definition GetJVMOPTS :: "opgo \<Rightarrow> HbaseKerberosConfig \<Rightarrow> string go_map" where
  "GetJVMOPTS K c = [''java.security.krb5.conf'' \<mapsto> Krb5ConfigFile K]"

definition GetContainerEnvvars :: "opgo \<Rightarrow> HbaseKerberosConfig \<Rightarrow> EnvVar list" where
  "GetContainerEnvvars K c =
     [env_value ''KRB5_CONFIG'' (Krb5ConfigFile K),
      env_value ''HBASE_OPTS'' (''-Djava.security.krb5.conf='' @ Krb5ConfigFile K)]"

definition hbase_site_literal :: "opgo \<Rightarrow> HbaseKerberosConfig \<Rightarrow> (string \<times> string) list" where
  "hbase_site_literal K c =
    [(''hbase.security.authentication'', AuthenticationType),
     (''hbase.security.authorization'', ''true''),
     (''hbase.rpc.protection'', ''privacy''),
     (''dfs.data.transfer.protection'', ''privacy''),
     (''hbase.rpc.engine'', ''org.apache.hadoop.hbase.ipc.SecureRpcEngine''),
     (''hbase.master.kerberos.principal'', getPrincipal c ''hbase''),
     (''hbase.regionserver.kerberos.principal'', getPrincipal c ''hbase''),
     (''hbase.rest.kerberos.principal'', getPrincipal c ''HTTP''),
     (''hbase.master.keytab.file'', KetytabFile K),
     (''hbase.regionserver.keytab.file'', KetytabFile K),
     (''hbase.rest.keytab.file'', KetytabFile K),
     (''hbase.coprocessor.master.classes'',
        ''org.apache.hadoop.hbase.security.access.AccessController''),
     (''hbase.coprocessor.region.classes'',
        ''org.apache.hadoop.hbase.security.token.TokenProvider,'' @
        ''org.apache.hadoop.hbase.security.access.AccessController''),
     (''hbase.rest.authentication.type'', AuthenticationType),
     (''hbase.rest.authentication.kerberos.principal'', getPrincipal c ''HTTP''),
     (''hbase.rest.authentication.kerberos.keytab'', KetytabFile K),
     (''hbase.ssl.enabled'', ''true''),
     (''hbase.http.policy'', ''HTTPS_ONLY''),
     (''hbase.http.filter.no-store.enable'', ''true''),
     (''hbase.rest.ssl.enabled'', ''true''),
     (''hbase.rest.ssl.keystore.store'', path_Join [TlsStoreDir K, ''keystore.p12'']),
     (''hbase.rest.ssl.keystore.password'', TlsStorePassword),
     (''hbase.rest.ssl.keystore.type'', ''pkcs12'')]"

definition GetHbaseSite :: "opgo \<Rightarrow> HbaseKerberosConfig \<Rightarrow> string go_map" where
  "GetHbaseSite K c = map_of (hbase_site_literal K c)"

definition GetDiscoveryConfig :: "HbaseKerberosConfig \<Rightarrow> string go_map" where
  "GetDiscoveryConfig c = map_of
    [(''hbase.security.authentication'', AuthenticationType),
     (''hbase.rpc.protection'', ''privacy''),
     (''hbase.ssl.enabled'', ''true''),
     (''hbase.maser.kerberos.principal'', getPrincipal c ''hbase''),
     (''hbase.regionserver.kerberos.principal'', getPrincipal c ''hbase''),
     (''hbase.rest.kerberos.principal'', getPrincipal c ''hbase'')]"

definition GetSSLServerSttings :: "opgo \<Rightarrow> HbaseKerberosConfig \<Rightarrow> string go_map" where
  "GetSSLServerSttings K c = map_of
    [(''ssl.server.truststore.location'', TrustoreFile K),
     (''ssl.server.truststore.type'', TrustoreType),
     (''ssl.server.truststore.password'', TlsStorePassword),
     (''ssl.server.keystore.location'', KeystoreFile K),
     (''ssl.server.keystore.type'', KeystoreType),
     (''ssl.server.keystore.password'', TlsStorePassword)]"

definition GetSSLClientSettings :: "opgo \<Rightarrow> HbaseKerberosConfig \<Rightarrow> string go_map" where
  "GetSSLClientSettings K c = map_of
    [(''ssl.client.truststore.location'', TrustoreFile K),
     (''ssl.client.truststore.type'', TrustoreType),
     (''ssl.client.truststore.password'', TlsStorePassword)]"

definition Krb5_GetVolumeMounts :: "opgo \<Rightarrow> HbaseKerberosConfig \<Rightarrow> VolumeMount list" where
  "Krb5_GetVolumeMounts K c =
     [\<lparr>MountName = ''kerberos'', MountPath = KerberosDir K\<rparr>,
      \<lparr>MountName = ''tls'', MountPath = TlsStoreDir K\<rparr>]"

definition Krb5_GetVolumes :: "HbaseKerberosConfig \<Rightarrow> Volume list" where
  "Krb5_GetVolumes c =
     [\<lparr>VolumeName = ''kerberos'',
       VolumeSrc = EphemeralVolume
         \<lparr>pvc_Annotations =
            [''secrets.kubedoop.dev/class'' \<mapsto> kc_KerberosSecretClass c,
             ''secrets.kubedoop.dev/scope'' \<mapsto> ''service='' @ kc_ClusterName c,
             ''secrets.kubedoop.dev/kerberosServiceNames'' \<mapsto> ''HTTP,hbase''],
          pvc_StorageClassName = ''secrets.kubedoop.dev'',
          pvc_AccessModes = [ReadWriteOnce],
          pvc_RequestStorage = ''1Mi''\<rparr>\<rparr>,
      \<lparr>VolumeName = ''tls'',
       VolumeSrc = EphemeralVolume
         \<lparr>pvc_Annotations =
            [''secrets.kubedoop.dev/class'' \<mapsto> kc_TlsSecretClass c,
             ''secrets.kubedoop.dev/scope'' \<mapsto> ''node,pod'',
             ''secrets.kubedoop.dev/format'' \<mapsto> ''tls-p12'',
             ''secrets.kubedoop.dev/tlsPKCS12Password'' \<mapsto> TlsStorePassword],
          pvc_StorageClassName = ''secrets.kubedoop.dev'',
          pvc_AccessModes = [ReadWriteOnce],
          pvc_RequestStorage = ''1Mi''\<rparr>\<rparr>]"

text \<open>The start-up script, line by line; a raw string literal keeps its line breaks.\<close>

definition NL :: string where
  "NL = [CHR 0x0A]"

definition tab :: "string \<Rightarrow> string" where
  "tab l = CHR 0x09 # l"

definition script_lines :: "string list \<Rightarrow> string" where
  "script_lines ls = concat (map (\<lambda>l. l @ NL) ls)"

definition Krb5_script :: "opgo \<Rightarrow> string" where
  "Krb5_script K =
     script_lines
      ['''',
       ''export KERBEROS_REALM=$(grep -oP 'default_realm = '' @ [CHR 0x5C] @ ''K.*' '' @ Krb5ConfigFile K @ '')'',
       ''sed -i -e 's/${env.KERBEROS_REALM}/'\"$KERBEROS_REALM/g\" '' @ path_Join [KubedoopConfigDir K, ''core-site.xml''],
       ''sed -i -e 's/${env.KERBEROS_REALM}/'\"$KERBEROS_REALM/g\"  '' @ path_Join [KubedoopConfigDir K, ''hdfs-site.xml''],
       ''sed -i -e 's/${env.KERBEROS_REALM}/'\"$KERBEROS_REALM/g\"  '' @ path_Join [KubedoopConfigDir K, ''hbase-site.xml'']]"

definition Krb5_GetContainerCommands :: "opgo \<Rightarrow> HbaseKerberosConfig \<Rightarrow> string" where
  "Krb5_GetContainerCommands K c = IndentTab4Spaces K (Krb5_script K)"

lemmas krb5_paths = TlsStoreDir_def TrustoreFile_def KeystoreFile_def ConfigDir_def
  KerberosDir_def Krb5ConfigFile_def KetytabFile_def

lemmas krb5_constants = TlsStorePassword_def TrustoreType_def KeystoreType_def AuthenticationType_def

section \<open>Files and mounts\<close>

text \<open>Whatever the root directory is, the four files lie right under the two mounted directories.\<close>

lemma krb5_files:
  "TrustoreFile K = TlsStoreDir K @ ''/truststore.p12''"
  "KeystoreFile K = TlsStoreDir K @ ''/keystore.p12''"
  "Krb5ConfigFile K = KerberosDir K @ ''/krb5.conf''"
  "KetytabFile K = KerberosDir K @ ''/keytab''"
  by (simp_all add: krb5_paths path_Join_nested plain_name_def)

definition in_mount :: "VolumeMount list \<Rightarrow> string \<Rightarrow> bool" where
  "in_mount ms p \<longleftrightarrow> (\<exists>m \<in> set ms. \<exists>f. plain_name f \<and> p = MountPath m @ ''/'' @ f)"

lemma in_mountI: "m \<in> set ms \<Longrightarrow> plain_name f \<Longrightarrow> in_mount ms (MountPath m @ ''/'' @ f)"
  by (auto simp: in_mount_def)

lemma krb5_in_mount:
  "in_mount (Krb5_GetVolumeMounts K c) (TrustoreFile K)"
  "in_mount (Krb5_GetVolumeMounts K c) (KeystoreFile K)"
  "in_mount (Krb5_GetVolumeMounts K c) (Krb5ConfigFile K)"
  "in_mount (Krb5_GetVolumeMounts K c) (KetytabFile K)"
proof -
  have tls: "in_mount (Krb5_GetVolumeMounts K c) (TlsStoreDir K @ ''/'' @ f)"
    and krb: "in_mount (Krb5_GetVolumeMounts K c) (KerberosDir K @ ''/'' @ f)"
    if "plain_name f" for f
    using in_mountI [of "\<lparr>MountName = ''tls'', MountPath = TlsStoreDir K\<rparr>" _ f]
      in_mountI [of "\<lparr>MountName = ''kerberos'', MountPath = KerberosDir K\<rparr>" _ f] that
    by (simp_all add: Krb5_GetVolumeMounts_def)
  show "in_mount (Krb5_GetVolumeMounts K c) (TrustoreFile K)"
    "in_mount (Krb5_GetVolumeMounts K c) (KeystoreFile K)"
    "in_mount (Krb5_GetVolumeMounts K c) (Krb5ConfigFile K)"
    "in_mount (Krb5_GetVolumeMounts K c) (KetytabFile K)"
    using tls [of "''truststore.p12''"] tls [of "''keystore.p12''"]
      krb [of "''krb5.conf''"] krb [of "''keytab''"]
    by (simp_all add: krb5_files plain_name_def)
qed

section \<open>Lookups\<close>

text \<open>The keys of the site literal are distinct, so a lookup finds the pair of the literal.\<close>

lemma distinct_hbase_site: "distinct (map fst (hbase_site_literal K c))"
  by (simp add: hbase_site_literal_def)

lemma GetHbaseSite_Some_iff: "GetHbaseSite K c k = Some v \<longleftrightarrow> (k, v) \<in> set (hbase_site_literal K c)"
  using distinct_hbase_site by (simp add: GetHbaseSite_def)

lemma dom_GetHbaseSite: "dom (GetHbaseSite K c) = set (map fst (hbase_site_literal K c))"
  by (simp add: GetHbaseSite_def dom_map_of_conv_image_fst)

definition keytab_keys :: "string list" where
  "keytab_keys = [''hbase.master.keytab.file'', ''hbase.regionserver.keytab.file'',
     ''hbase.rest.keytab.file'', ''hbase.rest.authentication.kerberos.keytab'']"

definition location_keys :: "string list" where
  "location_keys = [''ssl.server.truststore.location'', ''ssl.server.keystore.location'']"

lemma site_keytab: "k \<in> set keytab_keys \<Longrightarrow> GetHbaseSite K c k = Some (KetytabFile K)"
  by (auto simp: keytab_keys_def GetHbaseSite_Some_iff hbase_site_literal_def)

section \<open>Properties\<close>

text \<open>
  C24. Every file the secured configuration names is in a mounted secret volume. For any
  library constants: the two mounts name the two ephemeral volumes, the volumes have
  different names, and each keytab of hbase-site.xml, its REST key store, each store of
  ssl-server.xml and ssl-client.xml and the file of KRB5_CONFIG is a file directly under
  one of the two mount paths.
\<close>

theorem krb5_files_are_mounted:
  fixes K c
  defines "mounts \<equiv> Krb5_GetVolumeMounts K c" and "vols \<equiv> Krb5_GetVolumes c"
  shows "map MountName mounts = map VolumeName vols \<and> distinct (map VolumeName vols)
    \<and> GetHbaseSite K c ` set keytab_keys \<subseteq> Some ` {p. in_mount mounts p}
    \<and> (\<exists>p. GetHbaseSite K c ''hbase.rest.ssl.keystore.store'' = Some p \<and> in_mount mounts p)
    \<and> GetSSLServerSttings K c ` set location_keys \<subseteq> Some ` {p. in_mount mounts p}
    \<and> (\<exists>p. GetSSLClientSettings K c ''ssl.client.truststore.location'' = Some p \<and> in_mount mounts p)
    \<and> in_mount mounts (EnvValue (hd (GetContainerEnvvars K c)))"
proof (intro conjI)
  show "map MountName mounts = map VolumeName vols" "distinct (map VolumeName vols)"
    by (simp_all add: mounts_def vols_def Krb5_GetVolumeMounts_def Krb5_GetVolumes_def)
  show "GetHbaseSite K c ` set keytab_keys \<subseteq> Some ` {p. in_mount mounts p}"
    using krb5_in_mount by (auto simp: mounts_def site_keytab)
  show "\<exists>p. GetHbaseSite K c ''hbase.rest.ssl.keystore.store'' = Some p \<and> in_mount mounts p"
    using krb5_in_mount(2) [of K c]
    by (simp add: mounts_def GetHbaseSite_def hbase_site_literal_def KeystoreFile_def)
  show "GetSSLServerSttings K c ` set location_keys \<subseteq> Some ` {p. in_mount mounts p}"
    using krb5_in_mount [of K c]
    by (auto simp: mounts_def location_keys_def GetSSLServerSttings_def)
  show "\<exists>p. GetSSLClientSettings K c ''ssl.client.truststore.location'' = Some p \<and> in_mount mounts p"
    using krb5_in_mount(1) [of K c] by (simp add: mounts_def GetSSLClientSettings_def)
  show "in_mount mounts (EnvValue (hd (GetContainerEnvvars K c)))"
    using krb5_in_mount(3) [of K c] by (simp add: mounts_def GetContainerEnvvars_def env_value_def)
qed

text \<open>
  C25. Principals are unambiguous. For services without a slash (the operator's are hbase
  and HTTP) and namespaces without a dot (a namespace is a DNS label), two principals are
  the same string exactly when the service, the cluster and the namespace are the same; the
  name of a cluster may have dots. So two clusters share the master's principal in
  hbase-site.xml exactly when they have the same name in the same namespace, whatever their
  roles and role groups.
\<close>

theorem getPrincipal_inject:
  assumes "CHR ''/'' \<notin> set s" and "CHR ''/'' \<notin> set s'"
    and "CHR ''.'' \<notin> set (kc_Namespace c)" and "CHR ''.'' \<notin> set (kc_Namespace c')"
  shows "(getPrincipal c s = getPrincipal c' s' \<longleftrightarrow>
        s = s' \<and> kc_ClusterName c = kc_ClusterName c' \<and> kc_Namespace c = kc_Namespace c')
    \<and> (GetHbaseSite K c ''hbase.master.kerberos.principal''
          = GetHbaseSite K c' ''hbase.master.kerberos.principal'' \<longleftrightarrow>
        kc_ClusterName c = kc_ClusterName c' \<and> kc_Namespace c = kc_Namespace c')"
proof -
  have eq: "getPrincipal c s = getPrincipal c' s' \<longleftrightarrow>
      s = s' \<and> kc_ClusterName c = kc_ClusterName c' \<and> kc_Namespace c = kc_Namespace c'"
    if "CHR ''/'' \<notin> set s" "CHR ''/'' \<notin> set s'" for s s'
  proof -
    have "getPrincipal c s = getPrincipal c' s' \<longleftrightarrow> s = s' \<and>
        (kc_ClusterName c @ CHR ''.'' # kc_Namespace c) @ ''.svc.cluster.local@${env.KERBEROS_REALM}''
        = (kc_ClusterName c' @ CHR ''.'' # kc_Namespace c') @ ''.svc.cluster.local@${env.KERBEROS_REALM}''"
      using that by (simp add: getPrincipal_def append_sep_eq)
    then show ?thesis
      unfolding append_same_eq append_sep_eq_last [OF assms(3,4)] .
  qed
  have "GetHbaseSite K d ''hbase.master.kerberos.principal'' = Some (getPrincipal d ''hbase'')" for d
    by (simp add: GetHbaseSite_def hbase_site_literal_def)
  then show ?thesis using eq [OF assms(1,2)] eq [of "''hbase''" "''hbase''"] by simp
qed

definition sample_krb5 :: HbaseKerberosConfig where
  "sample_krb5 = NewHbaseKerberosConfig ''default'' ''hbase'' ''master'' ''default'' ''kerberos'' ''tls''"

theorem getPrincipal_inject_witness:
  "getPrincipal sample_krb5 ''hbase''
     \<noteq> getPrincipal (NewHbaseKerberosConfig ''prod'' ''hbase.default'' ''master'' ''default'' ''kerberos'' ''tls'') ''hbase''
   \<and> GetHbaseSite sample_opgo sample_krb5 ''hbase.master.kerberos.principal''
     = GetHbaseSite sample_opgo (NewHbaseKerberosConfig ''default'' ''hbase'' ''restserver'' ''extra'' ''k'' ''t'')
         ''hbase.master.kerberos.principal''"
proof -
  let ?other = "NewHbaseKerberosConfig ''prod'' ''hbase.default'' ''master'' ''default'' ''kerberos'' ''tls''"
  let ?same = "NewHbaseKerberosConfig ''default'' ''hbase'' ''restserver'' ''extra'' ''k'' ''t''"
  have sel: "kc_Namespace sample_krb5 = ''default''" "kc_ClusterName sample_krb5 = ''hbase''"
    "kc_Namespace ?other = ''prod''" "kc_ClusterName ?other = ''hbase.default''"
    "kc_Namespace ?same = ''default''" "kc_ClusterName ?same = ''hbase''"
    by (simp_all add: sample_krb5_def NewHbaseKerberosConfig_def)
  have chars: "CHR ''/'' \<notin> set ''hbase''" "CHR ''.'' \<notin> set ''default''" "CHR ''.'' \<notin> set ''prod''"
    by simp_all
  show ?thesis
    using getPrincipal_inject [of "''hbase''" "''hbase''" sample_krb5 ?other sample_opgo]
      getPrincipal_inject [of "''hbase''" "''hbase''" sample_krb5 ?same sample_opgo] chars
    unfolding sel by simp
qed

text \<open>
  The TLS side agrees with itself: the password that protects the generated key store
  (an annotation of the tls volume) is the one every consumer is given, and the store
  format asked for is the type every consumer expects.
\<close>

theorem tls_password_agrees:
  "\<exists>t. Krb5_GetVolumes c ! 1 = \<lparr>VolumeName = ''tls'', VolumeSrc = EphemeralVolume t\<rparr>
     \<and> pvc_Annotations t ''secrets.kubedoop.dev/class'' = Some (kc_TlsSecretClass c)
     \<and> pvc_Annotations t ''secrets.kubedoop.dev/format'' = Some ''tls-p12''
     \<and> GetHbaseSite K c ''hbase.rest.ssl.keystore.password'' =
          pvc_Annotations t ''secrets.kubedoop.dev/tlsPKCS12Password''
     \<and> pvc_Annotations t ''secrets.kubedoop.dev/tlsPKCS12Password'' \<noteq> None
     \<and> GetSSLServerSttings K c ` {''ssl.server.truststore.password'', ''ssl.server.keystore.password''}
          = {pvc_Annotations t ''secrets.kubedoop.dev/tlsPKCS12Password''}
     \<and> GetSSLClientSettings K c ''ssl.client.truststore.password'' =
          pvc_Annotations t ''secrets.kubedoop.dev/tlsPKCS12Password''
     \<and> {GetHbaseSite K c ''hbase.rest.ssl.keystore.type'',
        GetSSLServerSttings K c ''ssl.server.truststore.type'',
        GetSSLServerSttings K c ''ssl.server.keystore.type'',
        GetSSLClientSettings K c ''ssl.client.truststore.type''} = {Some ''pkcs12''}"
  by (simp add: Krb5_GetVolumes_def GetHbaseSite_def hbase_site_literal_def
      GetSSLServerSttings_def GetSSLClientSettings_def krb5_constants)

text \<open>
  C38. The discovery configuration does not describe the servers. It has no entry for the
  master's principal (the key is misspelt), and it announces the REST principal with the
  service hbase where the REST servers run under HTTP; its other entries agree with
  hbase-site.xml.
\<close>

theorem discovery_differs_from_site:
  "GetDiscoveryConfig c ''hbase.master.kerberos.principal'' = None
   \<and> GetHbaseSite K c ''hbase.master.kerberos.principal'' = Some (getPrincipal c ''hbase'')
   \<and> GetDiscoveryConfig c ''hbase.rest.kerberos.principal''
       \<noteq> GetHbaseSite K c ''hbase.rest.kerberos.principal''
   \<and> {k \<in> dom (GetDiscoveryConfig c). GetDiscoveryConfig c k \<noteq> GetHbaseSite K c k}
      = {''hbase.maser.kerberos.principal'', ''hbase.rest.kerberos.principal''}"
proof -
  let ?keys = "[''hbase.security.authentication'', ''hbase.rpc.protection'', ''hbase.ssl.enabled'',
      ''hbase.maser.kerberos.principal'', ''hbase.regionserver.kerberos.principal'',
      ''hbase.rest.kerberos.principal'']"
  let ?differ = "\<lambda>k. GetDiscoveryConfig c k \<noteq> GetHbaseSite K c k"
  have dom: "dom (GetDiscoveryConfig c) = set ?keys"
    by (simp add: GetDiscoveryConfig_def dom_map_of_conv_image_fst)
  have "filter ?differ ?keys = [''hbase.maser.kerberos.principal'', ''hbase.rest.kerberos.principal'']"
    by (simp add: GetDiscoveryConfig_def GetHbaseSite_def hbase_site_literal_def getPrincipal_def
        krb5_constants)
  then have "set (filter ?differ ?keys) =
      {''hbase.maser.kerberos.principal'', ''hbase.rest.kerberos.principal''}"
    by (simp only: list.set)
  then have "{k \<in> dom (GetDiscoveryConfig c). ?differ k} =
      {''hbase.maser.kerberos.principal'', ''hbase.rest.kerberos.principal''}"
    unfolding dom by (simp only: set_filter)
  then show ?thesis
    by (simp add: GetDiscoveryConfig_def GetHbaseSite_def hbase_site_literal_def getPrincipal_def
        Collect_conv_if)
qed

end
