(* ===== verification/ConfigMap_Builder.thy ===== *)
theory ConfigMap_Builder
  imports Znode Krb5
begin

text \<open>
  The ConfigMap of a role group: internal/controller/common/configmap.go and role.go. The
  builder assembles hbase-site.xml, hbase-env.sh, the logging and TLS files; the
  reconciler reads the ZooKeeper ConfigMap, runs the builder's steps in order and hands the
  result to the library.
\<close>

section \<open>Library calls\<close>

text \<open>
  The library's ConfigMap builder and its XML documents are driven by calls; the calls made
  so far stand for the object, and what the library makes of them is a function of them.
\<close>

datatype cm_call = CM_AddData "string go_map" | CM_AddItem string string

datatype xml_init = NewXMLConfiguration | NewXMLConfigurationFromMap "string go_map"

datatype xml_call =
    AddPropertyWithString string string string
  | AddPropertiesWithMap "string go_map"

record XMLConfiguration =
  xml_start :: xml_init
  xml_calls :: "xml_call list"

text \<open>
  The library functions: marshalling a document, the log4j generator (its creation, then
  its content), the vector configuration, building the object and reconciling it. The
  parameter \<open>'r\<close> is controller-runtime's result type and \<open>'s\<close> the state of the
  API server: writing the object takes the server from one state to another, and what comes
  back depends on what the server holds.
\<close>

record ('s, 'r) cm_lib =
  Marshal :: "XMLConfiguration \<Rightarrow> string res"
  NewConfigGenerator :: "LoggingConfigSpec option \<Rightarrow> string \<Rightarrow> string \<Rightarrow> string \<Rightarrow> string res res"
  MakeVectorYaml :: "string \<Rightarrow> string \<Rightarrow> string \<Rightarrow> string \<Rightarrow> string \<Rightarrow> string res"
  CM_Build :: "string \<Rightarrow> Options \<Rightarrow> cm_call list \<Rightarrow> ConfigMap res"
  ResourceReconcile :: "ConfigMap \<Rightarrow> ('s, 'r) eff"

section \<open>The builder\<close>

definition HbaseKey :: string where "HbaseKey = ''hbase-site.xml''"
definition LogKey :: string where "LogKey = ''log4j.properties''"
definition SSLClientFileName :: string where "SSLClientFileName = ''ssl-client.xml''"
definition SSLServerFileName :: string where "SSLServerFileName = ''ssl-server.xml''"

lemmas file_names = HbaseKey_def LogKey_def SSLClientFileName_def SSLServerFileName_def

record ConfigMapBuilder =
  cb_Client :: client
  cb_Name :: string
  cb_Options :: Options
  cb_Calls :: "cm_call list"
  cb_LoggingConfig :: "LoggingConfigSpec option"
  cb_VectorConfigMapName :: string
  cb_ClusterName :: string
  cb_RoleName :: string
  cb_RolegroupName :: string
  cb_krb5Config :: "HbaseKerberosConfig option"

definition NewConfigMapBuilder ::
    "client \<Rightarrow> string \<Rightarrow> LoggingConfigSpec option \<Rightarrow> string \<Rightarrow> string \<Rightarrow> string
     \<Rightarrow> (Options \<Rightarrow> Options) list \<Rightarrow> ConfigMapBuilder" where
  "NewConfigMapBuilder cl name loggingConfig vectorConfigMapName krb5SecretClass tlsSecretClass options =
     (let opts = apply_options options;
          krb5 = (if krb5SecretClass \<noteq> '''' \<and> tlsSecretClass \<noteq> ''''
                  then Some (NewHbaseKerberosConfig (OwnerNamespace cl) (opt_ClusterName opts)
                         (opt_RoleName opts) (opt_RoleGroupName opts) krb5SecretClass tlsSecretClass)
                  else None)
      in \<lparr>cb_Client = cl, cb_Name = name,
          cb_Options = zero_Options\<lparr>opt_Labels := opt_Labels opts,
                                    opt_Annotations := opt_Annotations opts\<rparr>,
          cb_Calls = [], cb_LoggingConfig = loggingConfig,
          cb_VectorConfigMapName = vectorConfigMapName,
          cb_ClusterName = opt_ClusterName opts, cb_RoleName = opt_RoleName opts,
          cb_RolegroupName = opt_RoleGroupName opts, cb_krb5Config = krb5\<rparr>)"

definition cm_do :: "cm_call \<Rightarrow> (ConfigMapBuilder, unit) eff" where
  "cm_do c = modify_eff (\<lambda>b. b\<lparr>cb_Calls := cb_Calls b @ [c]\<rparr>)"

text \<open>The loop over the JVM options visits the map in the order \<open>ks\<close>.\<close>

fun jvm_options :: "(string \<times> string) list \<Rightarrow> string list" where
  "jvm_options [] = []"
| "jvm_options ((k, v) # kvs) = (''-D'' @ k @ ''='' @ v) # jvm_options kvs"

definition getJVMOPTS :: "opgo \<Rightarrow> string list \<Rightarrow> ConfigMapBuilder \<Rightarrow> string" where
  "getJVMOPTS K ks b =
     (let opts = (case cb_krb5Config b of None \<Rightarrow> []
          | Some c \<Rightarrow> jvm_options (range_entries ks (GetJVMOPTS K c)))
      in ''export HBASE_'' @ cb_RoleName b @ ''_OPTS=\"$HBASE_OPTS '' @ Join opts '' '' @ ''\"'')"

definition AddHbaseENVSh :: "opgo \<Rightarrow> string list \<Rightarrow> (ConfigMapBuilder, unit) eff" where
  "AddHbaseENVSh K ks = ask_eff (\<lambda>b.
     let jvmOpts = getJVMOPTS K ks b;
         hbaseENVSh = script_lines ['''', ''export HBASE_MANAGES_ZK=false'', jvmOpts, '''']
     in cm_do (CM_AddData [''hbase-env.sh'' \<mapsto> IndentTab4Spaces K hbaseENVSh]))"

definition console_format :: string where
  "console_format = ''%d{ISO8601} %-5p [%t] %c{2}: %.1000m%n''"

definition AddLog4jProperties :: "('s, 'r) cm_lib \<Rightarrow> (ConfigMapBuilder, unit) eff" where
  "AddLog4jProperties lib = ask_eff (\<lambda>b.
     bind_eff (lift_res (NewConfigGenerator lib (cb_LoggingConfig b) (cb_RoleName b)
        ''hbase.log4j.xml'' console_format)) (\<lambda>content.
     bind_eff (lift_res content) (\<lambda>s.
     cm_do (CM_AddItem LogKey s))))"

definition AddSSLClientXML :: "('s, 'r) cm_lib \<Rightarrow> opgo \<Rightarrow> (ConfigMapBuilder, unit) eff" where
  "AddSSLClientXML lib K = ask_eff (\<lambda>b. case cb_krb5Config b of
       None \<Rightarrow> ret_eff ()
     | Some c \<Rightarrow>
         let data = GetSSLClientSettings K c;
             sslClientXML = \<lparr>xml_start = NewXMLConfigurationFromMap data, xml_calls = []\<rparr>
         in bind_eff (lift_res (Marshal lib sslClientXML)) (\<lambda>s.
            cm_do (CM_AddData [SSLClientFileName \<mapsto> s])))"

definition AddSSLServerXML :: "('s, 'r) cm_lib \<Rightarrow> opgo \<Rightarrow> (ConfigMapBuilder, unit) eff" where
  "AddSSLServerXML lib K = ask_eff (\<lambda>b. case cb_krb5Config b of
       None \<Rightarrow> ret_eff ()
     | Some c \<Rightarrow>
         let data = GetSSLServerSttings K c;
             serverXML = \<lparr>xml_start = NewXMLConfigurationFromMap data, xml_calls = []\<rparr>
         in bind_eff (lift_res (Marshal lib serverXML)) (\<lambda>s.
            cm_do (CM_AddData [SSLServerFileName \<mapsto> s])))"

text \<open>The document behind hbase-site.xml, once the three values of the znode are read.\<close>

definition hbase_site_doc ::
    "opgo \<Rightarrow> HbaseKerberosConfig option \<Rightarrow> string \<Rightarrow> string \<Rightarrow> string \<Rightarrow> XMLConfiguration" where
  "hbase_site_doc K krb5 quorum chroot clientPort =
     \<lparr>xml_start = NewXMLConfiguration,
      xml_calls =
        [AddPropertyWithString ''hbase.zookeeper.quorum'' quorum '''',
         AddPropertyWithString ''zookeeper.znode.parent'' (chroot @ ''/hbase'') '''',
         AddPropertyWithString ''hbase.zookeeper.property.clientPort'' clientPort '''',
         AddPropertyWithString ''hbase.cluster.distributed'' ''true'' '''',
         AddPropertyWithString ''hbase.rootdir'' ''/hbase'' '''',
         AddPropertyWithString
           ''hbase.unsafe.regionserver.hostname.disable.master.reversedns'' ''true'' '''']
        @ (case krb5 of None \<Rightarrow> [] | Some c \<Rightarrow> [AddPropertiesWithMap (GetHbaseSite K c)])\<rparr>"

definition AddHbaseSite :: "('s, 'r) cm_lib \<Rightarrow> opgo \<Rightarrow> ZnodeConfiguration \<Rightarrow> (ConfigMapBuilder, unit) eff" where
  "AddHbaseSite lib K znode =
     bind_eff (lift_res (GetQuorum znode)) (\<lambda>quorum.
     bind_eff (lift_res (GetChroot znode)) (\<lambda>chroot.
     bind_eff (lift_res (GetClientPort znode)) (\<lambda>clientPort.
     ask_eff (\<lambda>b.
     bind_eff (lift_res (Marshal lib (hbase_site_doc K (cb_krb5Config b) quorum chroot clientPort)))
       (\<lambda>hbaseSiteXML.
     cm_do (CM_AddData [HbaseKey \<mapsto> hbaseSiteXML]))))))"

definition AddVectorConfig :: "('s, 'r) cm_lib \<Rightarrow> opgo \<Rightarrow> (ConfigMapBuilder, unit) eff" where
  "AddVectorConfig lib K = ask_eff (\<lambda>b.
     if cb_VectorConfigMapName b = '''' then ret_eff ()
     else bind_eff (lift_res (MakeVectorYaml lib (OwnerNamespace (cb_Client b)) (cb_ClusterName b)
            (cb_RoleName b) (cb_RolegroupName b) (cb_VectorConfigMapName b))) (\<lambda>s.
          cm_do (CM_AddItem (VectorConfigFile K) s)))"

section \<open>The reconciler\<close>

record ConfigMapReconciler =
  cr_Client :: client
  cr_Builder :: ConfigMapBuilder
  cr_ClusterConfig :: ClusterConfigSpec

definition GetZKZnodeConfig :: "ConfigMapReconciler \<Rightarrow> ZnodeConfiguration res" where
  "GetZKZnodeConfig r =
     bind_res (LookupConfigMap (cr_Client r) (ZookeeperConfigMapName (cr_ClusterConfig r)))
       (\<lambda>obj. Ok \<lparr>zn_ConfigMap = Some obj\<rparr>)"

text \<open>
  Reconcile returns the library's result; the builder keeps what was added before a failure,
  and the server is only written by the last call. The client answers the lookups as the
  server does when Reconcile is called.
\<close>

definition ConfigMap_Reconcile ::
    "('s, 'r) cm_lib \<Rightarrow> opgo \<Rightarrow> string list \<Rightarrow> ConfigMapReconciler \<Rightarrow> (ConfigMapBuilder \<times> 's, 'r) eff" where
  "ConfigMap_Reconcile lib K ks r =
     bind_eff (lift_res (GetZKZnodeConfig r)) (\<lambda>znode.
     bind_eff (on_fst (AddHbaseSite lib K znode)) (\<lambda>_.
     bind_eff (on_fst (AddHbaseENVSh K ks)) (\<lambda>_.
     bind_eff (on_fst (AddLog4jProperties lib)) (\<lambda>_.
     bind_eff (on_fst (AddSSLClientXML lib K)) (\<lambda>_.
     bind_eff (on_fst (AddSSLServerXML lib K)) (\<lambda>_.
     bind_eff (on_fst (AddVectorConfig lib K)) (\<lambda>_.
     ask_eff (\<lambda>(b, s).
     bind_eff (lift_res (CM_Build lib (cb_Name b) (cb_Options b) (cb_Calls b))) (\<lambda>resource.
     on_snd (ResourceReconcile lib resource))))))))))"

definition NewConfigMapReconciler ::
    "opgo \<Rightarrow> client \<Rightarrow> ClusterConfigSpec option \<Rightarrow> LoggingConfigSpec option \<Rightarrow> RoleGroupInfo
     \<Rightarrow> ConfigMapReconciler res" where
  "NewConfigMapReconciler K cl clusterConfig loggingConfig options =
     bind_res (deref clusterConfig) (\<lambda>cc.
     let (krb5SecretClass, tlsSecretClass) =
           (case Authentication cc of None \<Rightarrow> ('''', '''')
            | Some a \<Rightarrow> (KerberosSecretClass a, TlsSecretClass a));
         cmBuilder = NewConfigMapBuilder cl (GetFullName K options) loggingConfig
           (VectorAggregatorConfigMapName cc) krb5SecretClass tlsSecretClass
           [\<lambda>o'. o'\<lparr>opt_ClusterName := GetClusterName K options,
                    opt_RoleName := GetRoleName K options,
                    opt_RoleGroupName := GetGroupName K options,
                    opt_Labels := GetLabels K options,
                    opt_Annotations := GetAnnotations K options\<rparr>]
     in Ok \<lparr>cr_Client = cl, cr_Builder = cmBuilder, cr_ClusterConfig = cc\<rparr>)"

definition GetRoleLoggingConfig :: "RoleGroupConfigSpec option \<Rightarrow> string \<Rightarrow> LoggingConfigSpec option" where
  "GetRoleLoggingConfig roleGroupConfig role =
     (case roleGroupConfig of None \<Rightarrow> None
      | Some cfg \<Rightarrow> (case Logging cfg of None \<Rightarrow> None
          | Some l \<Rightarrow> (case Containers l of None \<Rightarrow> None
              | Some m \<Rightarrow> m role)))"

section \<open>What the calls add up to\<close>

lemma calls_update_eq [simp]:
  "b\<lparr>cb_Calls := cs\<rparr> = b\<lparr>cb_Calls := ds\<rparr> \<longleftrightarrow> cs = ds"
  by (cases b) simp

lemma calls_update_id [simp]: "b = b\<lparr>cb_Calls := cb_Calls b @ cs\<rparr> \<longleftrightarrow> cs = []"
  by (cases b) simp

fun call_data :: "cm_call list \<Rightarrow> string go_map" where
  "call_data [] = Map.empty"
| "call_data (CM_AddData m # cs) = m ++ call_data cs"
| "call_data (CM_AddItem k v # cs) = [k \<mapsto> v] ++ call_data cs"

lemma call_data_append: "call_data (cs @ ds) = call_data cs ++ call_data ds"
  by (induction cs rule: call_data.induct) (auto simp: map_add_assoc)

fun xml_props :: "xml_call list \<Rightarrow> string go_map" where
  "xml_props [] = Map.empty"
| "xml_props (AddPropertyWithString k v d # cs) = [k \<mapsto> v] ++ xml_props cs"
| "xml_props (AddPropertiesWithMap m # cs) = m ++ xml_props cs"

text \<open>The keys the calls write, one entry per write.\<close>

fun xml_written :: "xml_call list \<Rightarrow> string set list" where
  "xml_written [] = []"
| "xml_written (AddPropertyWithString k v d # cs) = {k} # xml_written cs"
| "xml_written (AddPropertiesWithMap m # cs) = dom m # xml_written cs"

section \<open>Steps of the builder\<close>

text \<open>
  The interface the reconciler relies on: a step either succeeds and adds calls that write
  exactly its files, or fails and leaves the builder as it was. Which files it writes is
  fixed by the builder's configuration, not by what has been added.
\<close>

locale config_step =
  fixes step :: "(ConfigMapBuilder, unit) eff"
    and files :: "ConfigMapBuilder \<Rightarrow> string set"
  assumes step_Ok: "step b = (Ok u, t) \<Longrightarrow>
      \<exists>cs. t = b\<lparr>cb_Calls := cb_Calls b @ cs\<rparr> \<and> dom (call_data cs) = files b"
    and step_fails: "step b = (Err e, t) \<Longrightarrow> t = b"
    and step_panics: "step b = (Panic p, t) \<Longrightarrow> t = b"
    and files_stable: "files (b\<lparr>cb_Calls := cs\<rparr>) = files b"
    and step_uniform: "step b = (Ok u, b\<lparr>cb_Calls := cb_Calls b @ cs\<rparr>) \<Longrightarrow>
      step (b\<lparr>cb_Calls := ds\<rparr>) = (Ok u, b\<lparr>cb_Calls := ds @ cs\<rparr>)"
begin

lemma step_frame: "step b = (r, t) \<Longrightarrow> \<exists>cs. t = b\<lparr>cb_Calls := cb_Calls b @ cs\<rparr>"
  using step_Ok [of b] step_fails [of b] step_panics [of b]
  by (cases r) (force intro: exI [of _ "[]"])+

end

text \<open>Running several steps: the files written are those of the steps that were run.\<close>

fun run_steps :: "(ConfigMapBuilder, unit) eff list \<Rightarrow> (ConfigMapBuilder, unit) eff" where
  "run_steps [] = ret_eff ()"
| "run_steps (s # ss) = bind_eff s (\<lambda>_. run_steps ss)"

lemma run_steps_files:
  assumes "\<forall>(s, f) \<in> set sfs. config_step s f" and "run_steps (map fst sfs) b = (r, t)"
  shows "\<exists>cs n. t = b\<lparr>cb_Calls := cb_Calls b @ cs\<rparr> \<and> n \<le> length sfs
     \<and> (is_Ok r \<longleftrightarrow> n = length sfs)
     \<and> dom (call_data cs) = (\<Union>f \<in> set (take n (map snd sfs)). f b)"
  using assms
proof (induction sfs arbitrary: b)
  case Nil
  then show ?case by (auto intro: exI [of _ "[]"])
next
  case (Cons sf sfs)
  obtain s f where sf: "sf = (s, f)" by force
  have step: "config_step s f" using Cons.prems sf by simp
  have fails: ?case if "s b = (q, u)" "\<not> is_Ok q" for q u
  proof -
    have "u = b" "r = (case q of Err e \<Rightarrow> Err e | Panic p \<Rightarrow> Panic p)" "t = b" "\<not> is_Ok r"
      using that Cons.prems(2) sf config_step.step_fails [OF step, of b]
        config_step.step_panics [OF step, of b]
      by (cases q; auto simp: bind_eff_def)+
    then show ?thesis by (intro exI [of _ "[]"] exI [of _ 0]) simp
  qed
  show ?case
  proof (cases "s b")
    case (Pair q u)
    show ?thesis
    proof (cases q)
      case (Ok x)
      obtain cs1 where u: "u = b\<lparr>cb_Calls := cb_Calls b @ cs1\<rparr>" and d1: "dom (call_data cs1) = f b"
        using config_step.step_Ok [OF step, of b x u] Pair Ok by auto
      have run: "run_steps (map fst sfs) u = (r, t)"
        using Cons.prems(2) Pair Ok sf by (simp add: bind_eff_def)
      obtain cs2 n where t: "t = u\<lparr>cb_Calls := cb_Calls u @ cs2\<rparr>" and n: "n \<le> length sfs"
          "is_Ok r \<longleftrightarrow> n = length sfs"
          and d2: "dom (call_data cs2) = (\<Union>f \<in> set (take n (map snd sfs)). f u)"
        using Cons.IH [OF _ run] Cons.prems(1) by auto
      have "g u = g b" if "g \<in> set (take n (map snd sfs))" for g
        using that Cons.prems(1) config_step.files_stable u
        by (fastforce dest: in_set_takeD)
      then have "dom (call_data cs2) = (\<Union>f \<in> set (take n (map snd sfs)). f b)"
        unfolding d2 by (intro SUP_cong refl)
      with t u n d1 sf show ?thesis
        by (intro exI [of _ "cs1 @ cs2"] exI [of _ "Suc n"]) (auto simp: call_data_append)
    qed (use Pair fails in auto)
  qed
qed

text \<open>Each of the six steps is such a step.\<close>

abbreviation site_files :: "ConfigMapBuilder \<Rightarrow> string set" where
  "site_files b \<equiv> {HbaseKey}"

abbreviation env_files :: "ConfigMapBuilder \<Rightarrow> string set" where
  "env_files b \<equiv> {''hbase-env.sh''}"

abbreviation log_files :: "ConfigMapBuilder \<Rightarrow> string set" where
  "log_files b \<equiv> {LogKey}"

abbreviation client_files :: "ConfigMapBuilder \<Rightarrow> string set" where
  "client_files b \<equiv> (if cb_krb5Config b = None then {} else {SSLClientFileName})"

abbreviation server_files :: "ConfigMapBuilder \<Rightarrow> string set" where
  "server_files b \<equiv> (if cb_krb5Config b = None then {} else {SSLServerFileName})"

abbreviation vector_files :: "opgo \<Rightarrow> ConfigMapBuilder \<Rightarrow> string set" where
  "vector_files K b \<equiv> (if cb_VectorConfigMapName b = '''' then {} else {VectorConfigFile K})"

lemma cm_do_apply [simp]: "cm_do c b = (Ok (), b\<lparr>cb_Calls := cb_Calls b @ [c]\<rparr>)"
  by (simp add: cm_do_def)

lemma lift_then_do:
  "bind_eff (lift_res m) (\<lambda>s. cm_do (g s)) b =
     (case m of Ok s \<Rightarrow> (Ok (), b\<lparr>cb_Calls := cb_Calls b @ [g s]\<rparr>)
      | Err e \<Rightarrow> (Err e, b) | Panic p \<Rightarrow> (Panic p, b))"
  by (simp split: res.split)

lemma config_step_calls:
  assumes "\<And>b. (\<exists>cs. (\<forall>ds. step (b\<lparr>cb_Calls := ds\<rparr>) = (Ok (), b\<lparr>cb_Calls := ds @ cs\<rparr>))
             \<and> dom (call_data cs) = fs b)
           \<or> (\<exists>e. step b = (Err e, b)) \<or> (\<exists>p. step b = (Panic p, b))"
    and "\<And>b cs. fs (b\<lparr>cb_Calls := cs\<rparr>) = fs b"
  shows "config_step step fs"
proof
  have self: "b\<lparr>cb_Calls := cb_Calls b\<rparr> = b" for b by simp
  {
    fix b u t
    assume "step b = (Ok u, t)"
    then obtain cs where "\<forall>ds. step (b\<lparr>cb_Calls := ds\<rparr>) = (Ok (), b\<lparr>cb_Calls := ds @ cs\<rparr>)"
        "dom (call_data cs) = fs b"
      using assms(1) [of b] by auto
    moreover from this have "t = b\<lparr>cb_Calls := cb_Calls b @ cs\<rparr>"
      using \<open>step b = (Ok u, t)\<close> self [of b] by (metis prod.inject)
    ultimately have "\<exists>cs. (\<forall>ds. step (b\<lparr>cb_Calls := ds\<rparr>) = (Ok (), b\<lparr>cb_Calls := ds @ cs\<rparr>))
        \<and> dom (call_data cs) = fs b \<and> t = b\<lparr>cb_Calls := cb_Calls b @ cs\<rparr>"
      by blast
  }
  note Ok = this
  show "\<exists>cs. t = b\<lparr>cb_Calls := cb_Calls b @ cs\<rparr> \<and> dom (call_data cs) = fs b"
    if "step b = (Ok u, t)" for b u t
    using Ok [OF that] by blast
  show "step (b\<lparr>cb_Calls := ds\<rparr>) = (Ok u, b\<lparr>cb_Calls := ds @ cs\<rparr>)"
    if "step b = (Ok u, b\<lparr>cb_Calls := cb_Calls b @ cs\<rparr>)" for b u cs ds
    using Ok [OF that] by auto
next
  fix b e t
  assume "step b = (Err e, t)"
  then show "t = b" using assms(1) [of b] by (auto dest: spec [of _ "cb_Calls b"])
next
  fix b p t
  assume "step b = (Panic p, t)"
  then show "t = b" using assms(1) [of b] by (auto dest: spec [of _ "cb_Calls b"])
qed (rule assms(2))

interpretation site_step: config_step "AddHbaseSite lib K znode" site_files
  for lib :: "('s, 'r) cm_lib" and K znode
proof (rule config_step_calls)
  fix b
  show "(\<exists>cs. (\<forall>ds. AddHbaseSite lib K znode (b\<lparr>cb_Calls := ds\<rparr>) = (Ok (), b\<lparr>cb_Calls := ds @ cs\<rparr>))
            \<and> dom (call_data cs) = site_files b)
        \<or> (\<exists>e. AddHbaseSite lib K znode b = (Err e, b)) \<or> (\<exists>p. AddHbaseSite lib K znode b = (Panic p, b))"
    by (cases "GetQuorum znode"; cases "GetChroot znode"; cases "GetClientPort znode")
      (auto simp: AddHbaseSite_def lift_then_do split: res.split
        intro: exI [of _ "[CM_AddData [HbaseKey \<mapsto> s]]" for s])
qed simp_all

lemma getJVMOPTS_stable [simp]: "getJVMOPTS K ks (b\<lparr>cb_Calls := ds\<rparr>) = getJVMOPTS K ks b"
  by (simp add: getJVMOPTS_def)

interpretation env_step: config_step "AddHbaseENVSh K ks" env_files
  for K ks
  by (rule config_step_calls)
    (auto simp: AddHbaseENVSh_def Let_def)

interpretation log_step: config_step "AddLog4jProperties lib" log_files
  for lib :: "('s, 'r) cm_lib"
proof (rule config_step_calls)
  fix b
  show "(\<exists>cs. (\<forall>ds. AddLog4jProperties lib (b\<lparr>cb_Calls := ds\<rparr>) = (Ok (), b\<lparr>cb_Calls := ds @ cs\<rparr>))
            \<and> dom (call_data cs) = log_files b)
        \<or> (\<exists>e. AddLog4jProperties lib b = (Err e, b)) \<or> (\<exists>p. AddLog4jProperties lib b = (Panic p, b))"
    by (auto simp: AddLog4jProperties_def bind_eff_lift_res_split split: res.split)
qed simp_all

interpretation client_step: config_step "AddSSLClientXML lib K" client_files
  for lib :: "('s, 'r) cm_lib" and K
proof (rule config_step_calls)
  fix b
  show "(\<exists>cs. (\<forall>ds. AddSSLClientXML lib K (b\<lparr>cb_Calls := ds\<rparr>) = (Ok (), b\<lparr>cb_Calls := ds @ cs\<rparr>))
            \<and> dom (call_data cs) = client_files b)
        \<or> (\<exists>e. AddSSLClientXML lib K b = (Err e, b)) \<or> (\<exists>p. AddSSLClientXML lib K b = (Panic p, b))"
    by (auto simp: AddSSLClientXML_def bind_eff_lift_res_split Let_def
        split: res.split option.split intro: exI [of _ "[]"])
qed simp_all

interpretation server_step: config_step "AddSSLServerXML lib K" server_files
  for lib :: "('s, 'r) cm_lib" and K
proof (rule config_step_calls)
  fix b
  show "(\<exists>cs. (\<forall>ds. AddSSLServerXML lib K (b\<lparr>cb_Calls := ds\<rparr>) = (Ok (), b\<lparr>cb_Calls := ds @ cs\<rparr>))
            \<and> dom (call_data cs) = server_files b)
        \<or> (\<exists>e. AddSSLServerXML lib K b = (Err e, b)) \<or> (\<exists>p. AddSSLServerXML lib K b = (Panic p, b))"
    by (auto simp: AddSSLServerXML_def bind_eff_lift_res_split Let_def
        split: res.split option.split intro: exI [of _ "[]"])
qed simp_all

interpretation vector_step: config_step "AddVectorConfig lib K" "vector_files K"
  for lib :: "('s, 'r) cm_lib" and K
proof (rule config_step_calls)
  fix b
  show "(\<exists>cs. (\<forall>ds. AddVectorConfig lib K (b\<lparr>cb_Calls := ds\<rparr>) = (Ok (), b\<lparr>cb_Calls := ds @ cs\<rparr>))
            \<and> dom (call_data cs) = vector_files K b)
        \<or> (\<exists>e. AddVectorConfig lib K b = (Err e, b)) \<or> (\<exists>p. AddVectorConfig lib K b = (Panic p, b))"
    by (auto simp: AddVectorConfig_def bind_eff_lift_res_split split: res.split)
qed simp_all

text \<open>Steps that succeed do so, with the same calls, whatever has been added before.\<close>

lemma run_steps_uniform:
  assumes "\<forall>(s, f) \<in> set sfs. config_step s f" and "run_steps (map fst sfs) b = (Ok u, t)"
  shows "\<exists>cs. t = b\<lparr>cb_Calls := cb_Calls b @ cs\<rparr>
     \<and> (\<forall>ds. run_steps (map fst sfs) (b\<lparr>cb_Calls := ds\<rparr>) = (Ok u, b\<lparr>cb_Calls := ds @ cs\<rparr>))"
  using assms
proof (induction sfs arbitrary: b)
  case Nil
  then show ?case by auto
next
  case (Cons sf sfs)
  obtain s f where sf: "sf = (s, f)" by force
  have step: "config_step s f" using Cons.prems sf by simp
  obtain v w where vw: "s b = (Ok v, w)" "run_steps (map fst sfs) w = (Ok u, t)"
    using Cons.prems(2) sf by (auto simp: bind_eff_Ok_iff)
  obtain cs1 where w: "w = b\<lparr>cb_Calls := cb_Calls b @ cs1\<rparr>"
    using config_step.step_Ok [OF step vw(1)] by blast
  have u1: "s (b\<lparr>cb_Calls := ds\<rparr>) = (Ok v, b\<lparr>cb_Calls := ds @ cs1\<rparr>)" for ds
    using config_step.step_uniform [OF step] vw(1) w by blast
  obtain cs2 where t: "t = w\<lparr>cb_Calls := cb_Calls w @ cs2\<rparr>" and
    u2: "\<forall>ds. run_steps (map fst sfs) (w\<lparr>cb_Calls := ds\<rparr>) = (Ok u, w\<lparr>cb_Calls := ds @ cs2\<rparr>)"
    using Cons.IH [OF _ vw(2)] Cons.prems(1) by auto
  have "run_steps (map fst sfs) (b\<lparr>cb_Calls := ds\<rparr>) = (Ok u, b\<lparr>cb_Calls := ds @ cs2\<rparr>)" for ds
    using u2 [rule_format, of ds] w by simp
  then show ?case
    using t w sf by (intro exI [of _ "cs1 @ cs2"]) (simp add: bind_eff_def u1)
qed

section \<open>The whole reconciliation\<close>

definition config_steps :: "('s, 'r) cm_lib \<Rightarrow> opgo \<Rightarrow> string list \<Rightarrow> ZnodeConfiguration
     \<Rightarrow> ((ConfigMapBuilder, unit) eff \<times> (ConfigMapBuilder \<Rightarrow> string set)) list" where
  "config_steps lib K ks znode =
     [(AddHbaseSite lib K znode, site_files), (AddHbaseENVSh K ks, env_files),
      (AddLog4jProperties lib, log_files), (AddSSLClientXML lib K, client_files),
      (AddSSLServerXML lib K, server_files), (AddVectorConfig lib K, vector_files K)]"

text \<open>The files of the six stages, in the order they are written.\<close>

definition stage_files :: "opgo \<Rightarrow> ConfigMapBuilder \<Rightarrow> string set list" where
  "stage_files K b =
     [{HbaseKey}, {''hbase-env.sh''}, {LogKey},
      (if cb_krb5Config b = None then {} else {SSLClientFileName}),
      (if cb_krb5Config b = None then {} else {SSLServerFileName}),
      (if cb_VectorConfigMapName b = '''' then {} else {VectorConfigFile K})]"

lemma config_steps_ok: "\<forall>(s, f) \<in> set (config_steps lib K ks znode). config_step s f"
  by (simp add: config_steps_def site_step.config_step_axioms env_step.config_step_axioms
      log_step.config_step_axioms client_step.config_step_axioms server_step.config_step_axioms
      vector_step.config_step_axioms)

lemma stage_files_eq: "stage_files K b = map (\<lambda>f. f b) (map snd (config_steps lib K ks znode))"
  by (simp add: stage_files_def config_steps_def)

text \<open>What the reconciler makes of the builder, before it is written.\<close>

definition config_object :: "('s, 'r) cm_lib \<Rightarrow> opgo \<Rightarrow> string list \<Rightarrow> ConfigMapReconciler
     \<Rightarrow> (ConfigMapBuilder, ConfigMap) eff" where
  "config_object lib K ks r =
     bind_eff (lift_res (GetZKZnodeConfig r)) (\<lambda>znode.
     bind_eff (run_steps (map fst (config_steps lib K ks znode))) (\<lambda>_.
     ask_eff (\<lambda>b. lift_res (CM_Build lib (cb_Name b) (cb_Options b) (cb_Calls b)))))"

lemma on_fst_lift: "on_fst (lift_res r) = lift_res r"
  by (auto simp: fun_eq_iff)

lemma on_fst_bind: "on_fst (bind_eff m f) = bind_eff (on_fst m) (\<lambda>x. on_fst (f x))"
  by (auto simp: fun_eq_iff bind_eff_def split: prod.splits res.splits)

lemma on_fst_ask_lift:
  "bind_eff (on_fst (ask_eff (\<lambda>b. lift_res (f b)))) g = ask_eff (\<lambda>(b, s). bind_eff (lift_res (f b)) g)"
  by (auto simp: fun_eq_iff bind_eff_def split: prod.splits res.splits)

lemma ConfigMap_Reconcile_steps:
  "ConfigMap_Reconcile lib K ks r =
     bind_eff (on_fst (config_object lib K ks r)) (\<lambda>obj. on_snd (ResourceReconcile lib obj))"
  by (simp add: ConfigMap_Reconcile_def config_object_def config_steps_def on_fst_bind on_fst_lift
      bind_eff_assoc on_fst_ask_lift)

lemma config_object_Ok:
  assumes "config_object lib K ks r b = (Ok obj, t)"
  obtains znode v where "GetZKZnodeConfig r = Ok znode"
    and "run_steps (map fst (config_steps lib K ks znode)) b = (Ok v, t)"
    and "CM_Build lib (cb_Name t) (cb_Options t) (cb_Calls t) = Ok obj"
  using assms
  by (cases "GetZKZnodeConfig r") (auto simp: config_object_def bind_eff_Ok_iff)

section \<open>Properties\<close>

text \<open>
  C9. Reconciling a ConfigMap runs its stages in order and stops at the first failure. On
  every outcome, panics included, the builder has gained exactly the files of the first
  \<open>n\<close> of the six stages (the TLS files only with Kerberos, the vector file only with an
  aggregator) and nothing else of it has changed; the library is asked to build and write
  the object exactly when all six stages have run, the outcome and the state of the API
  server are then those of that call, and before it the server has not been written.
\<close>

theorem ConfigMap_Reconcile_stages:
  assumes "ConfigMap_Reconcile lib K ks r (b, s) = (out, (t, s'))"
  shows "\<exists>cs n. t = b\<lparr>cb_Calls := cb_Calls b @ cs\<rparr> \<and> n \<le> 6
     \<and> dom (call_data cs) = \<Union> (set (take n (stage_files K b)))
     \<and> (n < 6 \<longrightarrow> \<not> is_Ok out \<and> s' = s)
     \<and> (n = 6 \<longrightarrow> (out, s') = bind_eff (lift_res (CM_Build lib (cb_Name b) (cb_Options b) (cb_Calls t)))
                              (ResourceReconcile lib) s)"
proof (cases "GetZKZnodeConfig r")
  case (Ok znode)
  let ?sfs = "config_steps lib K ks znode"
  obtain q u where run: "run_steps (map fst ?sfs) b = (q, u)" by force
  have len: "length ?sfs = 6" by (simp add: config_steps_def)
  obtain cs n where u: "u = b\<lparr>cb_Calls := cb_Calls b @ cs\<rparr>" and n: "n \<le> 6" "is_Ok q \<longleftrightarrow> n = 6"
      and d: "dom (call_data cs) = (\<Union>f \<in> set (take n (map snd ?sfs)). f b)"
    using run_steps_files [OF config_steps_ok run] len by auto
  have d': "dom (call_data cs) = \<Union> (set (take n (stage_files K b)))"
    unfolding d stage_files_eq [of K b lib ks znode] take_map by auto
  have obj: "config_object lib K ks r b = (case q of
        Ok _ \<Rightarrow> (CM_Build lib (cb_Name b) (cb_Options b) (cb_Calls u), u)
      | Err e \<Rightarrow> (Err e, u) | Panic p \<Rightarrow> (Panic p, u))"
    using Ok run u by (cases q) (simp_all add: config_object_def bind_eff_def)
  have res: "t = u" "is_Ok q \<Longrightarrow> (out, s') = bind_eff (lift_res
        (CM_Build lib (cb_Name b) (cb_Options b) (cb_Calls u))) (ResourceReconcile lib) s"
      "\<not> is_Ok q \<Longrightarrow> \<not> is_Ok out \<and> s' = s"
    using assms
    by (auto simp: ConfigMap_Reconcile_steps on_fst_then_snd obj bind_eff_lift_res_split
        split: res.splits prod.splits)
  show ?thesis
    using res n d' u by (intro exI [of _ cs] exI [of _ n]) auto
next
  case (Err e)
  with assms show ?thesis
    by (intro exI [of _ "[]"] exI [of _ 0])
      (auto simp: ConfigMap_Reconcile_steps on_fst_then_snd config_object_def)
next
  case (Panic p)
  with assms show ?thesis
    by (intro exI [of _ "[]"] exI [of _ 0])
      (auto simp: ConfigMap_Reconcile_steps on_fst_then_snd config_object_def)
qed

text \<open>
  A concrete library and client for evaluation. The server of the sample holds one object;
  a write that changes it asks to be called again (1), one that does not comes back with 0.
\<close>

definition sample_cm_lib :: "(ConfigMap option, nat) cm_lib" where
  "sample_cm_lib = \<lparr>Marshal = (\<lambda>d. Ok ''<configuration/>''),
     NewConfigGenerator = (\<lambda>l c f fmt. Ok (Ok ''log4j'')),
     MakeVectorYaml = (\<lambda>ns c r g n. Ok ''vector''),
     CM_Build = (\<lambda>name opts cs. Ok \<lparr>Data = Some (call_data cs)\<rparr>),
     ResourceReconcile = (\<lambda>cm stored. if stored = Some cm then (Ok 0, stored) else (Ok 1, Some cm))\<rparr>"

definition znode_client :: client where
  "znode_client = sample_client\<lparr>LookupConfigMap := (\<lambda>n.
     if n = ''hbase-znode'' then Ok \<lparr>Data = Some [''ZOOKEEPER_HOSTS'' \<mapsto> ''zk'',
        ''ZOOKEEPER_PORT'' \<mapsto> ''2181'', ''ZOOKEEPER_CHROOT'' \<mapsto> ''/znode'']\<rparr>
     else Err (ExtError ''StatusError'' ''not found''))\<rparr>"

definition sample_cluster_config :: ClusterConfigSpec where
  "sample_cluster_config = \<lparr>ZookeeperConfigMapName = ''hbase-znode'', HdfsConfigMapName = ''hdfs'',
     ListenerClass = '''',
     Authentication = Some \<lparr>AuthenticationClassName = '''', Oidc = None,
        KerberosSecretClass = ''kerberos'', TlsSecretClass = ''tls''\<rparr>,
     VectorAggregatorConfigMapName = ''''\<rparr>"

definition sample_cm_reconciler :: ConfigMapReconciler where
  "sample_cm_reconciler =
     (case NewConfigMapReconciler sample_opgo znode_client (Some sample_cluster_config) None
        (sample_info ''master'') of Ok r \<Rightarrow> r)"

lemma sample_cm_reconcile:
  "\<exists>t obj. ConfigMap_Reconcile sample_cm_lib sample_opgo [''java.security.krb5.conf'']
      sample_cm_reconciler (cr_Builder sample_cm_reconciler, None) = (Ok 1, (t, Some obj))"
  by (simp add: ConfigMap_Reconcile_def sample_cm_reconciler_def NewConfigMapReconciler_def
      sample_cluster_config_def NewConfigMapBuilder_def GetZKZnodeConfig_def znode_client_def
      AddHbaseSite_def AddHbaseENVSh_def AddLog4jProperties_def AddSSLClientXML_def
      AddSSLServerXML_def AddVectorConfig_def znode_getters znode_keys get_data_def
      sample_cm_lib_def apply_options_def zero_Options_def bind_eff_def Let_def)

theorem ConfigMap_Reconcile_stages_witness:
  "\<exists>t obj cs. ConfigMap_Reconcile sample_cm_lib sample_opgo [''java.security.krb5.conf'']
      sample_cm_reconciler (cr_Builder sample_cm_reconciler, None) = (Ok 1, (t, Some obj))
     \<and> dom (call_data cs) = {''hbase-site.xml'', ''hbase-env.sh'', ''log4j.properties'',
         ''ssl-client.xml'', ''ssl-server.xml''}"
proof -
  let ?b = "cr_Builder sample_cm_reconciler"
  obtain t obj where t: "ConfigMap_Reconcile sample_cm_lib sample_opgo [''java.security.krb5.conf'']
      sample_cm_reconciler (?b, None) = (Ok 1, (t, Some obj))"
    using sample_cm_reconcile by blast
  have b: "cb_krb5Config ?b \<noteq> None" "cb_VectorConfigMapName ?b = ''''"
    by (simp_all add: sample_cm_reconciler_def NewConfigMapReconciler_def NewConfigMapBuilder_def
        sample_cluster_config_def Let_def)
  obtain cs n where "n \<le> 6" "n < 6 \<longrightarrow> \<not> is_Ok (Ok (1 :: nat)) \<and> Some obj = None"
      "dom (call_data cs) = \<Union> (set (take n (stage_files sample_opgo ?b)))"
    using ConfigMap_Reconcile_stages [OF t] by blast
  then have "dom (call_data cs) = \<Union> (set (take 6 (stage_files sample_opgo ?b)))"
    by (cases "n = 6") auto
  then have "dom (call_data cs) = {''hbase-site.xml'', ''hbase-env.sh'', ''log4j.properties'',
         ''ssl-client.xml'', ''ssl-server.xml''}"
    using b by (auto simp: stage_files_def file_names)
  with t show ?thesis by blast
qed

text \<open>
  The documented meaning of the library: the object it builds depends on the data that the
  calls add up to; and its write creates or updates, so that writing the same object again,
  to the server as the first write has left it, succeeds and leaves it as it is. The result
  of that second write may be another one.
\<close>

definition cm_lib_ok :: "('s, 'r) cm_lib \<Rightarrow> bool" where
  "cm_lib_ok lib \<longleftrightarrow>
     (\<forall>name opts cs ds. call_data cs = call_data ds \<longrightarrow> CM_Build lib name opts cs = CM_Build lib name opts ds)
   \<and> (\<forall>obj s x s'. ResourceReconcile lib obj s = (Ok x, s') \<longrightarrow>
         (\<exists>y. ResourceReconcile lib obj s' = (Ok y, s')))"

text \<open>
  C12. Reconciling again asks for the same object. The builder keeps what a reconciliation
  has added, and the next one, with the same builder, adds it all once more. Yet whatever
  state the API server is in by then, and whatever it answers, the second reconciliation
  sends it the very object the first one wrote, provided what it looks up is still the same
  (the ZooKeeper ConfigMap, and what the library reads for the vector file); in particular,
  directly after the first it succeeds and leaves the server as it is.
\<close>

theorem ConfigMap_Reconcile_idempotent:
  assumes lib: "cm_lib_ok lib" and new: "cb_Calls b = []"
    and run: "ConfigMap_Reconcile lib K ks r (b, s) = (Ok x, (t, s1))"
    and same: "GetZKZnodeConfig r' = GetZKZnodeConfig r"
  shows "\<exists>obj u. CM_Build lib (cb_Name b) (cb_Options b) (cb_Calls t) = Ok obj
     \<and> ResourceReconcile lib obj s = (Ok x, s1)
     \<and> (\<forall>s2. ConfigMap_Reconcile lib K ks r' (t, s2) = on_snd (ResourceReconcile lib obj) (u, s2))
     \<and> (\<exists>y. ConfigMap_Reconcile lib K ks r' (t, s1) = (Ok y, (u, s1)))
     \<and> length (cb_Calls u) = 2 * length (cb_Calls t)
     \<and> call_data (cb_Calls u) = call_data (cb_Calls t)"
proof -
  obtain obj where obj: "config_object lib K ks r b = (Ok obj, t)"
    and wrote: "ResourceReconcile lib obj s = (Ok x, s1)"
    using run by (auto simp: ConfigMap_Reconcile_steps on_fst_then_snd split: prod.splits res.splits)
  obtain znode v where zn: "GetZKZnodeConfig r = Ok znode"
    and steps: "run_steps (map fst (config_steps lib K ks znode)) b = (Ok v, t)"
    and built: "CM_Build lib (cb_Name t) (cb_Options t) (cb_Calls t) = Ok obj"
    using config_object_Ok [OF obj] by blast
  let ?steps = "map fst (config_steps lib K ks znode)"
  obtain cs where t: "t = b\<lparr>cb_Calls := cs\<rparr>" and
    again: "\<forall>ds. run_steps ?steps (b\<lparr>cb_Calls := ds\<rparr>) = (Ok v, b\<lparr>cb_Calls := ds @ cs\<rparr>)"
    using run_steps_uniform [OF config_steps_ok steps] new by auto
  let ?u = "b\<lparr>cb_Calls := cs @ cs\<rparr>"
  have data: "call_data (cs @ cs) = call_data cs"
    by (auto simp: call_data_append map_add_def fun_eq_iff split: option.split)
  then have "CM_Build lib name opts (cs @ cs) = CM_Build lib name opts cs" for name opts
    using lib unfolding cm_lib_ok_def by blast
  then have "config_object lib K ks r' t = (Ok obj, ?u)"
    using again built by (simp add: config_object_def same zn bind_eff_def t)
  then have second: "ConfigMap_Reconcile lib K ks r' (t, s2) = on_snd (ResourceReconcile lib obj) (?u, s2)" for s2
    by (simp add: ConfigMap_Reconcile_steps on_fst_then_snd)
  obtain y where "ResourceReconcile lib obj s1 = (Ok y, s1)"
    using lib wrote unfolding cm_lib_ok_def by blast
  then show ?thesis
    using wrote second data t built by (intro exI [of _ obj] exI [of _ ?u]) simp
qed

lemma cm_lib_ok_sample: "cm_lib_ok sample_cm_lib"
  by (auto simp: cm_lib_ok_def sample_cm_lib_def split: if_splits)

theorem ConfigMap_Reconcile_idempotent_witness:
  "\<exists>t u obj. ConfigMap_Reconcile sample_cm_lib sample_opgo [''java.security.krb5.conf'']
        sample_cm_reconciler (cr_Builder sample_cm_reconciler, None) = (Ok 1, (t, Some obj))
     \<and> ConfigMap_Reconcile sample_cm_lib sample_opgo [''java.security.krb5.conf'']
        sample_cm_reconciler (t, Some obj) = (Ok 0, (u, Some obj))
     \<and> call_data (cb_Calls u) = call_data (cb_Calls t)"
proof -
  have new: "cb_Calls (cr_Builder sample_cm_reconciler) = []"
    by (simp add: sample_cm_reconciler_def NewConfigMapReconciler_def NewConfigMapBuilder_def
        sample_cluster_config_def Let_def)
  obtain t obj where run: "ConfigMap_Reconcile sample_cm_lib sample_opgo [''java.security.krb5.conf'']
        sample_cm_reconciler (cr_Builder sample_cm_reconciler, None) = (Ok 1, (t, Some obj))"
    using sample_cm_reconcile by blast
  obtain o' u where wrote: "ResourceReconcile sample_cm_lib o' None = (Ok 1, Some obj)"
    and second: "\<forall>s2. ConfigMap_Reconcile sample_cm_lib sample_opgo [''java.security.krb5.conf'']
        sample_cm_reconciler (t, s2) = on_snd (ResourceReconcile sample_cm_lib o') (u, s2)"
    and data: "call_data (cb_Calls u) = call_data (cb_Calls t)"
    using ConfigMap_Reconcile_idempotent [OF cm_lib_ok_sample new run refl] by blast
  have "o' = obj" using wrote by (simp add: sample_cm_lib_def)
  with run second data show ?thesis by (auto simp: sample_cm_lib_def)
qed

section \<open>hbase-site.xml\<close>

text \<open>The keys the operator writes itself are none of the keys of the Kerberos settings.\<close>

lemma base_keys_not_krb5:
  "GetHbaseSite K c ''hbase.zookeeper.quorum'' = None"
  "GetHbaseSite K c ''zookeeper.znode.parent'' = None"
  "GetHbaseSite K c ''hbase.zookeeper.property.clientPort'' = None"
  "GetHbaseSite K c ''hbase.cluster.distributed'' = None"
  "GetHbaseSite K c ''hbase.rootdir'' = None"
  "GetHbaseSite K c ''hbase.unsafe.regionserver.hostname.disable.master.reversedns'' = None"
  by (simp_all add: GetHbaseSite_def hbase_site_literal_def)

lemma site_props_krb5:
  "GetHbaseSite K c k = Some v \<Longrightarrow> xml_props (xml_calls (hbase_site_doc K (Some c) q ch p)) k = Some v"
  by (simp add: hbase_site_doc_def map_add_def)

lemma site_props_base:
  fixes K kc q ch p
  defines "props \<equiv> xml_props (xml_calls (hbase_site_doc K kc q ch p))"
  shows "props ''hbase.zookeeper.quorum'' = Some q"
    and "props ''zookeeper.znode.parent'' = Some (ch @ ''/hbase'')"
    and "props ''hbase.zookeeper.property.clientPort'' = Some p"
    and "props ''hbase.rootdir'' = Some ''/hbase''"
    and "props ''hbase.cluster.distributed'' = Some ''true''"
  by (cases kc; simp add: props_def hbase_site_doc_def map_add_def base_keys_not_krb5)+

text \<open>
  C17. From the connection string to hbase-site.xml. After AddData has stored a well-formed
  connection string, AddHbaseSite marshals one document and adds it as hbase-site.xml, or
  passes the marshaller's failure on and leaves the builder alone. The document's quorum
  and client port are the host and the port of the string, the znode parent is the last
  component followed by /hbase, and with Kerberos every Kerberos setting is in force. As
  the string's last component has no slash, the znode parent starts with one only when
  that component is empty.
\<close>

theorem hbase_site_from_connection:
  assumes "znode_ready c" and parts: "connection_parts host port mid chroot"
  shows "\<exists>d doc. AddData (connection host port mid chroot) c = (Ok (), d)
     \<and> AddHbaseSite lib K d b = (case Marshal lib doc of
           Ok s \<Rightarrow> (Ok (), b\<lparr>cb_Calls := cb_Calls b @ [CM_AddData [''hbase-site.xml'' \<mapsto> s]]\<rparr>)
         | Err e \<Rightarrow> (Err e, b) | Panic p \<Rightarrow> (Panic p, b))
     \<and> xml_props (xml_calls doc) ''hbase.zookeeper.quorum'' = Some host
     \<and> xml_props (xml_calls doc) ''hbase.zookeeper.property.clientPort'' = Some port
     \<and> xml_props (xml_calls doc) ''zookeeper.znode.parent'' = Some (chroot @ ''/hbase'')
     \<and> (hd (chroot @ ''/hbase'') = CHR ''/'' \<longleftrightarrow> chroot = '''')
     \<and> (\<forall>kc. cb_krb5Config b = Some kc \<longrightarrow> GetHbaseSite K kc \<subseteq>\<^sub>m xml_props (xml_calls doc))"
proof -
  let ?z = "connection host port mid chroot"
  let ?kvs = "[(ZookeeperHostsKey, host), (ZookeeperClientPortKey, port), (ZookeeperChrootKey, chroot),
     (ZookeeperKey, ?z)]"
  obtain d where d: "AddData ?z c = (Ok (), d)"
      "\<forall>k. get_data k d = (case map_of ?kvs k of Some v \<Rightarrow> Ok v | None \<Rightarrow> get_data k c)"
    using znode.put_all_Ok [OF assms(1), of ?kvs] AddData_connection [OF parts]
    by (auto simp: znode_keys)
  have get: "GetQuorum d = Ok host" "GetClientPort d = Ok port" "GetChroot d = Ok chroot"
    using d(2) by (simp_all add: znode_getters znode_keys)
  let ?doc = "hbase_site_doc K (cb_krb5Config b) host chroot port"
  have "AddHbaseSite lib K d b = (case Marshal lib ?doc of
           Ok s \<Rightarrow> (Ok (), b\<lparr>cb_Calls := cb_Calls b @ [CM_AddData [''hbase-site.xml'' \<mapsto> s]]\<rparr>)
         | Err e \<Rightarrow> (Err e, b) | Panic p \<Rightarrow> (Panic p, b))"
    by (simp add: AddHbaseSite_def get lift_then_do HbaseKey_def)
  moreover have "hd (chroot @ ''/hbase'') = CHR ''/'' \<longleftrightarrow> chroot = ''''"
    using parts by (cases chroot) (auto simp: connection_parts_def)
  moreover have "GetHbaseSite K kc \<subseteq>\<^sub>m xml_props (xml_calls ?doc)" if "cb_krb5Config b = Some kc" for kc
    using that by (auto simp: map_le_def site_props_krb5)
  ultimately show ?thesis using d(1) site_props_base(1-3) by blast
qed

theorem hbase_site_from_connection_witness:
  "\<exists>d t. AddData ''zk:2181/x/znode-1'' ready_znode = (Ok (), d)
     \<and> AddHbaseSite sample_cm_lib sample_opgo d (cr_Builder sample_cm_reconciler) = (Ok (), t)"
proof -
  have "znode_ready ready_znode" by (simp add: znode_ready_def ready_znode_def)
  moreover have "connection_parts ''zk'' ''2181'' ''x'' ''znode-1''"
    by (simp add: connection_parts_def)
  moreover have "connection ''zk'' ''2181'' ''x'' ''znode-1'' = ''zk:2181/x/znode-1''"
    by (simp add: connection_def)
  moreover have "Marshal sample_cm_lib doc = Ok ''<configuration/>''" for doc
    by (simp add: sample_cm_lib_def)
  ultimately show ?thesis
    using hbase_site_from_connection [of ready_znode "''zk''" "''2181''" "''x''" "''znode-1''"
        sample_cm_lib sample_opgo "cr_Builder sample_cm_reconciler"] by force
qed

text \<open>
  C36. A missing ZooKeeper entry is reported, in a fixed order. When the ConfigMap lacks one
  of the three entries the document needs, AddHbaseSite fails with the first one missing in
  the order hosts, chroot, port, nothing is marshalled and the builder is left as it was; a
  ConfigMap without data behaves as one in which all are missing.
\<close>

theorem AddHbaseSite_missing_key:
  assumes "zn_ConfigMap znode = Some cm"
    and "find (\<lambda>k. (case Data cm of None \<Rightarrow> None | Some d \<Rightarrow> d k) = None)
           [''ZOOKEEPER_HOSTS'', ''ZOOKEEPER_CHROOT'', ''ZOOKEEPER_PORT''] = Some k"
  shows "AddHbaseSite lib K znode b = (Err (ErrorString (''key '' @ k @ '' not found in configmap'')), b)"
  using assms
  by (auto simp: AddHbaseSite_def znode_getters znode_keys get_data_def
      split: if_splits option.splits)

theorem AddHbaseSite_missing_key_witness:
  "AddHbaseSite sample_cm_lib sample_opgo \<lparr>zn_ConfigMap = Some \<lparr>Data = Some [''ZOOKEEPER_HOSTS'' \<mapsto> ''zk'']\<rparr>\<rparr>
      (cr_Builder sample_cm_reconciler)
    = (Err (ErrorString ''key ZOOKEEPER_CHROOT not found in configmap''), cr_Builder sample_cm_reconciler)"
  using AddHbaseSite_missing_key [of "\<lparr>zn_ConfigMap = Some \<lparr>Data = Some [''ZOOKEEPER_HOSTS'' \<mapsto> ''zk'']\<rparr>\<rparr>"
      "\<lparr>Data = Some [''ZOOKEEPER_HOSTS'' \<mapsto> ''zk'']\<rparr>" "''ZOOKEEPER_CHROOT''"]
  by simp

text \<open>
  The JVM options of hbase-env.sh. Whatever the order in which Go visits the option
  map, the script exports for the role the options with the Kerberos configuration file,
  the same file that the container is given as KRB5_CONFIG; without Kerberos the exported
  variable only repeats the common options.
\<close>

theorem jvm_options_line:
  assumes "\<forall>c. cb_krb5Config b = Some c \<longrightarrow> range_order ks (GetJVMOPTS K c)"
  shows "getJVMOPTS K ks b = ''export HBASE_'' @ cb_RoleName b @ ''_OPTS=\"$HBASE_OPTS '' @
     (case cb_krb5Config b of None \<Rightarrow> ''''
      | Some c \<Rightarrow> ''-Djava.security.krb5.conf='' @ EnvValue (hd (GetContainerEnvvars K c))) @ ''\"''"
proof (cases "cb_krb5Config b")
  case None
  then show ?thesis by (simp add: getJVMOPTS_def)
next
  case (Some c)
  then have "distinct ks" "set ks = {''java.security.krb5.conf''}"
    using assms by (simp_all add: range_order_def GetJVMOPTS_def)
  then have "ks = [''java.security.krb5.conf'']"
    by (cases ks; cases "tl ks") auto
  with Some show ?thesis
    by (simp add: getJVMOPTS_def GetJVMOPTS_def GetContainerEnvvars_def env_value_def)
qed

theorem jvm_options_line_witness:
  "getJVMOPTS sample_opgo [''java.security.krb5.conf''] (cr_Builder sample_cm_reconciler) =
     ''export HBASE_master_OPTS=\"$HBASE_OPTS -Djava.security.krb5.conf='' @ Krb5ConfigFile sample_opgo @ ''\"''"
proof -
  let ?b = "cr_Builder sample_cm_reconciler"
  have b: "cb_krb5Config ?b \<noteq> None" "cb_RoleName ?b = ''master''"
    by (simp_all add: sample_cm_reconciler_def NewConfigMapReconciler_def NewConfigMapBuilder_def
        sample_cluster_config_def apply_options_def zero_Options_def sample_opgo_def sample_info_def Let_def)
  have "\<forall>c. cb_krb5Config ?b = Some c \<longrightarrow>
      range_order [''java.security.krb5.conf''] (GetJVMOPTS sample_opgo c)"
    by (simp add: range_order_def GetJVMOPTS_def)
  from jvm_options_line [OF this] b show ?thesis
    by (auto simp: GetContainerEnvvars_def env_value_def)
qed

end
