(* ===== verification/Affinity.thy ===== *)
theory Affinity
  imports Api_Types
begin

text \<open>
  Pod affinities: internal/controller/common/affinity.go. A builder holds affinity wishes;
  \<open>buildPodAffinity\<close> sorts them into the four lists of terms of a Kubernetes affinity.
\<close>

section \<open>The component\<close>

record PodAffinity =
  affinityRequired :: bool
  anti :: bool
  weight :: int32
  labels :: "string go_map"

definition NewPodAffinity :: "string go_map \<Rightarrow> bool \<Rightarrow> bool \<Rightarrow> PodAffinity" where
  "NewPodAffinity ls required an =
     \<lparr>affinityRequired = required, anti = an, weight = 0, labels = ls\<rparr>"

definition Weight :: "int32 \<Rightarrow> PodAffinity \<Rightarrow> PodAffinity" where
  "Weight w p = p\<lparr>weight := w\<rparr>"

record NodeAffinity =
  node_weight :: int32

definition NodeAffinity_Weight :: "int32 \<Rightarrow> NodeAffinity \<Rightarrow> NodeAffinity" where
  "NodeAffinity_Weight w n = n\<lparr>node_weight := w\<rparr>"

record AffinityBuilder =
  PodAffinities :: "PodAffinity list"

definition NewAffinityBuilder :: "PodAffinity list \<Rightarrow> AffinityBuilder" where
  "NewAffinityBuilder pas = \<lparr>PodAffinities = pas\<rparr>"

definition AddPodAffinity :: "PodAffinity \<Rightarrow> AffinityBuilder \<Rightarrow> AffinityBuilder" where
  "AddPodAffinity pa b = b\<lparr>PodAffinities := PodAffinities b @ [pa]\<rparr>"

text \<open>The terms of the Kubernetes API; an unset topology key is the empty string.\<close>

record PodAffinityTerm =
  MatchLabels :: "string go_map"
  TopologyKey :: string

record WeightedPodAffinityTerm =
  TermWeight :: int32
  Term :: PodAffinityTerm

record AffinityTerms =
  Required :: "PodAffinityTerm list"
  Preferred :: "WeightedPodAffinityTerm list"

record KubeAffinity =
  ka_PodAffinity :: AffinityTerms
  ka_PodAntiAffinity :: AffinityTerms

text \<open>The four slices the loop appends to.\<close>

record AffinityLists =
  preferTerms :: "WeightedPodAffinityTerm list"
  requireTerms :: "PodAffinityTerm list"
  antiPreferTerms :: "WeightedPodAffinityTerm list"
  antiRequireTerms :: "PodAffinityTerm list"

definition default_weight :: "opgo \<Rightarrow> PodAffinity \<Rightarrow> PodAffinity" where
  "default_weight K pa =
     (if weight pa = 0 then pa\<lparr>weight := DefaultHardPodAffinitySymmetricWeight K\<rparr> else pa)"

text \<open>One turn of the loop.\<close>

definition place_affinity :: "opgo \<Rightarrow> AffinityLists \<Rightarrow> PodAffinity \<Rightarrow> AffinityLists" where
  "place_affinity K ls pa =
     (if affinityRequired pa then
        let term = \<lparr>MatchLabels = labels pa, TopologyKey = ''''\<rparr>
        in if anti pa then ls\<lparr>antiRequireTerms := antiRequireTerms ls @ [term]\<rparr>
           else ls\<lparr>requireTerms := requireTerms ls @ [term]\<rparr>
      else
        let pa' = default_weight K pa;
            weightTerm = \<lparr>TermWeight = weight pa',
              Term = \<lparr>MatchLabels = labels pa', TopologyKey = LabelHostname K\<rparr>\<rparr>
        in if anti pa' then ls\<lparr>antiPreferTerms := antiPreferTerms ls @ [weightTerm]\<rparr>
           else ls\<lparr>preferTerms := preferTerms ls @ [weightTerm]\<rparr>)"

definition buildPodAffinity :: "opgo \<Rightarrow> AffinityBuilder \<Rightarrow> AffinityTerms \<times> AffinityTerms" where
  "buildPodAffinity K a =
     (let ls = foldl (place_affinity K)
          \<lparr>preferTerms = [], requireTerms = [], antiPreferTerms = [], antiRequireTerms = []\<rparr>
          (PodAffinities a)
      in (\<lparr>Required = requireTerms ls, Preferred = preferTerms ls\<rparr>,
          \<lparr>Required = antiRequireTerms ls, Preferred = antiPreferTerms ls\<rparr>))"

definition Affinity_Build :: "opgo \<Rightarrow> AffinityBuilder \<Rightarrow> KubeAffinity" where
  "Affinity_Build K a =
     (case buildPodAffinity K a of (podAffinity, podAntiAffinity) \<Rightarrow>
        \<lparr>ka_PodAffinity = podAffinity, ka_PodAntiAffinity = podAntiAffinity\<rparr>)"

section \<open>What the loop computes\<close>

text \<open>The wishes of one kind, in order, and the terms they become.\<close>

definition wishes :: "bool \<Rightarrow> bool \<Rightarrow> PodAffinity list \<Rightarrow> PodAffinity list" where
  "wishes required an pas = filter (\<lambda>pa. affinityRequired pa = required \<and> anti pa = an) pas"

definition required_term :: "PodAffinity \<Rightarrow> PodAffinityTerm" where
  "required_term pa = \<lparr>MatchLabels = labels pa, TopologyKey = ''''\<rparr>"

definition preferred_term :: "opgo \<Rightarrow> PodAffinity \<Rightarrow> WeightedPodAffinityTerm" where
  "preferred_term K pa =
     \<lparr>TermWeight = (if weight pa = 0 then DefaultHardPodAffinitySymmetricWeight K else weight pa),
      Term = \<lparr>MatchLabels = labels pa, TopologyKey = LabelHostname K\<rparr>\<rparr>"

definition affinity_spec :: "opgo \<Rightarrow> bool \<Rightarrow> PodAffinity list \<Rightarrow> AffinityTerms" where
  "affinity_spec K an pas =
     \<lparr>Required = map required_term (wishes True an pas),
      Preferred = map (preferred_term K) (wishes False an pas)\<rparr>"

lemma foldl_place_affinity:
  "foldl (place_affinity K) ls pas =
     \<lparr>preferTerms = preferTerms ls @ map (preferred_term K) (wishes False False pas),
      requireTerms = requireTerms ls @ map required_term (wishes True False pas),
      antiPreferTerms = antiPreferTerms ls @ map (preferred_term K) (wishes False True pas),
      antiRequireTerms = antiRequireTerms ls @ map required_term (wishes True True pas)\<rparr>"
proof (induction pas arbitrary: ls)
  case Nil
  then show ?case by (simp add: wishes_def)
next
  case (Cons pa pas)
  have step: "place_affinity K ls pa =
     \<lparr>preferTerms = preferTerms ls @ map (preferred_term K) (wishes False False [pa]),
      requireTerms = requireTerms ls @ map required_term (wishes True False [pa]),
      antiPreferTerms = antiPreferTerms ls @ map (preferred_term K) (wishes False True [pa]),
      antiRequireTerms = antiRequireTerms ls @ map required_term (wishes True True [pa])\<rparr>"
    by (simp add: place_affinity_def wishes_def required_term_def preferred_term_def
        default_weight_def Let_def)
  have wishes_Cons: "wishes r an (pa # pas) = wishes r an [pa] @ wishes r an pas" for r an
    by (simp add: wishes_def)
  show ?case
    unfolding foldl_Cons Cons.IH step by (simp add: wishes_Cons)
qed

lemma Affinity_Build_eq:
  "Affinity_Build K a =
     \<lparr>ka_PodAffinity = affinity_spec K False (PodAffinities a),
      ka_PodAntiAffinity = affinity_spec K True (PodAffinities a)\<rparr>"
  by (simp add: Affinity_Build_def buildPodAffinity_def foldl_place_affinity affinity_spec_def)

lemma wishes_count:
  "length (wishes True True pas) + length (wishes True False pas)
   + length (wishes False True pas) + length (wishes False False pas) = length pas"
  by (induction pas) (auto simp: wishes_def)

section \<open>Properties\<close>

text \<open>
  C37. The affinity loop is a partition. The built affinity has, for each kind of wish
  (required or preferred, attracting or repelling), exactly the wishes of that kind in the
  order they were added, with their labels; the number of terms is the number of wishes;
  and a term of weight zero comes only from an unweighted preference when the default
  weight is itself zero.
\<close>

theorem Affinity_Build_partition:
  fixes K a
  defines "k \<equiv> Affinity_Build K a" and "pas \<equiv> PodAffinities a"
  shows "ka_PodAffinity k = affinity_spec K False pas
    \<and> ka_PodAntiAffinity k = affinity_spec K True pas
    \<and> length (Required (ka_PodAffinity k)) + length (Preferred (ka_PodAffinity k))
      + length (Required (ka_PodAntiAffinity k)) + length (Preferred (ka_PodAntiAffinity k))
      = length pas
    \<and> (0 \<in> TermWeight ` (set (Preferred (ka_PodAffinity k)) \<union> set (Preferred (ka_PodAntiAffinity k)))
        \<longleftrightarrow> DefaultHardPodAffinitySymmetricWeight K = 0
           \<and> (\<exists>pa. pa \<in> set pas \<and> \<not> affinityRequired pa \<and> weight pa = 0))"
proof -
  have "0 \<in> TermWeight ` preferred_term K ` set (wishes False an pas) \<longleftrightarrow>
      DefaultHardPodAffinitySymmetricWeight K = 0
      \<and> (\<exists>pa. pa \<in> set pas \<and> \<not> affinityRequired pa \<and> anti pa = an \<and> weight pa = 0)" for an
    by (auto simp: preferred_term_def wishes_def image_image image_iff split: if_splits)
  then have "0 \<in> TermWeight ` (set (Preferred (ka_PodAffinity k)) \<union> set (Preferred (ka_PodAntiAffinity k)))
        \<longleftrightarrow> DefaultHardPodAffinitySymmetricWeight K = 0
           \<and> (\<exists>pa. pa \<in> set pas \<and> \<not> affinityRequired pa \<and> weight pa = 0)"
    by (auto simp: k_def pas_def Affinity_Build_eq affinity_spec_def image_Un)
  then show ?thesis
    using wishes_count [of pas]
    by (simp add: k_def pas_def Affinity_Build_eq affinity_spec_def)
qed

text \<open>
  Adding a wish later is the same as giving it at the start, and it only ever extends
  the built lists: each list of the old affinity is a prefix of the new one.
\<close>

theorem AddPodAffinity_extends:
  "AddPodAffinity pa (NewAffinityBuilder pas) = NewAffinityBuilder (pas @ [pa])
   \<and> (let old = Affinity_Build K b; new = Affinity_Build K (AddPodAffinity pa b)
      in prefix (Required (ka_PodAffinity old)) (Required (ka_PodAffinity new))
       \<and> prefix (Preferred (ka_PodAffinity old)) (Preferred (ka_PodAffinity new))
       \<and> prefix (Required (ka_PodAntiAffinity old)) (Required (ka_PodAntiAffinity new))
       \<and> prefix (Preferred (ka_PodAntiAffinity old)) (Preferred (ka_PodAntiAffinity new)))"
  by (simp add: AddPodAffinity_def NewAffinityBuilder_def Affinity_Build_eq affinity_spec_def
      wishes_def Let_def)

end
