(* ===== verification/Go_Encoding.thy ===== *)
theory Go_Encoding
  imports Go_Strings
begin

text \<open>
  The encoders of Go's standard library the operator calls: \<open>hex.EncodeToString\<close>,
  \<open>base64.StdEncoding.EncodeToString\<close> and \<open>URL.String\<close> of net/url, with reference decoders
  that the encoders are checked against.
\<close>

section \<open>Codecs\<close>

text \<open>The interface of an encoder: some decoder takes back what it wrote.\<close>

locale codec =
  fixes enc :: "'a \<Rightarrow> 'b" and dec :: "'b \<Rightarrow> 'a option"
  assumes dec_enc: "dec (enc x) = Some x"
begin

lemma enc_inject: "enc x = enc y \<longleftrightarrow> x = y"
  by (metis dec_enc option.inject)

lemma enc_decoded_by: "y = enc x \<Longrightarrow> dec y = Some x"
  by (simp add: dec_enc)

end

text \<open>Two codecs one after the other.\<close>

locale codec_pair = first: codec enc1 dec1 + second: codec enc2 dec2
  for enc1 :: "'a \<Rightarrow> 'b" and dec1 :: "'b \<Rightarrow> 'a option"
    and enc2 :: "'b \<Rightarrow> 'c" and dec2 :: "'c \<Rightarrow> 'b option"
begin

sublocale both: codec "\<lambda>x. enc2 (enc1 x)" "\<lambda>z. Option.bind (dec2 z) dec1"
  by unfold_locales (simp add: first.dec_enc second.dec_enc)

end

definition byte :: "char \<Rightarrow> nat" where
  "byte c = of_char c"

lemma byte_less [simp]: "byte c < 256"
  unfolding byte_def by (rule nat_of_char_less_256)

lemma char_of_byte [simp]: "char_of (byte c) = c"
  by (simp add: byte_def)

section \<open>Hexadecimal\<close>

definition hex_digit :: "nat \<Rightarrow> char" where
  "hex_digit d = ''0123456789abcdef'' ! d"

definition HexEncode :: "string \<Rightarrow> string" where
  "HexEncode s = concat (map (\<lambda>c. [hex_digit (byte c div 16), hex_digit (byte c mod 16)]) s)"

text \<open>The value of a character of an alphabet: its position.\<close>

fun position :: "string \<Rightarrow> char \<Rightarrow> nat option" where
  "position [] c = None"
| "position (x # xs) c = (if x = c then Some 0 else map_option Suc (position xs c))"

lemma position_nth: "distinct xs \<Longrightarrow> i < length xs \<Longrightarrow> position xs (xs ! i) = Some i"
proof (induction xs arbitrary: i)
  case (Cons x xs)
  then show ?case by (cases i) (auto dest: nth_mem)
qed simp

fun HexDecode :: "string \<Rightarrow> string option" where
  "HexDecode [] = Some []"
| "HexDecode [a] = None"
| "HexDecode (a # b # s) =
     (case (position ''0123456789abcdef'' a, position ''0123456789abcdef'' b, HexDecode s) of
        (Some h, Some l, Some t) \<Rightarrow> Some (char_of (16 * h + l) # t)
      | _ \<Rightarrow> None)"

lemma position_hex_digit [simp]:
  "d < 16 \<Longrightarrow> position ''0123456789abcdef'' (hex_digit d) = Some d"
  unfolding hex_digit_def by (rule position_nth) simp_all

interpretation hex: codec HexEncode HexDecode
proof
  fix s
  show "HexDecode (HexEncode s) = Some s"
  proof (induction s)
    case (Cons c s)
    have "byte c div 16 < 16" using byte_less [of c] by (simp add: less_mult_imp_div_less)
    with Cons show ?case
      by (simp add: HexEncode_def del: position.simps)
  qed (simp add: HexEncode_def)
qed

lemma length_HexEncode [simp]: "length (HexEncode s) = 2 * length s"
  by (induction s) (simp_all add: HexEncode_def)

section \<open>Base64\<close>

definition b64_alphabet :: string where
  "b64_alphabet = ''ABCDEFGHIJKLMNOPQRSTUVWXYZabcdefghijklmnopqrstuvwxyz0123456789+/''"

definition b64_char :: "nat \<Rightarrow> char" where
  "b64_char d = b64_alphabet ! d"

text \<open>The four six-bit groups of three bytes, and the three bytes of four groups.\<close>

definition sext1 :: "nat \<Rightarrow> nat" where "sext1 a = a div 4"
definition sext2 :: "nat \<Rightarrow> nat \<Rightarrow> nat" where "sext2 a b = a mod 4 * 16 + b div 16"
definition sext3 :: "nat \<Rightarrow> nat \<Rightarrow> nat" where "sext3 b c = b mod 16 * 4 + c div 64"
definition sext4 :: "nat \<Rightarrow> nat" where "sext4 c = c mod 64"

definition oct1 :: "nat \<Rightarrow> nat \<Rightarrow> nat" where "oct1 v w = 4 * v + w div 16"
definition oct2 :: "nat \<Rightarrow> nat \<Rightarrow> nat" where "oct2 w x = w mod 16 * 16 + x div 4"
definition oct3 :: "nat \<Rightarrow> nat \<Rightarrow> nat" where "oct3 x y = x mod 4 * 64 + y"

fun Base64Encode :: "string \<Rightarrow> string" where
  "Base64Encode [] = []"
| "Base64Encode [a] =
     [b64_char (sext1 (byte a)), b64_char (sext2 (byte a) 0), CHR ''='', CHR ''='']"
| "Base64Encode [a, b] =
     [b64_char (sext1 (byte a)), b64_char (sext2 (byte a) (byte b)),
      b64_char (sext3 (byte b) 0), CHR ''='']"
| "Base64Encode (a # b # c # s) =
     b64_char (sext1 (byte a)) # b64_char (sext2 (byte a) (byte b))
     # b64_char (sext3 (byte b) (byte c)) # b64_char (sext4 (byte c)) # Base64Encode s"

definition b64_value :: "char \<Rightarrow> nat option" where
  "b64_value = position b64_alphabet"

fun Base64Decode :: "string \<Rightarrow> string option" where
  "Base64Decode [] = Some []"
| "Base64Decode (p # q # r # t # s) =
     (case (b64_value p, b64_value q) of
        (Some v, Some w) \<Rightarrow>
          (if r = CHR ''='' then
             (if t = CHR ''='' \<and> s = [] then Some [char_of (oct1 v w)] else None)
           else (case b64_value r of
               None \<Rightarrow> None
             | Some x \<Rightarrow>
                (if t = CHR ''='' then
                   (if s = [] then Some [char_of (oct1 v w), char_of (oct2 w x)] else None)
                 else (case (b64_value t, Base64Decode s) of
                     (Some y, Some u) \<Rightarrow>
                       Some (char_of (oct1 v w) # char_of (oct2 w x) # char_of (oct3 x y) # u)
                   | _ \<Rightarrow> None))))
      | _ \<Rightarrow> None)"
| "Base64Decode _ = None"

lemma distinct_b64: "distinct b64_alphabet" and length_b64 [simp]: "length b64_alphabet = 64"
  by (simp_all add: b64_alphabet_def)

lemma b64_value_char [simp]: "d < 64 \<Longrightarrow> b64_value (b64_char d) = Some d"
  unfolding b64_value_def b64_char_def by (rule position_nth) (simp_all add: distinct_b64)

lemma b64_char_mem: "d < 64 \<Longrightarrow> b64_char d \<in> set b64_alphabet"
  unfolding b64_char_def by (rule nth_mem) simp

lemma pad_not_b64: "CHR ''='' \<notin> set b64_alphabet"
  by (simp add: b64_alphabet_def)

lemma b64_char_not_pad [simp]: "d < 64 \<Longrightarrow> b64_char d \<noteq> CHR ''=''"
  using b64_char_mem pad_not_b64 by metis

lemma div16_less: "(b::nat) < 256 \<Longrightarrow> b div 16 < 16"
  by (rule less_mult_imp_div_less) simp

lemma div64_less: "(c::nat) < 256 \<Longrightarrow> c div 64 < 4"
  by (rule less_mult_imp_div_less) simp

lemma sext1_less [simp]: "a < 256 \<Longrightarrow> sext1 a < 64"
  unfolding sext1_def by (rule less_mult_imp_div_less) simp

lemma sext2_less [simp]: "b < 256 \<Longrightarrow> sext2 a b < 64"
  using div16_less [of b] mod_less_divisor [of 4 a] unfolding sext2_def by linarith

lemma sext3_less [simp]: "c < 256 \<Longrightarrow> sext3 b c < 64"
  using div64_less [of c] mod_less_divisor [of 16 b] unfolding sext3_def by linarith

lemma sext4_less [simp]: "sext4 c < 64"
  unfolding sext4_def by simp

lemma oct1_sext [simp]: "b < 256 \<Longrightarrow> oct1 (sext1 a) (sext2 a b) = a"
  using div16_less [of b] by (simp add: oct1_def sext1_def sext2_def div_plus_div_distrib_dvd_left)

lemma oct2_sext [simp]:
  assumes "b < 256" and "c < 256"
  shows "oct2 (sext2 a b) (sext3 b c) = b"
proof -
  have "sext2 a b mod 16 = b div 16"
    using div16_less [OF assms(1)] by (simp add: sext2_def)
  moreover have "sext3 b c div 4 = b mod 16"
    using div64_less [OF assms(2)] by (simp add: sext3_def div_plus_div_distrib_dvd_left)
  ultimately show ?thesis by (simp add: oct2_def)
qed

lemma oct3_sext [simp]:
  assumes "c < 256"
  shows "oct3 (sext3 b c) (sext4 c) = c"
proof -
  have "sext3 b c mod 4 = c div 64"
    using div64_less [OF assms] by (simp add: sext3_def)
  then show ?thesis by (simp add: oct3_def sext4_def)
qed

interpretation b64: codec Base64Encode Base64Decode
proof
  fix s
  show "Base64Decode (Base64Encode s) = Some s"
    by (induction s rule: Base64Encode.induct) simp_all
qed

text \<open>Base64 of base64, as the cookie secret is written.\<close>

interpretation b64_twice: codec_pair Base64Encode Base64Decode Base64Encode Base64Decode
  by unfold_locales

lemma length_Base64Encode: "length (Base64Encode s) = 4 * ((length s + 2) div 3)"
proof (induction s rule: Base64Encode.induct)
  case (4 a b c s)
  have "(5 + length s) div 3 = Suc (Suc (Suc (length s)) div 3)" by presburger
  with 4 show ?case by simp
qed auto

section \<open>URLs\<close>

text \<open>
  Percent escaping. In a host a few more characters stay as they are than in a path.
\<close>

datatype url_mode = EncodePath | EncodeHost

definition unreserved :: "char \<Rightarrow> bool" where
  "unreserved c \<longleftrightarrow>
     (97 \<le> byte c \<and> byte c \<le> 122) \<or> (65 \<le> byte c \<and> byte c \<le> 90) \<or> (48 \<le> byte c \<and> byte c \<le> 57)
     \<or> c \<in> {CHR ''-'', CHR ''_'', CHR ''.'', CHR ''~''}"

fun shouldEscape :: "char \<Rightarrow> url_mode \<Rightarrow> bool" where
  "shouldEscape c EncodeHost =
     (\<not> unreserved c \<and> c \<notin> set ''!$&()*+,;=:[]<>'' \<and> c \<noteq> CHR 0x27 \<and> c \<noteq> CHR 0x22)"
| "shouldEscape c EncodePath =
     (\<not> unreserved c \<and> c \<notin> set ''$&+,/:;=@'')"

definition upper_hex :: "nat \<Rightarrow> char" where
  "upper_hex d = ''0123456789ABCDEF'' ! d"

fun url_escape :: "url_mode \<Rightarrow> string \<Rightarrow> string" where
  "url_escape mode [] = []"
| "url_escape mode (c # s) =
     (if shouldEscape c mode
      then CHR ''%'' # upper_hex (byte c div 16) # upper_hex (byte c mod 16) # url_escape mode s
      else c # url_escape mode s)"

fun url_unescape :: "string \<Rightarrow> string option" where
  "url_unescape [] = Some []"
| "url_unescape (c # s) =
     (if c = CHR ''%'' then
        (case s of
           a # b # t \<Rightarrow>
             (case (position ''0123456789ABCDEF'' a, position ''0123456789ABCDEF'' b, url_unescape t) of
                (Some h, Some l, Some u) \<Rightarrow> Some (char_of (16 * h + l) # u)
              | _ \<Rightarrow> None)
         | _ \<Rightarrow> None)
      else map_option (Cons c) (url_unescape s))"

lemma percent_escaped [simp]: "shouldEscape CHR ''%'' mode"
  by (cases mode) (simp_all add: unreserved_def byte_def)

lemma position_upper_hex [simp]:
  "d < 16 \<Longrightarrow> position ''0123456789ABCDEF'' (upper_hex d) = Some d"
  unfolding upper_hex_def by (rule position_nth) simp_all

lemma url_unescape_escape: "url_unescape (url_escape mode s) = Some s"
proof (induction s)
  case (Cons c s)
  have "byte c div 16 < 16" using byte_less [of c] by (simp add: less_mult_imp_div_less)
  with Cons show ?case
    by (cases "c = CHR ''%''") (simp_all del: position.simps shouldEscape.simps)
qed simp

interpretation url_path: codec "url_escape EncodePath" url_unescape
  by unfold_locales (rule url_unescape_escape)

interpretation url_host: codec "url_escape EncodeHost" url_unescape
  by unfold_locales (rule url_unescape_escape)

lemma url_escape_id: "\<forall>c \<in> set s. \<not> shouldEscape c mode \<Longrightarrow> url_escape mode s = s"
  by (induction s) auto

record URL =
  Scheme :: string
  Host :: string
  UPath :: string

definition EscapedPath :: "URL \<Rightarrow> string" where
  "EscapedPath u = (if UPath u = ''*'' then ''*'' else url_escape EncodePath (UPath u))"

text \<open>\<open>URL.String\<close> for a URL with a scheme and no user, query, fragment or opaque part.\<close>

definition URL_String :: "URL \<Rightarrow> string" where
  "URL_String u =
     (let path = EscapedPath u
      in Scheme u @ '':''
         @ (if Host u \<noteq> [] \<or> UPath u \<noteq> [] then ''//'' else [])
         @ (if Host u \<noteq> [] then url_escape EncodeHost (Host u) else [])
         @ (if path \<noteq> [] \<and> hd path \<noteq> CHR ''/'' \<and> Host u \<noteq> [] then ''/'' else [])
         @ path)"

end
