(* ===== verification/Go_Sha256.thy ===== *)
theory Go_Sha256
  imports Go_Encoding
begin

text \<open>
  SHA-256 (FIPS 180-4), the function \<open>sha256.Sum256\<close> of Go's standard library, on byte
  strings, with 32-bit words that wrap.
\<close>

unbundle bit_operations_syntax

type_synonym w32 = "32 word"

section \<open>The compression function\<close>

definition rotr :: "nat \<Rightarrow> w32 \<Rightarrow> w32" where
  "rotr n x = drop_bit n x OR push_bit (32 - n) x"

definition small_sigma0 :: "w32 \<Rightarrow> w32" where
  "small_sigma0 x = (rotr 7 x XOR rotr 18 x) XOR drop_bit 3 x"

definition small_sigma1 :: "w32 \<Rightarrow> w32" where
  "small_sigma1 x = (rotr 17 x XOR rotr 19 x) XOR drop_bit 10 x"

definition big_sigma0 :: "w32 \<Rightarrow> w32" where
  "big_sigma0 x = (rotr 2 x XOR rotr 13 x) XOR rotr 22 x"

definition big_sigma1 :: "w32 \<Rightarrow> w32" where
  "big_sigma1 x = (rotr 6 x XOR rotr 11 x) XOR rotr 25 x"

definition ch_fn :: "w32 \<Rightarrow> w32 \<Rightarrow> w32 \<Rightarrow> w32" where
  "ch_fn x y z = (x AND y) XOR ((NOT x) AND z)"

definition majority :: "w32 \<Rightarrow> w32 \<Rightarrow> w32 \<Rightarrow> w32" where
  "majority x y z = ((x AND y) XOR (x AND z)) XOR (y AND z)"

definition sha_constants :: "w32 list" where
  "sha_constants =
     [1116352408, 1899447441, 3049323471, 3921009573, 961987163, 1508970993,
      2453635748, 2870763221, 3624381080, 310598401, 607225278, 1426881987,
      1925078388, 2162078206, 2614888103, 3248222580, 3835390401, 4022224774,
      264347078, 604807628, 770255983, 1249150122, 1555081692, 1996064986,
      2554220882, 2821834349, 2952996808, 3210313671, 3336571891, 3584528711,
      113926993, 338241895, 666307205, 773529912, 1294757372, 1396182291,
      1695183700, 1986661051, 2177026350, 2456956037, 2730485921, 2820302411,
      3259730800, 3345764771, 3516065817, 3600352804, 4094571909, 275423344,
      430227734, 506948616, 659060556, 883997877, 958139571, 1322822218,
      1537002063, 1747873779, 1955562222, 2024104815, 2227730452, 2361852424,
      2428436474, 2756734187, 3204031479, 3329325298]"

text \<open>The message schedule, newest word first: 48 more words after the 16 of the block.\<close>

fun expand_schedule :: "nat \<Rightarrow> w32 list \<Rightarrow> w32 list" where
  "expand_schedule 0 ws = ws"
| "expand_schedule (Suc n) ws =
     expand_schedule n
       ((small_sigma1 (ws ! 1) + ws ! 6 + small_sigma0 (ws ! 14) + ws ! 15) # ws)"

datatype hash_state = HS w32 w32 w32 w32 w32 w32 w32 w32

fun sha_round :: "hash_state \<Rightarrow> w32 \<times> w32 \<Rightarrow> hash_state" where
  "sha_round (HS a b c d e f g h) (k, w) =
     (let t1 = h + big_sigma1 e + ch_fn e f g + k + w;
          t2 = big_sigma0 a + majority a b c
      in HS (t1 + t2) a b c (d + t1) e f g)"

fun add_state :: "hash_state \<Rightarrow> hash_state \<Rightarrow> hash_state" where
  "add_state (HS a b c d e f g h) (HS a' b' c' d' e' f' g' h') =
     HS (a + a') (b + b') (c + c') (d + d') (e + e') (f + f') (g + g') (h + h')"

definition compress :: "hash_state \<Rightarrow> w32 list \<Rightarrow> hash_state" where
  "compress st block =
     add_state st (foldl sha_round st (zip sha_constants (rev (expand_schedule 48 (rev block)))))"

section \<open>Padding and blocks\<close>

text \<open>The low \<open>n\<close> bytes of a number, most significant first.\<close>

fun be_bytes :: "nat \<Rightarrow> int \<Rightarrow> string" where
  "be_bytes 0 v = []"
| "be_bytes (Suc n) v = be_bytes n (v div 256) @ [char_of (v mod 256)]"

definition sha_pad :: "string \<Rightarrow> string" where
  "sha_pad s = s @ [char_of (128::int)]
     @ replicate ((119 - length s mod 64) mod 64) (char_of (0::int))
     @ be_bytes 8 (8 * int (length s))"

fun be_word :: "string \<Rightarrow> w32" where
  "be_word s = foldl (\<lambda>w c. 256 * w + of_char c) 0 s"

fun words_of :: "string \<Rightarrow> w32 list" where
  "words_of (a # b # c # d # s) = be_word [a, b, c, d] # words_of s"
| "words_of _ = []"

fun sha_blocks :: "nat \<Rightarrow> hash_state \<Rightarrow> w32 list \<Rightarrow> hash_state" where
  "sha_blocks 0 st ws = st"
| "sha_blocks (Suc n) st ws = sha_blocks n (compress st (take 16 ws)) (drop 16 ws)"

fun state_bytes :: "hash_state \<Rightarrow> string" where
  "state_bytes (HS a b c d e f g h) =
     concat (map (\<lambda>w. be_bytes 4 (uint w)) [a, b, c, d, e, f, g, h])"

definition sha_init :: hash_state where
  "sha_init = HS 1779033703 3144134277 1013904242 2773480762 1359893119 2600822924 528734635 1541459225"

text \<open>One block of 64 bytes at a time; the padding makes the length a multiple of 64.\<close>

definition Sum256 :: "string \<Rightarrow> string" where
  "Sum256 s =
     (let ws = words_of (sha_pad s)
      in state_bytes (sha_blocks (length ws div 16) sha_init ws))"

section \<open>The length of the digest\<close>

lemma length_be_bytes [simp]: "length (be_bytes n v) = n"
  by (induction n arbitrary: v) simp_all

lemma length_state_bytes [simp]: "length (state_bytes st) = 32"
  by (cases st) simp

lemma length_Sum256 [simp]: "length (Sum256 s) = 32"
  by (simp add: Sum256_def Let_def)

text \<open>The padded message fills whole blocks.\<close>

lemma pad_length:
  fixes n :: nat
  shows "(n + 1 + (119 - n mod 64) mod 64 + 8) mod 64 = 0"
proof -
  define q r where "q = n div 64" and "r = n mod 64"
  have n: "n = 64 * q + r" and r: "r < 64" by (simp_all add: q_def r_def)
  show ?thesis
  proof (cases "r \<le> 55")
    case True
    then have "(119 - r) mod 64 = 55 - r"
      using mod_add_self2 [of "55 - r" 64] by (simp add: Nat.diff_add_assoc2)
    with True show ?thesis by (simp add: n r)
  next
    case False
    with r have "(119 - r) mod 64 = 119 - r" by simp
    with False r show ?thesis by (simp add: n)
  qed
qed

lemma length_sha_pad: "length (sha_pad s) mod 64 = 0"
  using pad_length [of "length s"] by (simp add: sha_pad_def ac_simps)

end
