(* ===== verification/Oidc_Proxy.thy ===== *)
theory Oidc_Proxy
  imports Api_Types Go_Sha256
begin

text \<open>
  The OIDC side-car: internal/controller/authz/oidc.go. An oauth2-proxy container in front
  of a role's web UI, configured by environment variables.
\<close>

section \<open>The container builder\<close>

text \<open>
  The library's container builder is driven by a chain of calls; the container it builds
  is a function of its name, its image and the calls made, so the chain itself stands for
  the container.
\<close>

datatype container_call =
    SetCommand "string list"
  | SetArgs "string list"
  | AddVolumeMounts "VolumeMount list"
  | AddEnvVars "EnvVar list"
  | AddPorts "ContainerPort list"
  | SetStartupProbe Probe
  | SetLivenessProbe Probe
  | SetReadinessProbe Probe

record Container =
  ct_Name :: string
  ct_Image :: Image
  ct_Calls :: "container_call list"

definition NewContainer :: "string \<Rightarrow> Image \<Rightarrow> Container" where
  "NewContainer name img = \<lparr>ct_Name = name, ct_Image = img, ct_Calls = []\<rparr>"

definition call_container :: "container_call \<Rightarrow> Container \<Rightarrow> Container" where
  "call_container c ct = ct\<lparr>ct_Calls := ct_Calls ct @ [c]\<rparr>"

text \<open>What the calls of one kind have added, in order.\<close>

fun added_envs :: "container_call list \<Rightarrow> EnvVar list" where
  "added_envs [] = []"
| "added_envs (AddEnvVars es # cs) = es @ added_envs cs"
| "added_envs (_ # cs) = added_envs cs"

fun added_mounts :: "container_call list \<Rightarrow> VolumeMount list" where
  "added_mounts [] = []"
| "added_mounts (AddVolumeMounts ms # cs) = ms @ added_mounts cs"
| "added_mounts (_ # cs) = added_mounts cs"

fun added_ports :: "container_call list \<Rightarrow> ContainerPort list" where
  "added_ports [] = []"
| "added_ports (AddPorts ps # cs) = ps @ added_ports cs"
| "added_ports (_ # cs) = added_ports cs"

lemma added_envs_append: "added_envs (cs @ ds) = added_envs cs @ added_envs ds"
  by (induction cs rule: added_envs.induct) auto

lemma added_mounts_append: "added_mounts (cs @ ds) = added_mounts cs @ added_mounts ds"
  by (induction cs rule: added_mounts.induct) auto

lemma added_ports_append: "added_ports (cs @ ds) = added_ports cs @ added_ports ds"
  by (induction cs rule: added_ports.induct) auto

section \<open>The side-car\<close>

definition OidcContainerPort :: ContainerPort where
  "OidcContainerPort = \<lparr>PortName = ''oidc'', PortNumber = 4180, PortProtocol = ProtocolTCP\<rparr>"

record OidcBuilder =
  ob_Image :: Image
  ob_ClusterUid :: string
  ob_UpstreamPort :: int32
  ob_Oidc :: OidcSpec
  ob_OidcProvider :: OIDCProvider

definition NewOidc :: "string \<Rightarrow> Image \<Rightarrow> int32 \<Rightarrow> OidcSpec \<Rightarrow> OIDCProvider \<Rightarrow> OidcBuilder" where
  "NewOidc clusterUid img upstreamPort oidc provider =
     \<lparr>ob_Image = img, ob_ClusterUid = clusterUid, ob_UpstreamPort = upstreamPort,
      ob_Oidc = oidc, ob_OidcProvider = provider\<rparr>"

definition getCommands :: "string list" where
  "getCommands = [''sh'', ''-c'', ''/kubedoop/oauth2-proxy/oauth2-proxy --upstream=${UPSTREAM}'']"

definition oidc_scopes :: "OidcSpec \<Rightarrow> string list" where
  "oidc_scopes spec =
     (let scopes = [''openid'', ''email'', ''profile'']
      in case ExtraScopes spec of None \<Rightarrow> scopes | Some extra \<Rightarrow> scopes @ extra)"

definition issuer_url :: "OIDCProvider \<Rightarrow> URL" where
  "issuer_url p =
     (let issuer = \<lparr>Scheme = ''http'', Host = Hostname p, UPath = RootPath p\<rparr>
      in if OidcPort p \<noteq> 0 \<and> OidcPort p \<noteq> 80
         then issuer\<lparr>Host := Host issuer @ '':'' @ Itoa (OidcPort p)\<rparr> else issuer)"

definition provider_hint :: "OIDCProvider \<Rightarrow> string" where
  "provider_hint p =
     (let providerHint = ProviderHint p
      in if providerHint = ''keycloak'' then ''keycloak-oidc'' else providerHint)"

definition cookie_secret :: "string \<Rightarrow> string" where
  "cookie_secret uid =
     (let hashStr = HexEncode (Sum256 uid);
          tokenBytes = take 16 hashStr
      in Base64Encode (Base64Encode tokenBytes))"

definition getEnvVars :: "OidcBuilder \<Rightarrow> EnvVar list" where
  "getEnvVars od =
     (let secret = ClientCredentialsSecret (ob_Oidc od)
      in [env_value ''OAUTH2_PROXY_COOKIE_SECRET'' (cookie_secret (ob_ClusterUid od)),
          env_from ''OAUTH2_PROXY_CLIENT_ID'' (SecretKeyRef secret ''CLIENT_ID''),
          env_from ''OAUTH2_PROXY_CLIENT_SECRET'' (SecretKeyRef secret ''CLIENT_SECRET''),
          env_from ''POD_IP'' (FieldRef ''status.podIP''),
          env_value ''OAUTH2_PROXY_OIDC_ISSUER_URL'' (URL_String (issuer_url (ob_OidcProvider od))),
          env_value ''OAUTH2_PROXY_SCOPE'' (Join (oidc_scopes (ob_Oidc od)) '' ''),
          env_value ''OAUTH2_PROXY_PROVIDER'' (provider_hint (ob_OidcProvider od)),
          env_value ''UPSTREAM'' (''http://$(POD_IP):'' @ Itoa (sint (ob_UpstreamPort od))),
          env_value ''OAUTH2_PROXY_HTTP_ADDRESS''
            (''0.0.0.0:'' @ Itoa (sint (PortNumber OidcContainerPort))),
          env_value ''OAUTH2_PROXY_REDIRECT_URL'' ''http://localhost:4180/oauth2/callback'',
          env_value ''OAUTH2_PROXY_CODE_CHALLENGE_METHOD'' ''S256'',
          env_value ''OAUTH2_PROXY_EMAIL_DOMAINS'' ''*''])"

definition Oidc_GetContainer :: "OidcBuilder \<Rightarrow> Container" where
  "Oidc_GetContainer od =
     call_container (AddPorts [OidcContainerPort])
      (call_container (SetCommand getCommands)
        (call_container (AddEnvVars (getEnvVars od))
          (NewContainer ''oidc'' (ob_Image od))))"

section \<open>Facts\<close>

definition env_lookup :: "EnvVar list \<Rightarrow> string \<Rightarrow> EnvVar option" where
  "env_lookup es n = find (\<lambda>e. EnvName e = n) es"

lemmas env_defs = env_value_def env_from_def

lemma envs_Oidc_GetContainer: "added_envs (ct_Calls (Oidc_GetContainer od)) = getEnvVars od"
  by (simp add: Oidc_GetContainer_def call_container_def NewContainer_def added_envs_append)

lemma cookie_token_length: "length (take 16 (HexEncode (Sum256 uid))) = 16"
  by simp

section \<open>Properties\<close>

text \<open>
  C30. The cookie secret has a length oauth2-proxy accepts. For every cluster UID the secret
  is 32 characters; undoing the two base64 layers gives the first sixteen hexadecimal
  digits of the SHA-256 of the UID, so two clusters share a secret exactly when those
  digits agree.
\<close>

theorem cookie_secret_shape:
  "length (cookie_secret uid) = 32
   \<and> (\<exists>inner. Base64Decode (cookie_secret uid) = Some inner \<and> length inner = 24
        \<and> Base64Decode inner = Some (take 16 (HexEncode (Sum256 uid))))
   \<and> (cookie_secret uid = cookie_secret uid' \<longleftrightarrow>
        take 16 (HexEncode (Sum256 uid)) = take 16 (HexEncode (Sum256 uid')))"
  using b64_twice.both.enc_inject [of "take 16 (HexEncode (Sum256 uid))" "take 16 (HexEncode (Sum256 uid'))"]
  by (simp add: cookie_secret_def Let_def length_Base64Encode b64.dec_enc)

text \<open>
  C29. The scopes sent to the provider start with the three default ones and the extra
  scopes of the specification follow, and splitting the variable at spaces gives them back,
  provided no extra scope holds a space.
\<close>

theorem oidc_scope_roundtrip:
  assumes "\<forall>s \<in> set (case ExtraScopes (ob_Oidc od) of None \<Rightarrow> [] | Some extra \<Rightarrow> extra). CHR '' '' \<notin> set s"
  shows "\<exists>v. env_lookup (getEnvVars od) ''OAUTH2_PROXY_SCOPE'' = Some (env_value ''OAUTH2_PROXY_SCOPE'' v)
    \<and> Split CHR '' '' v = [''openid'', ''email'', ''profile''] @
         (case ExtraScopes (ob_Oidc od) of None \<Rightarrow> [] | Some extra \<Rightarrow> extra)"
proof -
  have scopes: "oidc_scopes (ob_Oidc od) = [''openid'', ''email'', ''profile''] @
      (case ExtraScopes (ob_Oidc od) of None \<Rightarrow> [] | Some extra \<Rightarrow> extra)"
    by (simp add: oidc_scopes_def split: option.split)
  have "Split CHR '' '' (Join (oidc_scopes (ob_Oidc od)) '' '') = oidc_scopes (ob_Oidc od)"
    using assms by (intro Split_Join) (auto simp: scopes)
  moreover have "env_lookup (getEnvVars od) ''OAUTH2_PROXY_SCOPE'' =
      Some (env_value ''OAUTH2_PROXY_SCOPE'' (Join (oidc_scopes (ob_Oidc od)) '' ''))"
    by (simp add: env_lookup_def getEnvVars_def env_defs Let_def)
  ultimately show ?thesis unfolding scopes by blast
qed

definition sample_image :: Image where
  "sample_image = \<lparr>KubedoopVersion = ''0.0.0-dev'', image_rest = undefined\<rparr>"

definition sample_provider :: OIDCProvider where
  "sample_provider = \<lparr>Hostname = ''keycloak.default.svc.cluster.local'', OidcPort = 8080,
     RootPath = ''/realms/kubedoop'', ProviderHint = ''keycloak''\<rparr>"

definition sample_oidc :: OidcBuilder where
  "sample_oidc = NewOidc ''uid-1'' sample_image 16010
     \<lparr>ClientCredentialsSecret = ''oidc-credentials'', ExtraScopes = Some [''groups'']\<rparr> sample_provider"

theorem oidc_scope_roundtrip_witness:
  "\<exists>v. env_lookup (getEnvVars sample_oidc) ''OAUTH2_PROXY_SCOPE'' = Some (env_value ''OAUTH2_PROXY_SCOPE'' v)
    \<and> Split CHR '' '' v = [''openid'', ''email'', ''profile'', ''groups'']"
  using oidc_scope_roundtrip [of sample_oidc] by (simp add: sample_oidc_def NewOidc_def)

lemma digit_unreserved: "c \<in> set ''0123456789'' \<Longrightarrow> unreserved c"
  by (simp, elim disjE) (simp_all add: unreserved_def byte_def)

lemma minus_unreserved: "unreserved CHR ''-''"
  by (simp add: unreserved_def)

lemma Itoa_unreserved: "c \<in> set (Itoa i) \<Longrightarrow> unreserved c"
  using Itoa_chars [of i] digit_unreserved [of c] minus_unreserved by blast

lemma host_keeps: "unreserved c \<or> c = CHR '':'' \<Longrightarrow> \<not> shouldEscape c EncodeHost"
  by auto

lemma path_keeps_slash: "\<not> shouldEscape CHR ''/'' EncodePath"
  by simp

lemma hd_url_escape_slash:
  "s \<noteq> [] \<Longrightarrow> hd (url_escape EncodePath s) = CHR ''/'' \<longleftrightarrow> hd s = CHR ''/''"
  using path_keeps_slash by (cases s) (auto simp del: shouldEscape.simps)

lemma EscapedPath_unescape: "url_unescape (EscapedPath u) = Some (UPath u)"
  by (simp add: EscapedPath_def url_unescape_escape)

text \<open>
  C28. The issuer URL. For a provider whose host is a non-empty name that needs no escaping,
  the issuer variable is http, the host, the port (left out exactly when it is 0 or 80) and
  a path whose unescaped form is the provider's root path, with a slash put in front of a
  root path that has none.
\<close>

theorem issuer_url_correct:
  assumes "Hostname p \<noteq> []" and "\<forall>c \<in> set (Hostname p). unreserved c"
  shows "\<exists>path. URL_String (issuer_url p) = ''http://'' @ Hostname p
        @ (if OidcPort p \<in> {0, 80} then [] else '':'' @ Itoa (OidcPort p)) @ path
      \<and> url_unescape path = Some (if RootPath p \<noteq> [] \<and> hd (RootPath p) \<noteq> CHR ''/''
          then ''/'' @ RootPath p else RootPath p)"
proof -
  let ?port = "if OidcPort p \<in> {0, 80} then [] else '':'' @ Itoa (OidcPort p)"
  let ?u = "issuer_url p"
  let ?ep = "EscapedPath ?u"
  have host: "Host ?u = Hostname p @ ?port" and path: "UPath ?u = RootPath p"
    and scheme: "Scheme ?u = ''http''"
    by (simp_all add: issuer_url_def Let_def)
  have ne: "Host ?u \<noteq> []" using assms(1) host by simp
  have "c \<in> set (Host ?u) \<Longrightarrow> unreserved c \<or> c = CHR '':''" for c
    using assms(2) Itoa_unreserved by (auto simp: host split: if_splits)
  then have esc: "url_escape EncodeHost (Host ?u) = Host ?u"
    using host_keeps by (intro url_escape_id) blast
  have ep: "?ep \<noteq> [] \<and> hd ?ep \<noteq> CHR ''/'' \<longleftrightarrow> RootPath p \<noteq> [] \<and> hd (RootPath p) \<noteq> CHR ''/''"
    using hd_url_escape_slash [of "RootPath p"]
    by (cases "RootPath p") (auto simp: EscapedPath_def path)
  let ?rest = "(if RootPath p \<noteq> [] \<and> hd (RootPath p) \<noteq> CHR ''/'' then ''/'' else []) @ ?ep"
  have "URL_String ?u = ''http://'' @ Hostname p @ ?port @ ?rest"
    using ne ep by (simp add: URL_String_def Let_def esc scheme) (simp add: host)
  moreover have "url_unescape ?rest = Some (if RootPath p \<noteq> [] \<and> hd (RootPath p) \<noteq> CHR ''/''
      then ''/'' @ RootPath p else RootPath p)"
    using EscapedPath_unescape [of ?u] by (simp add: path)
  ultimately show ?thesis by blast
qed

theorem issuer_url_correct_witness:
  "\<exists>path. URL_String (issuer_url sample_provider) =
       ''http://keycloak.default.svc.cluster.local:8080'' @ path
     \<and> url_unescape path = Some ''/realms/kubedoop''"
proof -
  have "\<forall>c \<in> set (Hostname sample_provider). unreserved c"
    by (simp add: sample_provider_def unreserved_def byte_def)
  moreover have "Itoa 8080 = ''8080''"
    by (simp add: Itoa_def nat_digits.simps digit_char_def)
  ultimately show ?thesis
    using issuer_url_correct [of sample_provider] by (simp add: sample_provider_def)
qed

text \<open>
  The environment of the side-car: twelve variables with distinct names, client id and
  secret taken from the same secret and never written as a value, and only the hint
  keycloak rewritten to the name oauth2-proxy knows.
\<close>

theorem oidc_environment:
  fixes od
  defines "es \<equiv> added_envs (ct_Calls (Oidc_GetContainer od))"
    and "secret \<equiv> ClientCredentialsSecret (ob_Oidc od)"
    and "hint \<equiv> ProviderHint (ob_OidcProvider od)"
  shows "distinct (map EnvName es) \<and> length es = 12
    \<and> env_lookup es ''OAUTH2_PROXY_CLIENT_ID'' =
        Some (env_from ''OAUTH2_PROXY_CLIENT_ID'' (SecretKeyRef secret ''CLIENT_ID''))
    \<and> env_lookup es ''OAUTH2_PROXY_CLIENT_SECRET'' =
        Some (env_from ''OAUTH2_PROXY_CLIENT_SECRET'' (SecretKeyRef secret ''CLIENT_SECRET''))
    \<and> env_lookup es ''OAUTH2_PROXY_PROVIDER'' =
        Some (env_value ''OAUTH2_PROXY_PROVIDER'' (if hint = ''keycloak'' then ''keycloak-oidc'' else hint))
    \<and> env_lookup es ''UPSTREAM'' =
        Some (env_value ''UPSTREAM'' (''http://$(POD_IP):'' @ Itoa (sint (ob_UpstreamPort od))))"
  unfolding es_def envs_Oidc_GetContainer secret_def hint_def
  by (simp add: getEnvVars_def env_lookup_def env_defs provider_hint_def Let_def)

end
