(* ===== verification/Services.thy ===== *)
theory Services
  imports Api_Types Go_Strings
begin

text \<open>
  Ports and the metrics service: internal/constant/constant.go, internal/util/util.go, the
  ports.go of the three roles and internal/controller/common/service.go.
\<close>

section \<open>Constants and port tables\<close>

definition MASTER_ROLE :: string where "MASTER_ROLE = ''master''"
definition REGIONSERVER_ROLE :: string where "REGIONSERVER_ROLE = ''regionserver''"
definition RESTSERVER_ROLE :: string where "RESTSERVER_ROLE = ''restserver''"

definition HBASE_METRICS_PORT_NAME :: string where "HBASE_METRICS_PORT_NAME = ''metrics''"
definition HBASE_MASTER_METRICS_PORT :: int32 where "HBASE_MASTER_METRICS_PORT = 16010"
definition HBASE_REGIONSERVER_METRICS_PORT :: int32 where "HBASE_REGIONSERVER_METRICS_PORT = 16030"
definition HBASE_REST_METRICS_PORT :: int32 where "HBASE_REST_METRICS_PORT = 8085"

lemmas role_names = MASTER_ROLE_def REGIONSERVER_ROLE_def RESTSERVER_ROLE_def

lemmas metrics_ports = HBASE_METRICS_PORT_NAME_def HBASE_MASTER_METRICS_PORT_def
  HBASE_REGIONSERVER_METRICS_PORT_def HBASE_REST_METRICS_PORT_def

definition tcp_port :: "string \<Rightarrow> int32 \<Rightarrow> ContainerPort" where
  "tcp_port n p = \<lparr>PortName = n, PortNumber = p, PortProtocol = ProtocolTCP\<rparr>"

definition master_Ports :: "ContainerPort list" where
  "master_Ports = [tcp_port ''master'' 16000, tcp_port ''ui-http'' 16010]"

definition regionserver_Ports :: "ContainerPort list" where
  "regionserver_Ports =
     [tcp_port ''regionserver'' 16020, tcp_port ''ui-http'' 16030, tcp_port ''metrics'' 9100]"

definition restserver_Ports :: "ContainerPort list" where
  "restserver_Ports =
     [tcp_port ''rest-http'' 8080, tcp_port ''ui-http'' 8085, tcp_port ''metrics'' 9100]"

lemmas port_tables = master_Ports_def regionserver_Ports_def restserver_Ports_def

text \<open>The loop that looks for the web UI port: the first match ends it, no match leaves 0.\<close>

fun ui_port :: "ContainerPort list \<Rightarrow> int32" where
  "ui_port [] = 0"
| "ui_port (p # ps) = (if PortName p = ''ui-http'' then PortNumber p else ui_port ps)"

text \<open>
  The interface of a port table: ports are referred to by name, from probes, services and
  the search for the web UI port, so a name stands for one port and one number.
\<close>

locale port_table =
  fixes ports :: "ContainerPort list" and role_port :: string and ui :: int32
  assumes distinct_names: "distinct (map PortName ports)"
    and distinct_numbers: "distinct (map PortNumber ports)"
    and role_port_listed: "role_port \<in> PortName ` set ports"
    and ui_listed: "tcp_port ''ui-http'' ui \<in> set ports"
begin

lemma name_determines: "p \<in> set ports \<Longrightarrow> q \<in> set ports \<Longrightarrow> PortName p = PortName q \<Longrightarrow> p = q"
  using distinct_names by (auto simp: distinct_map inj_on_def)

lemma ui_port_unique: "p \<in> set ports \<Longrightarrow> PortName p = ''ui-http'' \<Longrightarrow> PortNumber p = ui"
  using name_determines [of p "tcp_port ''ui-http'' ui"] ui_listed by (simp add: tcp_port_def)

lemma ui_port_found: "ui_port ports = ui"
proof -
  have "ui_port ps = ui"
    if "\<forall>p \<in> set ps. PortName p = ''ui-http'' \<longrightarrow> PortNumber p = ui"
      "\<exists>p \<in> set ps. PortName p = ''ui-http''" for ps
    using that by (induction ps) auto
  moreover have "\<exists>p \<in> set ports. PortName p = ''ui-http''"
    using ui_listed by (force simp: tcp_port_def)
  ultimately show ?thesis using ui_port_unique by blast
qed

lemma ui_port_listed_found:
  "\<exists>p \<in> set ports. PortName p = ''ui-http'' \<and> PortNumber p = ui_port ports"
  using ui_listed ui_port_found by (force simp: tcp_port_def)

lemma named_port_ex1: "\<exists>!p. p \<in> set ports \<and> PortName p = role_port"
  using role_port_listed name_determines by blast

end

interpretation master_table: port_table master_Ports "''master''" 16010
  by unfold_locales (simp_all add: master_Ports_def tcp_port_def)

interpretation regionserver_table: port_table regionserver_Ports "''regionserver''" 16030
  by unfold_locales (simp_all add: regionserver_Ports_def tcp_port_def)

interpretation restserver_table: port_table restserver_Ports "''rest-http''" 8085
  by unfold_locales (simp_all add: restserver_Ports_def tcp_port_def)

definition CreateServiceMetricsName :: "opgo \<Rightarrow> RoleGroupInfo \<Rightarrow> string" where
  "CreateServiceMetricsName K info = GetFullName K info @ ''-metrics''"

definition GetMetricsPort :: "string \<Rightarrow> int32 res" where
  "GetMetricsPort roleName =
     (if roleName = MASTER_ROLE then Ok HBASE_MASTER_METRICS_PORT
      else if roleName = REGIONSERVER_ROLE then Ok HBASE_REGIONSERVER_METRICS_PORT
      else if roleName = RESTSERVER_ROLE then Ok HBASE_REST_METRICS_PORT
      else Err (ErrorString (''unknown role name: '' @ roleName)))"

section \<open>The metrics service\<close>

record ServiceBuilderOptions =
  sbo_Headless :: bool
  sbo_ListenerClass :: string
  sbo_Labels :: "string go_map"
  sbo_MatchingLabels :: "string go_map"
  sbo_Annotations :: "string go_map"
  sbo_ClusterName :: string
  sbo_RoleName :: string
  sbo_RoleGroupName :: string

text \<open>
  A call of the library's service builder: the name, the ports and the option function,
  which the library runs on its own defaults.
\<close>

record ServiceBuilder =
  svc_Name :: string
  svc_Ports :: "ContainerPort list"
  svc_Option :: "ServiceBuilderOptions \<Rightarrow> ServiceBuilderOptions"

fun error_text :: "go_error \<Rightarrow> string" where
  "error_text (ErrorString s) = s"
| "error_text (ExtError ty s) = s"

definition metrics_annotations :: "int32 \<Rightarrow> string go_map \<Rightarrow> string go_map" where
  "metrics_annotations port ann =
     ann(''prometheus.io/scrape'' \<mapsto> ''true'',
         ''prometheus.io/path'' \<mapsto> ''/prometheus'',
         ''prometheus.io/port'' \<mapsto> Itoa (sint port),
         ''prometheus.io/scheme'' \<mapsto> ''http'')"

text \<open>The two copy loops visit the library's maps in the orders \<open>lks\<close> and \<open>aks\<close>.\<close>

definition NewRoleGroupMetricsService ::
    "opgo \<Rightarrow> string list \<Rightarrow> string list \<Rightarrow> RoleGroupInfo \<Rightarrow> ServiceBuilder res" where
  "NewRoleGroupMetricsService K lks aks info =
     (let roleName = GetRoleName K info
      in case GetMetricsPort roleName of
           Err err \<Rightarrow> Panic (PanicValue
             (''role '' @ roleName @ '' failed to get metrics port: '' @ error_text err))
         | Panic p \<Rightarrow> Panic p
         | Ok metricsPort \<Rightarrow>
             let servicePorts = [tcp_port HBASE_METRICS_PORT_NAME metricsPort];
                 serviceName = CreateServiceMetricsName K info;
                 lbls = (copy_entries (range_entries lks (GetLabels K info)) Map.empty)
                            (''prometheus.io/scrape'' \<mapsto> ''true'');
                 annotations = metrics_annotations metricsPort
                   (copy_entries (range_entries aks (GetAnnotations K info)) Map.empty)
             in Ok \<lparr>svc_Name = serviceName, svc_Ports = servicePorts,
                    svc_Option = (\<lambda>sbo. sbo\<lparr>sbo_Headless := True,
                       sbo_ListenerClass := ClusterInternal K,
                       sbo_Labels := lbls,
                       sbo_MatchingLabels := GetLabels K info,
                       sbo_Annotations := annotations\<rparr>)\<rparr>)"

section \<open>Properties\<close>


lemma range_order_sample:
  "range_order [''component''] (GetLabels sample_opgo info)"
  "range_order [] (GetAnnotations sample_opgo info)"
  by (simp_all add: range_order_def sample_opgo_def)


text \<open>
  Every role's metrics are served on its web UI port: for each role the metrics port is
  the number of the port called ui-http in the role's port table, found by the search loop,
  and no table gives a port name or number twice. The port called metrics in the
  region server's and the REST server's table is another one (9100).
\<close>

theorem metrics_port_is_ui_port:
  "GetMetricsPort ''master'' = Ok (ui_port master_Ports)
   \<and> GetMetricsPort ''regionserver'' = Ok (ui_port regionserver_Ports)
   \<and> GetMetricsPort ''restserver'' = Ok (ui_port restserver_Ports)
   \<and> distinct (map PortName master_Ports) \<and> distinct (map PortNumber master_Ports)
   \<and> distinct (map PortName regionserver_Ports) \<and> distinct (map PortNumber regionserver_Ports)
   \<and> distinct (map PortName restserver_Ports) \<and> distinct (map PortNumber restserver_Ports)
   \<and> tcp_port HBASE_METRICS_PORT_NAME 9100 \<in> set regionserver_Ports \<inter> set restserver_Ports
   \<and> 9100 \<notin> {ui_port master_Ports, ui_port regionserver_Ports, ui_port restserver_Ports}"
  unfolding master_table.ui_port_found regionserver_table.ui_port_found
    restserver_table.ui_port_found
  using master_table.distinct_names regionserver_table.distinct_names restserver_table.distinct_names
    master_table.distinct_numbers regionserver_table.distinct_numbers restserver_table.distinct_numbers
    regionserver_table.ui_port_found restserver_table.ui_port_found
  by (simp add: GetMetricsPort_def role_names metrics_ports)
    (simp add: port_tables)?

end
