(* ===== verification/StatefulSet_Builder.thy ===== *)
theory StatefulSet_Builder
  imports Affinity Krb5 Oidc_Proxy Services
begin

text \<open>
  The StatefulSet of a role group: internal/controller/common/statefulset.go. The builder
  assembles the main container (start-up script, probes, mounts), the volumes, the
  affinity, the OIDC side-car and the log agent.
\<close>

section \<open>Library calls\<close>

typedecl StatefulSetRest

text \<open>The arguments the library's StatefulSet builder was made with, and the calls made on it.\<close>

record StatefulSetBase =
  base_Client :: client
  base_Name :: string
  base_Replicas :: "int32 option"
  base_Image :: Image
  base_Overrides :: "OverridesSpec option"
  base_RoleGroupConfig :: "RoleGroupConfigSpec option"
  base_Options :: "(Options \<Rightarrow> Options) list"

datatype sts_call =
    STS_AddContainers "Container list"
  | STS_AddContainer Container
  | STS_AddVolumes "Volume list"
  | STS_SetAffinity KubeAffinity

text \<open>The pod template of the object the library builds, and the rest of it.\<close>

record StatefulSet =
  sts_Containers :: "Container list"
  sts_Volumes :: "Volume list"
  sts_rest :: StatefulSetRest

record sts_lib =
  STS_GetName :: "StatefulSetBase \<Rightarrow> string"
  STS_GetImage :: "StatefulSetBase \<Rightarrow> Image"
  STS_GetObject :: "StatefulSetBase \<Rightarrow> sts_call list \<Rightarrow> StatefulSet res"
  MergeOverrides :: "OverridesSpec \<Rightarrow> StatefulSet \<Rightarrow> StatefulSet res"
  VectorContainer :: "string \<Rightarrow> string \<Rightarrow> Image \<Rightarrow> Container"
  VectorVolumes :: "string \<Rightarrow> string \<Rightarrow> Image \<Rightarrow> Volume list"

fun call_containers :: "sts_call list \<Rightarrow> Container list" where
  "call_containers [] = []"
| "call_containers (STS_AddContainers cs # calls) = cs @ call_containers calls"
| "call_containers (STS_AddContainer c # calls) = c # call_containers calls"
| "call_containers (_ # calls) = call_containers calls"

fun call_volumes :: "sts_call list \<Rightarrow> Volume list" where
  "call_volumes [] = []"
| "call_volumes (STS_AddVolumes vs # calls) = vs @ call_volumes calls"
| "call_volumes (_ # calls) = call_volumes calls"

lemma call_containers_append: "call_containers (cs @ ds) = call_containers cs @ call_containers ds"
  by (induction cs rule: call_containers.induct) auto

lemma call_volumes_append: "call_volumes (cs @ ds) = call_volumes cs @ call_volumes ds"
  by (induction cs rule: call_volumes.induct) auto

text \<open>
  The documented meaning of the library: the name and image are those given, and the object
  is a template that has the containers and volumes that were added, in the order of the
  calls, with the user's overrides merged into it when the builder was given any. What the
  merge makes of the template (podOverrides may add, change or replace anything in it) is
  the library's, and nothing is assumed of it.
\<close>

definition overridden :: "sts_lib \<Rightarrow> StatefulSetBase \<Rightarrow> StatefulSet \<Rightarrow> StatefulSet res" where
  "overridden lib base template =
     (case base_Overrides base of None \<Rightarrow> Ok template | Some ov \<Rightarrow> MergeOverrides lib ov template)"

definition sts_lib_ok :: "sts_lib \<Rightarrow> bool" where
  "sts_lib_ok lib \<longleftrightarrow>
     (\<forall>base. STS_GetName lib base = base_Name base \<and> STS_GetImage lib base = base_Image base)
     \<and> (\<forall>base calls obj. STS_GetObject lib base calls = Ok obj \<longrightarrow>
          (\<exists>template. sts_Containers template = call_containers calls
             \<and> sts_Volumes template = call_volumes calls
             \<and> overridden lib base template = Ok obj))"

section \<open>The builder\<close>

definition roleNameToCommandArg :: "string go_map" where
  "roleNameToCommandArg =
     [''master'' \<mapsto> ''master'', ''regionserver'' \<mapsto> ''regionserver'', ''restserver'' \<mapsto> ''rest'']"

definition HBaseConfigDir :: "opgo \<Rightarrow> string" where
  "HBaseConfigDir K = path_Join [KubedoopConfigDir K]"

definition HDFSConfigDir :: "opgo \<Rightarrow> string" where
  "HDFSConfigDir K = path_Join [KubedoopConfigDir K]"

definition HBaseMountConfigDir :: "opgo \<Rightarrow> string" where
  "HBaseMountConfigDir K = path_Join [KubedoopConfigDirMount K, ''hbase'']"

definition HDFSMountConfigDir :: "opgo \<Rightarrow> string" where
  "HDFSMountConfigDir K = path_Join [KubedoopConfigDirMount K, ''hdfs'']"

definition HHbaseConfigVolumeName :: string where
  "HHbaseConfigVolumeName = ''hbase-config''"

definition HbaseLogVolumeName :: string where
  "HbaseLogVolumeName = ''log''"

record StatefulSetBuilder =
  sb_Base :: StatefulSetBase
  sb_Calls :: "sts_call list"
  sb_Ports :: "ContainerPort list"
  sb_ClusterConfig :: "ClusterConfigSpec option"
  sb_RoleName :: string
  sb_ClusterName :: string
  sb_krb5Config :: "HbaseKerberosConfig option"

definition NewStatefulSetBuilder ::
    "client \<Rightarrow> string \<Rightarrow> ClusterConfigSpec option \<Rightarrow> int32 option \<Rightarrow> ContainerPort list \<Rightarrow> Image
     \<Rightarrow> string \<Rightarrow> string \<Rightarrow> OverridesSpec option \<Rightarrow> RoleGroupConfigSpec option
     \<Rightarrow> (Options \<Rightarrow> Options) list \<Rightarrow> StatefulSetBuilder" where
  "NewStatefulSetBuilder cl name clusterConfig replicas ports img krb5SecretClass tlsSecretClass
       overrides roleGroupConfig options =
     (let builderOpts = apply_options options;
          krb5 = (if krb5SecretClass \<noteq> '''' \<and> tlsSecretClass \<noteq> ''''
                  then Some (NewHbaseKerberosConfig (OwnerNamespace cl) (opt_ClusterName builderOpts)
                         (opt_RoleName builderOpts) (opt_RoleGroupName builderOpts)
                         krb5SecretClass tlsSecretClass)
                  else None)
      in \<lparr>sb_Base = \<lparr>base_Client = cl, base_Name = name, base_Replicas = replicas,
             base_Image = img, base_Overrides = overrides,
             base_RoleGroupConfig = roleGroupConfig, base_Options = options\<rparr>,
          sb_Calls = [], sb_Ports = ports, sb_ClusterConfig = clusterConfig,
          sb_RoleName = opt_RoleName builderOpts, sb_ClusterName = opt_ClusterName builderOpts,
          sb_krb5Config = krb5\<rparr>)"

definition getVolumeMounts :: "opgo \<Rightarrow> VolumeMount list" where
  "getVolumeMounts K =
     [\<lparr>MountName = ''hdfs-config'', MountPath = path_Join [KubedoopConfigDirMount K, ''hdfs'']\<rparr>,
      \<lparr>MountName = ''hbase-config'', MountPath = path_Join [KubedoopConfigDirMount K, ''hbase'']\<rparr>]"

definition getVolumes :: "sts_lib \<Rightarrow> StatefulSetBuilder \<Rightarrow> Volume list res" where
  "getVolumes lib b =
     bind_res (deref (sb_ClusterConfig b)) (\<lambda>cc.
     let defaultMode = 420
     in Ok [\<lparr>VolumeName = ''hdfs-config'',
             VolumeSrc = ConfigMapVolume defaultMode (HdfsConfigMapName cc)\<rparr>,
            \<lparr>VolumeName = ''hbase-config'',
             VolumeSrc = ConfigMapVolume defaultMode (STS_GetName lib (sb_Base b))\<rparr>])"

text \<open>The signal handling of the main container's script.\<close>

definition signal_handlers :: "string list" where
  "signal_handlers =
      [''prepare_signal_handlers()'',
       ''{'',
       tab ''unset term_child_pid'',
       tab ''unset term_kill_needed'',
       tab ''trap 'handle_term_signal' TERM'',
       ''}'',
       '''',
       ''handle_term_signal()'',
       ''{'',
       tab ''if [ \"${term_child_pid}\" ]; then'',
       tab (tab ''kill -TERM \"${term_child_pid}\" 2>/dev/null''),
       tab ''else'',
       tab (tab ''term_kill_needed=\"yes\"''),
       tab ''fi'',
       ''}'',
       '''',
       ''wait_for_termination()'',
       ''{'',
       tab ''set +e'',
       tab ''term_child_pid=$1'',
       tab ''if [[ -v term_kill_needed ]]; then'',
       tab (tab ''kill -TERM \"${term_child_pid}\" 2>/dev/null''),
       tab ''fi'',
       tab ''wait ${term_child_pid} 2>/dev/null'',
       tab ''trap - TERM'',
       tab ''wait ${term_child_pid} 2>/dev/null'',
       tab ''set -e'',
       ''}'',
       '''']"

text \<open>The script of the main container, line by line.\<close>

definition main_script :: "opgo \<Rightarrow> string \<Rightarrow> string \<Rightarrow> string" where
  "main_script K setupKrb5 hbaseSubArg =
     script_lines
      ([''mkdir -p '' @ HBaseConfigDir K,
       ''cp '' @ path_Join [HBaseMountConfigDir K, ''*''] @ '' '' @ KubedoopConfigDir K,
       ''cp '' @ path_Join [HDFSMountConfigDir K, ''*''] @ '' '' @ KubedoopConfigDir K,
       '''',
       setupKrb5,
       '''']
      @ signal_handlers @
      [''prepare_signal_handlers'',
       ''bin/hbase '' @ hbaseSubArg @ '' start &'',
       ''wait_for_termination $!''])"

definition GetMainContainerCommanArgs :: "opgo \<Rightarrow> StatefulSetBuilder \<Rightarrow> string list" where
  "GetMainContainerCommanArgs K b =
     (let hbaseSubArg = (case roleNameToCommandArg (sb_RoleName b) of None \<Rightarrow> '''' | Some a \<Rightarrow> a);
          setupKrb5 = (case sb_krb5Config b of None \<Rightarrow> ''''
              | Some c \<Rightarrow> Krb5_GetContainerCommands K c)
      in [IndentTab4Spaces K (main_script K setupKrb5 hbaseSubArg)])"

definition sts_getEnvVars :: "opgo \<Rightarrow> EnvVar list" where
  "sts_getEnvVars K =
     [env_value ''HBASE_CONF_DIR'' (HBaseConfigDir K),
      env_value ''HADOOP_CONF_DIR'' (HDFSConfigDir K)]"

section \<open>Probes\<close>

definition getProbeHandler :: "StatefulSetBuilder \<Rightarrow> ProbeHandler option" where
  "getProbeHandler b =
     (if sb_RoleName b = ''master'' then Some \<lparr>TCPSocketPort = sb_RoleName b\<rparr>
      else if sb_RoleName b = ''regionserver'' then Some \<lparr>TCPSocketPort = sb_RoleName b\<rparr>
      else if sb_RoleName b = ''restserver'' then Some \<lparr>TCPSocketPort = ''rest-http''\<rparr>
      else None)"

definition GetLivenessProbe :: "StatefulSetBuilder \<Rightarrow> Probe res" where
  "GetLivenessProbe b = bind_res (deref (getProbeHandler b)) (\<lambda>h.
     Ok \<lparr>Handler = h, InitialDelaySeconds = 10, PeriodSeconds = 10, FailureThreshold = 3,
         TimeoutSeconds = 10\<rparr>)"

definition GetReadinessProbe :: "StatefulSetBuilder \<Rightarrow> Probe res" where
  "GetReadinessProbe b = bind_res (deref (getProbeHandler b)) (\<lambda>h.
     Ok \<lparr>Handler = h, InitialDelaySeconds = 0, PeriodSeconds = 10, FailureThreshold = 3,
         TimeoutSeconds = 10\<rparr>)"

definition GetStartupProbe :: "StatefulSetBuilder \<Rightarrow> Probe res" where
  "GetStartupProbe b = bind_res (deref (getProbeHandler b)) (\<lambda>h.
     Ok \<lparr>Handler = h, InitialDelaySeconds = 120, PeriodSeconds = 5, FailureThreshold = 3,
         TimeoutSeconds = 10\<rparr>)"

section \<open>Containers\<close>

definition main_calls :: "opgo \<Rightarrow> StatefulSetBuilder \<Rightarrow> Probe \<Rightarrow> Probe \<Rightarrow> Probe \<Rightarrow> container_call list" where
  "main_calls K b startup liveness readiness =
     [SetCommand [''/bin/bash'', ''-x'', ''-euo'', ''pipefail'', ''-c''],
      SetArgs (GetMainContainerCommanArgs K b),
      AddVolumeMounts (getVolumeMounts K),
      AddEnvVars (sts_getEnvVars K),
      AddPorts (sb_Ports b),
      SetStartupProbe startup,
      SetLivenessProbe liveness,
      SetReadinessProbe readiness]
     @ (case sb_krb5Config b of None \<Rightarrow> []
        | Some c \<Rightarrow> [AddEnvVars (GetContainerEnvvars K c), AddVolumeMounts (Krb5_GetVolumeMounts K c)])"

definition buildContainer :: "sts_lib \<Rightarrow> opgo \<Rightarrow> StatefulSetBuilder \<Rightarrow> Container list res" where
  "buildContainer lib K b =
     bind_res (GetStartupProbe b) (\<lambda>startup.
     bind_res (GetLivenessProbe b) (\<lambda>liveness.
     bind_res (GetReadinessProbe b) (\<lambda>readiness.
     Ok [\<lparr>ct_Name = sb_RoleName b, ct_Image = STS_GetImage lib (sb_Base b),
          ct_Calls = main_calls K b startup liveness readiness\<rparr>])))"

definition GetDefaultAffinityBuilder :: "opgo \<Rightarrow> StatefulSetBuilder \<Rightarrow> AffinityBuilder" where
  "GetDefaultAffinityBuilder K b =
     (let affinityLabels = [LabelKubernetesInstance K \<mapsto> sb_ClusterName b,
            LabelKubernetesName K \<mapsto> ''hbase''];
          antiAffinityLabels = [LabelKubernetesInstance K \<mapsto> sb_ClusterName b,
            LabelKubernetesName K \<mapsto> ''hbase'',
            LabelKubernetesComponent K \<mapsto> sb_RoleName b]
      in NewAffinityBuilder
           [Weight 20 (NewPodAffinity affinityLabels False False),
            Weight 70 (NewPodAffinity antiAffinityLabels False True)])"

text \<open>The side-car, when the cluster asks for OIDC and the authentication class provides it.\<close>

definition buildOidcContainer :: "sts_lib \<Rightarrow> StatefulSetBuilder \<Rightarrow> Container option res" where
  "buildOidcContainer lib b =
     bind_res (deref (sb_ClusterConfig b)) (\<lambda>cc.
     case Authentication cc of
       None \<Rightarrow> Ok None
     | Some auth \<Rightarrow>
         if AuthenticationClassName auth = '''' then Ok None
         else bind_res (LookupAuthenticationClass (base_Client (sb_Base b)) (AuthenticationClassName auth))
           (\<lambda>authClass.
              case (ac_OIDC authClass, Oidc auth) of
                (Some provider, Some spec) \<Rightarrow>
                  Ok (Some (Oidc_GetContainer
                    (NewOidc (OwnerUID (base_Client (sb_Base b))) (STS_GetImage lib (sb_Base b))
                       (ui_port (sb_Ports b)) spec provider)))
              | _ \<Rightarrow> Ok None))"

section \<open>Build\<close>

definition sts_do :: "sts_call \<Rightarrow> (StatefulSetBuilder, unit) eff" where
  "sts_do c = modify_eff (\<lambda>b. b\<lparr>sb_Calls := sb_Calls b @ [c]\<rparr>)"

definition add_vector :: "sts_lib \<Rightarrow> StatefulSetBuilder \<Rightarrow> StatefulSet \<Rightarrow> StatefulSet res" where
  "add_vector lib b obj =
     bind_res (deref (sb_ClusterConfig b)) (\<lambda>cc.
     if VectorAggregatorConfigMapName cc \<noteq> '''' then
       let img = STS_GetImage lib (sb_Base b)
       in Ok (obj\<lparr>sts_Containers := sts_Containers obj @
                    [VectorContainer lib HHbaseConfigVolumeName HbaseLogVolumeName img],
                  sts_Volumes := sts_Volumes obj @
                    VectorVolumes lib HHbaseConfigVolumeName HbaseLogVolumeName img\<rparr>)
     else Ok obj)"

definition STS_Build :: "sts_lib \<Rightarrow> opgo \<Rightarrow> (StatefulSetBuilder, StatefulSet) eff" where
  "STS_Build lib K = ask_eff (\<lambda>b.
     bind_eff (lift_res (buildContainer lib K b)) (\<lambda>cs.
     bind_eff (sts_do (STS_AddContainers cs)) (\<lambda>_.
     bind_eff (lift_res (getVolumes lib b)) (\<lambda>vs.
     bind_eff (sts_do (STS_AddVolumes vs)) (\<lambda>_.
     bind_eff (sts_do (STS_SetAffinity (Affinity_Build K (GetDefaultAffinityBuilder K b)))) (\<lambda>_.
     bind_eff (case sb_krb5Config b of None \<Rightarrow> ret_eff ()
               | Some c \<Rightarrow> sts_do (STS_AddVolumes (Krb5_GetVolumes c))) (\<lambda>_.
     bind_eff (lift_res (buildOidcContainer lib b)) (\<lambda>oidcContainer.
     bind_eff (case oidcContainer of None \<Rightarrow> ret_eff ()
               | Some c \<Rightarrow> sts_do (STS_AddContainer c)) (\<lambda>_.
     ask_eff (\<lambda>b'.
     bind_eff (lift_res (STS_GetObject lib (sb_Base b') (sb_Calls b'))) (\<lambda>obj.
     lift_res (add_vector lib b' obj))))))))))))"

text \<open>What the library's StatefulSet reconciler is made of.\<close>

record StatefulSetReconciler =
  sr_Client :: client
  sr_Builder :: StatefulSetBuilder
  sr_Stopped :: bool

definition NewStatefulSetReconciler ::
    "opgo \<Rightarrow> client \<Rightarrow> ClusterConfigSpec option \<Rightarrow> RoleGroupInfo \<Rightarrow> ContainerPort list \<Rightarrow> Image \<Rightarrow> bool
     \<Rightarrow> int32 option \<Rightarrow> OverridesSpec option \<Rightarrow> RoleGroupConfigSpec option
     \<Rightarrow> StatefulSetReconciler res" where
  "NewStatefulSetReconciler K cl clusterConfig roleGroupInfo ports img stopped replicas overrides
       roleGroupConfig =
     bind_res (deref clusterConfig) (\<lambda>cc.
     let (krb5SecretClass, tlsSecretClass) =
           (case Authentication cc of None \<Rightarrow> ('''', '''')
            | Some a \<Rightarrow> (KerberosSecretClass a, TlsSecretClass a));
         stsBuilder = NewStatefulSetBuilder cl (GetFullName K roleGroupInfo) clusterConfig replicas
           ports img krb5SecretClass tlsSecretClass overrides roleGroupConfig
           [\<lambda>o'. o'\<lparr>opt_ClusterName := GetClusterName K roleGroupInfo,
                    opt_RoleName := GetRoleName K roleGroupInfo,
                    opt_RoleGroupName := GetGroupName K roleGroupInfo,
                    opt_Labels := GetLabels K roleGroupInfo,
                    opt_Annotations := GetAnnotations K roleGroupInfo\<rparr>]
     in Ok \<lparr>sr_Client = cl, sr_Builder = stsBuilder, sr_Stopped = stopped\<rparr>)"

section \<open>The calls of Build\<close>

lemma sts_do_apply [simp]: "sts_do c b = (Ok (), b\<lparr>sb_Calls := sb_Calls b @ [c]\<rparr>)"
  by (simp add: sts_do_def)

definition known_role :: "string \<Rightarrow> bool" where
  "known_role r \<longleftrightarrow> r \<in> {MASTER_ROLE, REGIONSERVER_ROLE, RESTSERVER_ROLE}"

definition probe_port :: "string \<Rightarrow> string" where
  "probe_port r = (if r = RESTSERVER_ROLE then ''rest-http'' else r)"

lemma getProbeHandler_eq:
  "getProbeHandler b =
     (if known_role (sb_RoleName b) then Some \<lparr>TCPSocketPort = probe_port (sb_RoleName b)\<rparr> else None)"
  by (auto simp: getProbeHandler_def known_role_def probe_port_def role_names)

text \<open>The main container of a known role.\<close>

definition role_probe :: "StatefulSetBuilder \<Rightarrow> int32 \<Rightarrow> int32 \<Rightarrow> Probe" where
  "role_probe b delay period =
     \<lparr>Handler = \<lparr>TCPSocketPort = probe_port (sb_RoleName b)\<rparr>, InitialDelaySeconds = delay,
      PeriodSeconds = period, FailureThreshold = 3, TimeoutSeconds = 10\<rparr>"

definition main_container :: "sts_lib \<Rightarrow> opgo \<Rightarrow> StatefulSetBuilder \<Rightarrow> Container" where
  "main_container lib K b =
     \<lparr>ct_Name = sb_RoleName b, ct_Image = STS_GetImage lib (sb_Base b),
      ct_Calls = main_calls K b (role_probe b 120 5) (role_probe b 10 10) (role_probe b 0 10)\<rparr>"

lemma buildContainer_eq:
  "buildContainer lib K b =
     (if known_role (sb_RoleName b) then Ok [main_container lib K b] else Panic NilDeref)"
  by (simp add: buildContainer_def GetStartupProbe_def GetLivenessProbe_def GetReadinessProbe_def
      getProbeHandler_eq main_container_def role_probe_def)

definition config_volumes :: "sts_lib \<Rightarrow> StatefulSetBuilder \<Rightarrow> ClusterConfigSpec \<Rightarrow> Volume list" where
  "config_volumes lib b cc =
     [\<lparr>VolumeName = ''hdfs-config'', VolumeSrc = ConfigMapVolume 420 (HdfsConfigMapName cc)\<rparr>,
      \<lparr>VolumeName = ''hbase-config'', VolumeSrc = ConfigMapVolume 420 (STS_GetName lib (sb_Base b))\<rparr>]"

definition krb5_volumes :: "StatefulSetBuilder \<Rightarrow> Volume list" where
  "krb5_volumes b = (case sb_krb5Config b of None \<Rightarrow> [] | Some c \<Rightarrow> Krb5_GetVolumes c)"

text \<open>What Build has added before it looks for an authentication class.\<close>

definition base_calls :: "sts_lib \<Rightarrow> opgo \<Rightarrow> StatefulSetBuilder \<Rightarrow> ClusterConfigSpec \<Rightarrow> sts_call list" where
  "base_calls lib K b cc =
     [STS_AddContainers [main_container lib K b], STS_AddVolumes (config_volumes lib b cc),
      STS_SetAffinity (Affinity_Build K (GetDefaultAffinityBuilder K b))]
     @ (case sb_krb5Config b of None \<Rightarrow> [] | Some c \<Rightarrow> [STS_AddVolumes (Krb5_GetVolumes c)])"

definition after_calls :: "StatefulSetBuilder \<Rightarrow> sts_call list \<Rightarrow> StatefulSetBuilder" where
  "after_calls b cs = b\<lparr>sb_Calls := sb_Calls b @ cs\<rparr>"

lemma after_calls_sel [simp]:
  "sb_Base (after_calls b cs) = sb_Base b"
  "sb_ClusterConfig (after_calls b cs) = sb_ClusterConfig b"
  "sb_Calls (after_calls b cs) = sb_Calls b @ cs"
  by (simp_all add: after_calls_def)

lemma add_vector_after [simp]: "add_vector lib (after_calls b cs) = add_vector lib b"
  unfolding add_vector_def after_calls_sel by (rule refl)

definition oidc_calls :: "Container option \<Rightarrow> sts_call list" where
  "oidc_calls oc = (case oc of None \<Rightarrow> [] | Some c \<Rightarrow> [STS_AddContainer c])"

lemma getVolumes_eq: "sb_ClusterConfig b = Some cc \<Longrightarrow> getVolumes lib b = Ok (config_volumes lib b cc)"
  by (simp add: getVolumes_def config_volumes_def Let_def)

lemma sts_krb5_step:
  "(case k of None \<Rightarrow> ret_eff () | Some c \<Rightarrow> sts_do (STS_AddVolumes (Krb5_GetVolumes c))) b =
     (Ok (), after_calls b (case k of None \<Rightarrow> [] | Some c \<Rightarrow> [STS_AddVolumes (Krb5_GetVolumes c)]))"
  by (cases b) (simp add: after_calls_def split: option.split)

lemma sts_oidc_step:
  "(case oc of None \<Rightarrow> ret_eff () | Some c \<Rightarrow> sts_do (STS_AddContainer c)) b =
     (Ok (), after_calls b (oidc_calls oc))"
  by (cases b) (simp add: after_calls_def oidc_calls_def split: option.split)

text \<open>Build as one equation: its stages, and what each leaves behind.\<close>

lemma STS_Build_eq:
  assumes cc: "sb_ClusterConfig b = Some cc"
  shows "STS_Build lib K b =
    (if \<not> known_role (sb_RoleName b) then (Panic NilDeref, b)
     else case buildOidcContainer lib b of
         Err e \<Rightarrow> (Err e, after_calls b (base_calls lib K b cc))
       | Panic p \<Rightarrow> (Panic p, after_calls b (base_calls lib K b cc))
       | Ok oc \<Rightarrow>
           let t = after_calls b (base_calls lib K b cc @ oidc_calls oc)
           in (bind_res (STS_GetObject lib (sb_Base b) (sb_Calls t)) (add_vector lib b), t))"
proof -
  let ?b2 = "b\<lparr>sb_Calls := sb_Calls b @ [STS_AddContainers [main_container lib K b],
      STS_AddVolumes (config_volumes lib b cc),
      STS_SetAffinity (Affinity_Build K (GetDefaultAffinityBuilder K b))]\<rparr>"
  have krb: "after_calls ?b2 (case sb_krb5Config b of None \<Rightarrow> []
        | Some c \<Rightarrow> [STS_AddVolumes (Krb5_GetVolumes c)]) = after_calls b (base_calls lib K b cc)"
    by (simp add: after_calls_def base_calls_def)
  have more: "after_calls (after_calls b cs) ds = after_calls b (cs @ ds)" for cs ds
    by (simp add: after_calls_def)
  show ?thesis
    by (simp add: STS_Build_def buildContainer_eq getVolumes_eq [OF cc] bind_eff_def sts_krb5_step
        krb more sts_oidc_step Let_def bind_eff_lift_lift split: res.split)
qed

text \<open>The side-car is built exactly under these conditions.\<close>

lemma buildOidcContainer_Some_iff:
  "buildOidcContainer lib b = Ok (Some c) \<longleftrightarrow>
     (\<exists>cc auth authClass provider spec.
        sb_ClusterConfig b = Some cc \<and> Authentication cc = Some auth
        \<and> AuthenticationClassName auth \<noteq> ''''
        \<and> LookupAuthenticationClass (base_Client (sb_Base b)) (AuthenticationClassName auth) = Ok authClass
        \<and> ac_OIDC authClass = Some provider \<and> Oidc auth = Some spec
        \<and> c = Oidc_GetContainer (NewOidc (OwnerUID (base_Client (sb_Base b)))
               (STS_GetImage lib (sb_Base b)) (ui_port (sb_Ports b)) spec provider))"
proof (cases "sb_ClusterConfig b")
  case (Some cc)
  show ?thesis
  proof (cases "Authentication cc")
    case auth: (Some auth)
    let ?lookup = "LookupAuthenticationClass (base_Client (sb_Base b)) (AuthenticationClassName auth)"
    show ?thesis
      using Some auth
      by (cases "AuthenticationClassName auth = ''''"; cases ?lookup)
        (auto simp: buildOidcContainer_def split: option.split)
  qed (use Some in \<open>simp add: buildOidcContainer_def\<close>)
qed (simp add: buildOidcContainer_def)

lemma buildOidcContainer_Err_iff:
  "buildOidcContainer lib b = Err e \<longleftrightarrow>
     (\<exists>cc auth. sb_ClusterConfig b = Some cc \<and> Authentication cc = Some auth
        \<and> AuthenticationClassName auth \<noteq> ''''
        \<and> LookupAuthenticationClass (base_Client (sb_Base b)) (AuthenticationClassName auth) = Err e)"
  by (cases "sb_ClusterConfig b")
    (auto simp: buildOidcContainer_def bind_res_Err_iff split: option.splits if_splits)

section \<open>A concrete builder\<close>

text \<open>
  A library, a client and a secured master of a cluster with OIDC and an aggregator, for
  evaluation. Any overrides make the sample's merge drop the volumes of the template.
\<close>

definition sample_merge :: "OverridesSpec \<Rightarrow> StatefulSet \<Rightarrow> StatefulSet res" where
  "sample_merge ov template = Ok (template\<lparr>sts_Volumes := []\<rparr>)"

definition sample_sts_lib :: sts_lib where
  "sample_sts_lib = \<lparr>STS_GetName = base_Name, STS_GetImage = base_Image,
     STS_GetObject = (\<lambda>base calls.
        let template = \<lparr>sts_Containers = call_containers calls,
              sts_Volumes = call_volumes calls, sts_rest = undefined\<rparr>
        in case base_Overrides base of None \<Rightarrow> Ok template | Some ov \<Rightarrow> sample_merge ov template),
     MergeOverrides = sample_merge,
     VectorContainer = (\<lambda>cv lv img. NewContainer ''vector'' img),
     VectorVolumes = (\<lambda>cv lv img. [])\<rparr>"

definition oidc_client :: client where
  "oidc_client = sample_client\<lparr>LookupAuthenticationClass :=
     (\<lambda>n. if n = ''oidc'' then Ok \<lparr>ac_OIDC = Some sample_provider\<rparr>
          else Err (ExtError ''StatusError'' ''not found''))\<rparr>"

definition oidc_cluster_config :: ClusterConfigSpec where
  "oidc_cluster_config = \<lparr>ZookeeperConfigMapName = ''hbase-znode'', HdfsConfigMapName = ''hdfs'',
     ListenerClass = '''',
     Authentication = Some \<lparr>AuthenticationClassName = ''oidc'',
        Oidc = Some \<lparr>ClientCredentialsSecret = ''oidc-credentials'', ExtraScopes = None\<rparr>,
        KerberosSecretClass = ''kerberos'', TlsSecretClass = ''tls''\<rparr>,
     VectorAggregatorConfigMapName = ''vector''\<rparr>"

definition sample_sts_builder :: StatefulSetBuilder where
  "sample_sts_builder = NewStatefulSetBuilder oidc_client ''hbase-master-default''
     (Some oidc_cluster_config) (Some 1) master_Ports sample_image ''kerberos'' ''tls'' None None
     [\<lambda>o'. o'\<lparr>opt_ClusterName := ''hbase'', opt_RoleName := ''master'',
              opt_RoleGroupName := ''default''\<rparr>]"

lemma sts_lib_ok_sample: "sts_lib_ok sample_sts_lib"
proof -
  have "\<exists>template. sts_Containers template = call_containers calls
      \<and> sts_Volumes template = call_volumes calls
      \<and> overridden sample_sts_lib base template = Ok obj"
    if "STS_GetObject sample_sts_lib base calls = Ok obj" for base calls obj
    using that
    by (intro exI [of _ "\<lparr>sts_Containers = call_containers calls,
          sts_Volumes = call_volumes calls, sts_rest = undefined\<rparr>"])
      (simp add: sample_sts_lib_def overridden_def Let_def split: option.splits)
  moreover have "STS_GetName sample_sts_lib base = base_Name base"
    "STS_GetImage sample_sts_lib base = base_Image base" for base
    by (simp_all add: sample_sts_lib_def)
  ultimately show ?thesis by (simp add: sts_lib_ok_def)
qed

lemma sample_sts_builder_sel:
  "sb_ClusterConfig sample_sts_builder = Some oidc_cluster_config"
  "sb_Calls sample_sts_builder = []"
  "sb_RoleName sample_sts_builder = ''master''"
  "sb_Ports sample_sts_builder = master_Ports"
  "sb_krb5Config sample_sts_builder \<noteq> None"
  "base_Client (sb_Base sample_sts_builder) = oidc_client"
  "base_Name (sb_Base sample_sts_builder) = ''hbase-master-default''"
  "base_Overrides (sb_Base sample_sts_builder) = None"
  by (simp_all add: sample_sts_builder_def NewStatefulSetBuilder_def apply_options_def
      zero_Options_def Let_def)

lemma sample_oidc_container: "\<exists>c. buildOidcContainer lib sample_sts_builder = Ok (Some c)"
  by (simp add: buildOidcContainer_def sample_sts_builder_sel oidc_cluster_config_def oidc_client_def)

lemma sample_STS_Build:
  "\<exists>obj t. STS_Build sample_sts_lib K sample_sts_builder = (Ok obj, t)"
proof -
  obtain c where "buildOidcContainer sample_sts_lib sample_sts_builder = Ok (Some c)"
    using sample_oidc_container by blast
  then show ?thesis
    by (simp add: STS_Build_eq [OF sample_sts_builder_sel(1)] sample_sts_builder_sel known_role_def
        role_names sample_sts_lib_def add_vector_def oidc_cluster_config_def Let_def)
qed

section \<open>The object\<close>

text \<open>A builder that has just been made, with the library behaving as documented.\<close>

lemma STS_Build_object:
  assumes "sts_lib_ok lib" and cc: "sb_ClusterConfig b = Some cc" and "sb_Calls b = []"
    and "STS_Build lib K b = (Ok obj, t)"
  shows "\<exists>oc template merged. buildOidcContainer lib b = Ok oc \<and> known_role (sb_RoleName b)
    \<and> sts_Containers template = [main_container lib K b] @ (case oc of None \<Rightarrow> [] | Some c \<Rightarrow> [c])
    \<and> sts_Volumes template = config_volumes lib b cc @ krb5_volumes b
    \<and> overridden lib (sb_Base b) template = Ok merged
    \<and> sts_Containers obj = sts_Containers merged
        @ (if VectorAggregatorConfigMapName cc = '''' then [] else
            [VectorContainer lib HHbaseConfigVolumeName HbaseLogVolumeName (base_Image (sb_Base b))])
    \<and> sts_Volumes obj = sts_Volumes merged
        @ (if VectorAggregatorConfigMapName cc = '''' then [] else
            VectorVolumes lib HHbaseConfigVolumeName HbaseLogVolumeName (base_Image (sb_Base b)))"
proof -
  obtain oc where kr: "known_role (sb_RoleName b)" and oc: "buildOidcContainer lib b = Ok oc"
    and obj: "bind_res (STS_GetObject lib (sb_Base b) (base_calls lib K b cc @ oidc_calls oc))
       (add_vector lib b) = Ok obj"
    using assms(3,4) by (auto simp: STS_Build_eq [OF cc] Let_def split: if_splits res.splits)
  then obtain merged where
    merged: "STS_GetObject lib (sb_Base b) (base_calls lib K b cc @ oidc_calls oc) = Ok merged"
    and v: "add_vector lib b merged = Ok obj"
    by (auto simp: bind_res_Ok_iff)
  obtain template where
    "sts_Containers template = call_containers (base_calls lib K b cc @ oidc_calls oc)"
    "sts_Volumes template = call_volumes (base_calls lib K b cc @ oidc_calls oc)"
    and ov: "overridden lib (sb_Base b) template = Ok merged"
    using assms(1) merged unfolding sts_lib_ok_def by blast
  then have "sts_Containers template = [main_container lib K b] @ (case oc of None \<Rightarrow> [] | Some c \<Rightarrow> [c])"
    "sts_Volumes template = config_volumes lib b cc @ krb5_volumes b"
    by (auto simp: call_containers_append call_volumes_append base_calls_def
        oidc_calls_def krb5_volumes_def split: option.split)
  moreover have "STS_GetImage lib (sb_Base b) = base_Image (sb_Base b)"
    using assms(1) by (simp add: sts_lib_ok_def)
  ultimately show ?thesis
    using kr oc v cc ov
    by (intro exI [of _ oc] exI [of _ template] exI [of _ merged])
      (auto simp: add_vector_def Let_def split: if_splits)
qed

text \<open>The template by its first container and its volumes, and how the object extends it.\<close>

lemma STS_Build_template:
  assumes "sts_lib_ok lib" and "sb_ClusterConfig b = Some cc" and "sb_Calls b = []"
    and "STS_Build lib K b = (Ok obj, t)"
  shows "\<exists>template merged rest. sts_Containers template = main_container lib K b # rest
    \<and> sts_Volumes template = config_volumes lib b cc @ krb5_volumes b
    \<and> overridden lib (sb_Base b) template = Ok merged
    \<and> prefix (sts_Containers merged) (sts_Containers obj) \<and> prefix (sts_Volumes merged) (sts_Volumes obj)"
proof -
  obtain oc template merged where
    "sts_Containers template = [main_container lib K b] @ (case oc of None \<Rightarrow> [] | Some c \<Rightarrow> [c])"
    and "sts_Volumes template = config_volumes lib b cc @ krb5_volumes b"
    and "overridden lib (sb_Base b) template = Ok merged"
    and "sts_Containers obj = sts_Containers merged
        @ (if VectorAggregatorConfigMapName cc = '''' then [] else
            [VectorContainer lib HHbaseConfigVolumeName HbaseLogVolumeName (base_Image (sb_Base b))])"
    and "sts_Volumes obj = sts_Volumes merged
        @ (if VectorAggregatorConfigMapName cc = '''' then [] else
            VectorVolumes lib HHbaseConfigVolumeName HbaseLogVolumeName (base_Image (sb_Base b)))"
    using STS_Build_object [OF assms] by (elim exE conjE) (rule that, assumption+)
  then show ?thesis by (intro exI [of _ template] exI [of _ merged]) simp
qed

lemma ct_Name_main_container: "ct_Name (main_container lib K b) = sb_RoleName b"
  by (simp add: main_container_def)

lemma mounts_main_container:
  "added_mounts (ct_Calls (main_container lib K b)) = getVolumeMounts K
     @ (case sb_krb5Config b of None \<Rightarrow> [] | Some c \<Rightarrow> Krb5_GetVolumeMounts K c)"
  by (simp add: main_container_def main_calls_def split: option.split)

lemma envs_main_container:
  "added_envs (ct_Calls (main_container lib K b)) = sts_getEnvVars K
     @ (case sb_krb5Config b of None \<Rightarrow> [] | Some c \<Rightarrow> GetContainerEnvvars K c)"
  by (simp add: main_container_def main_calls_def split: option.split)

lemma own_volume_names:
  "map VolumeName (config_volumes lib b cc @ krb5_volumes b) = [''hdfs-config'', ''hbase-config'']
     @ (if sb_krb5Config b = None then [] else [''kerberos'', ''tls''])"
  by (simp add: config_volumes_def krb5_volumes_def Krb5_GetVolumes_def split: option.split)

lemma main_mount_names:
  "map MountName (added_mounts (ct_Calls (main_container lib K b))) = [''hdfs-config'', ''hbase-config'']
     @ (if sb_krb5Config b = None then [] else [''kerberos'', ''tls''])"
  by (simp add: mounts_main_container getVolumeMounts_def Krb5_GetVolumeMounts_def split: option.split)

section \<open>Properties\<close>

text \<open>
  C10. Every outcome of Build. An unknown role panics on the nil probe handler before
  anything is added. Otherwise the main container, the volumes, the affinity and the
  Kerberos volumes are added first; a failing read of the authentication class ends the
  build there, before the library is asked for the object; else the side-car follows when
  there is one, and the outcome is the library's, with the log agent appended.
\<close>

theorem STS_Build_outcome:
  assumes "sb_ClusterConfig b = Some cc"
  shows "case STS_Build lib K b of
      (Ok obj, t) \<Rightarrow> known_role (sb_RoleName b) \<and> (\<exists>oc obj'. buildOidcContainer lib b = Ok oc
         \<and> t = after_calls b (base_calls lib K b cc @ oidc_calls oc)
         \<and> STS_GetObject lib (sb_Base b) (sb_Calls t) = Ok obj' \<and> add_vector lib b obj' = Ok obj)
    | (Err e, t) \<Rightarrow> known_role (sb_RoleName b) \<and>
         (buildOidcContainer lib b = Err e \<and> t = after_calls b (base_calls lib K b cc)
          \<or> (\<exists>oc. buildOidcContainer lib b = Ok oc
               \<and> t = after_calls b (base_calls lib K b cc @ oidc_calls oc)
               \<and> STS_GetObject lib (sb_Base b) (sb_Calls t) = Err e))
    | (Panic p, t) \<Rightarrow> \<not> known_role (sb_RoleName b) \<and> p = NilDeref \<and> t = b
         \<or> known_role (sb_RoleName b) \<and> prefix (sb_Calls b @ base_calls lib K b cc) (sb_Calls t)"
proof -
  have "add_vector lib b obj \<noteq> Err e" "add_vector lib b obj \<noteq> Panic p" for obj e p
    using assms by (simp_all add: add_vector_def Let_def)
  then show ?thesis
    by (auto simp: STS_Build_eq [OF assms] Let_def bind_res_Ok_iff bind_res_Err_iff
        split: res.split)
qed

theorem STS_Build_outcome_witness:
  "\<exists>obj' obj t. STS_Build sample_sts_lib sample_opgo sample_sts_builder = (Ok obj, t)
     \<and> STS_GetObject sample_sts_lib (sb_Base sample_sts_builder) (sb_Calls t) = Ok obj'
     \<and> add_vector sample_sts_lib sample_sts_builder obj' = Ok obj"
proof -
  obtain obj t where run: "STS_Build sample_sts_lib sample_opgo sample_sts_builder = (Ok obj, t)"
    using sample_STS_Build by blast
  with STS_Build_outcome [OF sample_sts_builder_sel(1), of sample_sts_lib sample_opgo]
  show ?thesis by auto
qed

text \<open>
  C11. The pod template is consistent. What Build hands to the library is a template whose
  first container is the role's; its volumes have distinct names and are exactly the volumes
  the role's container mounts; the configuration volumes are the ConfigMap named after the
  StatefulSet and the HDFS ConfigMap of the cluster; and the log directory that is handed
  to the log agent is not mounted by the role's container. The object is that template with
  the user's overrides merged in (the template itself when there are none), and what Build
  does to it afterwards only adds to the end of its containers and volumes.
\<close>

theorem pod_template_consistent:
  assumes "sts_lib_ok lib" and "sb_ClusterConfig b = Some cc" and "sb_Calls b = []"
    and "STS_Build lib K b = (Ok obj, t)"
  shows "\<exists>template merged main rest. sts_Containers template = main # rest \<and> ct_Name main = sb_RoleName b
    \<and> distinct (map VolumeName (sts_Volumes template))
    \<and> map MountName (added_mounts (ct_Calls main)) = map VolumeName (sts_Volumes template)
    \<and> HbaseLogVolumeName \<notin> MountName ` set (added_mounts (ct_Calls main))
    \<and> \<lparr>VolumeName = ''hbase-config'', VolumeSrc = ConfigMapVolume 420 (base_Name (sb_Base b))\<rparr>
        \<in> set (sts_Volumes template)
    \<and> \<lparr>VolumeName = ''hdfs-config'', VolumeSrc = ConfigMapVolume 420 (HdfsConfigMapName cc)\<rparr>
        \<in> set (sts_Volumes template)
    \<and> (case base_Overrides (sb_Base b) of None \<Rightarrow> Ok template
        | Some ov \<Rightarrow> MergeOverrides lib ov template) = Ok merged
    \<and> prefix (sts_Containers merged) (sts_Containers obj)
    \<and> prefix (sts_Volumes merged) (sts_Volumes obj)"
proof -
  let ?mounts = "added_mounts (ct_Calls (main_container lib K b))"
  obtain rest template merged where
    tmpl: "sts_Containers template = main_container lib K b # rest"
      "sts_Volumes template = config_volumes lib b cc @ krb5_volumes b"
    and merged: "overridden lib (sb_Base b) template = Ok merged"
      "prefix (sts_Containers merged) (sts_Containers obj)" "prefix (sts_Volumes merged) (sts_Volumes obj)"
    using STS_Build_template [OF assms] by blast
  have "STS_GetName lib (sb_Base b) = base_Name (sb_Base b)"
    using assms(1) by (simp add: sts_lib_ok_def)
  moreover have "distinct (map VolumeName (sts_Volumes template))"
    unfolding tmpl own_volume_names by simp
  moreover have "map MountName ?mounts = map VolumeName (sts_Volumes template)"
    unfolding tmpl own_volume_names main_mount_names by (rule refl)
  moreover have "HbaseLogVolumeName \<notin> MountName ` set ?mounts"
    unfolding set_map [symmetric] main_mount_names by (simp add: HbaseLogVolumeName_def)
  ultimately show ?thesis
    using tmpl merged
    by (intro exI [of _ template] exI [of _ merged] exI [of _ "main_container lib K b"] exI [of _ rest])
      (simp add: ct_Name_main_container config_volumes_def overridden_def)
qed

theorem pod_template_consistent_witness:
  "\<exists>obj t main rest. STS_Build sample_sts_lib sample_opgo sample_sts_builder = (Ok obj, t)
     \<and> sts_Containers obj = main # rest \<and> ct_Name main = ''master''
     \<and> \<lparr>VolumeName = ''hbase-config'', VolumeSrc = ConfigMapVolume 420 ''hbase-master-default''\<rparr>
         \<in> set (sts_Volumes obj)"
proof -
  obtain obj t where run: "STS_Build sample_sts_lib sample_opgo sample_sts_builder = (Ok obj, t)"
    using sample_STS_Build by blast
  obtain template merged :: StatefulSet and main rest where
    tmpl: "sts_Containers template = main # rest" "ct_Name main = ''master''"
      "\<lparr>VolumeName = ''hbase-config'', VolumeSrc = ConfigMapVolume 420 ''hbase-master-default''\<rparr>
         \<in> set (sts_Volumes template)"
    and "Ok template = Ok merged"
    and pre: "prefix (sts_Containers merged) (sts_Containers obj)" "prefix (sts_Volumes merged) (sts_Volumes obj)"
    using pod_template_consistent [OF sts_lib_ok_sample sample_sts_builder_sel(1,2) run]
    unfolding sample_sts_builder_sel option.case by (elim exE conjE) (rule that, assumption+)
  then have m: "merged = template" by simp
  show ?thesis
    using run tmpl pre unfolding m by (auto simp: prefix_def)
qed

text \<open>
  C34. The containers of the pod. The template has the role's container, then the OIDC
  side-car when one is built, with the image the builder was given and two volumes, or four
  with Kerberos; the user's overrides are merged into the template, and only then the log
  agent and its volumes are appended, exactly when an aggregator is configured: without
  overrides the pod's containers are these, and with them the agent is the one container the
  overrides do not reach.
\<close>

theorem pod_containers:
  assumes "sts_lib_ok lib" and "sb_ClusterConfig b = Some cc" and "sb_Calls b = []"
    and "STS_Build lib K b = (Ok obj, t)"
  shows "\<exists>main sidecar agent template merged. sts_Containers template = main # sidecar
    \<and> ct_Name main = sb_RoleName b \<and> ct_Image main = base_Image (sb_Base b)
    \<and> buildOidcContainer lib b = Ok (if sidecar = [] then None else Some (hd sidecar))
    \<and> length sidecar \<le> 1
    \<and> length (sts_Volumes template) = (if sb_krb5Config b = None then 2 else 4)
    \<and> (case base_Overrides (sb_Base b) of None \<Rightarrow> Ok template
        | Some ov \<Rightarrow> MergeOverrides lib ov template) = Ok merged
    \<and> sts_Containers obj = sts_Containers merged @ agent
    \<and> agent = (if VectorAggregatorConfigMapName cc = '''' then []
               else [VectorContainer lib ''hbase-config'' ''log'' (base_Image (sb_Base b))])
    \<and> sts_Volumes obj = sts_Volumes merged @ (if VectorAggregatorConfigMapName cc = '''' then []
               else VectorVolumes lib ''hbase-config'' ''log'' (base_Image (sb_Base b)))"
proof -
  obtain oc template merged where oc: "buildOidcContainer lib b = Ok oc"
    and tmpl: "sts_Containers template = [main_container lib K b] @ (case oc of None \<Rightarrow> [] | Some c \<Rightarrow> [c])"
      "sts_Volumes template = config_volumes lib b cc @ krb5_volumes b"
    and merged: "overridden lib (sb_Base b) template = Ok merged"
    and cs: "sts_Containers obj = sts_Containers merged
        @ (if VectorAggregatorConfigMapName cc = '''' then [] else
            [VectorContainer lib HHbaseConfigVolumeName HbaseLogVolumeName (base_Image (sb_Base b))])"
    and vs: "sts_Volumes obj = sts_Volumes merged
        @ (if VectorAggregatorConfigMapName cc = '''' then [] else
            VectorVolumes lib HHbaseConfigVolumeName HbaseLogVolumeName (base_Image (sb_Base b)))"
    using STS_Build_object [OF assms] by (elim exE conjE) (rule that, assumption+)
  have len: "length (sts_Volumes template) = (if sb_krb5Config b = None then 2 else 4)"
    using arg_cong [OF own_volume_names [of lib b cc], of length] by (simp add: tmpl)
  have "STS_GetImage lib (sb_Base b) = base_Image (sb_Base b)"
    using assms(1) by (simp add: sts_lib_ok_def)
  then have img: "ct_Image (main_container lib K b) = base_Image (sb_Base b)"
    by (simp add: main_container_def)
  show ?thesis
    using oc tmpl(1) len img merged cs vs
    unfolding overridden_def HHbaseConfigVolumeName_def HbaseLogVolumeName_def
    by (intro exI [of _ "main_container lib K b"] exI [of _ "case oc of None \<Rightarrow> [] | Some c \<Rightarrow> [c]"]
        exI [of _ "if VectorAggregatorConfigMapName cc = '''' then [] else
            [VectorContainer lib ''hbase-config'' ''log'' (base_Image (sb_Base b))]"]
        exI [of _ template] exI [of _ merged])
      (simp add: ct_Name_main_container split: option.split)
qed

theorem pod_containers_witness:
  "\<exists>obj t main c agent. STS_Build sample_sts_lib sample_opgo sample_sts_builder = (Ok obj, t)
     \<and> sts_Containers obj = [main, c, agent] \<and> ct_Name main = ''master''"
proof -
  obtain obj t where run: "STS_Build sample_sts_lib sample_opgo sample_sts_builder = (Ok obj, t)"
    using sample_STS_Build by blast
  obtain c where c: "buildOidcContainer sample_sts_lib sample_sts_builder = Ok (Some c)"
    using sample_oidc_container by blast
  obtain main sidecar agent where "sts_Containers obj = main # sidecar @ agent"
    "ct_Name main = ''master''" "sidecar \<noteq> []" "length sidecar \<le> 1" "length agent = 1"
    using pod_containers [OF sts_lib_ok_sample sample_sts_builder_sel(1,2) run] c
    by (auto simp: sample_sts_builder_sel oidc_cluster_config_def split: if_splits)
  then show ?thesis using run by (cases sidecar; cases agent) auto
qed

text \<open>
  C26. The OIDC side-car sits in front of the web UI. When it is built, the cluster names an
  authentication class and OIDC credentials and the class exists and offers OIDC; for the
  port table of any role its upstream is the port called ui-http of that table, and its own
  port has neither the number nor the name of a port of the role.
\<close>

theorem oidc_sidecar_upstream:
  assumes "buildOidcContainer lib b = Ok (Some c)"
    and "sb_Ports b \<in> {master_Ports, regionserver_Ports, restserver_Ports}"
  shows "ct_Name c = ''oidc'' \<and> added_ports (ct_Calls c) = [OidcContainerPort]
    \<and> (\<exists>p \<in> set (sb_Ports b). PortName p = ''ui-http''
        \<and> env_lookup (added_envs (ct_Calls c)) ''UPSTREAM'' =
            Some (env_value ''UPSTREAM'' (''http://$(POD_IP):'' @ Itoa (sint (PortNumber p)))))
    \<and> PortNumber OidcContainerPort \<notin> PortNumber ` set (sb_Ports b)
    \<and> PortName OidcContainerPort \<notin> PortName ` set (sb_Ports b)
    \<and> (\<exists>cc auth authClass. sb_ClusterConfig b = Some cc \<and> Authentication cc = Some auth
        \<and> Oidc auth \<noteq> None \<and> AuthenticationClassName auth \<noteq> ''''
        \<and> LookupAuthenticationClass (base_Client (sb_Base b)) (AuthenticationClassName auth) = Ok authClass
        \<and> ac_OIDC authClass \<noteq> None)"
proof -
  obtain cc auth authClass provider spec where cond:
    "sb_ClusterConfig b = Some cc" "Authentication cc = Some auth" "AuthenticationClassName auth \<noteq> ''''"
    "LookupAuthenticationClass (base_Client (sb_Base b)) (AuthenticationClassName auth) = Ok authClass"
    "ac_OIDC authClass = Some provider" "Oidc auth = Some spec"
    and c: "c = Oidc_GetContainer (NewOidc (OwnerUID (base_Client (sb_Base b)))
       (STS_GetImage lib (sb_Base b)) (ui_port (sb_Ports b)) spec provider)"
    using assms(1) unfolding buildOidcContainer_Some_iff by blast
  have up: "env_lookup (added_envs (ct_Calls c)) ''UPSTREAM'' =
      Some (env_value ''UPSTREAM'' (''http://$(POD_IP):'' @ Itoa (sint (ui_port (sb_Ports b)))))"
    unfolding c envs_Oidc_GetContainer
    by (simp add: getEnvVars_def env_lookup_def env_defs NewOidc_def Let_def)
  have "\<exists>p \<in> set (sb_Ports b). PortName p = ''ui-http'' \<and> PortNumber p = ui_port (sb_Ports b)"
    using assms(2) master_table.ui_port_listed_found regionserver_table.ui_port_listed_found
      restserver_table.ui_port_listed_found by auto
  moreover have "PortNumber OidcContainerPort \<notin> PortNumber ` set (sb_Ports b)"
    "PortName OidcContainerPort \<notin> PortName ` set (sb_Ports b)"
    using assms(2) by (auto simp: port_tables tcp_port_def OidcContainerPort_def)
  moreover have "ct_Name c = ''oidc''" "added_ports (ct_Calls c) = [OidcContainerPort]"
    by (simp_all add: c Oidc_GetContainer_def call_container_def NewContainer_def)
  ultimately show ?thesis using up cond by auto
qed

theorem oidc_sidecar_upstream_witness:
  "\<exists>c. buildOidcContainer sample_sts_lib sample_sts_builder = Ok (Some c) \<and> ct_Name c = ''oidc''
     \<and> (\<exists>p \<in> set master_Ports. PortName p = ''ui-http''
        \<and> env_lookup (added_envs (ct_Calls c)) ''UPSTREAM'' =
            Some (env_value ''UPSTREAM'' (''http://$(POD_IP):'' @ Itoa (sint (PortNumber p)))))"
proof -
  obtain c where c: "buildOidcContainer sample_sts_lib sample_sts_builder = Ok (Some c)"
    using sample_oidc_container by blast
  then show ?thesis
    using oidc_sidecar_upstream [OF c] by (simp only: sample_sts_builder_sel insert_iff simp_thms) blast
qed

text \<open>
  C27. The start-up script. For every builder the single argument of the main container is
  the indented script that creates the configuration directory, copies both mounted
  configuration directories into it, runs the Kerberos setup when there is one, and only
  then starts HBase and waits for it. The process started is the role's: bin/hbase master
  start for a master, regionserver for a region server, rest for a REST server; for a role
  the operator does not know the sub-command is empty. The directories copied from are the
  mount paths.
\<close>

theorem startup_script:
  "GetMainContainerCommanArgs K b = [IndentTab4Spaces K
     (''mkdir -p '' @ HBaseConfigDir K @ NL
      @ ''cp '' @ HBaseMountConfigDir K @ ''/* '' @ KubedoopConfigDir K @ NL
      @ ''cp '' @ HDFSMountConfigDir K @ ''/* '' @ KubedoopConfigDir K @ NL @ NL
      @ (case sb_krb5Config b of None \<Rightarrow> '''' | Some c \<Rightarrow> Krb5_GetContainerCommands K c) @ NL @ NL
      @ script_lines (signal_handlers @ [''prepare_signal_handlers''])
      @ (if sb_RoleName b = ''master'' then ''bin/hbase master start &''
         else if sb_RoleName b = ''regionserver'' then ''bin/hbase regionserver start &''
         else if sb_RoleName b = ''restserver'' then ''bin/hbase rest start &''
         else ''bin/hbase  start &'') @ NL @ ''wait_for_termination $!'' @ NL)]
   \<and> set (map MountPath (getVolumeMounts K)) = {HBaseMountConfigDir K, HDFSMountConfigDir K}"
proof
  let ?krb = "case sb_krb5Config b of None \<Rightarrow> '''' | Some c \<Rightarrow> Krb5_GetContainerCommands K c"
  let ?sub = "case roleNameToCommandArg (sb_RoleName b) of None \<Rightarrow> '''' | Some a \<Rightarrow> a"
  let ?start = "if sb_RoleName b = ''master'' then ''bin/hbase master start &''
         else if sb_RoleName b = ''regionserver'' then ''bin/hbase regionserver start &''
         else if sb_RoleName b = ''restserver'' then ''bin/hbase rest start &''
         else ''bin/hbase  start &''"
  have star: "path_Join [HBaseMountConfigDir K, ''*''] = HBaseMountConfigDir K @ ''/*''"
    "path_Join [HDFSMountConfigDir K, ''*''] = HDFSMountConfigDir K @ ''/*''"
    by (simp_all add: HBaseMountConfigDir_def HDFSMountConfigDir_def path_Join_nested plain_name_def)
  have app: "script_lines (xs @ ys) = script_lines xs @ script_lines ys" for xs ys
    by (simp add: script_lines_def)
  have start: "''bin/hbase '' @ ?sub @ '' start &'' = ?start"
    by (simp add: roleNameToCommandArg_def)
  have "main_script K ?krb ?sub = ''mkdir -p '' @ HBaseConfigDir K @ NL
      @ ''cp '' @ HBaseMountConfigDir K @ ''/* '' @ KubedoopConfigDir K @ NL
      @ ''cp '' @ HDFSMountConfigDir K @ ''/* '' @ KubedoopConfigDir K @ NL @ NL
      @ ?krb @ NL @ NL @ script_lines (signal_handlers @ [''prepare_signal_handlers''])
      @ ?start @ NL @ ''wait_for_termination $!'' @ NL"
    unfolding main_script_def star app start by (simp add: script_lines_def)
  then show "GetMainContainerCommanArgs K b = [IndentTab4Spaces K
     (''mkdir -p '' @ HBaseConfigDir K @ NL
      @ ''cp '' @ HBaseMountConfigDir K @ ''/* '' @ KubedoopConfigDir K @ NL
      @ ''cp '' @ HDFSMountConfigDir K @ ''/* '' @ KubedoopConfigDir K @ NL @ NL
      @ ?krb @ NL @ NL @ script_lines (signal_handlers @ [''prepare_signal_handlers''])
      @ ?start @ NL @ ''wait_for_termination $!'' @ NL)]"
    by (simp only: GetMainContainerCommanArgs_def Let_def)
  show "set (map MountPath (getVolumeMounts K)) = {HBaseMountConfigDir K, HDFSMountConfigDir K}"
    by (auto simp: getVolumeMounts_def HBaseMountConfigDir_def HDFSMountConfigDir_def)
qed

text \<open>The ports the three probes ask, start-up, liveness and readiness.\<close>

definition probed_ports :: "StatefulSetBuilder \<Rightarrow> string res list" where
  "probed_ports b = map (\<lambda>probe. bind_res probe (\<lambda>p. Ok (TCPSocketPort (Handler p))))
     [GetStartupProbe b, GetLivenessProbe b, GetReadinessProbe b]"

lemma probed_ports_eq:
  "probed_ports b = replicate 3 (if known_role (sb_RoleName b) then Ok (probe_port (sb_RoleName b))
     else Panic NilDeref)"
  by (simp add: probed_ports_def getProbeHandler_eq GetStartupProbe_def GetLivenessProbe_def
      GetReadinessProbe_def numeral_3_eq_3)

text \<open>
  C35. Probes reach the role. For a builder of each role the start-up, the liveness and the
  readiness probe can all be made, and all three ask the same port, by the name of exactly
  one port of the role's port table; for a role outside the three, and only then, each of
  the three panics on the nil handler.
\<close>

theorem probes_reach_role_port:
  "(\<exists>!p. p \<in> set master_Ports \<and>
      probed_ports (b\<lparr>sb_RoleName := MASTER_ROLE\<rparr>) = replicate 3 (Ok (PortName p)))
   \<and> (\<exists>!p. p \<in> set regionserver_Ports \<and>
      probed_ports (b\<lparr>sb_RoleName := REGIONSERVER_ROLE\<rparr>) = replicate 3 (Ok (PortName p)))
   \<and> (\<exists>!p. p \<in> set restserver_Ports \<and>
      probed_ports (b\<lparr>sb_RoleName := RESTSERVER_ROLE\<rparr>) = replicate 3 (Ok (PortName p)))
   \<and> (probed_ports b = replicate 3 (Panic NilDeref) \<longleftrightarrow>
        sb_RoleName b \<notin> {MASTER_ROLE, REGIONSERVER_ROLE, RESTSERVER_ROLE})"
proof -
  have h: "probed_ports (b\<lparr>sb_RoleName := r\<rparr>) = replicate 3 (Ok n) \<longleftrightarrow> n = probe_port r"
    if "known_role r" for r n
    using that by (auto simp: probed_ports_eq numeral_3_eq_3)
  have roles: "known_role MASTER_ROLE" "known_role REGIONSERVER_ROLE" "known_role RESTSERVER_ROLE"
    by (simp_all add: known_role_def)
  have "probe_port MASTER_ROLE = ''master''" "probe_port REGIONSERVER_ROLE = ''regionserver''"
    "probe_port RESTSERVER_ROLE = ''rest-http''"
    by (simp_all add: probe_port_def role_names)
  moreover have "probed_ports b = replicate 3 (Panic NilDeref) \<longleftrightarrow> \<not> known_role (sb_RoleName b)"
    by (simp add: probed_ports_eq numeral_3_eq_3)
  ultimately show ?thesis
    unfolding roles [THEN h] known_role_def
    using master_table.named_port_ex1 regionserver_table.named_port_ex1 restserver_table.named_port_ex1
    by (simp only: simp_thms)
qed

end
