(* ===== verification/Roles.thy ===== *)
theory Roles
  imports ConfigMap_Builder StatefulSet_Builder
begin

text \<open>
  The three roles: internal/controller/{master,regionserver,restserver}/role.go. A role
  reconciler walks over the role groups of its specification, merges their settings with
  the role's, and registers four resources for each.
\<close>

section \<open>The role reconciler\<close>

text \<open>The base of a role reconciler: what the library's constructor is given, without the specification.\<close>

record RoleBase =
  rb_Client :: client
  rb_ClusterStopped :: bool
  rb_RoleInfo :: RoleInfo

record 'spec RoleReconciler =
  rr_Base :: RoleBase
  rr_Spec :: "'spec option"
  rr_ClusterConfig :: "ClusterConfigSpec option"
  rr_Image :: Image

text \<open>
  The library functions: merging a role's and a role group's settings, at the four types
  they are merged at, and the accessors of the base.
\<close>

record role_lib =
  Merge_OverridesSpec :: "OverridesSpec option \<Rightarrow> OverridesSpec option \<Rightarrow> OverridesSpec option res"
  Merge_MasterConfigSpec :: "MasterConfigSpec option \<Rightarrow> MasterConfigSpec option \<Rightarrow> MasterConfigSpec option res"
  Merge_RegionConfigSpec :: "RegionConfigSpec option \<Rightarrow> RegionConfigSpec option \<Rightarrow> RegionConfigSpec option res"
  Merge_RestServerConfigSpec ::
    "RestServerConfigSpec option \<Rightarrow> RestServerConfigSpec option \<Rightarrow> RestServerConfigSpec option res"
  ClusterStopped :: "RoleBase \<Rightarrow> bool"
  Role_GetClient :: "RoleBase \<Rightarrow> client"
  Role_GetClusterName :: "RoleBase \<Rightarrow> string"

text \<open>The resources a role registers; adding one appends it to the reconciler's list.\<close>

datatype resource =
    StatefulSetResource StatefulSetReconciler
  | ServiceResource client ServiceBuilder
  | ConfigMapResource ConfigMapReconciler
  | MetricsServiceResource client ServiceBuilder

definition AddResource :: "'r \<Rightarrow> ('r list, unit) eff" where
  "AddResource r = modify_eff (\<lambda>rs. rs @ [r])"

fun add_each :: "'r list \<Rightarrow> ('r list, unit) eff" where
  "add_each [] = ret_eff ()"
| "add_each (r # rs) = bind_eff (AddResource r) (\<lambda>_. add_each rs)"

text \<open>The orders in which Go visits the label and annotation maps of a role group.\<close>

record orders =
  ord_Labels :: "RoleGroupInfo \<Rightarrow> string list"
  ord_Annotations :: "RoleGroupInfo \<Rightarrow> string list"

definition orders_ok :: "opgo \<Rightarrow> orders \<Rightarrow> bool" where
  "orders_ok K os \<longleftrightarrow> (\<forall>info. range_order (ord_Labels os info) (GetLabels K info)
     \<and> range_order (ord_Annotations os info) (GetAnnotations K info))"

section \<open>The master role\<close>

definition master_NewReconciler ::
    "client \<Rightarrow> bool \<Rightarrow> ClusterConfigSpec option \<Rightarrow> RoleInfo \<Rightarrow> Image \<Rightarrow> MasterSpec option
     \<Rightarrow> MasterSpec RoleReconciler" where
  "master_NewReconciler cl clusterStopped clusterConfig roleInfo img spec =
     \<lparr>rr_Base = \<lparr>rb_Client = cl, rb_ClusterStopped = clusterStopped, rb_RoleInfo = roleInfo\<rparr>,
      rr_Spec = spec, rr_ClusterConfig = clusterConfig, rr_Image = img\<rparr>"

definition master_RegisterResourceWithRoleGroup ::
    "role_lib \<Rightarrow> opgo \<Rightarrow> orders \<Rightarrow> MasterSpec RoleReconciler \<Rightarrow> int32 option \<Rightarrow> RoleGroupInfo
     \<Rightarrow> OverridesSpec option \<Rightarrow> RoleGroupConfigSpec option \<Rightarrow> resource list res" where
  "master_RegisterResourceWithRoleGroup lib K os r replicas info overrides roleGroupConfig =
     bind_res (NewStatefulSetReconciler K (rb_Client (rr_Base r)) (rr_ClusterConfig r) info master_Ports
       (rr_Image r) (ClusterStopped lib (rr_Base r)) replicas overrides roleGroupConfig)
       (\<lambda>statefulSetReconciler.
     let serviceReconciler = \<lparr>svc_Name = GetFullName K info, svc_Ports = master_Ports,
           svc_Option = (\<lambda>sbo. sbo\<lparr>sbo_Labels := GetLabels K info,
              sbo_Annotations := GetAnnotations K info,
              sbo_ClusterName := Role_GetClusterName lib (rr_Base r),
              sbo_RoleName := ri_RoleName (rb_RoleInfo (rr_Base r)),
              sbo_RoleGroupName := rgi_RoleGroupName info\<rparr>)\<rparr>;
         roleLoggingConfig = GetRoleLoggingConfig roleGroupConfig (ri_RoleName (rgi_RoleInfo info))
     in bind_res (NewConfigMapReconciler K (Role_GetClient lib (rr_Base r)) (rr_ClusterConfig r)
          roleLoggingConfig info) (\<lambda>configMapReconciler.
     bind_res (NewRoleGroupMetricsService K (ord_Labels os info) (ord_Annotations os info) info)
       (\<lambda>metricsServiceReconciler.
     Ok [StatefulSetResource statefulSetReconciler,
         ServiceResource (rb_Client (rr_Base r)) serviceReconciler,
         ConfigMapResource configMapReconciler,
         MetricsServiceResource (rb_Client (rr_Base r)) metricsServiceReconciler])))"

definition master_role_group ::
    "role_lib \<Rightarrow> opgo \<Rightarrow> orders \<Rightarrow> MasterSpec RoleReconciler \<Rightarrow> string \<Rightarrow> MasterRoleGroupSpec
     \<Rightarrow> resource list res" where
  "master_role_group lib K os r name roleGroup =
     bind_res (deref (rr_Spec r)) (\<lambda>spec.
     bind_res (Merge_MasterConfigSpec lib (ms_Config spec) (mg_Config roleGroup)) (\<lambda>mergedConfig.
     bind_res (Merge_OverridesSpec lib (ms_OverridesSpec spec) (mg_OverridesSpec roleGroup)) (\<lambda>overrides.
     let info = \<lparr>rgi_RoleInfo = rb_RoleInfo (rr_Base r), rgi_RoleGroupName = name\<rparr>;
         roleGroupConfig = (case mergedConfig of None \<Rightarrow> None | Some c \<Rightarrow> mc_RoleGroupConfigSpec c)
     in master_RegisterResourceWithRoleGroup lib K os r (mg_Replicas roleGroup) info overrides
          roleGroupConfig)))"

text \<open>The loop over the role groups, visited in the order \<open>ks\<close>; the state is what has been added.\<close>

definition master_RegisterResources ::
    "role_lib \<Rightarrow> opgo \<Rightarrow> orders \<Rightarrow> string list \<Rightarrow> MasterSpec RoleReconciler
     \<Rightarrow> (resource list, unit) eff" where
  "master_RegisterResources lib K os ks r =
     bind_eff (lift_res (deref (rr_Spec r))) (\<lambda>spec.
     range_loop (\<lambda>name roleGroup.
         bind_eff (lift_res (master_role_group lib K os r name roleGroup)) add_each)
       (range_entries ks (ms_RoleGroups spec)))"

section \<open>The region server role\<close>

definition regionserver_NewReconciler ::
    "client \<Rightarrow> bool \<Rightarrow> ClusterConfigSpec option \<Rightarrow> RoleInfo \<Rightarrow> Image \<Rightarrow> RegionServerSpec option
     \<Rightarrow> RegionServerSpec RoleReconciler" where
  "regionserver_NewReconciler cl clusterStopped clusterConfig roleInfo img spec =
     \<lparr>rr_Base = \<lparr>rb_Client = cl, rb_ClusterStopped = clusterStopped, rb_RoleInfo = roleInfo\<rparr>,
      rr_Spec = spec, rr_ClusterConfig = clusterConfig, rr_Image = img\<rparr>"

definition regionserver_RegisterResourceWithRoleGroup ::
    "role_lib \<Rightarrow> opgo \<Rightarrow> orders \<Rightarrow> RegionServerSpec RoleReconciler \<Rightarrow> int32 option \<Rightarrow> RoleGroupInfo
     \<Rightarrow> OverridesSpec option \<Rightarrow> RoleGroupConfigSpec option \<Rightarrow> resource list res" where
  "regionserver_RegisterResourceWithRoleGroup lib K os r replicas info overrides roleGroupConfig =
     bind_res (NewStatefulSetReconciler K (rb_Client (rr_Base r)) (rr_ClusterConfig r) info regionserver_Ports
       (rr_Image r) (ClusterStopped lib (rr_Base r)) replicas overrides roleGroupConfig)
       (\<lambda>statefulSetReconciler.
     let serviceReconciler = \<lparr>svc_Name = GetFullName K info, svc_Ports = regionserver_Ports,
           svc_Option = (\<lambda>sbo. sbo\<lparr>sbo_Labels := GetLabels K info,
              sbo_Annotations := GetAnnotations K info,
              sbo_ClusterName := Role_GetClusterName lib (rr_Base r),
              sbo_RoleName := ri_RoleName (rb_RoleInfo (rr_Base r)),
              sbo_RoleGroupName := rgi_RoleGroupName info\<rparr>)\<rparr>;
         roleLoggingConfig = GetRoleLoggingConfig roleGroupConfig (ri_RoleName (rgi_RoleInfo info))
     in bind_res (NewConfigMapReconciler K (Role_GetClient lib (rr_Base r)) (rr_ClusterConfig r)
          roleLoggingConfig info) (\<lambda>configMapReconciler.
     bind_res (NewRoleGroupMetricsService K (ord_Labels os info) (ord_Annotations os info) info)
       (\<lambda>metricsServiceReconciler.
     Ok [StatefulSetResource statefulSetReconciler,
         ServiceResource (rb_Client (rr_Base r)) serviceReconciler,
         ConfigMapResource configMapReconciler,
         MetricsServiceResource (rb_Client (rr_Base r)) metricsServiceReconciler])))"

definition regionserver_role_group ::
    "role_lib \<Rightarrow> opgo \<Rightarrow> orders \<Rightarrow> RegionServerSpec RoleReconciler \<Rightarrow> string \<Rightarrow> RegionServerRoleGroupSpec
     \<Rightarrow> resource list res" where
  "regionserver_role_group lib K os r name roleGroup =
     bind_res (deref (rr_Spec r)) (\<lambda>spec.
     bind_res (Merge_RegionConfigSpec lib (rs_Config spec) (rg_Config roleGroup)) (\<lambda>mergedConfig.
     bind_res (Merge_OverridesSpec lib (rs_OverridesSpec spec) (rg_OverridesSpec roleGroup)) (\<lambda>overrides.
     let info = \<lparr>rgi_RoleInfo = rb_RoleInfo (rr_Base r), rgi_RoleGroupName = name\<rparr>;
         roleGroupConfig = (case mergedConfig of None \<Rightarrow> None | Some c \<Rightarrow> rc_RoleGroupConfigSpec c)
     in regionserver_RegisterResourceWithRoleGroup lib K os r (rg_Replicas roleGroup) info overrides
          roleGroupConfig)))"

text \<open>The loop over the role groups, visited in the order \<open>ks\<close>; the state is what has been added.\<close>

definition regionserver_RegisterResources ::
    "role_lib \<Rightarrow> opgo \<Rightarrow> orders \<Rightarrow> string list \<Rightarrow> RegionServerSpec RoleReconciler
     \<Rightarrow> (resource list, unit) eff" where
  "regionserver_RegisterResources lib K os ks r =
     bind_eff (lift_res (deref (rr_Spec r))) (\<lambda>spec.
     range_loop (\<lambda>name roleGroup.
         bind_eff (lift_res (regionserver_role_group lib K os r name roleGroup)) add_each)
       (range_entries ks (rs_RoleGroups spec)))"

section \<open>The REST server role\<close>

definition restserver_NewReconciler ::
    "client \<Rightarrow> bool \<Rightarrow> ClusterConfigSpec option \<Rightarrow> RoleInfo \<Rightarrow> Image \<Rightarrow> RestServerSpec option
     \<Rightarrow> RestServerSpec RoleReconciler" where
  "restserver_NewReconciler cl clusterStopped clusterConfig roleInfo img spec =
     \<lparr>rr_Base = \<lparr>rb_Client = cl, rb_ClusterStopped = clusterStopped, rb_RoleInfo = roleInfo\<rparr>,
      rr_Spec = spec, rr_ClusterConfig = clusterConfig, rr_Image = img\<rparr>"

definition restserver_RegisterResourceWithRoleGroup ::
    "role_lib \<Rightarrow> opgo \<Rightarrow> orders \<Rightarrow> RestServerSpec RoleReconciler \<Rightarrow> int32 option \<Rightarrow> RoleGroupInfo
     \<Rightarrow> OverridesSpec option \<Rightarrow> RoleGroupConfigSpec option \<Rightarrow> resource list res" where
  "restserver_RegisterResourceWithRoleGroup lib K os r replicas info overrides roleGroupConfig =
     bind_res (NewStatefulSetReconciler K (rb_Client (rr_Base r)) (rr_ClusterConfig r) info restserver_Ports
       (rr_Image r) (ClusterStopped lib (rr_Base r)) replicas overrides roleGroupConfig)
       (\<lambda>statefulSetReconciler.
     let serviceReconciler = \<lparr>svc_Name = GetFullName K info, svc_Ports = restserver_Ports,
           svc_Option = (\<lambda>sbo. sbo\<lparr>sbo_Labels := GetLabels K info,
              sbo_Annotations := GetAnnotations K info,
              sbo_ClusterName := Role_GetClusterName lib (rr_Base r),
              sbo_RoleName := ri_RoleName (rb_RoleInfo (rr_Base r)),
              sbo_RoleGroupName := rgi_RoleGroupName info\<rparr>)\<rparr>;
         roleLoggingConfig = GetRoleLoggingConfig roleGroupConfig (ri_RoleName (rgi_RoleInfo info))
     in bind_res (NewConfigMapReconciler K (Role_GetClient lib (rr_Base r)) (rr_ClusterConfig r)
          roleLoggingConfig info) (\<lambda>configMapReconciler.
     bind_res (NewRoleGroupMetricsService K (ord_Labels os info) (ord_Annotations os info) info)
       (\<lambda>metricsServiceReconciler.
     Ok [StatefulSetResource statefulSetReconciler,
         ServiceResource (rb_Client (rr_Base r)) serviceReconciler,
         ConfigMapResource configMapReconciler,
         MetricsServiceResource (rb_Client (rr_Base r)) metricsServiceReconciler])))"

definition restserver_role_group ::
    "role_lib \<Rightarrow> opgo \<Rightarrow> orders \<Rightarrow> RestServerSpec RoleReconciler \<Rightarrow> string \<Rightarrow> RestServerRoleGroupSpec
     \<Rightarrow> resource list res" where
  "restserver_role_group lib K os r name roleGroup =
     bind_res (deref (rr_Spec r)) (\<lambda>spec.
     bind_res (Merge_RestServerConfigSpec lib (ts_Config spec) (tg_Config roleGroup)) (\<lambda>mergedConfig.
     bind_res (Merge_OverridesSpec lib (ts_OverridesSpec spec) (tg_OverridesSpec roleGroup)) (\<lambda>overrides.
     let info = \<lparr>rgi_RoleInfo = rb_RoleInfo (rr_Base r), rgi_RoleGroupName = name\<rparr>;
         roleGroupConfig = (case mergedConfig of None \<Rightarrow> None | Some c \<Rightarrow> tc_RoleGroupConfigSpec c)
     in restserver_RegisterResourceWithRoleGroup lib K os r (tg_Replicas roleGroup) info overrides
          roleGroupConfig)))"

text \<open>The loop over the role groups, visited in the order \<open>ks\<close>; the state is what has been added.\<close>

definition restserver_RegisterResources ::
    "role_lib \<Rightarrow> opgo \<Rightarrow> orders \<Rightarrow> string list \<Rightarrow> RestServerSpec RoleReconciler
     \<Rightarrow> (resource list, unit) eff" where
  "restserver_RegisterResources lib K os ks r =
     bind_eff (lift_res (deref (rr_Spec r))) (\<lambda>spec.
     range_loop (\<lambda>name roleGroup.
         bind_eff (lift_res (restserver_role_group lib K os r name roleGroup)) add_each)
       (range_entries ks (ts_RoleGroups spec)))"

section \<open>What a role group registers\<close>

text \<open>The documented meaning of the base's accessors: they return what its constructor was given.\<close>

definition role_lib_ok :: "role_lib \<Rightarrow> bool" where
  "role_lib_ok lib \<longleftrightarrow> (\<forall>base. ClusterStopped lib base = rb_ClusterStopped base
     \<and> Role_GetClient lib base = rb_Client base
     \<and> Role_GetClusterName lib base = ci_ClusterName (ri_ClusterInfo (rb_RoleInfo base)))"

text \<open>The three copies of the registration differ in the port table only.\<close>

definition register_group ::
    "role_lib \<Rightarrow> opgo \<Rightarrow> orders \<Rightarrow> RoleBase \<Rightarrow> ClusterConfigSpec option \<Rightarrow> Image \<Rightarrow> ContainerPort list
     \<Rightarrow> int32 option \<Rightarrow> RoleGroupInfo \<Rightarrow> OverridesSpec option \<Rightarrow> RoleGroupConfigSpec option
     \<Rightarrow> resource list res" where
  "register_group lib K os base clusterConfig img ports replicas info overrides roleGroupConfig =
     bind_res (NewStatefulSetReconciler K (rb_Client base) clusterConfig info ports img
       (ClusterStopped lib base) replicas overrides roleGroupConfig) (\<lambda>sts.
     bind_res (NewConfigMapReconciler K (Role_GetClient lib base) clusterConfig
       (GetRoleLoggingConfig roleGroupConfig (ri_RoleName (rgi_RoleInfo info))) info) (\<lambda>cm.
     bind_res (NewRoleGroupMetricsService K (ord_Labels os info) (ord_Annotations os info) info) (\<lambda>m.
     Ok [StatefulSetResource sts,
         ServiceResource (rb_Client base) \<lparr>svc_Name = GetFullName K info, svc_Ports = ports,
           svc_Option = (\<lambda>sbo. sbo\<lparr>sbo_Labels := GetLabels K info,
              sbo_Annotations := GetAnnotations K info,
              sbo_ClusterName := Role_GetClusterName lib base,
              sbo_RoleName := ri_RoleName (rb_RoleInfo base),
              sbo_RoleGroupName := rgi_RoleGroupName info\<rparr>)\<rparr>,
         ConfigMapResource cm, MetricsServiceResource (rb_Client base) m])))"

lemma register_group_copies:
  "master_RegisterResourceWithRoleGroup lib K os m =
     register_group lib K os (rr_Base m) (rr_ClusterConfig m) (rr_Image m) master_Ports"
  "regionserver_RegisterResourceWithRoleGroup lib K os g =
     register_group lib K os (rr_Base g) (rr_ClusterConfig g) (rr_Image g) regionserver_Ports"
  "restserver_RegisterResourceWithRoleGroup lib K os t =
     register_group lib K os (rr_Base t) (rr_ClusterConfig t) (rr_Image t) restserver_Ports"
  unfolding fun_eq_iff master_RegisterResourceWithRoleGroup_def
    regionserver_RegisterResourceWithRoleGroup_def restserver_RegisterResourceWithRoleGroup_def
    register_group_def Let_def
  by blast+

text \<open>
  What the four resources of a role group have to be: one StatefulSet, Service, ConfigMap
  and metrics Service, in this order; named after the group; StatefulSet and Service with
  the role's ports; StatefulSet and ConfigMap for the same role, cluster configuration and
  Kerberos settings; both builders new; the metrics Service for the role's metrics port.
\<close>

definition group_registered ::
    "opgo \<Rightarrow> RoleBase \<Rightarrow> ClusterConfigSpec option \<Rightarrow> Image \<Rightarrow> ContainerPort list \<Rightarrow> string
     \<Rightarrow> resource list \<Rightarrow> bool" where
  "group_registered K base clusterConfig img ports name rs \<longleftrightarrow>
     (let info = \<lparr>rgi_RoleInfo = rb_RoleInfo base, rgi_RoleGroupName = name\<rparr>;
          role = ri_RoleName (rb_RoleInfo base)
      in \<exists>sts svc cm m cc port.
        rs = [StatefulSetResource sts, ServiceResource (rb_Client base) svc, ConfigMapResource cm,
              MetricsServiceResource (rb_Client base) m]
        \<and> clusterConfig = Some cc
        \<and> base_Name (sb_Base (sr_Builder sts)) = GetFullName K info
        \<and> svc_Name svc = GetFullName K info \<and> cb_Name (cr_Builder cm) = GetFullName K info
        \<and> svc_Name m = GetFullName K info @ ''-metrics''
        \<and> sb_Ports (sr_Builder sts) = ports \<and> svc_Ports svc = ports
        \<and> base_Image (sb_Base (sr_Builder sts)) = img
        \<and> sr_Stopped sts = rb_ClusterStopped base
        \<and> sb_RoleName (sr_Builder sts) = role \<and> cb_RoleName (cr_Builder cm) = role
        \<and> sb_ClusterConfig (sr_Builder sts) = Some cc \<and> cr_ClusterConfig cm = cc
        \<and> sb_krb5Config (sr_Builder sts) = cb_krb5Config (cr_Builder cm)
        \<and> sb_Calls (sr_Builder sts) = [] \<and> cb_Calls (cr_Builder cm) = []
        \<and> GetMetricsPort role = Ok port \<and> svc_Ports m = [tcp_port ''metrics'' port])"

text \<open>The Kerberos settings both builders arrive at.\<close>

definition role_krb5 :: "client \<Rightarrow> RoleGroupInfo \<Rightarrow> ClusterConfigSpec \<Rightarrow> HbaseKerberosConfig option" where
  "role_krb5 cl info cc =
     (case Authentication cc of None \<Rightarrow> None
      | Some a \<Rightarrow>
          if KerberosSecretClass a \<noteq> '''' \<and> TlsSecretClass a \<noteq> ''''
          then Some (NewHbaseKerberosConfig (OwnerNamespace cl)
                 (ci_ClusterName (ri_ClusterInfo (rgi_RoleInfo info))) (ri_RoleName (rgi_RoleInfo info))
                 (rgi_RoleGroupName info) (KerberosSecretClass a) (TlsSecretClass a))
          else None)"

lemma NewStatefulSetReconciler_Ok:
  assumes "accessors_ok K"
    and "NewStatefulSetReconciler K cl clusterConfig info ports img stopped replicas overrides cfg = Ok sts"
  shows "\<exists>cc. clusterConfig = Some cc \<and> base_Name (sb_Base (sr_Builder sts)) = GetFullName K info
     \<and> base_Image (sb_Base (sr_Builder sts)) = img \<and> sr_Stopped sts = stopped
     \<and> sb_Ports (sr_Builder sts) = ports \<and> sb_Calls (sr_Builder sts) = []
     \<and> sb_RoleName (sr_Builder sts) = ri_RoleName (rgi_RoleInfo info)
     \<and> sb_ClusterConfig (sr_Builder sts) = Some cc
     \<and> sb_krb5Config (sr_Builder sts) = role_krb5 cl info cc"
  using assms
  by (cases clusterConfig)
    (auto simp: NewStatefulSetReconciler_def NewStatefulSetBuilder_def apply_options_def
      accessors_ok_def role_krb5_def Let_def split: option.split)

lemma NewConfigMapReconciler_Ok:
  assumes "accessors_ok K" and "NewConfigMapReconciler K cl clusterConfig logging info = Ok cm"
  shows "\<exists>cc. clusterConfig = Some cc \<and> cb_Name (cr_Builder cm) = GetFullName K info
     \<and> cb_Calls (cr_Builder cm) = [] \<and> cb_RoleName (cr_Builder cm) = ri_RoleName (rgi_RoleInfo info)
     \<and> cr_ClusterConfig cm = cc \<and> cb_krb5Config (cr_Builder cm) = role_krb5 cl info cc"
  using assms
  by (cases clusterConfig)
    (auto simp: NewConfigMapReconciler_def NewConfigMapBuilder_def apply_options_def
      accessors_ok_def role_krb5_def Let_def split: option.split)

lemma constructors_is_Ok:
  "is_Ok (NewStatefulSetReconciler K cl clusterConfig info ports img stopped replicas overrides cfg)
     \<longleftrightarrow> clusterConfig \<noteq> None"
  "is_Ok (NewConfigMapReconciler K cl clusterConfig logging info) \<longleftrightarrow> clusterConfig \<noteq> None"
  by (cases clusterConfig;
      simp add: NewStatefulSetReconciler_def NewConfigMapReconciler_def Let_def split: prod.split)+

lemma NewRoleGroupMetricsService_Ok:
  assumes "accessors_ok K" and "NewRoleGroupMetricsService K lks aks info = Ok m"
  shows "\<exists>port. GetMetricsPort (ri_RoleName (rgi_RoleInfo info)) = Ok port
     \<and> svc_Name m = GetFullName K info @ ''-metrics'' \<and> svc_Ports m = [tcp_port ''metrics'' port]"
  using assms
  by (auto simp: NewRoleGroupMetricsService_def accessors_ok_def CreateServiceMetricsName_def
      HBASE_METRICS_PORT_NAME_def Let_def split: res.splits)

lemma NewRoleGroupMetricsService_is_Ok:
  assumes "accessors_ok K"
  shows "is_Ok (NewRoleGroupMetricsService K lks aks info) \<longleftrightarrow> known_role (ri_RoleName (rgi_RoleInfo info))"
  using assms
  by (auto simp: NewRoleGroupMetricsService_def accessors_ok_def GetMetricsPort_def known_role_def
      Let_def split: res.splits)

lemma register_group_Ok:
  assumes K: "accessors_ok K" and lib: "role_lib_ok lib"
    and info: "info = \<lparr>rgi_RoleInfo = rb_RoleInfo base, rgi_RoleGroupName = name\<rparr>"
    and run: "register_group lib K os base clusterConfig img ports replicas info overrides cfg = Ok rs"
  shows "group_registered K base clusterConfig img ports name rs"
proof -
  let ?svc = "\<lparr>svc_Name = GetFullName K info, svc_Ports = ports,
           svc_Option = (\<lambda>sbo. sbo\<lparr>sbo_Labels := GetLabels K info,
              sbo_Annotations := GetAnnotations K info,
              sbo_ClusterName := Role_GetClusterName lib base,
              sbo_RoleName := ri_RoleName (rb_RoleInfo base),
              sbo_RoleGroupName := rgi_RoleGroupName info\<rparr>)\<rparr>"
  have base: "ClusterStopped lib base = rb_ClusterStopped base" "Role_GetClient lib base = rb_Client base"
    using lib by (simp_all add: role_lib_ok_def)
  obtain sts cm m where
    sts: "NewStatefulSetReconciler K (rb_Client base) clusterConfig info ports img
       (rb_ClusterStopped base) replicas overrides cfg = Ok sts"
    and cm: "NewConfigMapReconciler K (rb_Client base) clusterConfig
       (GetRoleLoggingConfig cfg (ri_RoleName (rgi_RoleInfo info))) info = Ok cm"
    and m: "NewRoleGroupMetricsService K (ord_Labels os info) (ord_Annotations os info) info = Ok m"
    and rs: "rs = [StatefulSetResource sts, ServiceResource (rb_Client base) ?svc,
       ConfigMapResource cm, MetricsServiceResource (rb_Client base) m]"
    using run unfolding register_group_def base by (auto simp: bind_res_Ok_iff)
  show ?thesis
    using NewStatefulSetReconciler_Ok [OF K sts] NewConfigMapReconciler_Ok [OF K cm]
      NewRoleGroupMetricsService_Ok [OF K m] rs
    unfolding group_registered_def Let_def info [symmetric]
    by (intro exI [of _ sts] exI [of _ ?svc] exI [of _ cm] exI [of _ m]) (auto simp: info)
qed

lemma is_Ok_bind: "is_Ok (bind_res m f) \<longleftrightarrow> (\<exists>x. m = Ok x \<and> is_Ok (f x))"
  by (cases m) auto

lemma register_group_is_Ok:
  assumes "accessors_ok K"
  shows "is_Ok (register_group lib K os base clusterConfig img ports replicas info overrides cfg)
     \<longleftrightarrow> clusterConfig \<noteq> None \<and> known_role (ri_RoleName (rgi_RoleInfo info))"
  using NewRoleGroupMetricsService_is_Ok [OF assms, of "ord_Labels os info" "ord_Annotations os info" info]
    constructors_is_Ok
  by (simp add: register_group_def is_Ok_bind) (simp add: is_Ok_iff)

section \<open>The loops over the role groups\<close>

lemma add_each_apply [simp]: "add_each rs s = (Ok (), s @ rs)"
  by (induction rs arbitrary: s) (simp_all add: AddResource_def)

lemma collecting_add_each:
  "collecting_loop (\<lambda>k v. bind_eff (lift_res (out k v)) add_each) out (\<lambda>s. s)"
  by unfold_locales simp_all

interpretation master_loop: collecting_loop
  "\<lambda>name roleGroup. bind_eff (lift_res (master_role_group lib K os r name roleGroup)) add_each"
  "master_role_group lib K os r" "\<lambda>s. s"
  for lib K os r
  by (rule collecting_add_each)

interpretation regionserver_loop: collecting_loop
  "\<lambda>name roleGroup. bind_eff (lift_res (regionserver_role_group lib K os r name roleGroup)) add_each"
  "regionserver_role_group lib K os r" "\<lambda>s. s"
  for lib K os r
  by (rule collecting_add_each)

interpretation restserver_loop: collecting_loop
  "\<lambda>name roleGroup. bind_eff (lift_res (restserver_role_group lib K os r name roleGroup)) add_each"
  "restserver_role_group lib K os r" "\<lambda>s. s"
  for lib K os r
  by (rule collecting_add_each)

lemma RegisterResources_loops:
  "rr_Spec m = Some ms \<Longrightarrow> master_RegisterResources lib K os ks m =
     range_loop (\<lambda>name g. bind_eff (lift_res (master_role_group lib K os m name g)) add_each)
       (range_entries ks (ms_RoleGroups ms))"
  "rr_Spec g = Some rs \<Longrightarrow> regionserver_RegisterResources lib K os ks g =
     range_loop (\<lambda>name h. bind_eff (lift_res (regionserver_role_group lib K os g name h)) add_each)
       (range_entries ks (rs_RoleGroups rs))"
  "rr_Spec t = Some ts \<Longrightarrow> restserver_RegisterResources lib K os ks t =
     range_loop (\<lambda>name h. bind_eff (lift_res (restserver_role_group lib K os t name h)) add_each)
       (range_entries ks (ts_RoleGroups ts))"
  by (simp_all add: master_RegisterResources_def regionserver_RegisterResources_def
      restserver_RegisterResources_def fun_eq_iff)

lemma RegisterResources_nil:
  "rr_Spec m = None \<Longrightarrow> master_RegisterResources lib K os ks m s = (Panic NilDeref, s)"
  "rr_Spec g = None \<Longrightarrow> regionserver_RegisterResources lib K os ks g s = (Panic NilDeref, s)"
  "rr_Spec t = None \<Longrightarrow> restserver_RegisterResources lib K os ks t s = (Panic NilDeref, s)"
  by (simp_all add: master_RegisterResources_def regionserver_RegisterResources_def
      restserver_RegisterResources_def)

lemma role_group_Ok:
  assumes "accessors_ok K" and "role_lib_ok lib"
  shows "master_role_group lib K os m name mg = Ok rs \<Longrightarrow>
      group_registered K (rr_Base m) (rr_ClusterConfig m) (rr_Image m) master_Ports name rs"
    and "regionserver_role_group lib K os g name gg = Ok rs \<Longrightarrow>
      group_registered K (rr_Base g) (rr_ClusterConfig g) (rr_Image g) regionserver_Ports name rs"
    and "restserver_role_group lib K os t name tg = Ok rs \<Longrightarrow>
      group_registered K (rr_Base t) (rr_ClusterConfig t) (rr_Image t) restserver_Ports name rs"
  using register_group_Ok [OF assms refl]
  by (auto simp: master_role_group_def regionserver_role_group_def restserver_role_group_def
      register_group_copies bind_res_Ok_iff Let_def)

text \<open>When a group can be registered: its settings merge, and cluster and role are known.\<close>

lemma role_group_is_Ok:
  assumes "accessors_ok K"
  shows "is_Ok (master_role_group lib K os m name mg) \<longleftrightarrow> (\<exists>spec. rr_Spec m = Some spec
      \<and> is_Ok (Merge_MasterConfigSpec lib (ms_Config spec) (mg_Config mg))
      \<and> is_Ok (Merge_OverridesSpec lib (ms_OverridesSpec spec) (mg_OverridesSpec mg))
      \<and> rr_ClusterConfig m \<noteq> None \<and> known_role (ri_RoleName (rb_RoleInfo (rr_Base m))))"
    and "is_Ok (regionserver_role_group lib K os g name gg) \<longleftrightarrow> (\<exists>spec. rr_Spec g = Some spec
      \<and> is_Ok (Merge_RegionConfigSpec lib (rs_Config spec) (rg_Config gg))
      \<and> is_Ok (Merge_OverridesSpec lib (rs_OverridesSpec spec) (rg_OverridesSpec gg))
      \<and> rr_ClusterConfig g \<noteq> None \<and> known_role (ri_RoleName (rb_RoleInfo (rr_Base g))))"
    and "is_Ok (restserver_role_group lib K os t name tg) \<longleftrightarrow> (\<exists>spec. rr_Spec t = Some spec
      \<and> is_Ok (Merge_RestServerConfigSpec lib (ts_Config spec) (tg_Config tg))
      \<and> is_Ok (Merge_OverridesSpec lib (ts_OverridesSpec spec) (tg_OverridesSpec tg))
      \<and> rr_ClusterConfig t \<noteq> None \<and> known_role (ri_RoleName (rb_RoleInfo (rr_Base t))))"
  by (simp_all add: master_role_group_def regionserver_role_group_def restserver_role_group_def
      register_group_copies is_Ok_bind deref_Ok_iff register_group_is_Ok [OF assms] Let_def)
    (auto simp: is_Ok_iff)

text \<open>What a successful loop has collected, group by group.\<close>

definition registered_all ::
    "opgo \<Rightarrow> RoleBase \<Rightarrow> ClusterConfigSpec option \<Rightarrow> Image \<Rightarrow> ContainerPort list \<Rightarrow> string list
     \<Rightarrow> resource list \<Rightarrow> bool" where
  "registered_all K base clusterConfig img ports names rs \<longleftrightarrow>
     (\<exists>rss. rs = concat rss \<and> list_all2 (group_registered K base clusterConfig img ports) names rss)"

lemma registered_allI:
  assumes "range_order ks groups"
    and "t = concat (map (\<lambda>(k, v). case out k v of Ok rs \<Rightarrow> rs | _ \<Rightarrow> []) (range_entries ks groups))"
    and "\<And>k v. (k, v) \<in> set (range_entries ks groups) \<Longrightarrow> \<exists>rs. out k v = Ok rs"
    and "\<And>k v rs. out k v = Ok rs \<Longrightarrow> group_registered K base clusterConfig img ports k rs"
  shows "registered_all K base clusterConfig img ports ks t"
proof -
  let ?es = "range_entries ks groups"
  have "list_all2 (group_registered K base clusterConfig img ports) (map fst ?es)
      (map (\<lambda>(k, v). case out k v of Ok rs \<Rightarrow> rs | _ \<Rightarrow> []) ?es)"
    using assms(3,4) by (fastforce simp: list_all2_map1 list_all2_map2 list_all2_same)
  then show ?thesis
    using assms(1,2) by (auto simp: registered_all_def range_order_fst)
qed

lemma registered_master:
  assumes "accessors_ok K" and "role_lib_ok lib" and "rr_Spec m = Some ms"
    and "range_order ks (ms_RoleGroups ms)" and "master_RegisterResources lib K os ks m [] = (Ok (), rs)"
  shows "registered_all K (rr_Base m) (rr_ClusterConfig m) (rr_Image m) master_Ports ks rs"
  using assms(5) unfolding RegisterResources_loops(1) [OF assms(3)]
  by (intro registered_allI [OF assms(4) _ master_loop.loop_Ok_only_if role_group_Ok(1) [OF assms(1,2)]])
    (auto dest: master_loop.loop_collects)

lemma registered_region:
  assumes "accessors_ok K" and "role_lib_ok lib" and "rr_Spec g = Some gs"
    and "range_order ks (rs_RoleGroups gs)" and "regionserver_RegisterResources lib K os ks g [] = (Ok (), rs)"
  shows "registered_all K (rr_Base g) (rr_ClusterConfig g) (rr_Image g) regionserver_Ports ks rs"
  using assms(5) unfolding RegisterResources_loops(2) [OF assms(3)]
  by (intro registered_allI [OF assms(4) _ regionserver_loop.loop_Ok_only_if role_group_Ok(2) [OF assms(1,2)]])
    (auto dest: regionserver_loop.loop_collects)

lemma registered_rest:
  assumes "accessors_ok K" and "role_lib_ok lib" and "rr_Spec t = Some ts"
    and "range_order ks (ts_RoleGroups ts)" and "restserver_RegisterResources lib K os ks t [] = (Ok (), rs)"
  shows "registered_all K (rr_Base t) (rr_ClusterConfig t) (rr_Image t) restserver_Ports ks rs"
  using assms(5) unfolding RegisterResources_loops(3) [OF assms(3)]
  by (intro registered_allI [OF assms(4) _ restserver_loop.loop_Ok_only_if role_group_Ok(3) [OF assms(1,2)]])
    (auto dest: restserver_loop.loop_collects)

section \<open>Properties\<close>

text \<open>
  C14. Every role group gets its four resources. When the three roles' registrations
  succeed, each has registered, for its role groups in the order of the visit and for
  nothing else, a StatefulSet, a Service, a ConfigMap and a metrics Service that fit
  together: named after the group, with the role's ports, and with the StatefulSet's
  Kerberos settings and the ConfigMap's the same.
\<close>

theorem RegisterResources_registered:
  assumes K: "accessors_ok K" and lib: "role_lib_ok lib"
    and "rr_Spec m = Some ms" and "range_order mks (ms_RoleGroups ms)"
    and "rr_Spec g = Some rs" and "range_order gks (rs_RoleGroups rs)"
    and "rr_Spec t = Some ts" and "range_order tks (ts_RoleGroups ts)"
    and "master_RegisterResources lib K os mks m [] = (Ok (), mrs)"
    and "regionserver_RegisterResources lib K os gks g [] = (Ok (), grs)"
    and "restserver_RegisterResources lib K os tks t [] = (Ok (), trs)"
  shows "registered_all K (rr_Base m) (rr_ClusterConfig m) (rr_Image m) master_Ports mks mrs
    \<and> registered_all K (rr_Base g) (rr_ClusterConfig g) (rr_Image g) regionserver_Ports gks grs
    \<and> registered_all K (rr_Base t) (rr_ClusterConfig t) (rr_Image t) restserver_Ports tks trs"
  using registered_master [OF K lib assms(3,4,9)] registered_region [OF K lib assms(5,6,10)]
    registered_rest [OF K lib assms(7,8,11)] by blast

text \<open>A library whose merge prefers the role group's settings, and a role with two groups.\<close>

definition prefer_second :: "'a option \<Rightarrow> 'a option \<Rightarrow> 'a option res" where
  "prefer_second l r = Ok (case r of None \<Rightarrow> l | Some x \<Rightarrow> Some x)"

definition sample_role_lib :: role_lib where
  "sample_role_lib = \<lparr>Merge_OverridesSpec = prefer_second, Merge_MasterConfigSpec = prefer_second,
     Merge_RegionConfigSpec = prefer_second, Merge_RestServerConfigSpec = prefer_second,
     ClusterStopped = rb_ClusterStopped, Role_GetClient = rb_Client,
     Role_GetClusterName = (\<lambda>base. ci_ClusterName (ri_ClusterInfo (rb_RoleInfo base)))\<rparr>"

definition sample_orders :: orders where
  "sample_orders = \<lparr>ord_Labels = (\<lambda>info. [''component'']), ord_Annotations = (\<lambda>info. [])\<rparr>"

definition sample_master_spec :: MasterSpec where
  "sample_master_spec = \<lparr>ms_Config = None,
     ms_RoleGroups = [''default'' \<mapsto> \<lparr>mg_Replicas = Some 1, mg_Config = None, mg_OverridesSpec = None\<rparr>,
        ''extra'' \<mapsto> \<lparr>mg_Replicas = None, mg_Config = None, mg_OverridesSpec = None\<rparr>],
     ms_RoleConfig = None, ms_OverridesSpec = None\<rparr>"

definition sample_region_spec :: RegionServerSpec where
  "sample_region_spec = \<lparr>rs_Config = None,
     rs_RoleGroups = [''default'' \<mapsto> \<lparr>rg_Replicas = Some 3, rg_Config = None, rg_OverridesSpec = None\<rparr>],
     rs_RoleConfig = None, rs_OverridesSpec = None\<rparr>"

definition sample_rest_spec :: RestServerSpec where
  "sample_rest_spec = \<lparr>ts_Config = None, ts_RoleGroups = Map.empty, ts_RoleConfig = None,
     ts_OverridesSpec = None\<rparr>"

definition sample_role_info :: "string \<Rightarrow> RoleInfo" where
  "sample_role_info role = rgi_RoleInfo (sample_info role)"

definition sample_master :: "MasterSpec RoleReconciler" where
  "sample_master = master_NewReconciler znode_client False (Some sample_cluster_config)
     (sample_role_info MASTER_ROLE) sample_image (Some sample_master_spec)"

definition sample_region :: "RegionServerSpec RoleReconciler" where
  "sample_region = regionserver_NewReconciler znode_client False (Some sample_cluster_config)
     (sample_role_info REGIONSERVER_ROLE) sample_image (Some sample_region_spec)"

definition sample_rest :: "RestServerSpec RoleReconciler" where
  "sample_rest = restserver_NewReconciler znode_client False (Some sample_cluster_config)
     (sample_role_info RESTSERVER_ROLE) sample_image (Some sample_rest_spec)"

lemma role_lib_ok_sample: "role_lib_ok sample_role_lib"
  by (simp add: role_lib_ok_def sample_role_lib_def)

lemma sample_roles_sel:
  "rr_Spec sample_master = Some sample_master_spec"
  "rr_Spec sample_region = Some sample_region_spec"
  "rr_Spec sample_rest = Some sample_rest_spec"
  by (simp_all add: sample_master_def sample_region_def sample_rest_def master_NewReconciler_def
      regionserver_NewReconciler_def restserver_NewReconciler_def)

lemma sample_range_orders:
  "range_order [''default'', ''extra''] (ms_RoleGroups sample_master_spec)"
  "range_order [''extra'', ''default''] (ms_RoleGroups sample_master_spec)"
  "range_order [''default''] (rs_RoleGroups sample_region_spec)"
  "range_order [] (ts_RoleGroups sample_rest_spec)"
  by (auto simp: range_order_def sample_master_spec_def sample_region_spec_def sample_rest_spec_def)

lemma sample_groups_is_Ok:
  "is_Ok (master_role_group sample_role_lib sample_opgo os sample_master name mg)"
  "is_Ok (regionserver_role_group sample_role_lib sample_opgo os sample_region name gg)"
  "is_Ok (restserver_role_group sample_role_lib sample_opgo os sample_rest name tg)"
  unfolding role_group_is_Ok [OF accessors_ok_sample] sample_roles_sel
  by (simp_all add: sample_role_lib_def prefer_second_def sample_master_def sample_region_def
      sample_rest_def master_NewReconciler_def regionserver_NewReconciler_def
      restserver_NewReconciler_def sample_role_info_def sample_info_def known_role_def)

lemma sample_RegisterResources:
  "\<exists>t. master_RegisterResources sample_role_lib sample_opgo os ks sample_master s = (Ok (), t)"
  "\<exists>t. regionserver_RegisterResources sample_role_lib sample_opgo os ks sample_region s = (Ok (), t)"
  "\<exists>t. restserver_RegisterResources sample_role_lib sample_opgo os ks sample_rest s = (Ok (), t)"
  unfolding RegisterResources_loops(1) [OF sample_roles_sel(1)]
    RegisterResources_loops(2) [OF sample_roles_sel(2)]
    RegisterResources_loops(3) [OF sample_roles_sel(3)]
    master_loop.loop_Ok_iff regionserver_loop.loop_Ok_iff restserver_loop.loop_Ok_iff
  using sample_groups_is_Ok by auto

theorem RegisterResources_registered_witness:
  "\<exists>t. master_RegisterResources sample_role_lib sample_opgo sample_orders [''default'', ''extra'']
        sample_master [] = (Ok (), t)
     \<and> registered_all sample_opgo (rr_Base sample_master) (rr_ClusterConfig sample_master)
        (rr_Image sample_master) master_Ports [''default'', ''extra''] t"
proof -
  obtain mt where mt: "master_RegisterResources sample_role_lib sample_opgo sample_orders
      [''default'', ''extra''] sample_master [] = (Ok (), mt)"
    using sample_RegisterResources(1) by blast
  obtain gt where gt: "regionserver_RegisterResources sample_role_lib sample_opgo sample_orders
      [''default''] sample_region [] = (Ok (), gt)"
    using sample_RegisterResources(2) by blast
  obtain tt where tt: "restserver_RegisterResources sample_role_lib sample_opgo sample_orders
      [] sample_rest [] = (Ok (), tt)"
    using sample_RegisterResources(3) by blast
  show ?thesis
    using RegisterResources_registered [OF accessors_ok_sample role_lib_ok_sample
        sample_roles_sel(1) sample_range_orders(1) sample_roles_sel(2) sample_range_orders(3)
        sample_roles_sel(3) sample_range_orders(4) mt gt tt] mt by blast
qed

text \<open>
  C15. When a registration succeeds. A role's registration panics when the resource has no
  specification for the role, with nothing registered; otherwise it succeeds exactly when
  the settings of every group it visits merge with the role's and the cluster
  configuration and the role name are known.
\<close>

theorem RegisterResources_succeeds:
  assumes "accessors_ok K"
  shows "(rr_Spec m = None \<longrightarrow> master_RegisterResources lib K os ks m s = (Panic NilDeref, s))
    \<and> (rr_Spec g = None \<longrightarrow> regionserver_RegisterResources lib K os ks g s = (Panic NilDeref, s))
    \<and> (rr_Spec t = None \<longrightarrow> restserver_RegisterResources lib K os ks t s = (Panic NilDeref, s))
    \<and> (\<forall>spec. rr_Spec m = Some spec \<longrightarrow>
        ((\<exists>rs. master_RegisterResources lib K os ks m s = (Ok (), rs)) \<longleftrightarrow>
         (\<forall>(name, grp) \<in> set (range_entries ks (ms_RoleGroups spec)).
            is_Ok (Merge_MasterConfigSpec lib (ms_Config spec) (mg_Config grp))
            \<and> is_Ok (Merge_OverridesSpec lib (ms_OverridesSpec spec) (mg_OverridesSpec grp))
            \<and> rr_ClusterConfig m \<noteq> None \<and> known_role (ri_RoleName (rb_RoleInfo (rr_Base m))))))
    \<and> (\<forall>spec. rr_Spec g = Some spec \<longrightarrow>
        ((\<exists>rs. regionserver_RegisterResources lib K os ks g s = (Ok (), rs)) \<longleftrightarrow>
         (\<forall>(name, grp) \<in> set (range_entries ks (rs_RoleGroups spec)).
            is_Ok (Merge_RegionConfigSpec lib (rs_Config spec) (rg_Config grp))
            \<and> is_Ok (Merge_OverridesSpec lib (rs_OverridesSpec spec) (rg_OverridesSpec grp))
            \<and> rr_ClusterConfig g \<noteq> None \<and> known_role (ri_RoleName (rb_RoleInfo (rr_Base g))))))
    \<and> (\<forall>spec. rr_Spec t = Some spec \<longrightarrow>
        ((\<exists>rs. restserver_RegisterResources lib K os ks t s = (Ok (), rs)) \<longleftrightarrow>
         (\<forall>(name, grp) \<in> set (range_entries ks (ts_RoleGroups spec)).
            is_Ok (Merge_RestServerConfigSpec lib (ts_Config spec) (tg_Config grp))
            \<and> is_Ok (Merge_OverridesSpec lib (ts_OverridesSpec spec) (tg_OverridesSpec grp))
            \<and> rr_ClusterConfig t \<noteq> None \<and> known_role (ri_RoleName (rb_RoleInfo (rr_Base t))))))"
  using assms
  by (simp add: RegisterResources_nil RegisterResources_loops master_loop.loop_Ok_iff
      regionserver_loop.loop_Ok_iff restserver_loop.loop_Ok_iff role_group_is_Ok)

theorem RegisterResources_succeeds_witness:
  "\<exists>rs. master_RegisterResources sample_role_lib sample_opgo sample_orders [''default''] sample_master [] = (Ok (), rs)"
proof -
  have "rr_ClusterConfig sample_master \<noteq> None" "known_role (ri_RoleName (rb_RoleInfo (rr_Base sample_master)))"
    by (simp_all add: sample_master_def master_NewReconciler_def sample_role_info_def sample_info_def known_role_def)
  moreover have "is_Ok (Merge_MasterConfigSpec sample_role_lib a b)" "is_Ok (Merge_OverridesSpec sample_role_lib c d)"
    for a b c d
    by (simp_all add: sample_role_lib_def prefer_second_def)
  ultimately have "\<forall>(name, grp) \<in> set (range_entries [''default''] (ms_RoleGroups sample_master_spec)).
      is_Ok (Merge_MasterConfigSpec sample_role_lib (ms_Config sample_master_spec) (mg_Config grp))
      \<and> is_Ok (Merge_OverridesSpec sample_role_lib (ms_OverridesSpec sample_master_spec) (mg_OverridesSpec grp))
      \<and> rr_ClusterConfig sample_master \<noteq> None
      \<and> known_role (ri_RoleName (rb_RoleInfo (rr_Base sample_master)))"
    by blast
  then show ?thesis
    using RegisterResources_succeeds [OF accessors_ok_sample, of sample_master sample_role_lib sample_orders
        "[''default'']" "[]"] sample_roles_sel(1) by blast
qed

text \<open>Two computations that collect the same things in some order, or both fail.\<close>

definition same_up_to_order :: "('r list, unit) eff \<Rightarrow> ('r list, unit) eff \<Rightarrow> bool" where
  "same_up_to_order f g \<longleftrightarrow> (\<forall>s. is_Ok (fst (f s)) = is_Ok (fst (g s))
     \<and> (is_Ok (fst (f s)) \<longrightarrow> mset (snd (f s)) = mset (snd (g s))))"

lemma same_up_to_orderI:
  assumes "\<And>s t. f s = (Ok (), t) \<Longrightarrow> \<exists>t'. g s = (Ok (), t') \<and> mset t' = mset t"
    and "\<And>s t. g s = (Ok (), t) \<Longrightarrow> \<exists>t'. f s = (Ok (), t') \<and> mset t' = mset t"
  shows "same_up_to_order f g"
  unfolding same_up_to_order_def is_Ok_iff
proof (intro allI conjI impI)
  fix s
  show "(\<exists>x. fst (f s) = Ok x) = (\<exists>x. fst (g s) = Ok x)"
    using assms(1) [of s] assms(2) [of s] by (metis fst_conv surjective_pairing unit_eq)
  show "mset (snd (f s)) = mset (snd (g s))" if "\<exists>x. fst (f s) = Ok x"
    using that assms(1) [of s] by (metis snd_conv surjective_pairing unit_eq)
qed

text \<open>
  C13. The order of the visit does not matter. Two visits of the same role groups in
  different orders either both succeed, and have then registered the same resources up to
  their order, or both fail.
\<close>

theorem RegisterResources_order_irrelevant:
  assumes "rr_Spec m = Some ms" and "range_order mks (ms_RoleGroups ms)" and "range_order mks' (ms_RoleGroups ms)"
    and "rr_Spec g = Some rs" and "range_order gks (rs_RoleGroups rs)" and "range_order gks' (rs_RoleGroups rs)"
    and "rr_Spec t = Some ts" and "range_order tks (ts_RoleGroups ts)" and "range_order tks' (ts_RoleGroups ts)"
  shows "same_up_to_order (master_RegisterResources lib K os mks m) (master_RegisterResources lib K os mks' m)
    \<and> same_up_to_order (regionserver_RegisterResources lib K os gks g) (regionserver_RegisterResources lib K os gks' g)
    \<and> same_up_to_order (restserver_RegisterResources lib K os tks t) (restserver_RegisterResources lib K os tks' t)"
proof (intro conjI)
  note mm = range_order_entries_mset [OF assms(2,3)] and gg = range_order_entries_mset [OF assms(5,6)]
    and tt = range_order_entries_mset [OF assms(8,9)]
  show "same_up_to_order (master_RegisterResources lib K os mks m) (master_RegisterResources lib K os mks' m)"
    unfolding RegisterResources_loops(1) [OF assms(1)]
    using master_loop.loop_order_irrelevant [OF mm] master_loop.loop_order_irrelevant [OF mm [symmetric]]
    by (intro same_up_to_orderI)
  show "same_up_to_order (regionserver_RegisterResources lib K os gks g) (regionserver_RegisterResources lib K os gks' g)"
    unfolding RegisterResources_loops(2) [OF assms(4)]
    using regionserver_loop.loop_order_irrelevant [OF gg] regionserver_loop.loop_order_irrelevant [OF gg [symmetric]]
    by (intro same_up_to_orderI)
  show "same_up_to_order (restserver_RegisterResources lib K os tks t) (restserver_RegisterResources lib K os tks' t)"
    unfolding RegisterResources_loops(3) [OF assms(7)]
    using restserver_loop.loop_order_irrelevant [OF tt] restserver_loop.loop_order_irrelevant [OF tt [symmetric]]
    by (intro same_up_to_orderI)
qed

theorem RegisterResources_order_irrelevant_witness:
  "same_up_to_order
     (master_RegisterResources sample_role_lib sample_opgo sample_orders [''default'', ''extra''] sample_master)
     (master_RegisterResources sample_role_lib sample_opgo sample_orders [''extra'', ''default''] sample_master)"
  using RegisterResources_order_irrelevant [OF sample_roles_sel(1) sample_range_orders(1,2)
      sample_roles_sel(2) sample_range_orders(3,3) sample_roles_sel(3) sample_range_orders(4,4)] by blast

section \<open>Names\<close>

fun service_name :: "resource \<Rightarrow> string list" where
  "service_name (ServiceResource cl s) = [svc_Name s]"
| "service_name (MetricsServiceResource cl s) = [svc_Name s]"
| "service_name _ = []"

fun config_name :: "resource \<Rightarrow> (bool \<times> string) list" where
  "config_name (StatefulSetResource s) = [(True, base_Name (sb_Base (sr_Builder s)))]"
| "config_name (ConfigMapResource c) = [(False, cb_Name (cr_Builder c))]"
| "config_name _ = []"

text \<open>The names of a role's objects, when the library puts a prefix before the group's name.\<close>

lemma registered_names:
  assumes "registered_all K base clusterConfig img ports ks rs"
    and full: "\<forall>g. GetFullName K \<lparr>rgi_RoleInfo = rb_RoleInfo base, rgi_RoleGroupName = g\<rparr> = p @ g"
  shows "concat (map service_name rs) = concat (map (\<lambda>g. [p @ g, p @ g @ ''-metrics'']) ks)"
    and "concat (map config_name rs) = concat (map (\<lambda>g. [(True, p @ g), (False, p @ g)]) ks)"
proof -
  obtain rss where rs: "rs = concat rss"
    and all: "list_all2 (group_registered K base clusterConfig img ports) ks rss"
    using assms(1) by (auto simp: registered_all_def)
  have one: "concat (map service_name r) = [p @ g, p @ g @ ''-metrics'']"
    "concat (map config_name r) = [(True, p @ g), (False, p @ g)]"
    if "group_registered K base clusterConfig img ports g r" for g r
    using that full by (auto simp: group_registered_def Let_def)
  show "concat (map service_name rs) = concat (map (\<lambda>g. [p @ g, p @ g @ ''-metrics'']) ks)"
    "concat (map config_name rs) = concat (map (\<lambda>g. [(True, p @ g), (False, p @ g)]) ks)"
    unfolding rs using all one by (induction rule: list_all2_induct) auto
qed

lemma distinct_pairs:
  "distinct (concat (map (\<lambda>g. [f g, h g]) ks)) \<longleftrightarrow> distinct (map f ks @ map h ks)"
proof -
  have "mset (concat (map (\<lambda>g. [f g, h g]) ks)) = mset (map f ks @ map h ks)"
    by (induction ks) auto
  then show ?thesis by (rule mset_eq_imp_distinct_iff)
qed

text \<open>What the names of one role come to, whichever role it is.\<close>

lemma distinct_object_names:
  assumes all: "registered_all K base clusterConfig img ports ks rs"
    and full: "\<forall>g. GetFullName K \<lparr>rgi_RoleInfo = rb_RoleInfo base, rgi_RoleGroupName = g\<rparr> = p @ g"
    and order: "range_order ks groups"
  shows "distinct (concat (map config_name rs))"
    and "distinct (concat (map service_name rs)) \<longleftrightarrow> (\<forall>g \<in> dom groups. g @ ''-metrics'' \<notin> dom groups)"
proof -
  note names = registered_names [OF all full]
  have ks: "distinct ks" "set ks = dom groups"
    using order by (auto simp: range_order_def)
  show "distinct (concat (map config_name rs))"
    unfolding names(2) distinct_pairs using ks(1) by (auto simp: distinct_map inj_on_def)
  show "distinct (concat (map service_name rs)) \<longleftrightarrow> (\<forall>g \<in> dom groups. g @ ''-metrics'' \<notin> dom groups)"
    unfolding names(1) distinct_pairs ks(2) [symmetric] using ks(1)
    by (auto simp: distinct_map inj_on_def)
qed

text \<open>
  C32. Names of a role's objects. With a library that names a role group by a prefix of the
  role and the group's name, no two StatefulSets and no two ConfigMaps of a role share a
  name, for masters, region servers and REST servers alike; the role's Services have
  different names exactly when no role group is called like another one with -metrics
  appended, in which case the Service of the one and the metrics Service of the other are
  the same object.
\<close>

theorem role_object_names:
  assumes "accessors_ok K" and "role_lib_ok lib"
    and full: "\<forall>role g. GetFullName K \<lparr>rgi_RoleInfo = role, rgi_RoleGroupName = g\<rparr> = p role @ g"
    and m: "rr_Spec m = Some ms" "range_order mks (ms_RoleGroups ms)"
      "master_RegisterResources lib K os mks m [] = (Ok (), mrs)"
    and g: "rr_Spec g = Some gs" "range_order gks (rs_RoleGroups gs)"
      "regionserver_RegisterResources lib K os gks g [] = (Ok (), grs)"
    and t: "rr_Spec t = Some ts" "range_order tks (ts_RoleGroups ts)"
      "restserver_RegisterResources lib K os tks t [] = (Ok (), trs)"
  shows "distinct (concat (map config_name mrs)) \<and> distinct (concat (map config_name grs))
      \<and> distinct (concat (map config_name trs))
    \<and> (distinct (concat (map service_name mrs)) \<longleftrightarrow>
        (\<forall>g \<in> dom (ms_RoleGroups ms). g @ ''-metrics'' \<notin> dom (ms_RoleGroups ms)))
    \<and> (distinct (concat (map service_name grs)) \<longleftrightarrow>
        (\<forall>g \<in> dom (rs_RoleGroups gs). g @ ''-metrics'' \<notin> dom (rs_RoleGroups gs)))
    \<and> (distinct (concat (map service_name trs)) \<longleftrightarrow>
        (\<forall>g \<in> dom (ts_RoleGroups ts). g @ ''-metrics'' \<notin> dom (ts_RoleGroups ts)))"
proof -
  have full': "\<forall>g. GetFullName K \<lparr>rgi_RoleInfo = rb_RoleInfo base, rgi_RoleGroupName = g\<rparr>
      = p (rb_RoleInfo base) @ g" for base
    using full by blast
  note master = distinct_object_names [OF registered_master [OF assms(1,2) m] full' m(2)]
    and region = distinct_object_names [OF registered_region [OF assms(1,2) g] full' g(2)]
    and rest = distinct_object_names [OF registered_rest [OF assms(1,2) t] full' t(2)]
  show ?thesis by (intro conjI master region rest)
qed

theorem role_object_names_witness:
  "\<exists>rs. master_RegisterResources sample_role_lib sample_opgo sample_orders [''default'', ''extra'']
        sample_master [] = (Ok (), rs)
     \<and> distinct (concat (map service_name rs))"
proof -
  obtain rs where run: "master_RegisterResources sample_role_lib sample_opgo sample_orders
      [''default'', ''extra''] sample_master [] = (Ok (), rs)"
    using sample_RegisterResources(1) by blast
  obtain gt where gt: "regionserver_RegisterResources sample_role_lib sample_opgo sample_orders
      [''default''] sample_region [] = (Ok (), gt)"
    using sample_RegisterResources(2) by blast
  obtain tt where tt: "restserver_RegisterResources sample_role_lib sample_opgo sample_orders
      [] sample_rest [] = (Ok (), tt)"
    using sample_RegisterResources(3) by blast
  have "\<forall>role g. GetFullName sample_opgo \<lparr>rgi_RoleInfo = role, rgi_RoleGroupName = g\<rparr>
      = (ci_ClusterName (ri_ClusterInfo role) @ ''-'' @ ri_RoleName role @ ''-'') @ g"
    by (simp add: sample_opgo_def)
  from role_object_names [OF accessors_ok_sample role_lib_ok_sample this
      sample_roles_sel(1) sample_range_orders(1) run sample_roles_sel(2) sample_range_orders(3) gt
      sample_roles_sel(3) sample_range_orders(4) tt] run
  show ?thesis by (auto simp: sample_master_spec_def)
qed

end
