(* ===== verification/App_Info.thy ===== *)
theory App_Info
  imports Go_Encoding
begin

text \<open>
  Build information: internal/util/version/version.go, and what it uses of Go's
  encoding/json: the JSON text of a struct of strings, with the escaping of json.Marshal. A
  Go string is its bytes, each a \<^typ>\<open>char\<close>. A reader of JSON objects of strings is the
  reference that the text is checked against.
\<close>

section \<open>Build variables\<close>

text \<open>The variables the linker may set; the source gives their defaults.\<close>

record build_vars =
  BuildVersion :: string
  BuildTime :: string
  GitCommit :: string

definition default_build_vars :: build_vars where
  "default_build_vars = \<lparr>BuildVersion = ''0.0.0-dev'', BuildTime = ''N/A'', GitCommit = ''N/A''\<rparr>"

text \<open>What package runtime reports of the compiler and the platform.\<close>

record go_runtime =
  GoVersion :: string
  Compiler :: string
  GOOS :: string
  GOARCH :: string

record AppInfo =
  ai_Name :: string
  ai_AppVersion :: string
  ai_BuildTime :: string
  ai_GitCommit :: string
  ai_GoVersion :: string
  ai_Compiler :: string
  ai_Platform :: string

definition NewAppInfo :: "build_vars \<Rightarrow> go_runtime \<Rightarrow> string \<Rightarrow> AppInfo" where
  "NewAppInfo vars rt name = \<lparr>
     ai_Name = name,
     ai_AppVersion = BuildVersion vars,
     ai_BuildTime = BuildTime vars,
     ai_GitCommit = GitCommit vars,
     ai_GoVersion = GoVersion rt,
     ai_Compiler = Compiler rt,
     ai_Platform = GOOS rt @ ''/'' @ GOARCH rt\<rparr>"

section \<open>Runes\<close>

text \<open>
  The table of package utf8: for a first byte of a longer rune, the number of its bytes and
  the bounds of the second one.
\<close>

definition utf8_first :: "nat \<Rightarrow> (nat \<times> nat \<times> nat) option" where
  "utf8_first x =
     (if 0xC2 \<le> x \<and> x \<le> 0xDF then Some (2, 0x80, 0xBF)
      else if x = 0xE0 then Some (3, 0xA0, 0xBF)
      else if x = 0xED then Some (3, 0x80, 0x9F)
      else if 0xE1 \<le> x \<and> x \<le> 0xEF then Some (3, 0x80, 0xBF)
      else if x = 0xF0 then Some (4, 0x90, 0xBF)
      else if 0xF1 \<le> x \<and> x \<le> 0xF3 then Some (4, 0x80, 0xBF)
      else if x = 0xF4 then Some (4, 0x80, 0x8F)
      else None)"

text \<open>The size of the rune a string of bytes above 127 starts with; none if it is malformed.\<close>

definition rune_size :: "string \<Rightarrow> nat option" where
  "rune_size s = (case s of
       [] \<Rightarrow> None
     | c # cs \<Rightarrow>
         (case utf8_first (byte c) of
            None \<Rightarrow> None
          | Some (n, lo, hi) \<Rightarrow>
              if n \<le> length s \<and> lo \<le> byte (s ! 1) \<and> byte (s ! 1) \<le> hi
                 \<and> list_all (\<lambda>d. 0x80 \<le> byte d \<and> byte d \<le> 0xBF) (drop 2 (take n s))
              then Some n else None))"

section \<open>The JSON text of a string\<close>

text \<open>The bytes that json.Marshal leaves alone: printing ASCII but for quotes and HTML.\<close>

definition html_safe :: "char \<Rightarrow> bool" where
  "html_safe c \<longleftrightarrow> 0x20 \<le> byte c \<and> byte c < 0x80 \<and>
     byte c \<noteq> 0x22 \<and> byte c \<noteq> 0x26 \<and> byte c \<noteq> 0x3C \<and> byte c \<noteq> 0x3E \<and> byte c \<noteq> 0x5C"

definition escape_byte :: "char \<Rightarrow> string" where
  "escape_byte c =
     (if byte c = 0x5C \<or> byte c = 0x22 then [CHR 0x5C, c]
      else if byte c = 0x08 then [CHR 0x5C, CHR ''b'']
      else if byte c = 0x0C then [CHR 0x5C, CHR ''f'']
      else if byte c = 0x0A then [CHR 0x5C, CHR ''n'']
      else if byte c = 0x0D then [CHR 0x5C, CHR ''r'']
      else if byte c = 0x09 then [CHR 0x5C, CHR ''t'']
      else [CHR 0x5C, CHR ''u'', CHR ''0'', CHR ''0'', hex_digit (byte c div 16), hex_digit (byte c mod 16)])"

text \<open>The line and paragraph separators, which JavaScript does not take in a string.\<close>

definition escape_rune :: "string \<Rightarrow> string" where
  "escape_rune r =
     (if r = [CHR 0xE2, CHR 0x80, CHR 0xA8] then CHR 0x5C # ''u2028''
      else if r = [CHR 0xE2, CHR 0x80, CHR 0xA9] then CHR 0x5C # ''u2029''
      else r)"

fun json_escape :: "string \<Rightarrow> string" where
  "json_escape [] = []"
| "json_escape (c # cs) =
     (if byte c < 0x80 then (if html_safe c then [c] else escape_byte c) @ json_escape cs
      else case rune_size (c # cs) of
          None \<Rightarrow> CHR 0x5C # ''ufffd'' @ json_escape cs
        | Some n \<Rightarrow> escape_rune (c # take (n - 1) cs) @ json_escape (drop (n - 1) cs))"

definition json_string :: "string \<Rightarrow> string" where
  "json_string s = CHR 0x22 # json_escape s @ [CHR 0x22]"

text \<open>A struct of strings: its fields in the order of the declaration, by their tags.\<close>

fun json_members :: "(string \<times> string) list \<Rightarrow> string" where
  "json_members [] = []"
| "json_members [(k, v)] = json_string k @ '':'' @ json_string v"
| "json_members ((k, v) # kvs) = json_string k @ '':'' @ json_string v @ '','' @ json_members kvs"

definition AppInfo_fields :: "AppInfo \<Rightarrow> (string \<times> string) list" where
  "AppInfo_fields a =
     [(''AppName'', ai_Name a), (''AppVersion'', ai_AppVersion a), (''BuildTime'', ai_BuildTime a),
      (''GitCommit'', ai_GitCommit a), (''GoVersion'', ai_GoVersion a), (''Compiler'', ai_Compiler a),
      (''Platform'', ai_Platform a)]"

text \<open>Marshalling strings does not fail, so the error branch of String is never taken.\<close>

definition json_Marshal :: "AppInfo \<Rightarrow> string res" where
  "json_Marshal a = Ok (''{'' @ json_members (AppInfo_fields a) @ ''}'')"

definition AppInfo_String :: "AppInfo \<Rightarrow> string" where
  "AppInfo_String a = (case json_Marshal a of
       Ok data \<Rightarrow> data
     | _ \<Rightarrow> ''Error marshaling AppInfo'')"

section \<open>Reading it back\<close>

definition hex_value :: "char \<Rightarrow> nat option" where
  "hex_value c = (case position ''0123456789abcdef'' c of
       Some d \<Rightarrow> Some d
     | None \<Rightarrow> map_option (\<lambda>d. d + 10) (position ''ABCDEF'' c))"

text \<open>The bytes of a code point of the basic plane.\<close>

definition utf8_bytes :: "nat \<Rightarrow> string" where
  "utf8_bytes v =
     (if v < 0x80 then [char_of v]
      else if v < 0x800 then [char_of (0xC0 + v div 64), char_of (0x80 + v mod 64)]
      else [char_of (0xE0 + v div 4096), char_of (0x80 + v div 64 mod 64), char_of (0x80 + v mod 64)])"

definition read_hex4 :: "char \<Rightarrow> char \<Rightarrow> char \<Rightarrow> char \<Rightarrow> nat option" where
  "read_hex4 a b c d =
     Option.bind (hex_value a) (\<lambda>a. Option.bind (hex_value b) (\<lambda>b.
     Option.bind (hex_value c) (\<lambda>c. Option.bind (hex_value d) (\<lambda>d.
     Some (((a * 16 + b) * 16 + c) * 16 + d)))))"

definition short_escape :: "char \<Rightarrow> char option" where
  "short_escape e =
     (if byte e = 0x5C \<or> byte e = 0x22 \<or> e = CHR ''/'' then Some e
      else if e = CHR ''b'' then Some (CHR 0x08) else if e = CHR ''f'' then Some (CHR 0x0C)
      else if e = CHR ''n'' then Some (CHR 0x0A) else if e = CHR ''r'' then Some (CHR 0x0D)
      else if e = CHR ''t'' then Some (CHR 0x09) else None)"

text \<open>A JSON string up to its closing quote: what it says, and what follows it.\<close>

definition prepend :: "string \<Rightarrow> (string \<times> string) option \<Rightarrow> (string \<times> string) option" where
  "prepend x = map_option (\<lambda>(s, r). (x @ s, r))"

fun read_string :: "string \<Rightarrow> (string \<times> string) option" where
  "read_string [] = None"
| "read_string (c # cs) =
     (if byte c = 0x22 then Some ([], cs)
      else if byte c = 0x5C then
        (case cs of
           [] \<Rightarrow> None
         | e # r \<Rightarrow>
             if e = CHR ''u'' then
               (case r of
                  h # i # j # k # r' \<Rightarrow>
                    (case read_hex4 h i j k of None \<Rightarrow> None | Some v \<Rightarrow> prepend (utf8_bytes v) (read_string r'))
                | _ \<Rightarrow> None)
             else (case short_escape e of None \<Rightarrow> None | Some x \<Rightarrow> prepend [x] (read_string r)))
      else if byte c < 0x20 then None
      else prepend [c] (read_string cs))"

lemma prepend_eq_Some: "prepend x m = Some (s, r) \<longleftrightarrow> (\<exists>s'. m = Some (s', r) \<and> s = x @ s')"
  by (auto simp: prepend_def)

lemma prepend_Some [simp]: "prepend x (Some (s, r)) = Some (x @ s, r)"
  by (simp add: prepend_def)

lemma prepend_prepend [simp]: "prepend x (prepend y m) = prepend (x @ y) m"
  by (cases m) (auto simp: prepend_def)

section \<open>Correctness of the escaping\<close>

text \<open>What is left of a string when each malformed byte becomes the replacement character.\<close>

fun to_valid :: "string \<Rightarrow> string" where
  "to_valid [] = []"
| "to_valid (c # cs) =
     (if byte c < 0x80 then c # to_valid cs
      else case rune_size (c # cs) of
          None \<Rightarrow> [CHR 0xEF, CHR 0xBF, CHR 0xBD] @ to_valid cs
        | Some n \<Rightarrow> (c # take (n - 1) cs) @ to_valid (drop (n - 1) cs))"

fun valid_utf8 :: "string \<Rightarrow> bool" where
  "valid_utf8 [] \<longleftrightarrow> True"
| "valid_utf8 (c # cs) \<longleftrightarrow>
     (if byte c < 0x80 then valid_utf8 cs
      else case rune_size (c # cs) of None \<Rightarrow> False | Some n \<Rightarrow> valid_utf8 (drop (n - 1) cs))"

lemma to_valid_id: "valid_utf8 s \<Longrightarrow> to_valid s = s"
  by (induction s rule: valid_utf8.induct) (auto split: if_splits option.splits)

lemma rune_size_bytes:
  assumes "rune_size (c # cs) = Some n"
  shows "list_all (\<lambda>d. 0x80 \<le> byte d) (c # take (n - 1) cs)"
proof -
  obtain lo hi where first: "utf8_first (byte c) = Some (n, lo, hi)" and len: "n \<le> length (c # cs)"
    and snd: "lo \<le> byte ((c # cs) ! 1)"
    and rest: "list_all (\<lambda>d. 0x80 \<le> byte d \<and> byte d \<le> 0xBF) (drop 2 (take n (c # cs)))"
    using assms by (auto simp: rune_size_def split: option.splits if_splits)
  have n: "2 \<le> n" and c: "0x80 \<le> byte c" and lo: "0x80 \<le> lo"
    using first by (auto simp: utf8_first_def split: if_splits)
  obtain m where m: "n = Suc (Suc m)" using n by (metis add_2_eq_Suc le_Suc_ex)
  obtain d ds where cs: "cs = d # ds" using len m by (cases cs) auto
  have "list_all (\<lambda>d. 0x80 \<le> byte d) (take m ds)"
    using rest by (auto simp: m cs list_all_iff)
  moreover have "0x80 \<le> byte d" using snd lo by (simp add: cs)
  ultimately show ?thesis using c by (simp add: m cs)
qed

lemma read_string_plain: "list_all (\<lambda>d. 0x80 \<le> byte d) r \<Longrightarrow> read_string (r @ t) = prepend r (read_string t)"
proof (induction r)
  case Nil
  then show ?case by (cases "read_string t") (auto simp: prepend_def)
qed auto

lemma read_string_safe: "html_safe c \<Longrightarrow> read_string (c # t) = prepend [c] (read_string t)"
  by (simp add: html_safe_def)

lemma hex_value_digit: "n < 16 \<Longrightarrow> hex_value (hex_digit n) = Some n"
  by (simp add: hex_value_def del: position.simps)

lemma read_string_short:
  "short_escape e = Some x \<Longrightarrow> e \<noteq> CHR ''u'' \<Longrightarrow> read_string (CHR 0x5C # e # t) = prepend [x] (read_string t)"
  by (simp add: byte_def)

lemma byte_eqI: "byte c = byte d \<Longrightarrow> c = d"
  by (metis char_of_byte)

lemma special_chars:
  "char_of (226 :: nat) = CHR 0xE2" "char_of (128 :: nat) = CHR 0x80" "char_of (168 :: nat) = CHR 0xA8"
  "char_of (169 :: nat) = CHR 0xA9" "char_of (239 :: nat) = CHR 0xEF" "char_of (191 :: nat) = CHR 0xBF"
  "char_of (189 :: nat) = CHR 0xBD"
  using char_of_char [where 'a = nat, of "CHR 0xE2"] char_of_char [where 'a = nat, of "CHR 0x80"]
    char_of_char [where 'a = nat, of "CHR 0xA8"] char_of_char [where 'a = nat, of "CHR 0xA9"]
    char_of_char [where 'a = nat, of "CHR 0xEF"] char_of_char [where 'a = nat, of "CHR 0xBF"]
    char_of_char [where 'a = nat, of "CHR 0xBD"]
  by simp_all

lemma read_string_escape:
  assumes "byte c < 0x80" and "\<not> html_safe c"
  shows "read_string (escape_byte c @ t) = prepend [c] (read_string t)"
proof -
  have "hex_value (CHR ''0'') = Some 0" by (simp add: hex_value_def)
  moreover have "byte c div 16 < 16" using assms by simp
  ultimately have "read_hex4 (CHR ''0'') (CHR ''0'') (hex_digit (byte c div 16)) (hex_digit (byte c mod 16))
      = Some (byte c)"
    by (simp add: read_hex4_def hex_value_digit)
  then have u: "read_string ([CHR 0x5C, CHR ''u'', CHR ''0'', CHR ''0'', hex_digit (byte c div 16),
      hex_digit (byte c mod 16)] @ t) = prepend [c] (read_string t)"
    using assms(1) by (simp add: utf8_bytes_def byte_def)
  have eqs: "byte c = 0x08 \<longleftrightarrow> c = CHR 0x08" "byte c = 0x0C \<longleftrightarrow> c = CHR 0x0C"
    "byte c = 0x0A \<longleftrightarrow> c = CHR 0x0A" "byte c = 0x0D \<longleftrightarrow> c = CHR 0x0D" "byte c = 0x09 \<longleftrightarrow> c = CHR 0x09"
    using byte_eqI [of c "CHR 0x08"] byte_eqI [of c "CHR 0x0C"] byte_eqI [of c "CHR 0x0A"]
      byte_eqI [of c "CHR 0x0D"] byte_eqI [of c "CHR 0x09"] by (auto simp: byte_def)
  consider "byte c = 0x5C \<or> byte c = 0x22" | "c \<in> {CHR 0x08, CHR 0x0C, CHR 0x0A, CHR 0x0D, CHR 0x09}"
    | "byte c \<noteq> 0x5C" "byte c \<noteq> 0x22" "c \<notin> {CHR 0x08, CHR 0x0C, CHR 0x0A, CHR 0x0D, CHR 0x09}"
    by blast
  then show ?thesis
  proof cases
    case 1
    then have "escape_byte c = [CHR 0x5C, c]" "short_escape c = Some c" "c \<noteq> CHR ''u''"
      by (auto simp: escape_byte_def short_escape_def byte_def)
    then show ?thesis by (simp add: read_string_short del: read_string.simps)
  next
    case 2
    then show ?thesis
      by (auto simp: escape_byte_def byte_def short_escape_def read_string_short simp del: read_string.simps)
  next
    case 3
    then show ?thesis using u by (simp add: escape_byte_def eqs del: read_string.simps)
  qed
qed

lemma read_string_rune:
  assumes "list_all (\<lambda>d. 0x80 \<le> byte d) r"
  shows "read_string (escape_rune r @ t) = prepend r (read_string t)"
  unfolding escape_rune_def using read_string_plain [OF assms]
  by (auto simp: byte_def read_hex4_def hex_value_def utf8_bytes_def special_chars)

lemma read_string_invalid:
  "read_string (CHR 0x5C # ''ufffd'' @ t) = prepend [CHR 0xEF, CHR 0xBF, CHR 0xBD] (read_string t)"
  by (simp add: read_hex4_def hex_value_def utf8_bytes_def byte_def special_chars)

text \<open>A string that was written is read up to its closing quote.\<close>

lemma read_string_json: "read_string (json_escape s @ CHR 0x22 # t) = Some (to_valid s, t)"
proof (induction s rule: json_escape.induct)
  case 1
  then show ?case by (simp add: byte_def)
next
  case (2 c cs)
  show ?case
  proof (cases "byte c < 0x80")
    case True
    with 2(1) have "read_string ((if html_safe c then [c] else escape_byte c) @ json_escape cs @ CHR 0x22 # t)
        = Some (c # to_valid cs, t)"
      using read_string_safe [of c] read_string_escape [OF True] by (simp del: read_string.simps)
    with True show ?thesis by simp
  next
    case False
    show ?thesis
    proof (cases "rune_size (c # cs)")
      case None
      with False 2(2) [OF False None] show ?thesis
        using read_string_invalid by (simp del: read_string.simps)
    next
      case (Some n)
      with False 2(3) [OF False Some] show ?thesis
        using read_string_rune [OF rune_size_bytes [OF Some]] by (simp del: read_string.simps)
    qed
  qed
qed

section \<open>Objects\<close>

lemma prepend_shorter:
  "(\<And>x r. m = Some (x, r) \<Longrightarrow> length r < n) \<Longrightarrow> prepend y m = Some (x, r) \<Longrightarrow> length r < n"
  by (auto simp: prepend_eq_Some)

lemma read_string_shorter: "read_string s = Some (x, r) \<Longrightarrow> length r < length s"
proof (induction s arbitrary: x r rule: read_string.induct)
  case (2 c cs)
  then show ?case
    by (fastforce simp: prepend_eq_Some split: if_splits list.splits option.splits)
qed simp

text \<open>
  The members of an object after its opening brace. Every turn of the loop reads two strings
  and so leaves less to read.
\<close>

function read_members :: "string \<Rightarrow> (string \<times> string) list option" where
  "read_members s = (case s of
       [] \<Rightarrow> None
     | q # s1 \<Rightarrow>
         if byte q \<noteq> 0x22 then None
         else (case read_string s1 of
            Some (k, x # q' # s2) \<Rightarrow>
              if x \<noteq> CHR '':'' \<or> byte q' \<noteq> 0x22 then None
              else (case read_string s2 of
                 Some (v, y # s3) \<Rightarrow>
                   if y = CHR '','' then map_option (\<lambda>kvs. (k, v) # kvs) (read_members s3)
                   else if y = CHR ''}'' \<and> s3 = [] then Some [(k, v)]
                   else None
               | _ \<Rightarrow> None)
          | _ \<Rightarrow> None))"
  by pat_completeness auto

termination
  by (relation "measure length") (auto dest!: read_string_shorter)

declare read_members.simps [simp del]

definition read_object :: "string \<Rightarrow> (string \<times> string) list option" where
  "read_object s = (case s of [] \<Rightarrow> None | b # r \<Rightarrow> if b = CHR ''{'' then read_members r else None)"

lemma read_members_last:
  "read_members (json_string k @ '':'' @ json_string v @ ''}'') = Some [(to_valid k, to_valid v)]"
  unfolding json_string_def
  by (subst read_members.simps) (simp add: read_string_json byte_def del: read_string.simps)

lemma read_members_next:
  "read_members (json_string k @ '':'' @ json_string v @ '','' @ t)
     = map_option (\<lambda>kvs. (to_valid k, to_valid v) # kvs) (read_members t)"
  unfolding json_string_def
  by (subst read_members.simps) (simp add: read_string_json byte_def del: read_string.simps)

lemma read_json_members:
  "kvs \<noteq> [] \<Longrightarrow> read_members (json_members kvs @ ''}'') = Some (map (map_prod to_valid to_valid) kvs)"
proof (induction kvs rule: json_members.induct)
  case (2 k v)
  then show ?case using read_members_last by simp
next
  case (3 k v kv kvs)
  then show ?case using read_members_next by simp
qed simp

lemma read_AppInfo:
  "read_object (AppInfo_String a) = Some (map (map_prod to_valid to_valid) (AppInfo_fields a))"
  using read_json_members [of "AppInfo_fields a"]
  by (simp add: AppInfo_String_def json_Marshal_def read_object_def AppInfo_fields_def)

section \<open>Properties\<close>

text \<open>
  C22. The build information can be read back. For any build variables, platform and name,
  String returns a JSON object with the seven fields in the order of the struct, whatever
  characters they contain; every value is the string itself, a malformed UTF-8 byte being the
  replacement character. So the error text of String never appears.
\<close>

theorem AppInfo_String_roundtrip:
  "read_object (AppInfo_String (NewAppInfo vars rt name)) =
     Some [(''AppName'', to_valid name), (''AppVersion'', to_valid (BuildVersion vars)),
       (''BuildTime'', to_valid (BuildTime vars)), (''GitCommit'', to_valid (GitCommit vars)),
       (''GoVersion'', to_valid (GoVersion rt)), (''Compiler'', to_valid (Compiler rt)),
       (''Platform'', to_valid (GOOS rt @ ''/'' @ GOARCH rt))]"
  by (simp add: read_AppInfo AppInfo_fields_def NewAppInfo_def byte_def)

definition one_line_html_safe :: "char \<Rightarrow> bool" where
  "one_line_html_safe c \<longleftrightarrow> 0x20 \<le> byte c \<and> byte c \<notin> {0x26, 0x3C, 0x3E}"

lemma hex_digit_safe: "n < 16 \<Longrightarrow> one_line_html_safe (hex_digit n)"
proof -
  assume "n < 16"
  then have "hex_digit n \<in> set ''0123456789abcdef''" unfolding hex_digit_def by (intro nth_mem) simp
  then show ?thesis by (auto simp: one_line_html_safe_def byte_def)
qed

lemma escape_byte_one_line:
  assumes "byte c < 0x80" and "\<not> html_safe c"
  shows "list_all one_line_html_safe (escape_byte c)"
proof -
  have "byte c div 16 < 16" "byte c mod 16 < 16" using assms(1) by auto
  then show ?thesis
    using hex_digit_safe unfolding escape_byte_def
    by (simp add: one_line_html_safe_def byte_def)
qed

lemma escape_rune_one_line:
  "list_all (\<lambda>d. 0x80 \<le> byte d) r \<Longrightarrow> list_all one_line_html_safe (escape_rune r)"
  by (auto simp: escape_rune_def one_line_html_safe_def byte_def list_all_iff)

lemma json_escape_one_line: "list_all one_line_html_safe (json_escape s)"
proof (induction s rule: json_escape.induct)
  case (2 c cs)
  have "list_all one_line_html_safe [c]" if "html_safe c"
    using that by (simp add: html_safe_def one_line_html_safe_def)
  with 2(1) have ascii: "list_all one_line_html_safe (json_escape (c # cs))" if "byte c < 0x80"
    using that escape_byte_one_line [OF that] by simp
  have "list_all one_line_html_safe (CHR 0x5C # ''ufffd'')"
    by (simp add: one_line_html_safe_def byte_def)
  with 2(2,3) have "list_all one_line_html_safe (json_escape (c # cs))" if "\<not> byte c < 0x80"
    using that escape_rune_one_line [OF rune_size_bytes, of c cs] by (cases "rune_size (c # cs)") auto
  with ascii show ?case by blast
qed simp

lemma json_members_one_line: "list_all one_line_html_safe (json_members kvs)"
  by (induction kvs rule: json_members.induct)
    (simp_all add: json_string_def json_escape_one_line, simp_all add: one_line_html_safe_def byte_def)

lemma AppInfo_one_line: "list_all one_line_html_safe (AppInfo_String a)"
  unfolding AppInfo_String_def json_Marshal_def
  by (simp add: json_members_one_line) (simp add: one_line_html_safe_def byte_def)

text \<open>
  The text fits a log line and an HTML page. Whatever the build variables are, no byte of
  it is a control character, a line break among them, and none opens HTML.
\<close>

theorem AppInfo_String_one_line:
  "list_all one_line_html_safe (AppInfo_String a)"
  by (rule AppInfo_one_line)

end
