(* ===== verification/Cluster.thy ===== *)
theory Cluster
  imports Roles App_Info
begin

text \<open>
  The cluster: internal/controller/cluster/cluster.go. The cluster reconciler makes the image
  and the three role reconcilers, lets each register its resources, and registers the roles.
\<close>

section \<open>The component\<close>


record ClusterReconciler =
  clr_Client :: client
  clr_ClusterInfo :: ClusterInfo
  clr_ClusterOperation :: "ClusterOperationSpec option"
  clr_Spec :: HbaseClusterSpec
  clr_ClusterConfig :: "ClusterConfigSpec option"

text \<open>
  The library functions: making an image (its last argument is the option function, run on
  the library's own options), and the accessors of the base.
\<close>

record cluster_lib =
  NewImage :: "string \<Rightarrow> string \<Rightarrow> string \<Rightarrow> (ImageOptions \<Rightarrow> ImageOptions) \<Rightarrow> Image"
  IsStopped :: "ClusterReconciler \<Rightarrow> bool"
  Cluster_GetClient :: "ClusterReconciler \<Rightarrow> client"

text \<open>The roles a cluster registers, each with the resources it has registered itself.\<close>

datatype role_resource =
    MasterRole "MasterSpec RoleReconciler" "resource list"
  | RegionServerRole "RegionServerSpec RoleReconciler" "resource list"
  | RestServerRole "RestServerSpec RoleReconciler" "resource list"

definition NewClusterReconciler :: "client \<Rightarrow> ClusterInfo \<Rightarrow> HbaseClusterSpec \<Rightarrow> ClusterReconciler" where
  "NewClusterReconciler cl clusterInfo spec =
     \<lparr>clr_Client = cl, clr_ClusterInfo = clusterInfo,
      clr_ClusterOperation = hs_ClusterOperationSpec spec, clr_Spec = spec,
      clr_ClusterConfig = hs_ClusterConfigSpec spec\<rparr>"

definition GetImage :: "cluster_lib \<Rightarrow> build_vars \<Rightarrow> ClusterReconciler \<Rightarrow> Image res" where
  "GetImage lib vars r =
     bind_res (deref (hs_Image (clr_Spec r))) (\<lambda>imageSpec.
     let img = NewImage lib DefaultProductName (BuildVersion vars) DefaultProductVersion
           (\<lambda>options. options\<lparr>io_Custom := is_Custom imageSpec, io_Repo := is_Repo imageSpec,
              io_PullPolicy := is_PullPolicy imageSpec\<rparr>)
     in Ok (if is_KubedoopVersion imageSpec \<noteq> ''''
            then img\<lparr>KubedoopVersion := is_KubedoopVersion imageSpec\<rparr> else img))"

text \<open>The orders in which the three loops over role groups visit them.\<close>

record role_orders =
  ord_master :: "string list"
  ord_regionserver :: "string list"
  ord_restserver :: "string list"

text \<open>A role registers into its own, new list; a failure of it is the cluster's.\<close>

definition run_role :: "('r list, unit) eff \<Rightarrow> ('s, 'r list) eff" where
  "run_role f = (\<lambda>s. case f [] of
       (Ok u, rs) \<Rightarrow> (Ok rs, s)
     | (Err e, rs) \<Rightarrow> (Err e, s)
     | (Panic p, rs) \<Rightarrow> (Panic p, s))"

definition cluster_RegisterResources ::
    "cluster_lib \<Rightarrow> build_vars \<Rightarrow> role_lib \<Rightarrow> opgo \<Rightarrow> orders \<Rightarrow> role_orders \<Rightarrow> ClusterReconciler
     \<Rightarrow> (role_resource list, unit) eff" where
  "cluster_RegisterResources lib vars rl K os ro r =
     bind_eff (lift_res (GetImage lib vars r)) (\<lambda>masterImage.
     let master = master_NewReconciler (Cluster_GetClient lib r) (IsStopped lib r) (clr_ClusterConfig r)
           \<lparr>ri_ClusterInfo = clr_ClusterInfo r, ri_RoleName = ''master''\<rparr>
           masterImage (hs_MasterSpec (clr_Spec r))
     in bind_eff (run_role (master_RegisterResources rl K os (ord_master ro) master)) (\<lambda>masterResources.
     bind_eff (AddResource (MasterRole master masterResources)) (\<lambda>_.
     bind_eff (lift_res (GetImage lib vars r)) (\<lambda>regionImage.
     let region = regionserver_NewReconciler (Cluster_GetClient lib r) (IsStopped lib r) (clr_ClusterConfig r)
           \<lparr>ri_ClusterInfo = clr_ClusterInfo r, ri_RoleName = ''regionserver''\<rparr>
           regionImage (hs_RegionServerSpec (clr_Spec r))
     in bind_eff (run_role (regionserver_RegisterResources rl K os (ord_regionserver ro) region)) (\<lambda>regionResources.
     bind_eff (AddResource (RegionServerRole region regionResources)) (\<lambda>_.
     bind_eff (lift_res (GetImage lib vars r)) (\<lambda>restImage.
     let rest = restserver_NewReconciler (Cluster_GetClient lib r) (IsStopped lib r) (clr_ClusterConfig r)
           \<lparr>ri_ClusterInfo = clr_ClusterInfo r, ri_RoleName = ''restserver''\<rparr>
           restImage (hs_RestServerSpec (clr_Spec r))
     in bind_eff (run_role (restserver_RegisterResources rl K os (ord_restserver ro) rest)) (\<lambda>restResources.
     AddResource (RestServerRole rest restResources)))))))))"

section \<open>Facts\<close>

lemma AddResource_apply [simp]: "AddResource x s = (Ok (), s @ [x])"
  by (simp add: AddResource_def)

lemma run_role_cases:
  "run_role f s = (case fst (f []) of Ok u \<Rightarrow> (Ok (snd (f [])), s) | Err e \<Rightarrow> (Err e, s) | Panic p \<Rightarrow> (Panic p, s))"
  by (simp add: run_role_def split: prod.split res.split)

text \<open>The three role reconcilers of a cluster with a given image.\<close>

definition cluster_master :: "cluster_lib \<Rightarrow> ClusterReconciler \<Rightarrow> Image \<Rightarrow> MasterSpec RoleReconciler" where
  "cluster_master lib r img = master_NewReconciler (Cluster_GetClient lib r) (IsStopped lib r)
     (clr_ClusterConfig r) \<lparr>ri_ClusterInfo = clr_ClusterInfo r, ri_RoleName = ''master''\<rparr>
     img (hs_MasterSpec (clr_Spec r))"

definition cluster_region :: "cluster_lib \<Rightarrow> ClusterReconciler \<Rightarrow> Image \<Rightarrow> RegionServerSpec RoleReconciler" where
  "cluster_region lib r img = regionserver_NewReconciler (Cluster_GetClient lib r) (IsStopped lib r)
     (clr_ClusterConfig r) \<lparr>ri_ClusterInfo = clr_ClusterInfo r, ri_RoleName = ''regionserver''\<rparr>
     img (hs_RegionServerSpec (clr_Spec r))"

definition cluster_rest :: "cluster_lib \<Rightarrow> ClusterReconciler \<Rightarrow> Image \<Rightarrow> RestServerSpec RoleReconciler" where
  "cluster_rest lib r img = restserver_NewReconciler (Cluster_GetClient lib r) (IsStopped lib r)
     (clr_ClusterConfig r) \<lparr>ri_ClusterInfo = clr_ClusterInfo r, ri_RoleName = ''restserver''\<rparr>
     img (hs_RestServerSpec (clr_Spec r))"

lemma cluster_roles_sel [simp]:
  "rr_Spec (cluster_master lib r img) = hs_MasterSpec (clr_Spec r)"
  "rr_Spec (cluster_region lib r img) = hs_RegionServerSpec (clr_Spec r)"
  "rr_Spec (cluster_rest lib r img) = hs_RestServerSpec (clr_Spec r)"
  by (simp_all add: cluster_master_def cluster_region_def cluster_rest_def master_NewReconciler_def
      regionserver_NewReconciler_def restserver_NewReconciler_def)

text \<open>Registration as one equation: a role is added exactly when all before it have been.\<close>

definition stop_with :: "'a res \<Rightarrow> 'b list \<Rightarrow> unit res \<times> 'b list" where
  "stop_with r s = (case r of Err e \<Rightarrow> Err e | Panic p \<Rightarrow> Panic p | Ok x \<Rightarrow> Ok (), s)"

lemma cluster_RegisterResources_eq:
  "cluster_RegisterResources lib vars rl K os ro r s =
     (case GetImage lib vars r of Ok img \<Rightarrow>
       (let m = cluster_master lib r img; g = cluster_region lib r img; t = cluster_rest lib r img;
            (mo, mrs) = master_RegisterResources rl K os (ord_master ro) m [];
            (go, grs) = regionserver_RegisterResources rl K os (ord_regionserver ro) g [];
            (t_o, trs) = restserver_RegisterResources rl K os (ord_restserver ro) t []
        in if \<not> is_Ok mo then stop_with mo s
           else if \<not> is_Ok go then stop_with go (s @ [MasterRole m mrs])
           else if \<not> is_Ok t_o then stop_with t_o (s @ [MasterRole m mrs, RegionServerRole g grs])
           else (Ok (), s @ [MasterRole m mrs, RegionServerRole g grs, RestServerRole t trs]))
     | other \<Rightarrow> stop_with other s)"
proof (cases "GetImage lib vars r")
  case (Ok img)
  obtain mo mrs go grs t_o trs where
    m: "master_RegisterResources rl K os (ord_master ro) (cluster_master lib r img) [] = (mo, mrs)"
    and g: "regionserver_RegisterResources rl K os (ord_regionserver ro) (cluster_region lib r img) [] = (go, grs)"
    and t: "restserver_RegisterResources rl K os (ord_restserver ro) (cluster_rest lib r img) [] = (t_o, trs)"
    by (metis surj_pair)
  show ?thesis
    unfolding cluster_RegisterResources_def Let_def cluster_master_def [symmetric]
      cluster_region_def [symmetric] cluster_rest_def [symmetric]
    by (simp add: Ok m g t bind_eff_def run_role_cases stop_with_def split: res.split)
qed (simp_all add: cluster_RegisterResources_def stop_with_def)

lemma no_master_panics:
  assumes "hs_MasterSpec (clr_Spec r) = None"
  shows "cluster_RegisterResources lib vars rl K os ro r s = (Panic NilDeref, s)"
  using assms
  by (cases "hs_Image (clr_Spec r)")
    (simp_all add: cluster_RegisterResources_eq GetImage_def RegisterResources_nil stop_with_def Let_def
      split: prod.split)

section \<open>A concrete cluster\<close>

definition sample_cluster_lib :: cluster_lib where
  "sample_cluster_lib = \<lparr>
     NewImage = (\<lambda>product kubedoop version f. \<lparr>KubedoopVersion = kubedoop, image_rest = undefined\<rparr>),
     IsStopped = (\<lambda>r. False), Cluster_GetClient = clr_Client\<rparr>"

definition sample_image_spec :: ImageSpec where
  "sample_image_spec = \<lparr>is_Custom = '''', is_Repo = DefaultRepository, is_KubedoopVersion = ''0.1.0'',
     is_ProductVersion = '''', is_PullPolicy = ''IfNotPresent'', is_PullSecretName = ''''\<rparr>"

definition sample_spec :: HbaseClusterSpec where
  "sample_spec = \<lparr>hs_Image = Some sample_image_spec, hs_ClusterConfigSpec = Some sample_cluster_config,
     hs_ClusterOperationSpec = None, hs_MasterSpec = Some sample_master_spec,
     hs_RegionServerSpec = Some sample_region_spec, hs_RestServerSpec = Some sample_rest_spec\<rparr>"

definition sample_cluster :: ClusterReconciler where
  "sample_cluster = NewClusterReconciler znode_client (ri_ClusterInfo (sample_role_info '''')) sample_spec"

definition sample_role_orders :: role_orders where
  "sample_role_orders = \<lparr>ord_master = [''default'', ''extra''], ord_regionserver = [''default''],
     ord_restserver = []\<rparr>"

lemma sample_cluster_Ok:
  "is_Ok (fst (cluster_RegisterResources sample_cluster_lib default_build_vars sample_role_lib sample_opgo
     sample_orders ro sample_cluster s))"
proof -
  have img: "\<exists>img. GetImage sample_cluster_lib default_build_vars sample_cluster = Ok img"
    by (simp add: GetImage_def sample_cluster_def NewClusterReconciler_def sample_spec_def Let_def)
  have specs: "hs_MasterSpec (clr_Spec sample_cluster) = Some sample_master_spec"
    "hs_RegionServerSpec (clr_Spec sample_cluster) = Some sample_region_spec"
    "hs_RestServerSpec (clr_Spec sample_cluster) = Some sample_rest_spec"
    "clr_ClusterConfig sample_cluster \<noteq> None"
    by (simp_all add: sample_cluster_def NewClusterReconciler_def sample_spec_def)
  have merge: "is_Ok (Merge_MasterConfigSpec sample_role_lib a b)" "is_Ok (Merge_OverridesSpec sample_role_lib c d)"
    "is_Ok (Merge_RegionConfigSpec sample_role_lib e f)" "is_Ok (Merge_RestServerConfigSpec sample_role_lib g h)"
    for a b c d e f g h
    by (simp_all add: sample_role_lib_def prefer_second_def)
  have roles: "rr_ClusterConfig (cluster_master lib r i) = clr_ClusterConfig r"
    "rr_ClusterConfig (cluster_region lib r i) = clr_ClusterConfig r"
    "rr_ClusterConfig (cluster_rest lib r i) = clr_ClusterConfig r"
    "known_role (ri_RoleName (rb_RoleInfo (rr_Base (cluster_master lib r i))))"
    "known_role (ri_RoleName (rb_RoleInfo (rr_Base (cluster_region lib r i))))"
    "known_role (ri_RoleName (rb_RoleInfo (rr_Base (cluster_rest lib r i))))" for lib r i
    by (simp_all add: cluster_master_def cluster_region_def cluster_rest_def master_NewReconciler_def
        regionserver_NewReconciler_def restserver_NewReconciler_def known_role_def role_names)
  have "\<exists>t. master_RegisterResources sample_role_lib sample_opgo sample_orders ks
        (cluster_master sample_cluster_lib sample_cluster i) [] = (Ok (), t)"
    "\<exists>t. regionserver_RegisterResources sample_role_lib sample_opgo sample_orders ks
        (cluster_region sample_cluster_lib sample_cluster i) [] = (Ok (), t)"
    "\<exists>t. restserver_RegisterResources sample_role_lib sample_opgo sample_orders ks
        (cluster_rest sample_cluster_lib sample_cluster i) [] = (Ok (), t)" for i ks
    by (simp_all add: RegisterResources_loops specs master_loop.loop_Ok_iff regionserver_loop.loop_Ok_iff
        restserver_loop.loop_Ok_iff role_group_is_Ok [OF accessors_ok_sample] merge roles case_prod_beta)
  then show ?thesis
    using img unfolding cluster_RegisterResources_eq
    by (auto simp: Let_def split: prod.split res.split) (metis is_Ok.simps(1) fst_conv)+
qed

section \<open>Properties\<close>

fun role_of :: "role_resource \<Rightarrow> string" where
  "role_of (MasterRole r rs) = ri_RoleName (rb_RoleInfo (rr_Base r))"
| "role_of (RegionServerRole r rs) = ri_RoleName (rb_RoleInfo (rr_Base r))"
| "role_of (RestServerRole r rs) = ri_RoleName (rb_RoleInfo (rr_Base r))"

text \<open>
  C23. The cluster registers its roles in order and stops at the first failure. On every
  outcome, panics included, exactly the first \<open>n\<close> of master, regionserver and restserver
  have been added, a role whose own registration failed not among them, and registration
  has succeeded exactly when all three are there.
\<close>

theorem cluster_roles_in_order:
  "\<exists>n rs. snd (cluster_RegisterResources lib vars rl K os ro r s) = s @ rs \<and> n \<le> 3
     \<and> map role_of rs = take n [MASTER_ROLE, REGIONSERVER_ROLE, RESTSERVER_ROLE]
     \<and> (is_Ok (fst (cluster_RegisterResources lib vars rl K os ro r s)) \<longleftrightarrow> n = 3)"
proof (cases "GetImage lib vars r")
  case (Ok img)
  have names: "ri_RoleName (rb_RoleInfo (rr_Base (cluster_master lib r img))) = MASTER_ROLE"
    "ri_RoleName (rb_RoleInfo (rr_Base (cluster_region lib r img))) = REGIONSERVER_ROLE"
    "ri_RoleName (rb_RoleInfo (rr_Base (cluster_rest lib r img))) = RESTSERVER_ROLE"
    by (simp_all add: cluster_master_def cluster_region_def cluster_rest_def master_NewReconciler_def
        regionserver_NewReconciler_def restserver_NewReconciler_def role_names)
  have stop: "snd (stop_with q s) = s" "is_Ok (fst (stop_with q s)) = is_Ok q" for q :: "'x res" and s :: "'y list"
    by (cases q; simp add: stop_with_def)+
  let ?m = "MasterRole (cluster_master lib r img)"
  let ?g = "RegionServerRole (cluster_region lib r img)"
  let ?t = "RestServerRole (cluster_rest lib r img)"
  obtain mo mrs go grs t_o trs where
    runs: "master_RegisterResources rl K os (ord_master ro) (cluster_master lib r img) [] = (mo, mrs)"
      "regionserver_RegisterResources rl K os (ord_regionserver ro) (cluster_region lib r img) [] = (go, grs)"
      "restserver_RegisterResources rl K os (ord_restserver ro) (cluster_rest lib r img) [] = (t_o, trs)"
    by (metis surj_pair)
  let ?n = "if \<not> is_Ok mo then 0 else if \<not> is_Ok go then 1 else if \<not> is_Ok t_o then 2 else (3 :: nat)"
  show ?thesis
    unfolding cluster_RegisterResources_eq
    by (rule exI [of _ ?n], rule exI [of _ "take ?n [?m mrs, ?g grs, ?t trs]"])
      (simp add: Ok runs stop names numeral_2_eq_2 numeral_3_eq_3)
qed (auto simp: cluster_RegisterResources_eq stop_with_def intro!: exI [of _ 0])

text \<open>
  C33. What may be left out of a resource. The specification's three roles are optional in
  the API, but registering a cluster without a master ends in a nil-pointer panic before
  anything is registered, and one without region servers or without REST servers never
  succeeds either. A resource without an image is another matter: the API server fills in
  the default, and the reconciler then asks for the image of the default repository and pull
  policy and does not panic; only an image pointer that is nil in spite of the default would
  panic.
\<close>

theorem omitted_role_fails:
  "cluster_RegisterResources lib vars rl K os ro (r\<lparr>clr_Spec := spec\<lparr>hs_MasterSpec := None\<rparr>\<rparr>) s
      = (Panic NilDeref, s)
   \<and> \<not> is_Ok (fst (cluster_RegisterResources lib vars rl K os ro
          (r\<lparr>clr_Spec := spec\<lparr>hs_RegionServerSpec := None\<rparr>\<rparr>) s))
   \<and> \<not> is_Ok (fst (cluster_RegisterResources lib vars rl K os ro
          (r\<lparr>clr_Spec := spec\<lparr>hs_RestServerSpec := None\<rparr>\<rparr>) s))
   \<and> GetImage lib vars (r\<lparr>clr_Spec := with_default_image (spec\<lparr>hs_Image := None\<rparr>)\<rparr>)
      = Ok (NewImage lib ''hbase'' (BuildVersion vars) ''2.6.1'' (\<lambda>options. options\<lparr>io_Custom := '''',
            io_Repo := ''quay.io/zncdatadev'', io_PullPolicy := ''IfNotPresent''\<rparr>))
   \<and> cluster_RegisterResources lib vars rl K os ro (r\<lparr>clr_Spec := spec\<lparr>hs_Image := None\<rparr>\<rparr>) s
      = (Panic NilDeref, s)"
proof -
  have image: "(\<exists>img. GetImage lib vars r' = Ok img) \<or> GetImage lib vars r' = Panic NilDeref" for r'
    by (cases "hs_Image (clr_Spec r')") (simp_all add: GetImage_def Let_def)
  have nil: "GetImage lib vars (r\<lparr>clr_Spec := spec\<lparr>hs_Image := None\<rparr>\<rparr>) = Panic NilDeref"
    by (simp add: GetImage_def)
  have default: "GetImage lib vars (r\<lparr>clr_Spec := with_default_image (spec\<lparr>hs_Image := None\<rparr>)\<rparr>)
      = Ok (NewImage lib ''hbase'' (BuildVersion vars) ''2.6.1'' (\<lambda>options. options\<lparr>io_Custom := '''',
            io_Repo := ''quay.io/zncdatadev'', io_PullPolicy := ''IfNotPresent''\<rparr>))"
    by (simp add: GetImage_def with_default_image_def default_image_def DefaultProductName_def
        DefaultProductVersion_def DefaultRepository_def Let_def)
  from nil image [of "r\<lparr>clr_Spec := spec\<lparr>hs_MasterSpec := None\<rparr>\<rparr>"] show ?thesis
    unfolding default cluster_RegisterResources_eq
    by (auto simp: RegisterResources_nil stop_with_def Let_def split: res.split prod.split)
qed

text \<open>
  The image. The library is asked for the product's image with the custom image, the
  repository and the pull policy of the specification; a non-empty Kubedoop version
  overrides the build's. The product version and the pull secret of the specification have
  no influence on the image.
\<close>

theorem GetImage_from_spec:
  "\<exists>f. (\<forall>o'. f o' = o'\<lparr>io_Custom := is_Custom i, io_Repo := is_Repo i, io_PullPolicy := is_PullPolicy i\<rparr>)
     \<and> GetImage lib vars (r\<lparr>clr_Spec := spec\<lparr>hs_Image := Some i\<rparr>\<rparr>) =
        (let img = NewImage lib ''hbase'' (BuildVersion vars) ''2.6.1'' f
         in Ok (img\<lparr>KubedoopVersion := (if is_KubedoopVersion i = '''' then KubedoopVersion img
                                        else is_KubedoopVersion i)\<rparr>))
     \<and> GetImage lib vars (r\<lparr>clr_Spec := spec\<lparr>hs_Image :=
            Some (i\<lparr>is_ProductVersion := v, is_PullSecretName := w\<rparr>)\<rparr>\<rparr>)
        = GetImage lib vars (r\<lparr>clr_Spec := spec\<lparr>hs_Image := Some i\<rparr>\<rparr>)"
  by (intro exI [of _ "\<lambda>o'. o'\<lparr>io_Custom := is_Custom i, io_Repo := is_Repo i, io_PullPolicy := is_PullPolicy i\<rparr>"])
    (simp add: GetImage_def DefaultProductName_def DefaultProductVersion_def Let_def)

section \<open>The objects of a cluster\<close>

text \<open>The documented meaning of the base's accessors.\<close>

definition cluster_lib_ok :: "cluster_lib \<Rightarrow> bool" where
  "cluster_lib_ok lib \<longleftrightarrow> (\<forall>r. Cluster_GetClient lib r = clr_Client r)"

fun resources_of :: "role_resource \<Rightarrow> resource list" where
  "resources_of (MasterRole r rs) = rs"
| "resources_of (RegionServerRole r rs) = rs"
| "resources_of (RestServerRole r rs) = rs"

text \<open>What the three reconcilers of a cluster share, and what a successful registration has run.\<close>

lemma cluster_roles_base:
  assumes "cluster_lib_ok lib"
  shows "rr_Image (cluster_master lib r img) = img" "rr_Image (cluster_region lib r img) = img"
    "rr_Image (cluster_rest lib r img) = img"
    "rr_ClusterConfig (cluster_master lib r img) = clr_ClusterConfig r"
    "rr_ClusterConfig (cluster_region lib r img) = clr_ClusterConfig r"
    "rr_ClusterConfig (cluster_rest lib r img) = clr_ClusterConfig r"
    "rb_Client (rr_Base (cluster_master lib r img)) = clr_Client r"
    "rb_Client (rr_Base (cluster_region lib r img)) = clr_Client r"
    "rb_Client (rr_Base (cluster_rest lib r img)) = clr_Client r"
    "rb_RoleInfo (rr_Base (cluster_master lib r img)) =
       \<lparr>ri_ClusterInfo = clr_ClusterInfo r, ri_RoleName = ''master''\<rparr>"
    "rb_RoleInfo (rr_Base (cluster_region lib r img)) =
       \<lparr>ri_ClusterInfo = clr_ClusterInfo r, ri_RoleName = ''regionserver''\<rparr>"
    "rb_RoleInfo (rr_Base (cluster_rest lib r img)) =
       \<lparr>ri_ClusterInfo = clr_ClusterInfo r, ri_RoleName = ''restserver''\<rparr>"
  using assms by (simp_all add: cluster_lib_ok_def cluster_master_def cluster_region_def cluster_rest_def
      master_NewReconciler_def regionserver_NewReconciler_def restserver_NewReconciler_def)

lemma stop_with_Ok: "stop_with q s = (Ok (), u) \<Longrightarrow> is_Ok q"
  by (cases q) (simp_all add: stop_with_def)

lemma cluster_RegisterResources_Ok:
  assumes run: "cluster_RegisterResources lib vars rl K os ro r s = (Ok (), t)"
  shows "\<exists>img mrs grs trs. GetImage lib vars r = Ok img
    \<and> master_RegisterResources rl K os (ord_master ro) (cluster_master lib r img) [] = (Ok (), mrs)
    \<and> regionserver_RegisterResources rl K os (ord_regionserver ro) (cluster_region lib r img) [] = (Ok (), grs)
    \<and> restserver_RegisterResources rl K os (ord_restserver ro) (cluster_rest lib r img) [] = (Ok (), trs)
    \<and> t = s @ [MasterRole (cluster_master lib r img) mrs, RegionServerRole (cluster_region lib r img) grs,
        RestServerRole (cluster_rest lib r img) trs]"
proof -
  obtain img where img: "GetImage lib vars r = Ok img"
    using run by (cases "GetImage lib vars r") (auto simp: cluster_RegisterResources_eq stop_with_def)
  show ?thesis
    using run unfolding cluster_RegisterResources_eq img
    by (auto simp: Let_def is_Ok_iff split: prod.splits if_splits dest!: stop_with_Ok)
qed

text \<open>Names built from different roles of one cluster differ.\<close>

lemma names_disjoint:
  assumes "A \<subseteq> {(k, p @ g) | k g. True}" and "B \<subseteq> {(k, q @ h) | k h. True}"
    and "\<And>g h. p @ g \<noteq> q @ h"
  shows "A \<inter> B = {}"
  using assms(1,2) assms(3) by blast

lemma config_names_of:
  assumes "registered_all K base cc img ports ks rs" and "distinct ks"
    and full: "\<forall>g. GetFullName K \<lparr>rgi_RoleInfo = rb_RoleInfo base, rgi_RoleGroupName = g\<rparr> = p @ g"
  shows "distinct (concat (map config_name rs))"
    and "set (concat (map config_name rs)) \<subseteq> {(k, p @ g) | k g. True}"
  unfolding registered_names(2) [OF assms(1) full] distinct_pairs using assms(2)
  by (auto simp: distinct_map inj_on_def)

text \<open>
  C2. A registered cluster fits together. When registration succeeds, the three roles are
  there, all with the same image, cluster configuration and client, each with the four
  resources of each of its role groups; and with a library that names a role group by
  cluster, role and group, no two StatefulSets and no two ConfigMaps of the whole cluster
  share a name.
\<close>

theorem registered_cluster:
  assumes K: "accessors_ok K" and rl: "role_lib_ok rl" and lib: "cluster_lib_ok lib"
    and specs: "hs_MasterSpec (clr_Spec r) = Some ms" "hs_RegionServerSpec (clr_Spec r) = Some gs"
      "hs_RestServerSpec (clr_Spec r) = Some ts"
    and orders: "range_order (ord_master ro) (ms_RoleGroups ms)"
      "range_order (ord_regionserver ro) (rs_RoleGroups gs)"
      "range_order (ord_restserver ro) (ts_RoleGroups ts)"
    and full: "\<forall>info. GetFullName K info = ci_ClusterName (ri_ClusterInfo (rgi_RoleInfo info)) @ ''-''
       @ ri_RoleName (rgi_RoleInfo info) @ ''-'' @ rgi_RoleGroupName info"
    and run: "cluster_RegisterResources lib vars rl K os ro r [] = (Ok (), t)"
  shows "\<exists>img m g s mrs grs trs. t = [MasterRole m mrs, RegionServerRole g grs, RestServerRole s trs]
     \<and> GetImage lib vars r = Ok img
     \<and> {rr_Image m, rr_Image g, rr_Image s} = {img}
     \<and> {rr_ClusterConfig m, rr_ClusterConfig g, rr_ClusterConfig s} = {clr_ClusterConfig r}
     \<and> {rb_Client (rr_Base m), rb_Client (rr_Base g), rb_Client (rr_Base s)} = {clr_Client r}
     \<and> registered_all K (rr_Base m) (clr_ClusterConfig r) img master_Ports (ord_master ro) mrs
     \<and> registered_all K (rr_Base g) (clr_ClusterConfig r) img regionserver_Ports (ord_regionserver ro) grs
     \<and> registered_all K (rr_Base s) (clr_ClusterConfig r) img restserver_Ports (ord_restserver ro) trs
     \<and> distinct (concat (map config_name (concat (map resources_of t))))"
proof -
  obtain img mrs grs trs where img: "GetImage lib vars r = Ok img" and
    runs: "master_RegisterResources rl K os (ord_master ro) (cluster_master lib r img) [] = (Ok (), mrs)"
      "regionserver_RegisterResources rl K os (ord_regionserver ro) (cluster_region lib r img) [] = (Ok (), grs)"
      "restserver_RegisterResources rl K os (ord_restserver ro) (cluster_rest lib r img) [] = (Ok (), trs)"
    and t: "t = [MasterRole (cluster_master lib r img) mrs, RegionServerRole (cluster_region lib r img) grs,
      RestServerRole (cluster_rest lib r img) trs]"
    using cluster_RegisterResources_Ok [OF run] by auto
  let ?m = "cluster_master lib r img" and ?g = "cluster_region lib r img" and ?s = "cluster_rest lib r img"
  note sel = cluster_roles_base [OF lib]
  have reg: "registered_all K (rr_Base ?m) (clr_ClusterConfig r) img master_Ports (ord_master ro) mrs"
    "registered_all K (rr_Base ?g) (clr_ClusterConfig r) img regionserver_Ports (ord_regionserver ro) grs"
    "registered_all K (rr_Base ?s) (clr_ClusterConfig r) img restserver_Ports (ord_restserver ro) trs"
    using registered_master [OF K rl _ orders(1) runs(1)] registered_region [OF K rl _ orders(2) runs(2)]
      registered_rest [OF K rl _ orders(3) runs(3)] by (simp_all add: specs sel)
  let ?pre = "ci_ClusterName (clr_ClusterInfo r) @ ''-''"
  have names: "\<forall>n. GetFullName K \<lparr>rgi_RoleInfo = rb_RoleInfo (rr_Base ?m), rgi_RoleGroupName = n\<rparr> = (?pre @ ''master-'') @ n"
    "\<forall>n. GetFullName K \<lparr>rgi_RoleInfo = rb_RoleInfo (rr_Base ?g), rgi_RoleGroupName = n\<rparr> = (?pre @ ''regionserver-'') @ n"
    "\<forall>n. GetFullName K \<lparr>rgi_RoleInfo = rb_RoleInfo (rr_Base ?s), rgi_RoleGroupName = n\<rparr> = (?pre @ ''restserver-'') @ n"
    by (simp_all add: full sel)
  have ks: "distinct (ord_master ro)" "distinct (ord_regionserver ro)" "distinct (ord_restserver ro)"
    using orders by (simp_all add: range_order_def)
  note cm = config_names_of [OF reg(1) ks(1) names(1)] and cg = config_names_of [OF reg(2) ks(2) names(2)]
    and cs = config_names_of [OF reg(3) ks(3) names(3)]
  have "set (concat (map config_name mrs)) \<inter> set (concat (map config_name grs)) = {}"
    "set (concat (map config_name mrs)) \<inter> set (concat (map config_name trs)) = {}"
    "set (concat (map config_name grs)) \<inter> set (concat (map config_name trs)) = {}"
    using names_disjoint [OF cm(2) cg(2)] names_disjoint [OF cm(2) cs(2)] names_disjoint [OF cg(2) cs(2)]
    by simp_all
  then have "distinct (concat (map config_name mrs) @ concat (map config_name grs) @ concat (map config_name trs))"
    using cm(1) cg(1) cs(1) unfolding distinct_append set_append by blast
  then have "distinct (concat (map config_name (concat (map resources_of t))))"
    by (simp add: t)
  with img reg sel t show ?thesis by auto
qed

theorem registered_cluster_witness:
  "\<exists>t. cluster_RegisterResources sample_cluster_lib default_build_vars sample_role_lib sample_opgo
        sample_orders sample_role_orders sample_cluster [] = (Ok (), t)
     \<and> length t = 3 \<and> distinct (concat (map config_name (concat (map resources_of t))))"
proof -
  obtain t where run: "cluster_RegisterResources sample_cluster_lib default_build_vars sample_role_lib
      sample_opgo sample_orders sample_role_orders sample_cluster [] = (Ok (), t)"
    using sample_cluster_Ok [of sample_role_orders "[]"] by (metis is_Ok_iff prod.collapse unit_eq)
  have lib: "cluster_lib_ok sample_cluster_lib" by (simp add: cluster_lib_ok_def sample_cluster_lib_def)
  have specs: "hs_MasterSpec (clr_Spec sample_cluster) = Some sample_master_spec"
    "hs_RegionServerSpec (clr_Spec sample_cluster) = Some sample_region_spec"
    "hs_RestServerSpec (clr_Spec sample_cluster) = Some sample_rest_spec"
    by (simp_all add: sample_cluster_def NewClusterReconciler_def sample_spec_def)
  have orders: "range_order (ord_master sample_role_orders) (ms_RoleGroups sample_master_spec)"
    "range_order (ord_regionserver sample_role_orders) (rs_RoleGroups sample_region_spec)"
    "range_order (ord_restserver sample_role_orders) (ts_RoleGroups sample_rest_spec)"
    by (simp_all add: sample_role_orders_def sample_range_orders)
  have full: "\<forall>info. GetFullName sample_opgo info = ci_ClusterName (ri_ClusterInfo (rgi_RoleInfo info)) @ ''-''
       @ ri_RoleName (rgi_RoleInfo info) @ ''-'' @ rgi_RoleGroupName info"
    by (simp add: sample_opgo_def)
  obtain m g s mrs grs trs where t: "t = [MasterRole m mrs, RegionServerRole g grs, RestServerRole s trs]"
    and "distinct (concat (map config_name (concat (map resources_of t))))"
    using registered_cluster [OF accessors_ok_sample role_lib_ok_sample lib specs orders full run]
    by (elim exE conjE) (rule that, assumption+)
  moreover have "length t = 3" unfolding t by simp
  ultimately show ?thesis using run by blast
qed

end
