(* ===== verification/Controller.thy ===== *)
theory Controller
  imports Cluster
begin

text \<open>
  The controller: internal/controller/hbasecluster_controller.go. A reconcile request is
  fetched, its resources registered, reconciled and checked for readiness. The code is one
  function with early returns; beside it stands the state machine of its phases.
\<close>

section \<open>Reconcile\<close>

record NamespacedName =
  nn_Namespace :: string
  nn_Name :: string

text \<open>
  The library: reading the resource, telling a missing resource from other errors, the
  client bound to its owner, the group, version and kind that a TypeMeta spells, and the cluster reconciler's own Reconcile and Ready over the
  registered roles. The parameter \<open>'r\<close> is controller-runtime's result.
\<close>

record 'r ctrl_lib =
  GetInstance :: "NamespacedName \<Rightarrow> HbaseCluster res"
  IgnoreNotFound :: "go_error \<Rightarrow> go_error option"
  OwnedClient :: "HbaseCluster \<Rightarrow> client"
  GroupVersionKindOf :: "TypeMeta \<Rightarrow> GroupVersionKind"
  Cluster_Reconcile :: "ClusterReconciler \<Rightarrow> role_resource list \<Rightarrow> 'r res"
  Cluster_Ready :: "ClusterReconciler \<Rightarrow> role_resource list \<Rightarrow> 'r res"
  IsZero :: "'r \<Rightarrow> bool"
  zero_Result :: 'r

text \<open>Everything a reconciliation depends on, with the orders Go chooses for its loops.\<close>

record 'r controller_env =
  ce_Lib :: "'r ctrl_lib"
  ce_ClusterLib :: cluster_lib
  ce_Vars :: build_vars
  ce_RoleLib :: role_lib
  ce_K :: opgo
  ce_Orders :: orders
  ce_RoleOrders :: "HbaseCluster \<Rightarrow> role_orders"

text \<open>The calls that leave the process, in the order they are made.\<close>

datatype ctl_call =
    CallGet NamespacedName
  | CallReconcile "role_resource list"
  | CallReady "role_resource list"

definition log_call :: "ctl_call \<Rightarrow> (ctl_call list, unit) eff" where
  "log_call c = modify_eff (\<lambda>cs. cs @ [c])"

definition instance_cluster :: "'r controller_env \<Rightarrow> HbaseCluster \<Rightarrow> ClusterReconciler" where
  "instance_cluster env inst =
     (let resourceClient = OwnedClient (ce_Lib env) inst;
          gvk = GroupVersionKindOf (ce_Lib env) (hc_TypeMeta inst)
      in NewClusterReconciler resourceClient
           \<lparr>GVK = \<lparr>Group = Group gvk, Version = Version gvk, Kind = Kind gvk\<rparr>,
            ci_ClusterName = om_Name (hc_ObjectMeta inst)\<rparr>
           (hc_Spec inst))"

definition register_instance :: "'r controller_env \<Rightarrow> HbaseCluster \<Rightarrow> (role_resource list, unit) eff" where
  "register_instance env inst =
     cluster_RegisterResources (ce_ClusterLib env) (ce_Vars env) (ce_RoleLib env) (ce_K env)
       (ce_Orders env) (ce_RoleOrders env inst) (instance_cluster env inst)"

definition Reconcile :: "'r controller_env \<Rightarrow> NamespacedName \<Rightarrow> (ctl_call list, 'r) eff" where
  "Reconcile env req =
     bind_eff (log_call (CallGet req)) (\<lambda>_.
     case GetInstance (ce_Lib env) req of
       Panic p \<Rightarrow> lift_res (Panic p)
     | Err err \<Rightarrow>
         if IgnoreNotFound (ce_Lib env) err = None then ret_eff (zero_Result (ce_Lib env))
         else lift_res (Err err)
     | Ok inst \<Rightarrow>
         let clusterReconciler = instance_cluster env inst
         in bind_eff (run_role (register_instance env inst)) (\<lambda>roles.
            bind_eff (log_call (CallReconcile roles)) (\<lambda>_.
            bind_eff (lift_res (Cluster_Reconcile (ce_Lib env) clusterReconciler roles)) (\<lambda>result.
            if \<not> IsZero (ce_Lib env) result then ret_eff result
            else
              bind_eff (log_call (CallReady roles)) (\<lambda>_.
              bind_eff (lift_res (Cluster_Ready (ce_Lib env) clusterReconciler roles)) (\<lambda>result'.
              if \<not> IsZero (ce_Lib env) result' then ret_eff result'
              else ret_eff (zero_Result (ce_Lib env))))))))"

section \<open>The phases\<close>

datatype 'r phase =
    Fetching
  | Registering HbaseCluster
  | Applying HbaseCluster "role_resource list"
  | CheckingReady HbaseCluster "role_resource list"
  | Finished "'r res"

inductive ctl_step ::
    "'r controller_env \<Rightarrow> NamespacedName \<Rightarrow> 'r phase \<times> ctl_call list \<Rightarrow> 'r phase \<times> ctl_call list \<Rightarrow> bool"
  for env req where
  not_found: "\<lbrakk>GetInstance (ce_Lib env) req = Err err; IgnoreNotFound (ce_Lib env) err = None\<rbrakk>
    \<Longrightarrow> ctl_step env req (Fetching, cs) (Finished (Ok (zero_Result (ce_Lib env))), cs @ [CallGet req])"
| get_error: "\<lbrakk>GetInstance (ce_Lib env) req = Err err; IgnoreNotFound (ce_Lib env) err \<noteq> None\<rbrakk>
    \<Longrightarrow> ctl_step env req (Fetching, cs) (Finished (Err err), cs @ [CallGet req])"
| get_panic: "GetInstance (ce_Lib env) req = Panic p
    \<Longrightarrow> ctl_step env req (Fetching, cs) (Finished (Panic p), cs @ [CallGet req])"
| found: "GetInstance (ce_Lib env) req = Ok inst
    \<Longrightarrow> ctl_step env req (Fetching, cs) (Registering inst, cs @ [CallGet req])"
| register_error: "register_instance env inst [] = (Err err, roles)
    \<Longrightarrow> ctl_step env req (Registering inst, cs) (Finished (Err err), cs)"
| register_panic: "register_instance env inst [] = (Panic p, roles)
    \<Longrightarrow> ctl_step env req (Registering inst, cs) (Finished (Panic p), cs)"
| registered: "register_instance env inst [] = (Ok (), roles)
    \<Longrightarrow> ctl_step env req (Registering inst, cs) (Applying inst roles, cs)"
| apply_error: "Cluster_Reconcile (ce_Lib env) (instance_cluster env inst) roles = Err err
    \<Longrightarrow> ctl_step env req (Applying inst roles, cs) (Finished (Err err), cs @ [CallReconcile roles])"
| apply_panic: "Cluster_Reconcile (ce_Lib env) (instance_cluster env inst) roles = Panic p
    \<Longrightarrow> ctl_step env req (Applying inst roles, cs) (Finished (Panic p), cs @ [CallReconcile roles])"
| apply_requeue: "\<lbrakk>Cluster_Reconcile (ce_Lib env) (instance_cluster env inst) roles = Ok result;
      \<not> IsZero (ce_Lib env) result\<rbrakk>
    \<Longrightarrow> ctl_step env req (Applying inst roles, cs) (Finished (Ok result), cs @ [CallReconcile roles])"
| applied: "\<lbrakk>Cluster_Reconcile (ce_Lib env) (instance_cluster env inst) roles = Ok result;
      IsZero (ce_Lib env) result\<rbrakk>
    \<Longrightarrow> ctl_step env req (Applying inst roles, cs) (CheckingReady inst roles, cs @ [CallReconcile roles])"
| ready_error: "Cluster_Ready (ce_Lib env) (instance_cluster env inst) roles = Err err
    \<Longrightarrow> ctl_step env req (CheckingReady inst roles, cs) (Finished (Err err), cs @ [CallReady roles])"
| ready_panic: "Cluster_Ready (ce_Lib env) (instance_cluster env inst) roles = Panic p
    \<Longrightarrow> ctl_step env req (CheckingReady inst roles, cs) (Finished (Panic p), cs @ [CallReady roles])"
| ready: "Cluster_Ready (ce_Lib env) (instance_cluster env inst) roles = Ok result
    \<Longrightarrow> ctl_step env req (CheckingReady inst roles, cs)
          (Finished (Ok (if IsZero (ce_Lib env) result then zero_Result (ce_Lib env) else result)),
           cs @ [CallReady roles])"

inductive_cases FetchingE: "ctl_step env req (Fetching, cs) t"
inductive_cases RegisteringE: "ctl_step env req (Registering inst, cs) t"
inductive_cases ApplyingE: "ctl_step env req (Applying inst roles, cs) t"
inductive_cases CheckingReadyE: "ctl_step env req (CheckingReady inst roles, cs) t"
inductive_cases FinishedE: "ctl_step env req (Finished out, cs) t"

lemmas phase_cases = FetchingE RegisteringE ApplyingE CheckingReadyE FinishedE

lemmas ctl_steps = ctl_step.intros

text \<open>The machine is deterministic and stops in a final phase only.\<close>

lemma ctl_step_deterministic:
  assumes "ctl_step env req s t" and "ctl_step env req s u"
  shows "t = u"
  using assms(2,1)
  by (induction rule: ctl_step.induct) (auto elim!: phase_cases)

text \<open>What is left of a reconciliation from a phase on.\<close>

definition rest_ready :: "'r controller_env \<Rightarrow> HbaseCluster \<Rightarrow> role_resource list \<Rightarrow> (ctl_call list, 'r) eff" where
  "rest_ready env inst roles =
     bind_eff (log_call (CallReady roles)) (\<lambda>_.
     bind_eff (lift_res (Cluster_Ready (ce_Lib env) (instance_cluster env inst) roles)) (\<lambda>result.
     if \<not> IsZero (ce_Lib env) result then ret_eff result else ret_eff (zero_Result (ce_Lib env))))"

definition rest_apply :: "'r controller_env \<Rightarrow> HbaseCluster \<Rightarrow> role_resource list \<Rightarrow> (ctl_call list, 'r) eff" where
  "rest_apply env inst roles =
     bind_eff (log_call (CallReconcile roles)) (\<lambda>_.
     bind_eff (lift_res (Cluster_Reconcile (ce_Lib env) (instance_cluster env inst) roles)) (\<lambda>result.
     if \<not> IsZero (ce_Lib env) result then ret_eff result else rest_ready env inst roles))"

fun resume :: "'r controller_env \<Rightarrow> NamespacedName \<Rightarrow> 'r phase \<Rightarrow> (ctl_call list, 'r) eff" where
  "resume env req Fetching = Reconcile env req"
| "resume env req (Registering inst) =
     bind_eff (run_role (register_instance env inst)) (\<lambda>roles. rest_apply env inst roles)"
| "resume env req (Applying inst roles) = rest_apply env inst roles"
| "resume env req (CheckingReady inst roles) = rest_ready env inst roles"
| "resume env req (Finished out) = lift_res out"

lemma bind_log_call: "bind_eff (log_call c) f cs = f () (cs @ [c])"
  by (simp add: log_call_def)

lemma Reconcile_eq:
  "Reconcile env req cs =
     (case GetInstance (ce_Lib env) req of
       Panic p \<Rightarrow> (Panic p, cs @ [CallGet req])
     | Err err \<Rightarrow> (if IgnoreNotFound (ce_Lib env) err = None then Ok (zero_Result (ce_Lib env)) else Err err,
                 cs @ [CallGet req])
     | Ok inst \<Rightarrow> resume env req (Registering inst) (cs @ [CallGet req]))"
  unfolding Reconcile_def resume.simps rest_apply_def rest_ready_def Let_def
  by (cases "GetInstance (ce_Lib env) req")
    (simp_all add: bind_log_call)

text \<open>A step does not change where the reconciliation ends.\<close>

lemma resume_step:
  assumes "ctl_step env req s t"
  shows "resume env req (fst s) (snd s) = resume env req (fst t) (snd t)"
  using assms
  by (induction rule: ctl_step.induct)
    (simp_all add: Reconcile_eq run_role_def rest_apply_def rest_ready_def log_call_def bind_eff_def)

text \<open>Every phase but the last has a step, and every step comes closer to the last.\<close>

fun phase_rank :: "'r phase \<Rightarrow> nat" where
  "phase_rank Fetching = 4"
| "phase_rank (Registering inst) = 3"
| "phase_rank (Applying inst roles) = 2"
| "phase_rank (CheckingReady inst roles) = 1"
| "phase_rank (Finished out) = 0"

lemma ctl_step_rank: "ctl_step env req s t \<Longrightarrow> phase_rank (fst t) < phase_rank (fst s)"
  by (induction rule: ctl_step.induct) simp_all

lemma ctl_step_progress: "phase_rank ph \<noteq> 0 \<Longrightarrow> \<exists>t. ctl_step env req (ph, cs) t"
proof (cases ph)
  case Fetching
  then show ?thesis
    by (cases "GetInstance (ce_Lib env) req") (blast intro: ctl_steps)+
next
  case (Registering inst)
  obtain q rs where "register_instance env inst [] = (q, rs)" by force
  with Registering show ?thesis
    by (cases q) (auto intro: ctl_steps)
next
  case (Applying inst roles)
  then show ?thesis
    by (cases "Cluster_Reconcile (ce_Lib env) (instance_cluster env inst) roles") (blast intro: ctl_steps)+
next
  case (CheckingReady inst roles)
  then show ?thesis
    by (cases "Cluster_Ready (ce_Lib env) (instance_cluster env inst) roles") (blast intro: ctl_steps)+
qed simp

abbreviation ctl_reaches ::
    "'r controller_env \<Rightarrow> NamespacedName \<Rightarrow> 'r phase \<times> ctl_call list \<Rightarrow> 'r phase \<times> ctl_call list \<Rightarrow> bool" where
  "ctl_reaches env req \<equiv> (ctl_step env req)\<^sup>*\<^sup>*"

lemma resume_reaches:
  assumes "ctl_reaches env req s t"
  shows "resume env req (fst s) (snd s) = resume env req (fst t) (snd t)"
  using assms by (induction rule: rtranclp_induct) (simp_all add: resume_step)

lemma reaches_end: "\<exists>out t. ctl_reaches env req (ph, cs) (Finished out, t)"
proof (induction "phase_rank ph" arbitrary: ph cs rule: less_induct)
  case less
  show ?case
  proof (cases "phase_rank ph = 0")
    case True
    then obtain out where "ph = Finished out" by (cases ph) auto
    then show ?thesis by blast
  next
    case False
    then obtain ph' cs' where step: "ctl_step env req (ph, cs) (ph', cs')"
      using ctl_step_progress [OF False, of env req cs] by auto
    have "phase_rank ph' < phase_rank ph" using ctl_step_rank [OF step] by simp
    from less [OF this, of cs'] step show ?thesis
      by (meson converse_rtranclp_into_rtranclp)
  qed
qed

section \<open>Properties\<close>

text \<open>
  C3. The function is the state machine. Reconcile returns an outcome and a call history
  exactly when the machine of phases, started at the fetch with the same history, reaches
  that outcome and that history; so the machine always ends, and with one result.
\<close>

theorem Reconcile_refines_phases:
  "ctl_reaches env req (Fetching, cs) (Finished out, t) \<longleftrightarrow> Reconcile env req cs = (out, t)"
proof
  assume "ctl_reaches env req (Fetching, cs) (Finished out, t)"
  from resume_reaches [OF this] show "Reconcile env req cs = (out, t)" by simp
next
  assume run: "Reconcile env req cs = (out, t)"
  obtain out' t' where fin: "ctl_reaches env req (Fetching, cs) (Finished out', t')"
    using reaches_end by blast
  from resume_reaches [OF fin] run have "out' = out" "t' = t" by simp_all
  with fin show "ctl_reaches env req (Fetching, cs) (Finished out, t)" by simp
qed

text \<open>A concrete environment: one cluster that exists, and a library to which all is well.\<close>

definition sample_instance :: HbaseCluster where
  "sample_instance = \<lparr>
     hc_TypeMeta = \<lparr>tm_Kind = ''HbaseCluster'', tm_APIVersion = ''hbase.kubedoop.dev/v1alpha1''\<rparr>,
     hc_ObjectMeta = \<lparr>om_Name = ''hbase'', om_Namespace = ''default'', om_rest = undefined\<rparr>,
     hc_Spec = sample_spec, hc_Status = \<lparr>st_Conditions = None\<rparr>\<rparr>"

definition sample_env :: "nat controller_env" where
  "sample_env = \<lparr>ce_Lib = \<lparr>
       GetInstance = (\<lambda>req. if nn_Name req = ''hbase'' then Ok sample_instance
          else Err (ExtError ''StatusError'' ''not found'')),
       IgnoreNotFound = (\<lambda>e. if e = ExtError ''StatusError'' ''not found'' then None else Some e),
       OwnedClient = (\<lambda>inst. znode_client),
       GroupVersionKindOf = (\<lambda>tm. \<lparr>Group = ''hbase.kubedoop.dev'', Version = ''v1alpha1'', Kind = tm_Kind tm\<rparr>),
       Cluster_Reconcile = (\<lambda>r roles. Ok 0), Cluster_Ready = (\<lambda>r roles. Ok 0),
       IsZero = (\<lambda>x. x = 0), zero_Result = 0\<rparr>,
     ce_ClusterLib = sample_cluster_lib, ce_Vars = default_build_vars, ce_RoleLib = sample_role_lib,
     ce_K = sample_opgo, ce_Orders = sample_orders, ce_RoleOrders = (\<lambda>inst. sample_role_orders)\<rparr>"

definition sample_req :: NamespacedName where
  "sample_req = \<lparr>nn_Namespace = ''default'', nn_Name = ''hbase''\<rparr>"

lemma sample_env_sel:
  "GetInstance (ce_Lib sample_env) sample_req = Ok sample_instance"
  "IsZero (ce_Lib sample_env) x \<longleftrightarrow> x = 0" "zero_Result (ce_Lib sample_env) = 0"
  "Cluster_Reconcile (ce_Lib sample_env) r roles = Ok 0"
  "Cluster_Ready (ce_Lib sample_env) r roles = Ok 0"
  by (simp_all add: sample_env_def sample_req_def)

lemma sample_register: "\<exists>roles. register_instance sample_env sample_instance [] = (Ok (), roles)"
proof -
  have "instance_cluster sample_env sample_instance = sample_cluster"
    by (simp add: instance_cluster_def sample_env_def sample_instance_def sample_cluster_def
        sample_role_info_def sample_info_def Let_def)
  then have "is_Ok (fst (register_instance sample_env sample_instance []))"
    using sample_cluster_Ok by (simp add: register_instance_def sample_env_def)
  then show ?thesis by (metis is_Ok_iff prod.collapse unit_eq)
qed

lemma sample_Reconcile:
  "\<exists>roles. Reconcile sample_env sample_req [] =
     (Ok 0, [CallGet sample_req, CallReconcile roles, CallReady roles])"
proof -
  obtain roles where "register_instance sample_env sample_instance [] = (Ok (), roles)"
    using sample_register by blast
  then show ?thesis
    by (simp add: Reconcile_eq sample_env_sel run_role_def rest_apply_def rest_ready_def log_call_def
        bind_eff_def)
qed

text \<open>What holds at every phase the machine reaches from the start.\<close>

fun ctl_invariant :: "'r controller_env \<Rightarrow> NamespacedName \<Rightarrow> 'r phase \<times> ctl_call list \<Rightarrow> bool" where
  "ctl_invariant env req (Fetching, cs) \<longleftrightarrow> cs = []"
| "ctl_invariant env req (Registering inst, cs) \<longleftrightarrow>
     GetInstance (ce_Lib env) req = Ok inst \<and> cs = [CallGet req]"
| "ctl_invariant env req (Applying inst roles, cs) \<longleftrightarrow>
     GetInstance (ce_Lib env) req = Ok inst \<and> register_instance env inst [] = (Ok (), roles)
     \<and> cs = [CallGet req]"
| "ctl_invariant env req (CheckingReady inst roles, cs) \<longleftrightarrow>
     GetInstance (ce_Lib env) req = Ok inst \<and> register_instance env inst [] = (Ok (), roles)
     \<and> (\<exists>result. Cluster_Reconcile (ce_Lib env) (instance_cluster env inst) roles = Ok result
           \<and> IsZero (ce_Lib env) result)
     \<and> cs = [CallGet req, CallReconcile roles]"
| "ctl_invariant env req (Finished out, cs) \<longleftrightarrow>
     cs = [CallGet req]
     \<or> (\<exists>inst roles. GetInstance (ce_Lib env) req = Ok inst
          \<and> register_instance env inst [] = (Ok (), roles)
          \<and> (cs = [CallGet req, CallReconcile roles]
             \<or> cs = [CallGet req, CallReconcile roles, CallReady roles]
               \<and> (\<exists>result. Cluster_Reconcile (ce_Lib env) (instance_cluster env inst) roles = Ok result
                    \<and> IsZero (ce_Lib env) result)))"

lemma ctl_invariant_step:
  "ctl_step env req s t \<Longrightarrow> ctl_invariant env req s \<Longrightarrow> ctl_invariant env req t"
  by (induction rule: ctl_step.induct) auto

lemma ctl_invariant_reachable:
  assumes "ctl_reaches env req (Fetching, []) t"
  shows "ctl_invariant env req t"
  using assms by (induction rule: rtranclp_induct) (auto intro: ctl_invariant_step)

lemma Reconcile_invariant:
  assumes "Reconcile env req [] = (out, calls)"
  shows "ctl_invariant env req (Finished out, calls)"
proof -
  obtain out' t where fin: "ctl_reaches env req (Fetching, []) (Finished out', t)"
    using reaches_end by blast
  from resume_reaches [OF fin] assms have "out' = out" "t = calls" by simp_all
  with ctl_invariant_reachable [OF fin] show ?thesis by simp
qed

lemma registered_roles:
  assumes "register_instance env inst [] = (Ok (), roles)"
  shows "length roles = 3"
  using assms
  by (auto simp: register_instance_def cluster_RegisterResources_eq stop_with_def Let_def
      split: res.splits prod.splits if_splits)

text \<open>
  C4. Order of the calls. A reconciliation first reads the resource and makes at most two
  more calls. Resources are written only for a resource that was found and whose roles have
  all three been registered, with exactly those roles; readiness is asked for only after
  the writes have come back with the zero result, and for the same roles.
\<close>

theorem Reconcile_call_order:
  assumes "Reconcile env req [] = (out, calls)"
  shows "hd calls = CallGet req \<and> length calls \<le> 3
    \<and> (\<forall>roles. CallReconcile roles \<in> set calls \<longrightarrow>
        (\<exists>inst. GetInstance (ce_Lib env) req = Ok inst
           \<and> register_instance env inst [] = (Ok (), roles) \<and> length roles = 3))
    \<and> (\<forall>roles. CallReady roles \<in> set calls \<longrightarrow>
        (\<exists>inst result. calls = [CallGet req, CallReconcile roles, CallReady roles]
           \<and> GetInstance (ce_Lib env) req = Ok inst
           \<and> Cluster_Reconcile (ce_Lib env) (instance_cluster env inst) roles = Ok result
           \<and> IsZero (ce_Lib env) result))"
  using Reconcile_invariant [OF assms] registered_roles by auto

theorem Reconcile_call_order_witness:
  "\<exists>roles. Reconcile sample_env sample_req [] =
     (Ok 0, [CallGet sample_req, CallReconcile roles, CallReady roles]) \<and> length roles = 3"
proof -
  obtain roles where run: "Reconcile sample_env sample_req [] =
     (Ok 0, [CallGet sample_req, CallReconcile roles, CallReady roles])"
    using sample_Reconcile by blast
  from Reconcile_call_order [OF run] run show ?thesis by auto
qed

text \<open>
  C18. What a result means. With a library whose only zero result is the zero value, a
  reconciliation ends without error and without a request to be run again exactly when the
  resource is gone, or when its three roles were registered, writing them changed nothing
  more, and the cluster is ready.
\<close>

theorem Reconcile_settled_iff:
  assumes "\<forall>x. IsZero (ce_Lib env) x \<longleftrightarrow> x = zero_Result (ce_Lib env)"
  shows "fst (Reconcile env req cs) = Ok (zero_Result (ce_Lib env)) \<longleftrightarrow>
    (\<exists>err. GetInstance (ce_Lib env) req = Err err \<and> IgnoreNotFound (ce_Lib env) err = None)
    \<or> (\<exists>inst roles. GetInstance (ce_Lib env) req = Ok inst
         \<and> register_instance env inst [] = (Ok (), roles)
         \<and> Cluster_Reconcile (ce_Lib env) (instance_cluster env inst) roles = Ok (zero_Result (ce_Lib env))
         \<and> Cluster_Ready (ce_Lib env) (instance_cluster env inst) roles = Ok (zero_Result (ce_Lib env)))"
proof (cases "GetInstance (ce_Lib env) req")
  case (Ok inst)
  obtain q roles where reg: "register_instance env inst [] = (q, roles)" by force
  show ?thesis
    using assms Ok reg
    by (cases q; cases "Cluster_Reconcile (ce_Lib env) (instance_cluster env inst) roles";
        cases "Cluster_Ready (ce_Lib env) (instance_cluster env inst) roles")
      (auto simp: Reconcile_eq run_role_def rest_apply_def rest_ready_def log_call_def bind_eff_def)
qed (auto simp: Reconcile_eq)

theorem Reconcile_settled_iff_witness:
  "fst (Reconcile sample_env sample_req []) = Ok 0"
proof -
  have zero: "\<forall>x. IsZero (ce_Lib sample_env) x \<longleftrightarrow> x = zero_Result (ce_Lib sample_env)"
    by (simp add: sample_env_sel)
  obtain roles where "register_instance sample_env sample_instance [] = (Ok (), roles)"
    using sample_register by blast
  then show ?thesis
    using Reconcile_settled_iff [OF zero, of sample_req "[]"] by (simp add: sample_env_sel)
qed

text \<open>
  A cluster without a master. When the resource that is read has no master
  specification, which its API allows, reconciling it panics after the read, and nothing is
  written.
\<close>

theorem Reconcile_without_master:
  assumes "GetInstance (ce_Lib env) req = Ok inst" and "hs_MasterSpec (hc_Spec inst) = None"
  shows "Reconcile env req cs = (Panic NilDeref, cs @ [CallGet req])"
proof -
  have "hs_MasterSpec (clr_Spec (instance_cluster env inst)) = None"
    using assms(2) by (simp add: instance_cluster_def NewClusterReconciler_def Let_def)
  from no_master_panics [OF this] have "register_instance env inst [] = (Panic NilDeref, [])"
    by (simp add: register_instance_def)
  then show ?thesis using assms(1) by (simp add: Reconcile_eq run_role_def bind_eff_def)
qed

definition masterless_env :: "nat controller_env" where
  "masterless_env = sample_env\<lparr>ce_Lib := (ce_Lib sample_env)\<lparr>GetInstance :=
     (\<lambda>req. Ok (sample_instance\<lparr>hc_Spec := sample_spec\<lparr>hs_MasterSpec := None\<rparr>\<rparr>))\<rparr>\<rparr>"

theorem Reconcile_without_master_witness:
  "Reconcile masterless_env sample_req [] = (Panic NilDeref, [CallGet sample_req])"
  using Reconcile_without_master [of masterless_env sample_req
      "sample_instance\<lparr>hc_Spec := sample_spec\<lparr>hs_MasterSpec := None\<rparr>\<rparr>" "[]"]
  by (simp add: masterless_env_def)

lemma ctl_steps_rank: "((ctl_step env req) ^^ n) s t \<Longrightarrow> phase_rank (fst t) + n \<le> phase_rank (fst s)"
proof (induction n arbitrary: t)
  case (Suc n)
  then obtain u where "((ctl_step env req) ^^ n) s u" "ctl_step env req u t" by auto
  with Suc.IH [of u] ctl_step_rank [of env req u t] show ?case by simp
qed simp

text \<open>
  The machine needs at most four steps, on every run, to the result of Reconcile.
\<close>

lemma Reconcile_within_four_steps:
  "Reconcile env req cs = (out, t) \<longleftrightarrow>
     (\<exists>n. n \<le> 4 \<and> ((ctl_step env req) ^^ n) (Fetching, cs) (Finished out, t))"
proof
  assume run: "Reconcile env req cs = (out, t)"
  obtain out' t' where fin: "ctl_reaches env req (Fetching, cs) (Finished out', t')"
    using reaches_end by blast
  from resume_reaches [OF fin] run have "out' = out" "t' = t" by simp_all
  with fin obtain n where n: "((ctl_step env req) ^^ n) (Fetching, cs) (Finished out, t)"
    using rtranclp_imp_relpowp by metis
  with ctl_steps_rank [OF n] show "\<exists>n. n \<le> 4 \<and> ((ctl_step env req) ^^ n) (Fetching, cs) (Finished out, t)"
    by auto
next
  assume "\<exists>n. n \<le> 4 \<and> ((ctl_step env req) ^^ n) (Fetching, cs) (Finished out, t)"
  then have "ctl_reaches env req (Fetching, cs) (Finished out, t)"
    by (auto dest: relpowp_imp_rtranclp)
  from resume_reaches [OF this] show "Reconcile env req cs = (out, t)" by simp
qed

text \<open>
  C19. Which errors a reconciliation reports. Reconcile returns an error, which makes the
  manager try again later, exactly when reading the resource failed with that error and not
  because the resource is gone, or a role's registration, the writes or the question for
  readiness failed with it; nothing has been written when the read or the registration
  failed, readiness has not been asked for when a write failed, and it is only asked for
  when the writes came back with the zero result.
\<close>

theorem Reconcile_error_iff:
  "Reconcile env req cs = (Err err, t) \<longleftrightarrow>
     GetInstance (ce_Lib env) req = Err err \<and> (\<exists>e. IgnoreNotFound (ce_Lib env) err = Some e)
       \<and> t = cs @ [CallGet req]
   \<or> (\<exists>inst roles. GetInstance (ce_Lib env) req = Ok inst \<and>
       (register_instance env inst [] = (Err err, roles) \<and> t = cs @ [CallGet req]
        \<or> register_instance env inst [] = (Ok (), roles) \<and>
          (Cluster_Reconcile (ce_Lib env) (instance_cluster env inst) roles = Err err
             \<and> t = cs @ [CallGet req, CallReconcile roles]
           \<or> (\<exists>result. Cluster_Reconcile (ce_Lib env) (instance_cluster env inst) roles = Ok result
                \<and> IsZero (ce_Lib env) result
                \<and> Cluster_Ready (ce_Lib env) (instance_cluster env inst) roles = Err err
                \<and> t = cs @ [CallGet req, CallReconcile roles, CallReady roles]))))"
proof (cases "GetInstance (ce_Lib env) req")
  case (Ok inst)
  obtain q roles where reg: "register_instance env inst [] = (q, roles)" by force
  show ?thesis
    using Ok reg
    by (cases q; cases "Cluster_Reconcile (ce_Lib env) (instance_cluster env inst) roles";
        cases "Cluster_Ready (ce_Lib env) (instance_cluster env inst) roles")
      (auto simp: Reconcile_eq run_role_def rest_apply_def rest_ready_def log_call_def bind_eff_def)
qed (auto simp: Reconcile_eq)

end
