(* ===== verification/Go_Heap.thy ===== *)
theory Go_Heap
  imports Prelude "HOL-Library.AList"
begin

text \<open>
  Go's memory as the generated deep copies see it: cells that hold structs, slices and maps,
  allocation that only ever adds cells, loads and stores through pointers. On top of it the
  contract of a deep copy (the locale \<open>copier\<close>) and the ways to build one: behind a
  pointer, field after field, element after element, entry after entry of a map.
\<close>

section \<open>Cells\<close>

text \<open>
  An address is the number of a cell. A cell that new or make has returned and that has not
  been written yet is \<open>None\<close>: memory with the zero value of its type. The type of a
  cell's content is the type parameter \<open>'o\<close>, the sum of all types that are stored.
\<close>

type_synonym addr = nat
type_synonym 'o mem = "'o option list"

definition cell :: "'o mem \<Rightarrow> addr \<Rightarrow> 'o option" where
  "cell h a = (if a < length h then h ! a else None)"

text \<open>One of the summands: how a value of the type is stored and recognised.\<close>

record ('o, 'r) kind =
  Emb :: "'r \<Rightarrow> 'o"
  Prj :: "'o \<Rightarrow> 'r option"

definition kind_ok :: "('o, 'r) kind \<Rightarrow> bool" where
  "kind_ok K \<longleftrightarrow> (\<forall>ob r. Prj K ob = Some r \<longleftrightarrow> ob = Emb K r)"

definition read_cell :: "('o, 'r) kind \<Rightarrow> 'o mem \<Rightarrow> addr \<Rightarrow> 'r option" where
  "read_cell K h a = Option.bind (cell h a) (Prj K)"

text \<open>
  Allocating, loading through a pointer and storing through it. A pointer to no cell of its
  type is an invalid address, on which the run time panics as it does on nil.
\<close>

definition new_cell :: "('o mem, addr) eff" where
  "new_cell = (\<lambda>h. (Ok (length h), h @ [None]))"

definition load :: "('o, 'r) kind \<Rightarrow> addr \<Rightarrow> ('o mem, 'r) eff" where
  "load K a = ask_eff (\<lambda>h. lift_res (deref (read_cell K h a)))"

definition store :: "('o, 'r) kind \<Rightarrow> addr \<Rightarrow> 'r \<Rightarrow> ('o mem, unit) eff" where
  "store K a r = modify_eff (\<lambda>h. h[a := Some (Emb K r)])"

section \<open>What is kept\<close>

text \<open>The written cells among \<open>A\<close> are the same in both memories.\<close>

definition keeps :: "addr set \<Rightarrow> 'o mem \<Rightarrow> 'o mem \<Rightarrow> bool" where
  "keeps A h h' \<longleftrightarrow> (\<forall>a \<in> A. cell h a \<noteq> None \<longrightarrow> cell h' a = cell h a)"

lemma keeps_refl [simp, intro]: "keeps A h h"
  by (simp add: keeps_def)

lemma keeps_subset: "keeps B h h' \<Longrightarrow> A \<subseteq> B \<Longrightarrow> keeps A h h'"
  by (auto simp: keeps_def)

lemma keeps_trans: "keeps A h h' \<Longrightarrow> keeps A h' h'' \<Longrightarrow> keeps A h h''"
  by (auto simp: keeps_def)

lemma keeps_append [simp, intro]: "keeps A h (h @ xs)"
  by (auto simp: keeps_def cell_def nth_append)

lemma keeps_append_append [simp, intro]: "keeps A (h @ xs) (h @ xs @ ys)"
  using keeps_append [of A "h @ xs" ys] by simp

text \<open>Writing a zeroed cell, or a cell outside of \<open>A\<close>, keeps what is there.\<close>

lemma keeps_fill: "keeps A (h @ None # xs) (h @ Some ob # xs)"
  by (auto simp: keeps_def cell_def nth_append nth_Cons')

lemma keeps_replace: "length h \<notin> A \<Longrightarrow> keeps A (h @ x # xs) (h @ y # xs)"
  by (auto simp: keeps_def cell_def nth_append nth_Cons')

lemma keeps_replace_append: "length h \<notin> A \<Longrightarrow> keeps A (h @ x # xs) (h @ y # xs @ ys)"
  by (auto simp: keeps_def cell_def nth_append nth_Cons')

lemma read_cell_keeps:
  "read_cell K h a = Some r \<Longrightarrow> keeps A h h' \<Longrightarrow> a \<in> A \<Longrightarrow> read_cell K h' a = Some r"
  by (auto simp: read_cell_def keeps_def bind_eq_Some_conv)

lemma read_cell_mid: "kind_ok K \<Longrightarrow> read_cell K (h @ Some (Emb K r) # xs) (length h) = Some r"
  by (simp add: read_cell_def cell_def kind_ok_def)

lemma read_cell_iff: "kind_ok K \<Longrightarrow> read_cell K h a = Some r \<longleftrightarrow> cell h a = Some (Emb K r)"
  by (auto simp: read_cell_def kind_ok_def bind_eq_Some_conv)

lemma cell_in_set: "cell h a = Some ob \<Longrightarrow> Some ob \<in> set h"
  by (metis cell_def nth_mem option.distinct(1))

text \<open>The addresses of the cells \<open>xs\<close> that have been added to \<open>h\<close>.\<close>

definition fresh :: "'o mem \<Rightarrow> 'o mem \<Rightarrow> addr set" where
  "fresh h xs = {length h ..< length h + length xs}"

lemma fresh_append [simp]: "fresh h (xs @ ys) = fresh h xs \<union> fresh (h @ xs) ys"
  by (auto simp: fresh_def)

lemma fresh_Cons: "fresh h (x # xs) = insert (length h) (fresh (h @ [x]) xs)"
  by (auto simp: fresh_def)

lemma fresh_Nil [simp]: "fresh h [] = {}"
  by (simp add: fresh_def)

lemma fresh_new: "a \<in> fresh h xs \<Longrightarrow> cell h a = None"
  by (simp add: fresh_def cell_def)

lemma fresh_cong: "length h = length h' \<Longrightarrow> fresh h xs = fresh h' xs"
  by (simp add: fresh_def)

section \<open>Representing a value\<close>

text \<open>
  \<open>R h A r v\<close> says that the struct \<open>r\<close> in memory \<open>h\<close> represents the value
  \<open>v\<close>, every cell its pointers lead to being in \<open>A\<close>. The contract: the value is
  determined, and nothing but the written cells of \<open>A\<close> matters.
\<close>

locale representation =
  fixes R :: "'o mem \<Rightarrow> addr set \<Rightarrow> 'r \<Rightarrow> 'v \<Rightarrow> bool"
  assumes rep_keeps: "R h A r v \<Longrightarrow> keeps A h h' \<Longrightarrow> A \<subseteq> B \<Longrightarrow> R h' B r v"
    and rep_unique: "R h A r v \<Longrightarrow> R h B r w \<Longrightarrow> v = w"
begin

lemma rep_append: "R h A r v \<Longrightarrow> R (h @ xs) A r v"
  using rep_keeps by blast

lemma rep_more: "R h A r v \<Longrightarrow> A \<subseteq> B \<Longrightarrow> R h B r v"
  using rep_keeps by blast

end

definition rep_flat :: "'o mem \<Rightarrow> addr set \<Rightarrow> 'r \<Rightarrow> 'r \<Rightarrow> bool" where
  "rep_flat h A r v \<longleftrightarrow> r = v"

fun rep_pair :: "('o mem \<Rightarrow> addr set \<Rightarrow> 'r \<Rightarrow> 'v \<Rightarrow> bool) \<Rightarrow> ('o mem \<Rightarrow> addr set \<Rightarrow> 's \<Rightarrow> 'w \<Rightarrow> bool)
    \<Rightarrow> 'o mem \<Rightarrow> addr set \<Rightarrow> 'r \<times> 's \<Rightarrow> 'v \<times> 'w \<Rightarrow> bool" where
  "rep_pair R S h A (r, s) (v, w) \<longleftrightarrow> R h A r v \<and> S h A s w"

text \<open>Nil stands for \<open>None\<close>, any other pointer for what its cell represents.\<close>

fun rep_ptr :: "('o, 'r) kind \<Rightarrow> ('o mem \<Rightarrow> addr set \<Rightarrow> 'r \<Rightarrow> 'v \<Rightarrow> bool)
    \<Rightarrow> 'o mem \<Rightarrow> addr set \<Rightarrow> addr option \<Rightarrow> 'v option \<Rightarrow> bool" where
  "rep_ptr K R h A None None \<longleftrightarrow> True"
| "rep_ptr K R h A (Some a) (Some v) \<longleftrightarrow>
     a \<in> A \<and> (case read_cell K h a of None \<Rightarrow> False | Some r \<Rightarrow> R h A r v)"
| "rep_ptr K R h A p x \<longleftrightarrow> False"

definition rep_elems :: "('o mem \<Rightarrow> addr set \<Rightarrow> 'r \<Rightarrow> 'v \<Rightarrow> bool)
    \<Rightarrow> 'o mem \<Rightarrow> addr set \<Rightarrow> 'r list \<Rightarrow> 'v list \<Rightarrow> bool" where
  "rep_elems R h A rs vs \<longleftrightarrow> list_all2 (R h A) rs vs"

text \<open>A map in memory is the list of its entries, in no order the program may rely on.\<close>

definition rep_entries :: "('o mem \<Rightarrow> addr set \<Rightarrow> 'r \<Rightarrow> 'v \<Rightarrow> bool)
    \<Rightarrow> 'o mem \<Rightarrow> addr set \<Rightarrow> (string \<times> 'r) list \<Rightarrow> 'v go_map \<Rightarrow> bool" where
  "rep_entries R h A kvs m \<longleftrightarrow>
     distinct (map fst kvs) \<and> (\<forall>k. rel_option (R h A) (map_of kvs k) (m k))"

text \<open>A nil map reads as the empty map.\<close>

fun rep_map :: "('o, (string \<times> 'r) list) kind \<Rightarrow> ('o mem \<Rightarrow> addr set \<Rightarrow> 'r \<Rightarrow> 'v \<Rightarrow> bool)
    \<Rightarrow> 'o mem \<Rightarrow> addr set \<Rightarrow> addr option \<Rightarrow> 'v go_map \<Rightarrow> bool" where
  "rep_map K R h A None m \<longleftrightarrow> m = Map.empty"
| "rep_map K R h A (Some a) m \<longleftrightarrow>
     a \<in> A \<and> (case read_cell K h a of None \<Rightarrow> False | Some kvs \<Rightarrow> rep_entries R h A kvs m)"

lemma rep_ptr_iff:
  "rep_ptr K R h A p x \<longleftrightarrow> (p = None \<and> x = None
     \<or> (\<exists>a v r. p = Some a \<and> x = Some v \<and> a \<in> A \<and> read_cell K h a = Some r \<and> R h A r v))"
  by (cases p; cases x) (auto split: option.splits)

lemma rep_map_Some_iff:
  "rep_map K R h A (Some a) m \<longleftrightarrow>
     a \<in> A \<and> (\<exists>kvs. read_cell K h a = Some kvs \<and> rep_entries R h A kvs m)"
  by (auto split: option.splits)

lemma representation_flat: "representation rep_flat"
  by unfold_locales (auto simp: rep_flat_def)

lemma representation_pair:
  assumes "representation R" and "representation S"
  shows "representation (rep_pair R S)"
proof (unfold_locales, goal_cases)
  case (1 h A r v h' B)
  then show ?case
    using assms [THEN representation.rep_keeps] by (cases r; cases v) auto
next
  case (2 h A r v B w)
  then show ?case
    using assms [THEN representation.rep_unique] by (cases r; cases v; cases w) auto
qed

text \<open>A struct is as good as the tuple of its fields.\<close>

lemma representation_fields:
  assumes "representation R" and "inj g"
  shows "representation (\<lambda>h A r v. R h A (f r) (g v))"
proof (unfold_locales, goal_cases)
  case (1 h A r v h' B)
  then show ?case by (rule representation.rep_keeps [OF assms(1)])
next
  case (2 h A r v B w)
  from representation.rep_unique [OF assms(1) this] show ?case by (rule injD [OF assms(2)])
qed

lemma representation_ptr:
  assumes "representation R"
  shows "representation (rep_ptr K R)"
proof (unfold_locales, goal_cases)
  case (1 h A p x h' B)
  show ?case
  proof (cases p)
    case (Some a)
    with 1(1) obtain v r where x: "x = Some v" "a \<in> A" "read_cell K h a = Some r" "R h A r v"
      by (auto simp: rep_ptr_iff)
    have "R h' B r v" by (rule representation.rep_keeps [OF assms x(4) 1(2,3)])
    with Some x read_cell_keeps [OF x(3) 1(2) x(2)] 1(3) show ?thesis by auto
  qed (use 1 in \<open>simp add: rep_ptr_iff\<close>)
next
  case (2 h A p x B y)
  then show ?case
    using representation.rep_unique [OF assms]
    by (cases p; cases x; cases y) (auto split: option.splits)
qed

lemma representation_elems:
  assumes "representation R"
  shows "representation (rep_elems R)"
proof (unfold_locales, goal_cases)
  case (1 h A r v h' B)
  then show ?case
    using representation.rep_keeps [OF assms]
    unfolding rep_elems_def by (metis (mono_tags, lifting) list_all2_mono)
next
  case (2 h A r v B w)
  have "v ! i = w ! i" if "i < length v" for i
    using 2 that representation.rep_unique [OF assms]
    unfolding rep_elems_def list_all2_conv_all_nth by metis
  with 2 show ?case
    by (metis list_all2_lengthD nth_equalityI rep_elems_def)
qed

lemma representation_entries:
  assumes "representation R"
  shows "representation (rep_entries R)"
proof (unfold_locales, goal_cases)
  case (1 h A r v h' B)
  have "R h A x y \<Longrightarrow> R h' B x y" for x y
    using 1 representation.rep_keeps [OF assms] by blast
  with 1 show ?case
    unfolding rep_entries_def by (metis (no_types, lifting) option.rel_mono_strong)
next
  case (2 h A r v B w)
  have "v k = w k" for k
  proof -
    have "rel_option (R h A) (map_of r k) (v k)" "rel_option (R h B) (map_of r k) (w k)"
      using 2 by (auto simp: rep_entries_def)
    then show ?thesis
      using representation.rep_unique [OF assms] by (cases "map_of r k"; cases "v k"; cases "w k") auto
  qed
  then show ?case by blast
qed

lemma representation_map:
  assumes "representation R"
  shows "representation (rep_map K R)"
proof (unfold_locales, goal_cases)
  case (1 h A p m h' B)
  show ?case
  proof (cases p)
    case (Some a)
    with 1(1) obtain kvs where x: "a \<in> A" "read_cell K h a = Some kvs" "rep_entries R h A kvs m"
      by (auto split: option.splits)
    have "rep_entries R h' B kvs m"
      by (rule representation.rep_keeps [OF representation_entries [OF assms], OF x(3) 1(2,3)])
    with Some x read_cell_keeps [OF x(2) 1(2) x(1)] 1(3) show ?thesis by auto
  qed (use 1 in simp)
next
  case (2 h A p m B n)
  then show ?case
    using representation.rep_unique [OF representation_entries [OF assms]]
    by (cases p) (auto split: option.splits)
qed

end
