(* ===== verification/Go_Copy.thy ===== *)
theory Go_Copy
  imports Go_Heap
begin

text \<open>
  Deep copies: the code every generated DeepCopy and DeepCopyInto is made of, the contract of
  a deep copy, and that each way of composing copies keeps the contract.
\<close>

section \<open>The code\<close>

text \<open>
  \<open>new_copy\<close> is a DeepCopy, and the branch of a DeepCopyInto for a pointer field: nil
  stays nil; otherwise a new cell is allocated and the struct the pointer leads to is copied
  into it. A DeepCopyInto is a function from the struct it is called on to the one it leaves
  in \<open>*out\<close>, with the cells it allocates on the way.
\<close>

definition copy_to :: "('o, 'r) kind \<Rightarrow> ('r \<Rightarrow> ('o mem, 'r) eff) \<Rightarrow> ('o mem, 'r) eff
    \<Rightarrow> ('o mem, addr) eff" where
  "copy_to K c inp =
     bind_eff new_cell (\<lambda>out.
     bind_eff inp (\<lambda>r.
     bind_eff (c r) (\<lambda>r'.
     bind_eff (store K out r') (\<lambda>_.
     ret_eff out))))"

definition new_copy :: "('o, 'r) kind \<Rightarrow> ('r \<Rightarrow> ('o mem, 'r) eff) \<Rightarrow> addr option
    \<Rightarrow> ('o mem, addr option) eff" where
  "new_copy K c p = (case p of
       None \<Rightarrow> ret_eff None
     | Some a \<Rightarrow> bind_eff (copy_to K c (load K a)) (\<lambda>out. ret_eff (Some out)))"

text \<open>Element after element, for a slice of structs.\<close>

fun copy_elems :: "('r \<Rightarrow> ('o mem, 'r) eff) \<Rightarrow> 'r list \<Rightarrow> ('o mem, 'r list) eff" where
  "copy_elems c [] = ret_eff []"
| "copy_elems c (r # rs) =
     bind_eff (c r) (\<lambda>r'. bind_eff (copy_elems c rs) (\<lambda>rs'. ret_eff (r' # rs')))"

text \<open>
  A map: a new one is made, and for each entry of the old one the value is copied to a cell
  of its own and read back into the new map. The order of the visit is the language's.
\<close>

definition copy_entry :: "('o, (string \<times> 'r) list) kind \<Rightarrow> ('o, 'r) kind \<Rightarrow> ('r \<Rightarrow> ('o mem, 'r) eff)
    \<Rightarrow> addr \<Rightarrow> string \<Rightarrow> 'r \<Rightarrow> ('o mem, unit) eff" where
  "copy_entry KM K c out key val =
     bind_eff (copy_to K c (ret_eff val)) (\<lambda>p.
     bind_eff (load K p) (\<lambda>val'.
     bind_eff (load KM out) (\<lambda>m.
     store KM out (AList.update key val' m))))"

definition copy_map :: "('o, (string \<times> 'r) list) kind \<Rightarrow> ('o, 'r) kind \<Rightarrow> ('r \<Rightarrow> ('o mem, 'r) eff)
    \<Rightarrow> ('o mem \<Rightarrow> (string \<times> 'r) list \<Rightarrow> (string \<times> 'r) list) \<Rightarrow> addr option
    \<Rightarrow> ('o mem, addr option) eff" where
  "copy_map KM K c visit p = (case p of
       None \<Rightarrow> ret_eff None
     | Some a \<Rightarrow>
         bind_eff new_cell (\<lambda>out.
         bind_eff (store KM out []) (\<lambda>_.
         bind_eff (load KM a) (\<lambda>m.
         bind_eff (ask_eff (\<lambda>h. range_loop (copy_entry KM K c out) (visit h m))) (\<lambda>_.
         ret_eff (Some out))))))"

definition visits_all :: "('o mem \<Rightarrow> 'e list \<Rightarrow> 'e list) \<Rightarrow> bool" where
  "visits_all visit \<longleftrightarrow> (\<forall>h kvs. mset (visit h kvs) = mset kvs)"

text \<open>A tuple of fields, one after the other; the rest of a struct is assigned.\<close>

definition copy_pair :: "('r \<Rightarrow> ('o mem, 'r) eff) \<Rightarrow> ('s \<Rightarrow> ('o mem, 's) eff)
    \<Rightarrow> 'r \<times> 's \<Rightarrow> ('o mem, 'r \<times> 's) eff" where
  "copy_pair c d rs =
     bind_eff (c (fst rs)) (\<lambda>r. bind_eff (d (snd rs)) (\<lambda>s. ret_eff (r, s)))"

section \<open>The contract\<close>

text \<open>
  What a memory may hold: \<open>W h A ob\<close> says that the content \<open>ob\<close> of a cell is well
  typed in \<open>h\<close>, its pointers leading to cells of \<open>A\<close> only.
\<close>

locale typing =
  fixes W :: "'o mem \<Rightarrow> addr set \<Rightarrow> 'o \<Rightarrow> bool"
  assumes typed_keeps: "W h A ob \<Longrightarrow> keeps A h h' \<Longrightarrow> A \<subseteq> B \<Longrightarrow> W h' B ob"

definition typed_cells :: "('o mem \<Rightarrow> addr set \<Rightarrow> 'o \<Rightarrow> bool) \<Rightarrow> 'o mem \<Rightarrow> addr set \<Rightarrow> 'o mem \<Rightarrow> bool" where
  "typed_cells W h A xs \<longleftrightarrow> (\<forall>ob. Some ob \<in> set xs \<longrightarrow> W h A ob)"

lemma typed_cells_append:
  "typed_cells W h A (xs @ ys) \<longleftrightarrow> typed_cells W h A xs \<and> typed_cells W h A ys"
  by (auto simp: typed_cells_def)

lemma typed_cells_Cons:
  "typed_cells W h A (x # xs) \<longleftrightarrow> (\<forall>ob. x = Some ob \<longrightarrow> W h A ob) \<and> typed_cells W h A xs"
  by (auto simp: typed_cells_def)

lemma typed_cells_Nil [simp]: "typed_cells W h A []"
  by (simp add: typed_cells_def)

context typing begin

lemma typed_cells_keeps:
  "typed_cells W h A xs \<Longrightarrow> keeps A h h' \<Longrightarrow> A \<subseteq> B \<Longrightarrow> typed_cells W h' B xs"
  using typed_keeps unfolding typed_cells_def by blast

end

text \<open>
  A deep copy of a struct that represents \<open>v\<close>, started in \<open>h\<close>: it returns, it has
  only added cells, its result represents \<open>v\<close> in the added cells alone, and they are well
  typed and closed.
\<close>

definition copied :: "('o mem \<Rightarrow> addr set \<Rightarrow> 'o \<Rightarrow> bool) \<Rightarrow> ('o mem \<Rightarrow> addr set \<Rightarrow> 'r \<Rightarrow> 'v \<Rightarrow> bool)
    \<Rightarrow> 'o mem \<Rightarrow> 'v \<Rightarrow> 'r res \<times> 'o mem \<Rightarrow> bool" where
  "copied W R h v out \<longleftrightarrow>
     (\<exists>r new. out = (Ok r, h @ new) \<and> R (h @ new) (fresh h new) r v
        \<and> typed_cells W (h @ new) (fresh h new) new)"

lemma copiedE:
  assumes "copied W R h v out"
  obtains r new where "out = (Ok r, h @ new)" "R (h @ new) (fresh h new) r v"
    "typed_cells W (h @ new) (fresh h new) new"
  using assms unfolding copied_def by blast

locale copier = typing W + representation R
  for W :: "'o mem \<Rightarrow> addr set \<Rightarrow> 'o \<Rightarrow> bool"
    and R :: "'o mem \<Rightarrow> addr set \<Rightarrow> 'r \<Rightarrow> 'v \<Rightarrow> bool" +
  fixes c :: "'r \<Rightarrow> ('o mem, 'r) eff"
  assumes copies: "R h A r v \<Longrightarrow> copied W R h v (c r h)"

text \<open>Stores that a program makes later, through any pointers.\<close>

definition write_cells :: "(addr \<times> 'o) list \<Rightarrow> 'o mem \<Rightarrow> 'o mem" where
  "write_cells ws h = foldl (\<lambda>h (a, ob). h[a := Some ob]) h ws"

lemma cell_write_cells: "a \<notin> fst ` set ws \<Longrightarrow> cell (write_cells ws h) a = cell h a"
proof (induction ws arbitrary: h)
  case (Cons w ws)
  obtain b ob where w: "w = (b, ob)" by force
  have "cell (write_cells (w # ws) h) a = cell (h[b := Some ob]) a"
    using Cons.IH [of "h[b := Some ob]"] Cons.prems by (simp add: w write_cells_def)
  also have "\<dots> = cell h a" using Cons.prems by (auto simp: w cell_def)
  finally show ?case .
qed (simp add: write_cells_def)

lemma keeps_write_cells: "A \<inter> fst ` set ws = {} \<Longrightarrow> keeps A h (write_cells ws h)"
  unfolding keeps_def using cell_write_cells by (metis disjoint_iff)

context copier begin

text \<open>The copy and the original do not see what is written to the other's cells later.\<close>

lemma copy_isolated:
  assumes r: "R h A r v" and A: "A \<subseteq> {..<length h}"
  shows "\<exists>r' new. c r h = (Ok r', h @ new)
    \<and> {ws. fst ` set ws \<subseteq> fresh h new} \<subseteq> {ws. R (write_cells ws (h @ new)) A r v}
    \<and> {ws. fst ` set ws \<subseteq> {..<length h}} \<subseteq> {ws. R (write_cells ws (h @ new)) (fresh h new) r' v}"
proof -
  obtain r' new where c: "c r h = (Ok r', h @ new)" "R (h @ new) (fresh h new) r' v"
    using copies [OF r] by (rule copiedE)
  have dis: "{..<length h} \<inter> fresh h new = {}" by (auto simp: fresh_def)
  have "R (write_cells ws (h @ new)) A r v" if "fst ` set ws \<subseteq> fresh h new" for ws
    using that A dis by (intro rep_keeps [OF rep_append [OF r] keeps_write_cells]) auto
  moreover have "R (write_cells ws (h @ new)) (fresh h new) r' v" if "fst ` set ws \<subseteq> {..<length h}" for ws
    using that dis by (intro rep_keeps [OF c(2) keeps_write_cells]) auto
  ultimately show ?thesis using c(1) by blast
qed

text \<open>The copy stands for the value and for no other.\<close>

lemma copy_determined:
  assumes r: "R h A r v"
  shows "\<exists>r' new. c r h = (Ok r', h @ new) \<and> R (h @ new) (fresh h new) r' v
    \<and> {w. R (h @ new) UNIV r' w} = {v}"
proof -
  obtain r' new where c: "c r h = (Ok r', h @ new)" "R (h @ new) (fresh h new) r' v"
    using copies [OF r] by (rule copiedE)
  have "R (h @ new) UNIV r' v" by (rule rep_more [OF c(2)]) simp
  then have "{w. R (h @ new) UNIV r' w} = {v}" using rep_unique by blast
  with c show ?thesis by blast
qed

text \<open>Well-typed memory stays well typed.\<close>

lemma copy_typed:
  assumes h: "typed_cells W h UNIV h" and r: "R h A r v"
  shows "\<exists>r' new. c r h = (Ok r', h @ new) \<and> R (h @ new) (fresh h new) r' v
    \<and> typed_cells W (h @ new) UNIV (h @ new)"
proof -
  obtain r' new where c: "c r h = (Ok r', h @ new)" "R (h @ new) (fresh h new) r' v"
    "typed_cells W (h @ new) (fresh h new) new"
    using copies [OF r] by (rule copiedE)
  have "typed_cells W (h @ new) UNIV h" by (rule typed_cells_keeps [OF h]) auto
  moreover have "typed_cells W (h @ new) UNIV new" by (rule typed_cells_keeps [OF c(3)]) auto
  ultimately show ?thesis using c by (auto simp: typed_cells_append)
qed

end

text \<open>A cell whose content represents a value is well typed.\<close>

definition stored :: "('o mem \<Rightarrow> addr set \<Rightarrow> 'o \<Rightarrow> bool) \<Rightarrow> ('o mem \<Rightarrow> addr set \<Rightarrow> 'r \<Rightarrow> 'v \<Rightarrow> bool)
    \<Rightarrow> ('o, 'r) kind \<Rightarrow> bool" where
  "stored W R K \<longleftrightarrow> (\<forall>h A r v. R h A r v \<longrightarrow> W h A (Emb K r))"

lemma storedD: "stored W R K \<Longrightarrow> R h A r v \<Longrightarrow> W h A (Emb K r)"
  by (auto simp: stored_def)

lemma copierI:
  assumes "typing W" and "representation R" and "\<And>h A r v. R h A r v \<Longrightarrow> copied W R h v (c r h)"
  shows "copier W R c"
  using assms by (intro copier.intro copier_axioms.intro) auto

text \<open>What a copier promises, without what a memory and a representation are.\<close>

definition makes_copies :: "('o mem \<Rightarrow> addr set \<Rightarrow> 'o \<Rightarrow> bool) \<Rightarrow> ('o mem \<Rightarrow> addr set \<Rightarrow> 'r \<Rightarrow> 'v \<Rightarrow> bool)
    \<Rightarrow> ('r \<Rightarrow> ('o mem, 'r) eff) \<Rightarrow> bool" where
  "makes_copies W R c \<longleftrightarrow> (\<forall>h A r v. R h A r v \<longrightarrow> copied W R h v (c r h))"

lemma copier_iff: "copier W R c \<longleftrightarrow> typing W \<and> representation R \<and> makes_copies W R c"
  by (auto simp: copier_def copier_axioms_def makes_copies_def)

lemma copier_flat:
  assumes "typing W"
  shows "copier W rep_flat ret_eff"
  using assms representation_flat
  by (rule copierI) (auto simp: copied_def rep_flat_def intro: exI [of _ "[]"])

text \<open>One copy after the other, on memories that only grow.\<close>

lemma copied_seq:
  assumes W: "typing W" and R: "representation R" and S: "representation S"
    and 1: "copied W R h v (c h)" and 2: "\<And>new. copied W S (h @ new) w (d (h @ new))"
    and k: "\<And>h A x y. R h A x v \<Longrightarrow> S h A y w \<Longrightarrow> T h A (f x y) u"
  shows "copied W T h u (bind_eff c (\<lambda>x. bind_eff d (\<lambda>y. ret_eff (f x y))) h)"
proof -
  obtain x n1 where 1: "c h = (Ok x, h @ n1)" "R (h @ n1) (fresh h n1) x v"
    "typed_cells W (h @ n1) (fresh h n1) n1"
    using 1 by (rule copiedE)
  obtain y n2 where 2: "d (h @ n1) = (Ok y, (h @ n1) @ n2)"
    "S ((h @ n1) @ n2) (fresh (h @ n1) n2) y w"
    "typed_cells W ((h @ n1) @ n2) (fresh (h @ n1) n2) n2"
    using 2 [of n1] by (rule copiedE)
  let ?h = "(h @ n1) @ n2" and ?F = "fresh h (n1 @ n2)"
  have "T ?h ?F (f x y) u"
  proof (rule k)
    show "R ?h ?F x v" by (rule representation.rep_keeps [OF R, OF 1(2)]) simp_all
    show "S ?h ?F y w" by (rule representation.rep_keeps [OF S, OF 2(2)]) simp_all
  qed
  moreover have "typed_cells W ?h ?F n1"
    by (rule typing.typed_cells_keeps [OF W, OF 1(3)]) simp_all
  moreover have "typed_cells W ?h ?F n2"
    by (rule typing.typed_cells_keeps [OF W, OF 2(3)]) simp_all
  ultimately show ?thesis
    unfolding copied_def using 1(1) 2(1)
    by (intro exI [of _ "f x y"] exI [of _ "n1 @ n2"])
      (simp add: bind_eff_def typed_cells_append del: fresh_append)
qed

lemma copier_pair:
  assumes c: "copier W R c" and d: "copier W S d"
  shows "copier W (rep_pair R S) (copy_pair c d)"
proof (rule copierI)
  show "typing W" by (rule copier.axioms(1) [OF c])
  show "representation (rep_pair R S)"
    by (rule representation_pair [OF copier.axioms(2) [OF c] copier.axioms(2) [OF d]])
next
  fix h A rs vs
  assume "rep_pair R S h A rs vs"
  then have "R h A (fst rs) (fst vs)" "S h A (snd rs) (snd vs)"
    by (cases rs; cases vs; simp)+
  from copier.copies [OF c, OF this(1)]
    copier.copies [OF d, OF representation.rep_append [OF copier.axioms(2) [OF d], OF this(2)]]
  show "copied W (rep_pair R S) h vs (copy_pair c d rs h)"
    unfolding copy_pair_def
    by (rule copied_seq [OF copier.axioms(1) [OF c] copier.axioms(2) [OF c] copier.axioms(2) [OF d]])
      (cases vs; simp)
qed

lemma copied_weaken:
  assumes "copied W R h v (m h)"
    and "\<And>h A x. R h A x v \<Longrightarrow> S h A (f x) w"
  shows "copied W S h w (bind_eff m (\<lambda>x. ret_eff (f x)) h)"
  using assms(1) by (rule copiedE) (auto simp: copied_def bind_eff_def intro: assms(2))

lemma copier_fields:
  assumes c: "copier W R c" and "\<And>r x. f (put r x) = x" and g: "inj g"
  shows "copier W (\<lambda>h A r v. R h A (f r) (g v)) (\<lambda>r. bind_eff (c (f r)) (\<lambda>x. ret_eff (put r x)))"
proof (rule copierI)
  show "typing W" by (rule copier.axioms(1) [OF c])
  show "representation (\<lambda>h A r v. R h A (f r) (g v))"
    by (rule representation_fields [OF copier.axioms(2) [OF c] g])
next
  fix h A r v
  assume "R h A (f r) (g v)"
  then show "copied W (\<lambda>h A r v. R h A (f r) (g v)) h v (bind_eff (c (f r)) (\<lambda>x. ret_eff (put r x)) h)"
    by (rule copied_weaken [OF copier.copies [OF c]]) (simp add: assms(2))
qed

lemma copier_fieldsI:
  assumes "copier W R c" and "\<And>r x. f (put r x) = x" and "inj g"
    and "\<And>h A r v. S h A r v \<longleftrightarrow> R h A (f r) (g v)"
    and "\<And>r. d r = bind_eff (c (f r)) (\<lambda>x. ret_eff (put r x))"
  shows "copier W S d"
proof -
  have "S = (\<lambda>h A r v. R h A (f r) (g v))" using assms(4) by (intro ext) simp
  moreover have "d = (\<lambda>r. bind_eff (c (f r)) (\<lambda>x. ret_eff (put r x)))" using assms(5) by (intro ext) simp
  ultimately show ?thesis using copier_fields [where f = f and put = put and g = g, OF assms(1-3)] by simp
qed

lemma copier_elems:
  assumes c: "copier W R c"
  shows "copier W (rep_elems R) (copy_elems c)"
proof (rule copierI)
  show "typing W" by (rule copier.axioms(1) [OF c])
  show rep: "representation (rep_elems R)" by (rule representation_elems [OF copier.axioms(2) [OF c]])
  fix h A rs vs
  assume "rep_elems R h A rs vs"
  then show "copied W (rep_elems R) h vs (copy_elems c rs h)"
  proof (induction rs arbitrary: h vs)
    case Nil
    then show ?case by (auto simp: rep_elems_def copied_def intro: exI [of _ "[]"])
  next
    case (Cons r rs)
    then obtain v vs' where vs: "vs = v # vs'" "R h A r v" "rep_elems R h A rs vs'"
      by (auto simp: rep_elems_def list_all2_Cons1)
    have "copied W (rep_elems R) (h @ new) vs' (copy_elems c rs (h @ new))" for new
      by (rule Cons.IH [OF representation.rep_append [OF rep, OF vs(3)]])
    from copier.copies [OF c, OF vs(2)] this show ?case
      unfolding vs(1) copy_elems.simps
      by (rule copied_seq [OF copier.axioms(1,2) [OF c] rep]) (simp add: rep_elems_def)
  qed
qed

text \<open>Behind a pointer: the cell is allocated first and written last.\<close>

lemma copy_to_copies:
  assumes c: "copier W R c" and K: "kind_ok K"
    and W: "stored W R K"
    and inp: "inp (h @ [None]) = (Ok r, h @ [None])" and r: "R (h @ [None]) A r v"
  obtains r' new where
    "copy_to K c inp h = (Ok (length h), h @ Some (Emb K r') # new)"
    "R (h @ Some (Emb K r') # new) (fresh h (Some (Emb K r') # new)) r' v"
    "typed_cells W (h @ Some (Emb K r') # new) (fresh h (Some (Emb K r') # new)) (Some (Emb K r') # new)"
proof -
  obtain r' new where 1: "c r (h @ [None]) = (Ok r', (h @ [None]) @ new)"
    "R ((h @ [None]) @ new) (fresh (h @ [None]) new) r' v"
    "typed_cells W ((h @ [None]) @ new) (fresh (h @ [None]) new) new"
    using copier.copies [OF c, OF r] by (rule copiedE)
  let ?new = "Some (Emb K r') # new"
  have sub: "keeps (fresh (h @ [None]) new) ((h @ [None]) @ new) (h @ ?new)"
    "fresh (h @ [None]) new \<subseteq> fresh h ?new"
    by (auto simp: keeps_fill fresh_def)
  have rep: "R (h @ ?new) (fresh h ?new) r' v"
    by (rule representation.rep_keeps [OF copier.axioms(2) [OF c], OF 1(2) sub])
  have "typed_cells W (h @ ?new) (fresh h ?new) ?new"
    using typing.typed_cells_keeps [OF copier.axioms(1) [OF c], OF 1(3) sub] storedD [OF W rep]
    by (simp add: typed_cells_Cons)
  moreover have "copy_to K c inp h = (Ok (length h), h @ ?new)"
    using inp 1(1) by (simp add: copy_to_def new_cell_def bind_eff_def store_def)
  ultimately show ?thesis using rep that by blast
qed

lemma load_apply: "read_cell K h a = Some r \<Longrightarrow> load K a h = (Ok r, h)"
  by (simp add: load_def)

lemma copier_ptr:
  assumes c: "copier W R c" and K: "kind_ok K" and W: "stored W R K"
  shows "copier W (rep_ptr K R) (new_copy K c)"
proof (rule copierI)
  show "typing W" by (rule copier.axioms(1) [OF c])
  show "representation (rep_ptr K R)" by (rule representation_ptr [OF copier.axioms(2) [OF c]])
  fix h A p x
  assume px: "rep_ptr K R h A p x"
  show "copied W (rep_ptr K R) h x (new_copy K c p h)"
  proof (cases p)
    case None
    with px show ?thesis
      by (auto simp: rep_ptr_iff new_copy_def copied_def intro!: exI [of _ "[]"])
  next
    case (Some a)
    with px obtain r v where x: "x = Some v" "a \<in> A" "read_cell K h a = Some r" "R h A r v"
      by (auto simp: rep_ptr_iff)
    have inp: "load K a (h @ [None]) = (Ok r, h @ [None])"
      by (rule load_apply) (rule read_cell_keeps [OF x(3) _ x(2)], simp)
    obtain r' new where "copy_to K c (load K a) h = (Ok (length h), h @ Some (Emb K r') # new)"
      and rep: "R (h @ Some (Emb K r') # new) (fresh h (Some (Emb K r') # new)) r' v"
      and typed: "typed_cells W (h @ Some (Emb K r') # new) (fresh h (Some (Emb K r') # new))
        (Some (Emb K r') # new)"
      by (rule copy_to_copies [of W R c K "load K a" h r A v, OF c K W inp])
        (use representation.rep_append [OF copier.axioms(2) [OF c], OF x(4)] in auto)
    then show ?thesis
      unfolding copied_def using Some x(1) read_cell_mid [OF K, of h r' new]
      by (intro exI [of _ "Some (length h)"] exI [of _ "Some (Emb K r') # new"])
        (simp add: new_copy_def bind_eff_def fresh_Cons)
  qed
qed

text \<open>
  One turn of the loop over a map, then the loop. The new map is the cell after \<open>h\<close>,
  the cells of the values come after it.
\<close>

lemma copy_entry_copies:
  assumes c: "copier W R c" and K: "kind_ok K" and KM: "kind_ok KM"
    and W: "stored W R K"
    and r: "R h A r v"
  obtains r' new' where
    "copy_entry KM K c (length h) key r (h @ Some (Emb KM m) # new)
       = (Ok (), h @ Some (Emb KM (AList.update key r' m)) # new @ new')"
    "\<And>m'. R (h @ Some (Emb KM m') # new @ new') (fresh (h @ [None]) (new @ new')) r' v"
    "\<And>m'. typed_cells W (h @ Some (Emb KM m') # new @ new') (fresh (h @ [None]) (new @ new')) new'"
proof -
  let ?st = "h @ Some (Emb KM m) # new"
  obtain r' n where 1: "copy_to K c (ret_eff r) ?st = (Ok (length ?st), ?st @ Some (Emb K r') # n)"
    and rep: "R (?st @ Some (Emb K r') # n) (fresh ?st (Some (Emb K r') # n)) r' v"
    and typed: "typed_cells W (?st @ Some (Emb K r') # n) (fresh ?st (Some (Emb K r') # n))
      (Some (Emb K r') # n)"
  proof (rule copy_to_copies [OF c K W])
    show "ret_eff r (?st @ [None]) = (Ok r, ?st @ [None])" by simp
    show "R (?st @ [None]) A r v"
      using representation.rep_append [OF copier.axioms(2) [OF c], OF r, of "Some (Emb KM m) # new @ [None]"]
      by simp
  qed
  let ?n = "Some (Emb K r') # n"
  have "load K (length ?st) (?st @ ?n) = (Ok r', ?st @ ?n)"
    by (rule load_apply) (rule read_cell_mid [OF K])
  moreover have "load KM (length h) (?st @ ?n) = (Ok m, ?st @ ?n)"
    using read_cell_mid [OF KM, of h m "new @ ?n"] by (intro load_apply) simp
  ultimately have "copy_entry KM K c (length h) key r ?st
      = (Ok (), h @ Some (Emb KM (AList.update key r' m)) # new @ ?n)"
    using 1 by (simp add: copy_entry_def bind_eff_def store_def)
  moreover have sub: "keeps (fresh ?st ?n) (?st @ ?n) (h @ Some (Emb KM m') # new @ ?n)"
    "fresh ?st ?n \<subseteq> fresh (h @ [None]) (new @ ?n)" for m'
    using keeps_replace [of h "fresh ?st ?n" "Some (Emb KM m)" "new @ ?n" "Some (Emb KM m')"]
    by (auto simp: fresh_def)
  have "R (h @ Some (Emb KM m') # new @ ?n) (fresh (h @ [None]) (new @ ?n)) r' v" for m'
    by (rule representation.rep_keeps [OF copier.axioms(2) [OF c], OF rep sub])
  moreover have "typed_cells W (h @ Some (Emb KM m') # new @ ?n) (fresh (h @ [None]) (new @ ?n)) ?n" for m'
    by (rule typing.typed_cells_keeps [OF copier.axioms(1) [OF c], OF typed sub])
  ultimately show thesis by (rule that)
qed

definition map_copied ::
    "('o mem \<Rightarrow> addr set \<Rightarrow> 'o \<Rightarrow> bool) \<Rightarrow> ('o mem \<Rightarrow> addr set \<Rightarrow> 'r \<Rightarrow> 'v \<Rightarrow> bool)
     \<Rightarrow> ('o, (string \<times> 'r) list) kind \<Rightarrow> 'o mem \<Rightarrow> (string \<Rightarrow> 'v) \<Rightarrow> (string \<times> 'r) list \<Rightarrow> 'o mem \<Rightarrow> bool" where
  "map_copied W R KM h val m new \<longleftrightarrow>
     distinct (map fst m)
     \<and> (\<forall>k r. map_of m k = Some r \<longrightarrow>
          R (h @ Some (Emb KM m) # new) (fresh (h @ [None]) new) r (val k))
     \<and> typed_cells W (h @ Some (Emb KM m) # new) (fresh (h @ [None]) new) new"

lemma map_copied_update:
  assumes c: "copier W R c" and m: "map_copied W R KM h val m new"
    and r: "R (h @ Some (Emb KM (AList.update key r m)) # new @ new') (fresh (h @ [None]) (new @ new')) r (val key)"
    and typed: "typed_cells W (h @ Some (Emb KM (AList.update key r m)) # new @ new')
      (fresh (h @ [None]) (new @ new')) new'"
  shows "map_copied W R KM h val (AList.update key r m) (new @ new')"
proof -
  let ?m = "AList.update key r m" and ?F = "fresh (h @ [None]) new"
  have sub: "keeps ?F (h @ Some (Emb KM m) # new) (h @ Some (Emb KM ?m) # new @ new')"
    "?F \<subseteq> fresh (h @ [None]) (new @ new')"
    by (auto intro: keeps_replace_append simp: fresh_def)
  have "R (h @ Some (Emb KM ?m) # new @ new') (fresh (h @ [None]) (new @ new')) r' (val k)"
    if "map_of ?m k = Some r'" for k r'
  proof (cases "k = key")
    case True
    with that r show ?thesis by (simp add: update_conv')
  next
    case False
    with that have "map_of m k = Some r'" by (simp add: update_conv')
    with m have "R (h @ Some (Emb KM m) # new) ?F r' (val k)" by (simp add: map_copied_def)
    then show ?thesis by (rule representation.rep_keeps [OF copier.axioms(2) [OF c], OF _ sub])
  qed
  moreover have "typed_cells W (h @ Some (Emb KM ?m) # new @ new') (fresh (h @ [None]) (new @ new')) new"
    using m typing.typed_cells_keeps [OF copier.axioms(1) [OF c], OF _ sub]
    by (simp only: map_copied_def)
  ultimately show ?thesis
    using m typed by (simp add: map_copied_def typed_cells_append distinct_update del: fresh_append)
qed

lemma copy_map_loop:
  assumes c: "copier W R c" and K: "kind_ok K" and KM: "kind_ok KM"
    and W: "stored W R K"
  shows "map_copied W R KM h val m new \<Longrightarrow> (\<And>k r. (k, r) \<in> set es \<Longrightarrow> R h A r (val k)) \<Longrightarrow>
    \<exists>m' new'. range_loop (copy_entry KM K c (length h)) es (h @ Some (Emb KM m) # new)
        = (Ok (), h @ Some (Emb KM m') # new')
      \<and> map_copied W R KM h val m' new' \<and> dom (map_of m') = dom (map_of m) \<union> fst ` set es"
proof (induction es arbitrary: m new)
  case Nil
  then show ?case by auto
next
  case (Cons e es)
  obtain key r where e: "e = (key, r)" by force
  have r: "R h A r (val key)" using Cons.prems(2) e by simp
  obtain r' new' where
    1: "copy_entry KM K c (length h) key r (h @ Some (Emb KM m) # new)
       = (Ok (), h @ Some (Emb KM (AList.update key r' m)) # new @ new')" and
    2: "\<And>m'. R (h @ Some (Emb KM m') # new @ new') (fresh (h @ [None]) (new @ new')) r' (val key)"
      "\<And>m'. typed_cells W (h @ Some (Emb KM m') # new @ new') (fresh (h @ [None]) (new @ new')) new'"
    using copy_entry_copies [where m = m and new = new and key = key, OF c K KM W r] by blast
  have 2: "map_copied W R KM h val (AList.update key r' m) (new @ new')"
    by (rule map_copied_update [OF c Cons.prems(1) 2])
  have "\<And>k r. (k, r) \<in> set es \<Longrightarrow> R h A r (val k)" using Cons.prems(2) by simp
  from Cons.IH [OF 2 this] obtain m' new'' where
    3: "range_loop (copy_entry KM K c (length h)) es (h @ Some (Emb KM (AList.update key r' m)) # new @ new')
        = (Ok (), h @ Some (Emb KM m') # new'')"
      "map_copied W R KM h val m' new''"
      "dom (map_of m') = dom (map_of (AList.update key r' m)) \<union> fst ` set es"
    by blast
  have "dom (map_of m') = dom (map_of m) \<union> fst ` set (e # es)"
    using 3(3) by (auto simp: e update_conv')
  moreover have "range_loop (copy_entry KM K c (length h)) (e # es) (h @ Some (Emb KM m) # new)
      = (Ok (), h @ Some (Emb KM m') # new'')"
    using 1 3(1) by (simp add: e bind_eff_def)
  ultimately show ?case using 3(2) by blast
qed

text \<open>The map that was copied is found again in the copy.\<close>

lemma map_copied_entries:
  assumes c: "copier W R c" and KM: "kind_ok KM" and m: "map_copied W R KM h val m new"
    and kvs: "rep_entries R h A kvs v" and val: "\<And>k. v k \<noteq> None \<Longrightarrow> v k = Some (val k)"
    and dom: "dom (map_of m) = dom (map_of kvs)"
  shows "rep_entries R (h @ Some (Emb KM m) # new) (fresh h (Some (Emb KM m) # new)) m v"
proof -
  let ?h = "h @ Some (Emb KM m) # new" and ?F = "fresh h (Some (Emb KM m) # new)"
  have "rel_option (R ?h ?F) (map_of m k) (v k)" for k
  proof (cases "map_of m k")
    case None
    then have "map_of kvs k = None" using dom by (metis domIff)
    with kvs None show ?thesis
      unfolding rep_entries_def by (metis option.rel_distinct(1) option.rel_sel)
  next
    case (Some r)
    then have "map_of kvs k \<noteq> None" using dom by (metis domIff option.distinct(1))
    then have "v k = Some (val k)"
      using kvs val [of k] unfolding rep_entries_def by (metis option.rel_sel)
    moreover have "R ?h (fresh (h @ [None]) new) r (val k)"
      using m Some by (simp add: map_copied_def)
    then have "R ?h ?F r (val k)"
      by (rule representation.rep_more [OF copier.axioms(2) [OF c]]) (auto simp: fresh_def)
    ultimately show ?thesis using Some by simp
  qed
  then show ?thesis using m by (simp add: rep_entries_def map_copied_def)
qed

text \<open>
  A nil map and an empty one read the same, so they stand for one value; the copy tells them
  apart all the same: it is nil exactly when the original is.
\<close>

lemma copy_map_nil:
  assumes "copy_map KM K c visit p h = (Ok q, h')"
  shows "q = None \<longleftrightarrow> p = None"
  using assms by (cases p) (auto simp: copy_map_def bind_eff_Ok_iff)

lemma copier_map:
  assumes c: "copier W R c" and K: "kind_ok K" and KM: "kind_ok KM"
    and W: "stored W R K"
    and WM: "stored W (rep_entries R) KM"
    and visit: "visits_all visit"
  shows "copier W (rep_map KM R) (copy_map KM K c visit)"
proof (rule copierI)
  show "typing W" by (rule copier.axioms(1) [OF c])
  show "representation (rep_map KM R)" by (rule representation_map [OF copier.axioms(2) [OF c]])
  fix h A p v
  assume pv: "rep_map KM R h A p v"
  show "copied W (rep_map KM R) h v (copy_map KM K c visit p h)"
  proof (cases p)
    case None
    with pv show ?thesis by (auto simp: copy_map_def copied_def intro!: exI [of _ "[]"])
  next
    case (Some a)
    with pv obtain kvs where a: "a \<in> A" "read_cell KM h a = Some kvs" and kvs: "rep_entries R h A kvs v"
      by (auto split: option.splits)
    let ?val = "\<lambda>k. the (v k)" and ?h0 = "h @ [Some (Emb KM [])]"
    let ?es = "visit ?h0 kvs"
    have es: "set ?es = set kvs" using visit by (metis mset_eq_setD visits_all_def)
    have "R h A r (?val k)" if "(k, r) \<in> set ?es" for k r
      using that kvs unfolding es rep_entries_def
      by (metis map_of_eq_Some_iff option.rel_sel option.sel option.simps(3))
    moreover have "map_copied W R KM h ?val [] []" by (simp add: map_copied_def)
    ultimately obtain m new where
      loop: "range_loop (copy_entry KM K c (length h)) ?es ?h0 = (Ok (), h @ Some (Emb KM m) # new)" and
      m: "map_copied W R KM h ?val m new" and dom: "dom (map_of m) = fst ` set ?es"
      using copy_map_loop [OF c K KM W, where h = h and val = ?val and m = "[]" and new = "[]" and es = ?es and A = A]
      by auto
    have ent: "rep_entries R (h @ Some (Emb KM m) # new) (fresh h (Some (Emb KM m) # new)) m v"
      by (rule map_copied_entries [OF c KM m kvs]) (use dom in \<open>auto simp: es dom_map_of_conv_image_fst\<close>)
    have "load KM a ?h0 = (Ok kvs, ?h0)"
      by (rule load_apply) (rule read_cell_keeps [OF a(2) _ a(1)], simp)
    with loop have "copy_map KM K c visit p h = (Ok (Some (length h)), h @ Some (Emb KM m) # new)"
      using Some by (simp add: copy_map_def bind_eff_def new_cell_def store_def)
    moreover have "typed_cells W (h @ Some (Emb KM m) # new) (fresh h (Some (Emb KM m) # new)) (Some (Emb KM m) # new)"
      using m storedD [OF WM, OF ent] unfolding typed_cells_Cons map_copied_def
      by (auto intro: typing.typed_cells_keeps [OF copier.axioms(1) [OF c]] simp: fresh_def)
    ultimately show ?thesis
      unfolding copied_def using ent read_cell_mid [OF KM, of h m new]
      by (intro exI [of _ "Some (length h)"] exI [of _ "Some (Emb KM m) # new"]) (simp add: fresh_Cons)
  qed
qed

end
