(* ===== verification/Deep_Copy.thy ===== *)
theory Deep_Copy
  imports Api_Types Go_Copy
begin

text \<open>
  The generated deep copies: api/v1alpha1/zz_generated.deepcopy.go. The types of the API are
  given as they lie in memory, with addresses for pointers, slices and maps; each DeepCopyInto
  and DeepCopy is a program over that memory. What a struct in memory stands for is a value
  of Api_Types, where a pointer field is an option: that every copy stands for the same value,
  in cells of its own, is what lets the rest of the development speak about values only.
\<close>

section \<open>The types in memory\<close>

record oidc_mem =
  xm_ClientCredentialsSecret :: string
  xm_ExtraScopes :: "addr option"

record authentication_mem =
  am_AuthenticationClass :: string
  am_Oidc :: "addr option"
  am_KerberosSecretClass :: string
  am_TlsSecretClass :: string

record cluster_config_mem =
  cm_ZookeeperConfigMapName :: string
  cm_HdfsConfigMapName :: string
  cm_ListenerClass :: string
  cm_Authentication :: "addr option"
  cm_VectorAggregatorConfigMapName :: string

text \<open>The three roles' types have the same shape; the role is a tag of the cell.\<close>

datatype role_kind = MasterKind | RegionKind | RestKind

record config_mem =
  km_RoleGroupConfigSpec :: "addr option"

record role_group_mem =
  gm_Replicas :: "addr option"
  gm_Config :: "addr option"
  gm_OverridesSpec :: "addr option"

record role_mem =
  rm_Config :: "addr option"
  rm_RoleGroups :: "addr option"
  rm_RoleConfig :: "addr option"
  rm_OverridesSpec :: "addr option"

record spec_mem =
  sm_Image :: "addr option"
  sm_ClusterConfigSpec :: "addr option"
  sm_ClusterOperationSpec :: "addr option"
  sm_MasterSpec :: "addr option"
  sm_RegionServerSpec :: "addr option"
  sm_RestServerSpec :: "addr option"

record status_mem =
  tm_Conditions :: "addr option"

text \<open>A struct of the library, with whatever pointers it has, is of type \<open>'l\<close>.\<close>

record 'l cluster_mem =
  hm_TypeMeta :: TypeMeta
  hm_ObjectMeta :: 'l
  hm_Spec :: spec_mem
  hm_Status :: status_mem

record 'l list_mem =
  lm_TypeMeta :: TypeMeta
  lm_ListMeta :: 'l
  lm_Items :: "addr option"

text \<open>What a cell may hold: a struct, the elements of a slice, or the entries of a map.\<close>

datatype 'l obj =
    StringsObj "string list"
  | OidcObj oidc_mem
  | AuthenticationObj authentication_mem
  | ClusterConfigObj cluster_config_mem
  | ImageObj ImageSpec
  | OperationObj ClusterOperationSpec
  | Int32Obj int32
  | ConfigObj role_kind config_mem
  | RoleGroupObj role_kind role_group_mem
  | RoleGroupsObj role_kind "(string \<times> role_group_mem) list"
  | RoleObj role_kind role_mem
  | OverridesObj 'l
  | RoleConfigObj 'l
  | GroupConfigObj 'l
  | ConditionsObj "'l list"
  | SpecObj spec_mem
  | StatusObj status_mem
  | ClusterObj "'l cluster_mem"
  | ItemsObj "'l cluster_mem list"
  | ListObj "'l list_mem"
  | LibraryObj 'l

type_synonym 'l heap = "'l obj mem"

definition Strings_cell :: "('l obj, string list) kind" where
  "Strings_cell = \<lparr>Emb = StringsObj, Prj = (\<lambda>ob. case ob of StringsObj r \<Rightarrow> Some r | _ \<Rightarrow> None)\<rparr>"

definition Oidc_cell :: "('l obj, oidc_mem) kind" where
  "Oidc_cell = \<lparr>Emb = OidcObj, Prj = (\<lambda>ob. case ob of OidcObj r \<Rightarrow> Some r | _ \<Rightarrow> None)\<rparr>"

definition Authentication_cell :: "('l obj, authentication_mem) kind" where
  "Authentication_cell =
     \<lparr>Emb = AuthenticationObj, Prj = (\<lambda>ob. case ob of AuthenticationObj r \<Rightarrow> Some r | _ \<Rightarrow> None)\<rparr>"

definition ClusterConfig_cell :: "('l obj, cluster_config_mem) kind" where
  "ClusterConfig_cell =
     \<lparr>Emb = ClusterConfigObj, Prj = (\<lambda>ob. case ob of ClusterConfigObj r \<Rightarrow> Some r | _ \<Rightarrow> None)\<rparr>"

definition Image_cell :: "('l obj, ImageSpec) kind" where
  "Image_cell = \<lparr>Emb = ImageObj, Prj = (\<lambda>ob. case ob of ImageObj r \<Rightarrow> Some r | _ \<Rightarrow> None)\<rparr>"

definition Operation_cell :: "('l obj, ClusterOperationSpec) kind" where
  "Operation_cell = \<lparr>Emb = OperationObj, Prj = (\<lambda>ob. case ob of OperationObj r \<Rightarrow> Some r | _ \<Rightarrow> None)\<rparr>"

definition Int32_cell :: "('l obj, int32) kind" where
  "Int32_cell = \<lparr>Emb = Int32Obj, Prj = (\<lambda>ob. case ob of Int32Obj r \<Rightarrow> Some r | _ \<Rightarrow> None)\<rparr>"

definition Config_cell :: "role_kind \<Rightarrow> ('l obj, config_mem) kind" where
  "Config_cell k = \<lparr>Emb = ConfigObj k,
     Prj = (\<lambda>ob. case ob of ConfigObj k' r \<Rightarrow> if k' = k then Some r else None | _ \<Rightarrow> None)\<rparr>"

definition RoleGroup_cell :: "role_kind \<Rightarrow> ('l obj, role_group_mem) kind" where
  "RoleGroup_cell k = \<lparr>Emb = RoleGroupObj k,
     Prj = (\<lambda>ob. case ob of RoleGroupObj k' r \<Rightarrow> if k' = k then Some r else None | _ \<Rightarrow> None)\<rparr>"

definition RoleGroups_cell :: "role_kind \<Rightarrow> ('l obj, (string \<times> role_group_mem) list) kind" where
  "RoleGroups_cell k = \<lparr>Emb = RoleGroupsObj k,
     Prj = (\<lambda>ob. case ob of RoleGroupsObj k' r \<Rightarrow> if k' = k then Some r else None | _ \<Rightarrow> None)\<rparr>"

definition Role_cell :: "role_kind \<Rightarrow> ('l obj, role_mem) kind" where
  "Role_cell k = \<lparr>Emb = RoleObj k,
     Prj = (\<lambda>ob. case ob of RoleObj k' r \<Rightarrow> if k' = k then Some r else None | _ \<Rightarrow> None)\<rparr>"

definition Overrides_cell :: "('l obj, 'l) kind" where
  "Overrides_cell = \<lparr>Emb = OverridesObj, Prj = (\<lambda>ob. case ob of OverridesObj r \<Rightarrow> Some r | _ \<Rightarrow> None)\<rparr>"

definition RoleConfig_cell :: "('l obj, 'l) kind" where
  "RoleConfig_cell = \<lparr>Emb = RoleConfigObj, Prj = (\<lambda>ob. case ob of RoleConfigObj r \<Rightarrow> Some r | _ \<Rightarrow> None)\<rparr>"

definition GroupConfig_cell :: "('l obj, 'l) kind" where
  "GroupConfig_cell = \<lparr>Emb = GroupConfigObj, Prj = (\<lambda>ob. case ob of GroupConfigObj r \<Rightarrow> Some r | _ \<Rightarrow> None)\<rparr>"

definition Conditions_cell :: "('l obj, 'l list) kind" where
  "Conditions_cell = \<lparr>Emb = ConditionsObj, Prj = (\<lambda>ob. case ob of ConditionsObj r \<Rightarrow> Some r | _ \<Rightarrow> None)\<rparr>"

definition Spec_cell :: "('l obj, spec_mem) kind" where
  "Spec_cell = \<lparr>Emb = SpecObj, Prj = (\<lambda>ob. case ob of SpecObj r \<Rightarrow> Some r | _ \<Rightarrow> None)\<rparr>"

definition Status_cell :: "('l obj, status_mem) kind" where
  "Status_cell = \<lparr>Emb = StatusObj, Prj = (\<lambda>ob. case ob of StatusObj r \<Rightarrow> Some r | _ \<Rightarrow> None)\<rparr>"

definition Cluster_cell :: "('l obj, 'l cluster_mem) kind" where
  "Cluster_cell = \<lparr>Emb = ClusterObj, Prj = (\<lambda>ob. case ob of ClusterObj r \<Rightarrow> Some r | _ \<Rightarrow> None)\<rparr>"

definition Items_cell :: "('l obj, 'l cluster_mem list) kind" where
  "Items_cell = \<lparr>Emb = ItemsObj, Prj = (\<lambda>ob. case ob of ItemsObj r \<Rightarrow> Some r | _ \<Rightarrow> None)\<rparr>"

definition List_cell :: "('l obj, 'l list_mem) kind" where
  "List_cell = \<lparr>Emb = ListObj, Prj = (\<lambda>ob. case ob of ListObj r \<Rightarrow> Some r | _ \<Rightarrow> None)\<rparr>"

lemmas cell_defs = Strings_cell_def Oidc_cell_def Authentication_cell_def ClusterConfig_cell_def
  Image_cell_def Operation_cell_def Int32_cell_def Config_cell_def RoleGroup_cell_def
  RoleGroups_cell_def Role_cell_def Overrides_cell_def RoleConfig_cell_def GroupConfig_cell_def
  Conditions_cell_def Spec_cell_def Status_cell_def Cluster_cell_def Items_cell_def List_cell_def

lemma kinds_ok [simp]:
  "kind_ok Strings_cell" "kind_ok Oidc_cell" "kind_ok Authentication_cell" "kind_ok ClusterConfig_cell"
  "kind_ok Image_cell" "kind_ok Operation_cell" "kind_ok Int32_cell" "kind_ok (Config_cell k)"
  "kind_ok (RoleGroup_cell k)" "kind_ok (RoleGroups_cell k)" "kind_ok (Role_cell k)"
  "kind_ok Overrides_cell" "kind_ok RoleConfig_cell" "kind_ok GroupConfig_cell" "kind_ok Conditions_cell"
  "kind_ok Spec_cell" "kind_ok Status_cell" "kind_ok Cluster_cell" "kind_ok Items_cell" "kind_ok List_cell"
  unfolding kind_ok_def cell_defs by (auto split: obj.splits)

section \<open>The library\<close>

text \<open>
  The DeepCopyInto functions of the library types, what their structs stand for, and which
  contents the library's own cells may have. The order of a loop over a map is the run
  time's choice, which may depend on the memory.
\<close>

record 'l copy_lib =
  OverridesSpec_DeepCopyInto :: "'l \<Rightarrow> ('l heap, 'l) eff"
  RoleConfigSpec_DeepCopyInto :: "'l \<Rightarrow> ('l heap, 'l) eff"
  RoleGroupConfigSpec_DeepCopyInto :: "'l \<Rightarrow> ('l heap, 'l) eff"
  ObjectMeta_DeepCopyInto :: "'l \<Rightarrow> ('l heap, 'l) eff"
  ListMeta_DeepCopyInto :: "'l \<Rightarrow> ('l heap, 'l) eff"
  Condition_DeepCopyInto :: "'l \<Rightarrow> ('l heap, 'l) eff"
  Visit :: "'l heap \<Rightarrow> (string \<times> role_group_mem) list \<Rightarrow> (string \<times> role_group_mem) list"
  rep_OverridesSpec :: "'l heap \<Rightarrow> addr set \<Rightarrow> 'l \<Rightarrow> OverridesSpec \<Rightarrow> bool"
  rep_RoleConfigSpec :: "'l heap \<Rightarrow> addr set \<Rightarrow> 'l \<Rightarrow> RoleConfigSpec \<Rightarrow> bool"
  rep_RoleGroupConfigSpec :: "'l heap \<Rightarrow> addr set \<Rightarrow> 'l \<Rightarrow> RoleGroupConfigSpec \<Rightarrow> bool"
  rep_ObjectMeta :: "'l heap \<Rightarrow> addr set \<Rightarrow> 'l \<Rightarrow> ObjectMeta \<Rightarrow> bool"
  rep_ListMeta :: "'l heap \<Rightarrow> addr set \<Rightarrow> 'l \<Rightarrow> ListMeta \<Rightarrow> bool"
  rep_Condition :: "'l heap \<Rightarrow> addr set \<Rightarrow> 'l \<Rightarrow> Condition \<Rightarrow> bool"
  library_typed :: "'l heap \<Rightarrow> addr set \<Rightarrow> 'l \<Rightarrow> bool"

section \<open>DeepCopyInto and DeepCopy\<close>

text \<open>
  Each DeepCopyInto starts from \<open>*out = *in\<close>, the struct it is given, and replaces the
  fields that share memory. Each DeepCopy is \<open>new_copy\<close> at its type.
\<close>

definition OidcSpec_DeepCopyInto :: "oidc_mem \<Rightarrow> ('l heap, oidc_mem) eff" where
  "OidcSpec_DeepCopyInto inp =
     bind_eff (new_copy Strings_cell ret_eff (xm_ExtraScopes inp)) (\<lambda>extraScopes.
     ret_eff (inp\<lparr>xm_ExtraScopes := extraScopes\<rparr>))"

definition OidcSpec_DeepCopy :: "addr option \<Rightarrow> ('l heap, addr option) eff" where
  "OidcSpec_DeepCopy inp = new_copy Oidc_cell OidcSpec_DeepCopyInto inp"

definition AuthenticationSpec_DeepCopyInto :: "authentication_mem \<Rightarrow> ('l heap, authentication_mem) eff" where
  "AuthenticationSpec_DeepCopyInto inp =
     bind_eff (new_copy Oidc_cell OidcSpec_DeepCopyInto (am_Oidc inp)) (\<lambda>oidc.
     ret_eff (inp\<lparr>am_Oidc := oidc\<rparr>))"

definition AuthenticationSpec_DeepCopy :: "addr option \<Rightarrow> ('l heap, addr option) eff" where
  "AuthenticationSpec_DeepCopy inp = new_copy Authentication_cell AuthenticationSpec_DeepCopyInto inp"

definition ClusterConfigSpec_DeepCopyInto :: "cluster_config_mem \<Rightarrow> ('l heap, cluster_config_mem) eff" where
  "ClusterConfigSpec_DeepCopyInto inp =
     bind_eff (new_copy Authentication_cell AuthenticationSpec_DeepCopyInto (cm_Authentication inp)) (\<lambda>authentication.
     ret_eff (inp\<lparr>cm_Authentication := authentication\<rparr>))"

definition ClusterConfigSpec_DeepCopy :: "addr option \<Rightarrow> ('l heap, addr option) eff" where
  "ClusterConfigSpec_DeepCopy inp = new_copy ClusterConfig_cell ClusterConfigSpec_DeepCopyInto inp"

definition ImageSpec_DeepCopyInto :: "ImageSpec \<Rightarrow> ('l heap, ImageSpec) eff" where
  "ImageSpec_DeepCopyInto inp = ret_eff inp"

definition ImageSpec_DeepCopy :: "addr option \<Rightarrow> ('l heap, addr option) eff" where
  "ImageSpec_DeepCopy inp = new_copy Image_cell ImageSpec_DeepCopyInto inp"

text \<open>
  The three roles. A function of the role's tag, of which the functions of the three roles
  are the instances.
\<close>

definition ConfigSpec_DeepCopyInto :: "'l copy_lib \<Rightarrow> config_mem \<Rightarrow> ('l heap, config_mem) eff" where
  "ConfigSpec_DeepCopyInto L inp =
     bind_eff (new_copy GroupConfig_cell (RoleGroupConfigSpec_DeepCopyInto L) (km_RoleGroupConfigSpec inp)) (\<lambda>config.
     ret_eff (inp\<lparr>km_RoleGroupConfigSpec := config\<rparr>))"

definition RoleGroup_DeepCopyInto :: "'l copy_lib \<Rightarrow> role_kind \<Rightarrow> role_group_mem \<Rightarrow> ('l heap, role_group_mem) eff" where
  "RoleGroup_DeepCopyInto L k inp =
     bind_eff (new_copy Int32_cell ret_eff (gm_Replicas inp)) (\<lambda>replicas.
     bind_eff (new_copy (Config_cell k) (ConfigSpec_DeepCopyInto L) (gm_Config inp)) (\<lambda>config.
     bind_eff (new_copy Overrides_cell (OverridesSpec_DeepCopyInto L) (gm_OverridesSpec inp)) (\<lambda>overrides.
     ret_eff (inp\<lparr>gm_Replicas := replicas, gm_Config := config, gm_OverridesSpec := overrides\<rparr>))))"

definition RoleSpec_DeepCopyInto :: "'l copy_lib \<Rightarrow> role_kind \<Rightarrow> role_mem \<Rightarrow> ('l heap, role_mem) eff" where
  "RoleSpec_DeepCopyInto L k inp =
     bind_eff (new_copy (Config_cell k) (ConfigSpec_DeepCopyInto L) (rm_Config inp)) (\<lambda>config.
     bind_eff (copy_map (RoleGroups_cell k) (RoleGroup_cell k) (RoleGroup_DeepCopyInto L k) (Visit L)
                 (rm_RoleGroups inp)) (\<lambda>roleGroups.
     bind_eff (new_copy RoleConfig_cell (RoleConfigSpec_DeepCopyInto L) (rm_RoleConfig inp)) (\<lambda>roleConfig.
     bind_eff (new_copy Overrides_cell (OverridesSpec_DeepCopyInto L) (rm_OverridesSpec inp)) (\<lambda>overrides.
     ret_eff (inp\<lparr>rm_Config := config, rm_RoleGroups := roleGroups, rm_RoleConfig := roleConfig,
                 rm_OverridesSpec := overrides\<rparr>)))))"

definition MasterConfigSpec_DeepCopyInto :: "'l copy_lib \<Rightarrow> config_mem \<Rightarrow> ('l heap, config_mem) eff" where
  "MasterConfigSpec_DeepCopyInto L = ConfigSpec_DeepCopyInto L"

definition MasterConfigSpec_DeepCopy :: "'l copy_lib \<Rightarrow> addr option \<Rightarrow> ('l heap, addr option) eff" where
  "MasterConfigSpec_DeepCopy L inp = new_copy (Config_cell MasterKind) (MasterConfigSpec_DeepCopyInto L) inp"

definition MasterRoleGroupSpec_DeepCopyInto :: "'l copy_lib \<Rightarrow> role_group_mem \<Rightarrow> ('l heap, role_group_mem) eff" where
  "MasterRoleGroupSpec_DeepCopyInto L = RoleGroup_DeepCopyInto L MasterKind"

definition MasterRoleGroupSpec_DeepCopy :: "'l copy_lib \<Rightarrow> addr option \<Rightarrow> ('l heap, addr option) eff" where
  "MasterRoleGroupSpec_DeepCopy L inp =
     new_copy (RoleGroup_cell MasterKind) (MasterRoleGroupSpec_DeepCopyInto L) inp"

definition MasterSpec_DeepCopyInto :: "'l copy_lib \<Rightarrow> role_mem \<Rightarrow> ('l heap, role_mem) eff" where
  "MasterSpec_DeepCopyInto L = RoleSpec_DeepCopyInto L MasterKind"

definition MasterSpec_DeepCopy :: "'l copy_lib \<Rightarrow> addr option \<Rightarrow> ('l heap, addr option) eff" where
  "MasterSpec_DeepCopy L inp = new_copy (Role_cell MasterKind) (MasterSpec_DeepCopyInto L) inp"

definition RegionConfigSpec_DeepCopyInto :: "'l copy_lib \<Rightarrow> config_mem \<Rightarrow> ('l heap, config_mem) eff" where
  "RegionConfigSpec_DeepCopyInto L = ConfigSpec_DeepCopyInto L"

definition RegionConfigSpec_DeepCopy :: "'l copy_lib \<Rightarrow> addr option \<Rightarrow> ('l heap, addr option) eff" where
  "RegionConfigSpec_DeepCopy L inp = new_copy (Config_cell RegionKind) (RegionConfigSpec_DeepCopyInto L) inp"

definition RegionServerRoleGroupSpec_DeepCopyInto :: "'l copy_lib \<Rightarrow> role_group_mem \<Rightarrow> ('l heap, role_group_mem) eff" where
  "RegionServerRoleGroupSpec_DeepCopyInto L = RoleGroup_DeepCopyInto L RegionKind"

definition RegionServerRoleGroupSpec_DeepCopy :: "'l copy_lib \<Rightarrow> addr option \<Rightarrow> ('l heap, addr option) eff" where
  "RegionServerRoleGroupSpec_DeepCopy L inp =
     new_copy (RoleGroup_cell RegionKind) (RegionServerRoleGroupSpec_DeepCopyInto L) inp"

definition RegionServerSpec_DeepCopyInto :: "'l copy_lib \<Rightarrow> role_mem \<Rightarrow> ('l heap, role_mem) eff" where
  "RegionServerSpec_DeepCopyInto L = RoleSpec_DeepCopyInto L RegionKind"

definition RegionServerSpec_DeepCopy :: "'l copy_lib \<Rightarrow> addr option \<Rightarrow> ('l heap, addr option) eff" where
  "RegionServerSpec_DeepCopy L inp = new_copy (Role_cell RegionKind) (RegionServerSpec_DeepCopyInto L) inp"

definition RestServerConfigSpec_DeepCopyInto :: "'l copy_lib \<Rightarrow> config_mem \<Rightarrow> ('l heap, config_mem) eff" where
  "RestServerConfigSpec_DeepCopyInto L = ConfigSpec_DeepCopyInto L"

definition RestServerConfigSpec_DeepCopy :: "'l copy_lib \<Rightarrow> addr option \<Rightarrow> ('l heap, addr option) eff" where
  "RestServerConfigSpec_DeepCopy L inp = new_copy (Config_cell RestKind) (RestServerConfigSpec_DeepCopyInto L) inp"

definition RestServerRoleGroupSpec_DeepCopyInto :: "'l copy_lib \<Rightarrow> role_group_mem \<Rightarrow> ('l heap, role_group_mem) eff" where
  "RestServerRoleGroupSpec_DeepCopyInto L = RoleGroup_DeepCopyInto L RestKind"

definition RestServerRoleGroupSpec_DeepCopy :: "'l copy_lib \<Rightarrow> addr option \<Rightarrow> ('l heap, addr option) eff" where
  "RestServerRoleGroupSpec_DeepCopy L inp =
     new_copy (RoleGroup_cell RestKind) (RestServerRoleGroupSpec_DeepCopyInto L) inp"

definition RestServerSpec_DeepCopyInto :: "'l copy_lib \<Rightarrow> role_mem \<Rightarrow> ('l heap, role_mem) eff" where
  "RestServerSpec_DeepCopyInto L = RoleSpec_DeepCopyInto L RestKind"

definition RestServerSpec_DeepCopy :: "'l copy_lib \<Rightarrow> addr option \<Rightarrow> ('l heap, addr option) eff" where
  "RestServerSpec_DeepCopy L inp = new_copy (Role_cell RestKind) (RestServerSpec_DeepCopyInto L) inp"

text \<open>The resource and the list.\<close>

definition HbaseClusterSpec_DeepCopyInto :: "'l copy_lib \<Rightarrow> spec_mem \<Rightarrow> ('l heap, spec_mem) eff" where
  "HbaseClusterSpec_DeepCopyInto L inp =
     bind_eff (new_copy Image_cell ret_eff (sm_Image inp)) (\<lambda>image.
     bind_eff (new_copy ClusterConfig_cell ClusterConfigSpec_DeepCopyInto (sm_ClusterConfigSpec inp)) (\<lambda>clusterConfig.
     bind_eff (new_copy Operation_cell ret_eff (sm_ClusterOperationSpec inp)) (\<lambda>clusterOperation.
     bind_eff (new_copy (Role_cell MasterKind) (MasterSpec_DeepCopyInto L) (sm_MasterSpec inp)) (\<lambda>master.
     bind_eff (new_copy (Role_cell RegionKind) (RegionServerSpec_DeepCopyInto L) (sm_RegionServerSpec inp)) (\<lambda>regionServer.
     bind_eff (new_copy (Role_cell RestKind) (RestServerSpec_DeepCopyInto L) (sm_RestServerSpec inp)) (\<lambda>restServer.
     ret_eff (inp\<lparr>sm_Image := image, sm_ClusterConfigSpec := clusterConfig,
                 sm_ClusterOperationSpec := clusterOperation, sm_MasterSpec := master,
                 sm_RegionServerSpec := regionServer, sm_RestServerSpec := restServer\<rparr>)))))))"

definition HbaseClusterSpec_DeepCopy :: "'l copy_lib \<Rightarrow> addr option \<Rightarrow> ('l heap, addr option) eff" where
  "HbaseClusterSpec_DeepCopy L inp = new_copy Spec_cell (HbaseClusterSpec_DeepCopyInto L) inp"

definition HbaseClusterStatus_DeepCopyInto :: "'l copy_lib \<Rightarrow> status_mem \<Rightarrow> ('l heap, status_mem) eff" where
  "HbaseClusterStatus_DeepCopyInto L inp =
     bind_eff (new_copy Conditions_cell (copy_elems (Condition_DeepCopyInto L)) (tm_Conditions inp)) (\<lambda>conditions.
     ret_eff (inp\<lparr>tm_Conditions := conditions\<rparr>))"

definition HbaseClusterStatus_DeepCopy :: "'l copy_lib \<Rightarrow> addr option \<Rightarrow> ('l heap, addr option) eff" where
  "HbaseClusterStatus_DeepCopy L inp = new_copy Status_cell (HbaseClusterStatus_DeepCopyInto L) inp"

definition HbaseCluster_DeepCopyInto :: "'l copy_lib \<Rightarrow> 'l cluster_mem \<Rightarrow> ('l heap, 'l cluster_mem) eff" where
  "HbaseCluster_DeepCopyInto L inp =
     bind_eff (ObjectMeta_DeepCopyInto L (hm_ObjectMeta inp)) (\<lambda>objectMeta.
     bind_eff (HbaseClusterSpec_DeepCopyInto L (hm_Spec inp)) (\<lambda>spec.
     bind_eff (HbaseClusterStatus_DeepCopyInto L (hm_Status inp)) (\<lambda>status.
     ret_eff (inp\<lparr>hm_ObjectMeta := objectMeta, hm_Spec := spec, hm_Status := status\<rparr>))))"

definition HbaseCluster_DeepCopy :: "'l copy_lib \<Rightarrow> addr option \<Rightarrow> ('l heap, addr option) eff" where
  "HbaseCluster_DeepCopy L inp = new_copy Cluster_cell (HbaseCluster_DeepCopyInto L) inp"

definition HbaseClusterList_DeepCopyInto :: "'l copy_lib \<Rightarrow> 'l list_mem \<Rightarrow> ('l heap, 'l list_mem) eff" where
  "HbaseClusterList_DeepCopyInto L inp =
     bind_eff (ListMeta_DeepCopyInto L (lm_ListMeta inp)) (\<lambda>listMeta.
     bind_eff (new_copy Items_cell (copy_elems (HbaseCluster_DeepCopyInto L)) (lm_Items inp)) (\<lambda>items.
     ret_eff (inp\<lparr>lm_ListMeta := listMeta, lm_Items := items\<rparr>)))"

definition HbaseClusterList_DeepCopy :: "'l copy_lib \<Rightarrow> addr option \<Rightarrow> ('l heap, addr option) eff" where
  "HbaseClusterList_DeepCopy L inp = new_copy List_cell (HbaseClusterList_DeepCopyInto L) inp"

text \<open>
  A runtime.Object is an interface: nil, or a pointer together with its type. A nil pointer
  inside an interface is not the nil interface, so DeepCopyObject has to tell them apart.
\<close>

datatype runtime_object =
    ClusterPtr "addr option"
  | ListPtr "addr option"

definition HbaseCluster_DeepCopyObject :: "'l copy_lib \<Rightarrow> addr option \<Rightarrow> ('l heap, runtime_object option) eff" where
  "HbaseCluster_DeepCopyObject L inp =
     bind_eff (HbaseCluster_DeepCopy L inp) (\<lambda>c.
     if c \<noteq> None then ret_eff (Some (ClusterPtr c)) else ret_eff None)"

definition HbaseClusterList_DeepCopyObject :: "'l copy_lib \<Rightarrow> addr option \<Rightarrow> ('l heap, runtime_object option) eff" where
  "HbaseClusterList_DeepCopyObject L inp =
     bind_eff (HbaseClusterList_DeepCopy L inp) (\<lambda>c.
     if c \<noteq> None then ret_eff (Some (ListPtr c)) else ret_eff None)"

end
