(* ===== verification/Deep_Copy_Correct.thy ===== *)
theory Deep_Copy_Correct
  imports Deep_Copy
begin

text \<open>
  What the generated deep copies guarantee. For every type: what a struct in memory stands
  for, and that its DeepCopyInto is a deep copy of it (the contract \<open>copier\<close> of
  Go_Copy). From that, at the top: a copied cluster or list stands for the same value, shares
  no cell with the original, leaves all memory that was there as it was, and keeps the memory
  well typed.
\<close>

section \<open>What a struct in memory stands for\<close>

definition rep_OidcSpec :: "'l heap \<Rightarrow> addr set \<Rightarrow> oidc_mem \<Rightarrow> OidcSpec \<Rightarrow> bool" where
  "rep_OidcSpec h A r v \<longleftrightarrow>
     rep_pair rep_flat (rep_ptr Strings_cell rep_flat) h A
       (xm_ClientCredentialsSecret r, xm_ExtraScopes r)
       (ClientCredentialsSecret v, ExtraScopes v)"

definition rep_AuthenticationSpec :: "'l heap \<Rightarrow> addr set \<Rightarrow> authentication_mem \<Rightarrow> AuthenticationSpec \<Rightarrow> bool" where
  "rep_AuthenticationSpec h A r v \<longleftrightarrow>
     rep_pair rep_flat (rep_ptr Oidc_cell rep_OidcSpec) h A
       ((am_AuthenticationClass r, am_KerberosSecretClass r, am_TlsSecretClass r), am_Oidc r)
       ((AuthenticationClassName v, KerberosSecretClass v, TlsSecretClass v), Oidc v)"

definition rep_ClusterConfigSpec :: "'l heap \<Rightarrow> addr set \<Rightarrow> cluster_config_mem \<Rightarrow> ClusterConfigSpec \<Rightarrow> bool" where
  "rep_ClusterConfigSpec h A r v \<longleftrightarrow>
     rep_pair rep_flat (rep_ptr Authentication_cell rep_AuthenticationSpec) h A
       ((cm_ZookeeperConfigMapName r, cm_HdfsConfigMapName r, cm_ListenerClass r,
         cm_VectorAggregatorConfigMapName r), cm_Authentication r)
       ((ZookeeperConfigMapName v, HdfsConfigMapName v, ListenerClass v,
         VectorAggregatorConfigMapName v), Authentication v)"

text \<open>The fields of the three roles' types, so that one relation serves all three.\<close>

record ('c, 'g, 's) role_view =
  view_config :: "'c \<Rightarrow> RoleGroupConfigSpec option"
  view_group :: "'g \<Rightarrow> int32 option \<times> 'c option \<times> OverridesSpec option"
  view_role :: "'s \<Rightarrow> 'c option \<times> 'g go_map \<times> RoleConfigSpec option \<times> OverridesSpec option"

definition view_ok :: "('c, 'g, 's) role_view \<Rightarrow> bool" where
  "view_ok V \<longleftrightarrow> inj (view_config V) \<and> inj (view_group V) \<and> inj (view_role V)"

definition master_view :: "(MasterConfigSpec, MasterRoleGroupSpec, MasterSpec) role_view" where
  "master_view = \<lparr>view_config = mc_RoleGroupConfigSpec,
     view_group = (\<lambda>g. (mg_Replicas g, mg_Config g, mg_OverridesSpec g)),
     view_role = (\<lambda>s. (ms_Config s, ms_RoleGroups s, ms_RoleConfig s, ms_OverridesSpec s))\<rparr>"

definition region_view :: "(RegionConfigSpec, RegionServerRoleGroupSpec, RegionServerSpec) role_view" where
  "region_view = \<lparr>view_config = rc_RoleGroupConfigSpec,
     view_group = (\<lambda>g. (rg_Replicas g, rg_Config g, rg_OverridesSpec g)),
     view_role = (\<lambda>s. (rs_Config s, rs_RoleGroups s, rs_RoleConfig s, rs_OverridesSpec s))\<rparr>"

definition rest_view :: "(RestServerConfigSpec, RestServerRoleGroupSpec, RestServerSpec) role_view" where
  "rest_view = \<lparr>view_config = tc_RoleGroupConfigSpec,
     view_group = (\<lambda>g. (tg_Replicas g, tg_Config g, tg_OverridesSpec g)),
     view_role = (\<lambda>s. (ts_Config s, ts_RoleGroups s, ts_RoleConfig s, ts_OverridesSpec s))\<rparr>"

lemma views_ok: "view_ok master_view" "view_ok region_view" "view_ok rest_view"
  unfolding view_ok_def master_view_def region_view_def rest_view_def by (auto intro!: injI)

definition rep_config :: "'l copy_lib \<Rightarrow> ('c, 'g, 's) role_view
    \<Rightarrow> 'l heap \<Rightarrow> addr set \<Rightarrow> config_mem \<Rightarrow> 'c \<Rightarrow> bool" where
  "rep_config L V h A r v \<longleftrightarrow>
     rep_ptr GroupConfig_cell (rep_RoleGroupConfigSpec L) h A (km_RoleGroupConfigSpec r) (view_config V v)"

definition rep_group :: "'l copy_lib \<Rightarrow> ('c, 'g, 's) role_view \<Rightarrow> role_kind
    \<Rightarrow> 'l heap \<Rightarrow> addr set \<Rightarrow> role_group_mem \<Rightarrow> 'g \<Rightarrow> bool" where
  "rep_group L V k h A r v \<longleftrightarrow>
     rep_pair (rep_ptr Int32_cell rep_flat)
       (rep_pair (rep_ptr (Config_cell k) (rep_config L V))
         (rep_ptr Overrides_cell (rep_OverridesSpec L))) h A
       (gm_Replicas r, gm_Config r, gm_OverridesSpec r) (view_group V v)"

definition rep_role :: "'l copy_lib \<Rightarrow> ('c, 'g, 's) role_view \<Rightarrow> role_kind
    \<Rightarrow> 'l heap \<Rightarrow> addr set \<Rightarrow> role_mem \<Rightarrow> 's \<Rightarrow> bool" where
  "rep_role L V k h A r v \<longleftrightarrow>
     rep_pair (rep_ptr (Config_cell k) (rep_config L V))
       (rep_pair (rep_map (RoleGroups_cell k) (rep_group L V k))
         (rep_pair (rep_ptr RoleConfig_cell (rep_RoleConfigSpec L))
           (rep_ptr Overrides_cell (rep_OverridesSpec L)))) h A
       (rm_Config r, rm_RoleGroups r, rm_RoleConfig r, rm_OverridesSpec r) (view_role V v)"

definition rep_HbaseClusterSpec :: "'l copy_lib \<Rightarrow> 'l heap \<Rightarrow> addr set \<Rightarrow> spec_mem \<Rightarrow> HbaseClusterSpec \<Rightarrow> bool" where
  "rep_HbaseClusterSpec L h A r v \<longleftrightarrow>
     rep_pair (rep_ptr Image_cell rep_flat)
       (rep_pair (rep_ptr ClusterConfig_cell rep_ClusterConfigSpec)
         (rep_pair (rep_ptr Operation_cell rep_flat)
           (rep_pair (rep_ptr (Role_cell MasterKind) (rep_role L master_view MasterKind))
             (rep_pair (rep_ptr (Role_cell RegionKind) (rep_role L region_view RegionKind))
               (rep_ptr (Role_cell RestKind) (rep_role L rest_view RestKind)))))) h A
       (sm_Image r, sm_ClusterConfigSpec r, sm_ClusterOperationSpec r, sm_MasterSpec r,
        sm_RegionServerSpec r, sm_RestServerSpec r)
       (hs_Image v, hs_ClusterConfigSpec v, hs_ClusterOperationSpec v, hs_MasterSpec v,
        hs_RegionServerSpec v, hs_RestServerSpec v)"

definition rep_HbaseClusterStatus ::
    "'l copy_lib \<Rightarrow> 'l heap \<Rightarrow> addr set \<Rightarrow> status_mem \<Rightarrow> HbaseClusterStatus \<Rightarrow> bool" where
  "rep_HbaseClusterStatus L h A r v \<longleftrightarrow>
     rep_ptr Conditions_cell (rep_elems (rep_Condition L)) h A (tm_Conditions r) (st_Conditions v)"

definition rep_HbaseCluster :: "'l copy_lib \<Rightarrow> 'l heap \<Rightarrow> addr set \<Rightarrow> 'l cluster_mem \<Rightarrow> HbaseCluster \<Rightarrow> bool" where
  "rep_HbaseCluster L h A r v \<longleftrightarrow>
     rep_pair rep_flat
       (rep_pair (rep_ObjectMeta L)
         (rep_pair (rep_HbaseClusterSpec L) (rep_HbaseClusterStatus L))) h A
       (hm_TypeMeta r, hm_ObjectMeta r, hm_Spec r, hm_Status r)
       (hc_TypeMeta v, hc_ObjectMeta v, hc_Spec v, hc_Status v)"

definition rep_HbaseClusterList ::
    "'l copy_lib \<Rightarrow> 'l heap \<Rightarrow> addr set \<Rightarrow> 'l list_mem \<Rightarrow> HbaseClusterList \<Rightarrow> bool" where
  "rep_HbaseClusterList L h A r v \<longleftrightarrow>
     rep_pair rep_flat
       (rep_pair (rep_ListMeta L) (rep_ptr Items_cell (rep_elems (rep_HbaseCluster L)))) h A
       (lm_TypeMeta r, lm_ListMeta r, lm_Items r)
       (hl_TypeMeta v, hl_ListMeta v, hl_Items v)"

lemmas rep_defs = rep_OidcSpec_def rep_AuthenticationSpec_def rep_ClusterConfigSpec_def rep_config_def
  rep_group_def rep_role_def rep_HbaseClusterSpec_def rep_HbaseClusterStatus_def rep_HbaseCluster_def
  rep_HbaseClusterList_def

section \<open>Well-typed memory\<close>

text \<open>
  A cell is well typed when its content stands for a value of its type: every pointer in it
  is nil or leads to a cell of the pointer's type, all the way down.
\<close>

definition cell_typed :: "'l copy_lib \<Rightarrow> 'l heap \<Rightarrow> addr set \<Rightarrow> 'l obj \<Rightarrow> bool" where
  "cell_typed L h A ob = (case ob of
       OidcObj r \<Rightarrow> \<exists>v. rep_OidcSpec h A r v
     | AuthenticationObj r \<Rightarrow> \<exists>v. rep_AuthenticationSpec h A r v
     | ClusterConfigObj r \<Rightarrow> \<exists>v. rep_ClusterConfigSpec h A r v
     | ConfigObj k r \<Rightarrow>
         (case k of MasterKind \<Rightarrow> \<exists>v. rep_config L master_view h A r v
          | RegionKind \<Rightarrow> \<exists>v. rep_config L region_view h A r v
          | RestKind \<Rightarrow> \<exists>v. rep_config L rest_view h A r v)
     | RoleGroupObj k r \<Rightarrow>
         (case k of MasterKind \<Rightarrow> \<exists>v. rep_group L master_view k h A r v
          | RegionKind \<Rightarrow> \<exists>v. rep_group L region_view k h A r v
          | RestKind \<Rightarrow> \<exists>v. rep_group L rest_view k h A r v)
     | RoleGroupsObj k r \<Rightarrow>
         (case k of MasterKind \<Rightarrow> \<exists>v. rep_entries (rep_group L master_view k) h A r v
          | RegionKind \<Rightarrow> \<exists>v. rep_entries (rep_group L region_view k) h A r v
          | RestKind \<Rightarrow> \<exists>v. rep_entries (rep_group L rest_view k) h A r v)
     | RoleObj k r \<Rightarrow>
         (case k of MasterKind \<Rightarrow> \<exists>v. rep_role L master_view k h A r v
          | RegionKind \<Rightarrow> \<exists>v. rep_role L region_view k h A r v
          | RestKind \<Rightarrow> \<exists>v. rep_role L rest_view k h A r v)
     | OverridesObj r \<Rightarrow> \<exists>v. rep_OverridesSpec L h A r v
     | RoleConfigObj r \<Rightarrow> \<exists>v. rep_RoleConfigSpec L h A r v
     | GroupConfigObj r \<Rightarrow> \<exists>v. rep_RoleGroupConfigSpec L h A r v
     | ConditionsObj r \<Rightarrow> \<exists>v. rep_elems (rep_Condition L) h A r v
     | SpecObj r \<Rightarrow> \<exists>v. rep_HbaseClusterSpec L h A r v
     | StatusObj r \<Rightarrow> \<exists>v. rep_HbaseClusterStatus L h A r v
     | ClusterObj r \<Rightarrow> \<exists>v. rep_HbaseCluster L h A r v
     | ItemsObj r \<Rightarrow> \<exists>v. rep_elems (rep_HbaseCluster L) h A r v
     | ListObj r \<Rightarrow> \<exists>v. rep_HbaseClusterList L h A r v
     | LibraryObj l \<Rightarrow> library_typed L h A l
     | _ \<Rightarrow> True)"

definition heap_typed :: "'l copy_lib \<Rightarrow> 'l heap \<Rightarrow> bool" where
  "heap_typed L h \<longleftrightarrow> typed_cells (cell_typed L) h UNIV h"

definition points_to :: "('l obj, 'r) kind \<Rightarrow> 'l heap \<Rightarrow> addr option \<Rightarrow> bool" where
  "points_to K h p \<longleftrightarrow> (\<forall>a. p = Some a \<longrightarrow> read_cell K h a \<noteq> None)"

text \<open>
  The documented behaviour of the library: its DeepCopyInto functions are deep copies too,
  what is well typed in its own cells depends on written cells only, and a loop over a map
  visits every entry once.
\<close>

definition copy_lib_ok :: "'l copy_lib \<Rightarrow> bool" where
  "copy_lib_ok L \<longleftrightarrow>
     visits_all (Visit L)
     \<and> (\<forall>h A h' B l. library_typed L h A l \<longrightarrow> keeps A h h' \<longrightarrow> A \<subseteq> B \<longrightarrow> library_typed L h' B l)
     \<and> representation (rep_OverridesSpec L) \<and> makes_copies (cell_typed L) (rep_OverridesSpec L) (OverridesSpec_DeepCopyInto L)
     \<and> representation (rep_RoleConfigSpec L) \<and> makes_copies (cell_typed L) (rep_RoleConfigSpec L) (RoleConfigSpec_DeepCopyInto L)
     \<and> representation (rep_RoleGroupConfigSpec L)
     \<and> makes_copies (cell_typed L) (rep_RoleGroupConfigSpec L) (RoleGroupConfigSpec_DeepCopyInto L)
     \<and> representation (rep_ObjectMeta L) \<and> makes_copies (cell_typed L) (rep_ObjectMeta L) (ObjectMeta_DeepCopyInto L)
     \<and> representation (rep_ListMeta L) \<and> makes_copies (cell_typed L) (rep_ListMeta L) (ListMeta_DeepCopyInto L)
     \<and> representation (rep_Condition L) \<and> makes_copies (cell_typed L) (rep_Condition L) (Condition_DeepCopyInto L)"

section \<open>Every representation keeps its contract\<close>

lemma representation_Oidc: "representation rep_OidcSpec"
  unfolding rep_OidcSpec_def [abs_def]
  by (rule representation_fields [OF representation_pair
        [OF representation_flat representation_ptr [OF representation_flat]]]) (auto intro: injI)

lemma representation_Authentication: "representation rep_AuthenticationSpec"
  unfolding rep_AuthenticationSpec_def [abs_def]
  by (rule representation_fields [OF representation_pair
        [OF representation_flat representation_ptr [OF representation_Oidc]]]) (auto intro: injI)

lemma representation_ClusterConfig: "representation rep_ClusterConfigSpec"
  unfolding rep_ClusterConfigSpec_def [abs_def]
  by (rule representation_fields [OF representation_pair
        [OF representation_flat representation_ptr [OF representation_Authentication]]]) (auto intro: injI)

lemma representation_config:
  assumes "copy_lib_ok L" and "view_ok V"
  shows "representation (rep_config L V)"
  unfolding rep_config_def [abs_def]
  by (rule representation_fields [OF representation_ptr])
    (use assms in \<open>auto simp: copy_lib_ok_def view_ok_def\<close>)

lemma representation_group:
  assumes "copy_lib_ok L" and "view_ok V"
  shows "representation (rep_group L V k)"
  unfolding rep_group_def [abs_def]
  by (rule representation_fields [OF representation_pair [OF representation_ptr [OF representation_flat]
        representation_pair [OF representation_ptr [OF representation_config [OF assms]] representation_ptr]]])
    (use assms in \<open>auto simp: copy_lib_ok_def view_ok_def\<close>)

lemma representation_role:
  assumes "copy_lib_ok L" and "view_ok V"
  shows "representation (rep_role L V k)"
  unfolding rep_role_def [abs_def]
  by (rule representation_fields [OF representation_pair [OF representation_ptr [OF representation_config [OF assms]]
        representation_pair [OF representation_map [OF representation_group [OF assms]]
          representation_pair [OF representation_ptr representation_ptr]]]])
    (use assms in \<open>auto simp: copy_lib_ok_def view_ok_def\<close>)

lemma representation_spec:
  assumes "copy_lib_ok L"
  shows "representation (rep_HbaseClusterSpec L)"
  unfolding rep_HbaseClusterSpec_def [abs_def]
  by (rule representation_fields, intro representation_pair representation_ptr representation_flat
      representation_ClusterConfig representation_role assms views_ok) (auto intro: injI)

lemma representation_status:
  assumes "copy_lib_ok L"
  shows "representation (rep_HbaseClusterStatus L)"
  unfolding rep_HbaseClusterStatus_def [abs_def]
  by (rule representation_fields [OF representation_ptr [OF representation_elems]])
    (use assms in \<open>auto simp: copy_lib_ok_def intro: injI\<close>)

lemma representation_cluster:
  assumes "copy_lib_ok L"
  shows "representation (rep_HbaseCluster L)"
  unfolding rep_HbaseCluster_def [abs_def]
  by (rule representation_fields [OF representation_pair [OF representation_flat representation_pair
        [OF _ representation_pair [OF representation_spec [OF assms] representation_status [OF assms]]]]])
    (use assms in \<open>auto simp: copy_lib_ok_def intro: injI\<close>)

lemma representation_list:
  assumes "copy_lib_ok L"
  shows "representation (rep_HbaseClusterList L)"
  unfolding rep_HbaseClusterList_def [abs_def]
  by (rule representation_fields [OF representation_pair [OF representation_flat representation_pair
        [OF _ representation_ptr [OF representation_elems [OF representation_cluster [OF assms]]]]]])
    (use assms in \<open>auto simp: copy_lib_ok_def intro: injI\<close>)

lemma library_representations:
  assumes "copy_lib_ok L"
  shows "representation (rep_OverridesSpec L)" "representation (rep_RoleConfigSpec L)"
    "representation (rep_RoleGroupConfigSpec L)" "representation (rep_ObjectMeta L)"
    "representation (rep_ListMeta L)" "representation (rep_Condition L)"
  using assms by (simp_all add: copy_lib_ok_def)

lemma ex_rep_keeps:
  assumes "representation R" and "\<exists>v. R h A r v" and "keeps A h h'" and "A \<subseteq> B"
  shows "\<exists>v. R h' B r v"
  using representation.rep_keeps [OF assms(1)] assms(2-4) by blast

lemma typing_cells:
  assumes L: "copy_lib_ok L"
  shows "typing (cell_typed L)"
proof (unfold_locales)
  fix h A ob h' B
  assume t: "cell_typed L h A ob" and k: "keeps A h h'" and s: "A \<subseteq> B"
  note reps = representation_Oidc representation_Authentication representation_ClusterConfig
    representation_spec [OF L] representation_status [OF L] representation_cluster [OF L]
    representation_list [OF L] library_representations [OF L]
    representation_config [OF L views_ok(1)] representation_config [OF L views_ok(2)]
    representation_config [OF L views_ok(3)] representation_group [OF L views_ok(1)]
    representation_group [OF L views_ok(2)] representation_group [OF L views_ok(3)]
    representation_role [OF L views_ok(1)] representation_role [OF L views_ok(2)]
    representation_role [OF L views_ok(3)]
  note reps' = reps representation_elems [OF library_representations(6) [OF L]]
    representation_elems [OF representation_cluster [OF L]]
    representation_entries [OF representation_group [OF L views_ok(1)]]
    representation_entries [OF representation_group [OF L views_ok(2)]]
    representation_entries [OF representation_group [OF L views_ok(3)]]
  have lib: "library_typed L h A l \<Longrightarrow> library_typed L h' B l" for l
    using L k s unfolding copy_lib_ok_def by blast
  show "cell_typed L h' B ob"
    using t lib reps' [THEN ex_rep_keeps, OF _ k s]
    by (cases ob) (simp_all add: cell_typed_def split: role_kind.splits)
qed

lemma library_copiers:
  assumes "copy_lib_ok L"
  shows "copier (cell_typed L) (rep_OverridesSpec L) (OverridesSpec_DeepCopyInto L)"
    "copier (cell_typed L) (rep_RoleConfigSpec L) (RoleConfigSpec_DeepCopyInto L)"
    "copier (cell_typed L) (rep_RoleGroupConfigSpec L) (RoleGroupConfigSpec_DeepCopyInto L)"
    "copier (cell_typed L) (rep_ObjectMeta L) (ObjectMeta_DeepCopyInto L)"
    "copier (cell_typed L) (rep_ListMeta L) (ListMeta_DeepCopyInto L)"
    "copier (cell_typed L) (rep_Condition L) (Condition_DeepCopyInto L)"
  using typing_cells [OF assms] assms by (simp_all add: copy_lib_ok_def copier_iff)

text \<open>Whatever stands for a value may be stored in a cell of its type.\<close>

lemma stored_cells [simp]:
  "stored (cell_typed L) rep_flat Strings_cell" "stored (cell_typed L) rep_flat Image_cell"
  "stored (cell_typed L) rep_flat Operation_cell" "stored (cell_typed L) rep_flat Int32_cell"
  "stored (cell_typed L) rep_OidcSpec Oidc_cell"
  "stored (cell_typed L) rep_AuthenticationSpec Authentication_cell"
  "stored (cell_typed L) rep_ClusterConfigSpec ClusterConfig_cell"
  "stored (cell_typed L) (rep_config L master_view) (Config_cell MasterKind)"
  "stored (cell_typed L) (rep_config L region_view) (Config_cell RegionKind)"
  "stored (cell_typed L) (rep_config L rest_view) (Config_cell RestKind)"
  "stored (cell_typed L) (rep_group L master_view MasterKind) (RoleGroup_cell MasterKind)"
  "stored (cell_typed L) (rep_group L region_view RegionKind) (RoleGroup_cell RegionKind)"
  "stored (cell_typed L) (rep_group L rest_view RestKind) (RoleGroup_cell RestKind)"
  "stored (cell_typed L) (rep_entries (rep_group L master_view MasterKind)) (RoleGroups_cell MasterKind)"
  "stored (cell_typed L) (rep_entries (rep_group L region_view RegionKind)) (RoleGroups_cell RegionKind)"
  "stored (cell_typed L) (rep_entries (rep_group L rest_view RestKind)) (RoleGroups_cell RestKind)"
  "stored (cell_typed L) (rep_role L master_view MasterKind) (Role_cell MasterKind)"
  "stored (cell_typed L) (rep_role L region_view RegionKind) (Role_cell RegionKind)"
  "stored (cell_typed L) (rep_role L rest_view RestKind) (Role_cell RestKind)"
  "stored (cell_typed L) (rep_OverridesSpec L) Overrides_cell"
  "stored (cell_typed L) (rep_RoleConfigSpec L) RoleConfig_cell"
  "stored (cell_typed L) (rep_RoleGroupConfigSpec L) GroupConfig_cell"
  "stored (cell_typed L) (rep_elems (rep_Condition L)) Conditions_cell"
  "stored (cell_typed L) (rep_HbaseClusterSpec L) Spec_cell"
  "stored (cell_typed L) (rep_HbaseClusterStatus L) Status_cell"
  "stored (cell_typed L) (rep_HbaseCluster L) Cluster_cell"
  "stored (cell_typed L) (rep_elems (rep_HbaseCluster L)) Items_cell"
  "stored (cell_typed L) (rep_HbaseClusterList L) List_cell"
  unfolding stored_def by (auto simp: cell_typed_def cell_defs)

section \<open>Every DeepCopyInto is a deep copy\<close>

lemma copier_Oidc:
  assumes "typing (cell_typed L)"
  shows "copier (cell_typed L) rep_OidcSpec OidcSpec_DeepCopyInto"
  by (rule copier_fieldsI [OF copier_pair [OF copier_flat copier_ptr [OF copier_flat]] _ _ rep_OidcSpec_def,
        where put = "\<lambda>r x. r\<lparr>xm_ClientCredentialsSecret := fst x, xm_ExtraScopes := snd x\<rparr>"])
    (use assms in \<open>auto simp: OidcSpec_DeepCopyInto_def copy_pair_def bind_eff_assoc simp del: ret_eff_apply intro: injI\<close>)

lemma copier_Authentication:
  assumes "typing (cell_typed L)"
  shows "copier (cell_typed L) rep_AuthenticationSpec AuthenticationSpec_DeepCopyInto"
  by (rule copier_fieldsI [OF copier_pair [OF copier_flat copier_ptr [OF copier_Oidc]] _ _ rep_AuthenticationSpec_def,
        where put = "\<lambda>r x. r\<lparr>am_AuthenticationClass := fst (fst x), am_KerberosSecretClass := fst (snd (fst x)),
          am_TlsSecretClass := snd (snd (fst x)), am_Oidc := snd x\<rparr>"])
    (use assms in \<open>auto simp: AuthenticationSpec_DeepCopyInto_def copy_pair_def bind_eff_assoc simp del: ret_eff_apply intro: injI\<close>)

lemma copier_ClusterConfig:
  assumes "typing (cell_typed L)"
  shows "copier (cell_typed L) rep_ClusterConfigSpec ClusterConfigSpec_DeepCopyInto"
  by (rule copier_fieldsI [OF copier_pair [OF copier_flat copier_ptr [OF copier_Authentication]] _ _
          rep_ClusterConfigSpec_def,
        where put = "\<lambda>r x. r\<lparr>cm_ZookeeperConfigMapName := fst (fst x), cm_HdfsConfigMapName := fst (snd (fst x)),
          cm_ListenerClass := fst (snd (snd (fst x))), cm_VectorAggregatorConfigMapName := snd (snd (snd (fst x))),
          cm_Authentication := snd x\<rparr>"])
    (use assms in \<open>auto simp: ClusterConfigSpec_DeepCopyInto_def copy_pair_def bind_eff_assoc simp del: ret_eff_apply intro: injI\<close>)

lemma copier_config:
  assumes L: "copy_lib_ok L" and V: "view_ok V"
  shows "copier (cell_typed L) (rep_config L V) (ConfigSpec_DeepCopyInto L)"
  by (rule copier_fieldsI [OF copier_ptr [OF library_copiers(3) [OF L]] _ _ rep_config_def,
        where put = "\<lambda>r x. r\<lparr>km_RoleGroupConfigSpec := x\<rparr>"])
    (use V in \<open>auto simp: ConfigSpec_DeepCopyInto_def view_ok_def\<close>)

text \<open>A role's tag and its view fit when cells of the tag hold what the view reads.\<close>

definition role_stored :: "'l copy_lib \<Rightarrow> ('c, 'g, 's) role_view \<Rightarrow> role_kind \<Rightarrow> bool" where
  "role_stored L V k \<longleftrightarrow> view_ok V
     \<and> stored (cell_typed L) (rep_config L V) (Config_cell k)
     \<and> stored (cell_typed L) (rep_group L V k) (RoleGroup_cell k)
     \<and> stored (cell_typed L) (rep_entries (rep_group L V k)) (RoleGroups_cell k)"

lemma roles_stored:
  "role_stored L master_view MasterKind" "role_stored L region_view RegionKind"
  "role_stored L rest_view RestKind"
  by (simp_all add: role_stored_def views_ok)

lemma copier_group:
  assumes L: "copy_lib_ok L" and V: "role_stored L V k"
  shows "copier (cell_typed L) (rep_group L V k) (RoleGroup_DeepCopyInto L k)"
proof -
  have c: "copier (cell_typed L) (rep_config L V) (ConfigSpec_DeepCopyInto L)"
    using V by (intro copier_config L) (simp add: role_stored_def)
  have p: "copier (cell_typed L)
     (rep_pair (rep_ptr Int32_cell rep_flat)
       (rep_pair (rep_ptr (Config_cell k) (rep_config L V))
         (rep_ptr Overrides_cell (rep_OverridesSpec L))))
     (copy_pair (new_copy Int32_cell ret_eff) (copy_pair (new_copy (Config_cell k) (ConfigSpec_DeepCopyInto L))
        (new_copy Overrides_cell (OverridesSpec_DeepCopyInto L))))"
    using V by (intro copier_pair copier_ptr copier_flat c library_copiers L typing_cells kinds_ok stored_cells) (simp add: role_stored_def)
  show ?thesis
    by (rule copier_fieldsI [OF p, where f = "\<lambda>r. (gm_Replicas r, gm_Config r, gm_OverridesSpec r)"
          and g = "view_group V"
          and put = "\<lambda>r x. r\<lparr>gm_Replicas := fst x, gm_Config := fst (snd x), gm_OverridesSpec := snd (snd x)\<rparr>"])
      (use V in \<open>simp_all add: role_stored_def view_ok_def rep_group_def RoleGroup_DeepCopyInto_def
        copy_pair_def bind_eff_assoc del: ret_eff_apply\<close>)
qed

lemma copier_role:
  assumes L: "copy_lib_ok L" and V: "role_stored L V k"
  shows "copier (cell_typed L) (rep_role L V k) (RoleSpec_DeepCopyInto L k)"
proof -
  have c: "copier (cell_typed L) (rep_config L V) (ConfigSpec_DeepCopyInto L)"
    using V by (intro copier_config L) (simp add: role_stored_def)
  have visit: "visits_all (Visit L)" using L by (simp add: copy_lib_ok_def)
  have p: "copier (cell_typed L)
      (rep_pair (rep_ptr (Config_cell k) (rep_config L V))
        (rep_pair (rep_map (RoleGroups_cell k) (rep_group L V k))
          (rep_pair (rep_ptr RoleConfig_cell (rep_RoleConfigSpec L))
            (rep_ptr Overrides_cell (rep_OverridesSpec L)))))
      (copy_pair (new_copy (Config_cell k) (ConfigSpec_DeepCopyInto L))
        (copy_pair (copy_map (RoleGroups_cell k) (RoleGroup_cell k) (RoleGroup_DeepCopyInto L k) (Visit L))
          (copy_pair (new_copy RoleConfig_cell (RoleConfigSpec_DeepCopyInto L))
            (new_copy Overrides_cell (OverridesSpec_DeepCopyInto L)))))"
    using V
    by (intro copier_pair copier_ptr copier_map c copier_group library_copiers L kinds_ok stored_cells visit)
      (simp_all add: role_stored_def)
  show ?thesis
    by (rule copier_fieldsI [OF p, where f = "\<lambda>r. (rm_Config r, rm_RoleGroups r, rm_RoleConfig r, rm_OverridesSpec r)"
          and g = "view_role V"
          and put = "\<lambda>r x. r\<lparr>rm_Config := fst x, rm_RoleGroups := fst (snd x),
            rm_RoleConfig := fst (snd (snd x)), rm_OverridesSpec := snd (snd (snd x))\<rparr>"])
      (use V in \<open>simp_all add: role_stored_def view_ok_def rep_role_def RoleSpec_DeepCopyInto_def
        copy_pair_def bind_eff_assoc del: ret_eff_apply\<close>)
qed

text \<open>A role whose map of groups is nil is copied to one whose map is nil, and only such a role.\<close>

lemma role_copy_keeps_nil:
  assumes "RoleSpec_DeepCopyInto L k inp h = (Ok out, h')"
  shows "rm_RoleGroups out = None \<longleftrightarrow> rm_RoleGroups inp = None"
  using assms
  by (auto simp: RoleSpec_DeepCopyInto_def bind_eff_Ok_iff dest: copy_map_nil)

lemma copier_roles:
  assumes "copy_lib_ok L"
  shows "copier (cell_typed L) (rep_role L master_view MasterKind) (MasterSpec_DeepCopyInto L)"
    "copier (cell_typed L) (rep_role L region_view RegionKind) (RegionServerSpec_DeepCopyInto L)"
    "copier (cell_typed L) (rep_role L rest_view RestKind) (RestServerSpec_DeepCopyInto L)"
  unfolding MasterSpec_DeepCopyInto_def RegionServerSpec_DeepCopyInto_def RestServerSpec_DeepCopyInto_def
  by (rule copier_role [OF assms roles_stored(1)], rule copier_role [OF assms roles_stored(2)],
      rule copier_role [OF assms roles_stored(3)])

lemma copier_spec:
  assumes L: "copy_lib_ok L"
  shows "copier (cell_typed L) (rep_HbaseClusterSpec L) (HbaseClusterSpec_DeepCopyInto L)"
proof -
  have p: "copier (cell_typed L)
      (rep_pair (rep_ptr Image_cell rep_flat)
        (rep_pair (rep_ptr ClusterConfig_cell rep_ClusterConfigSpec)
          (rep_pair (rep_ptr Operation_cell rep_flat)
            (rep_pair (rep_ptr (Role_cell MasterKind) (rep_role L master_view MasterKind))
              (rep_pair (rep_ptr (Role_cell RegionKind) (rep_role L region_view RegionKind))
                (rep_ptr (Role_cell RestKind) (rep_role L rest_view RestKind)))))))
      (copy_pair (new_copy Image_cell ret_eff)
        (copy_pair (new_copy ClusterConfig_cell ClusterConfigSpec_DeepCopyInto)
          (copy_pair (new_copy Operation_cell ret_eff)
            (copy_pair (new_copy (Role_cell MasterKind) (MasterSpec_DeepCopyInto L))
              (copy_pair (new_copy (Role_cell RegionKind) (RegionServerSpec_DeepCopyInto L))
                (new_copy (Role_cell RestKind) (RestServerSpec_DeepCopyInto L)))))))"
    by (intro copier_pair copier_ptr copier_flat copier_ClusterConfig copier_roles typing_cells L kinds_ok stored_cells)
  show ?thesis
    by (rule copier_fieldsI [OF p,
          where f = "\<lambda>r. (sm_Image r, sm_ClusterConfigSpec r, sm_ClusterOperationSpec r, sm_MasterSpec r,
            sm_RegionServerSpec r, sm_RestServerSpec r)"
          and g = "\<lambda>v. (hs_Image v, hs_ClusterConfigSpec v, hs_ClusterOperationSpec v, hs_MasterSpec v,
            hs_RegionServerSpec v, hs_RestServerSpec v)"
          and put = "\<lambda>r x. r\<lparr>sm_Image := fst x, sm_ClusterConfigSpec := fst (snd x),
            sm_ClusterOperationSpec := fst (snd (snd x)), sm_MasterSpec := fst (snd (snd (snd x))),
            sm_RegionServerSpec := fst (snd (snd (snd (snd x)))),
            sm_RestServerSpec := snd (snd (snd (snd (snd x))))\<rparr>"])
      (simp_all add: rep_HbaseClusterSpec_def HbaseClusterSpec_DeepCopyInto_def copy_pair_def bind_eff_assoc
        inj_def del: ret_eff_apply)
qed

lemma copier_status:
  assumes L: "copy_lib_ok L"
  shows "copier (cell_typed L) (rep_HbaseClusterStatus L) (HbaseClusterStatus_DeepCopyInto L)"
proof -
  have p: "copier (cell_typed L) (rep_ptr Conditions_cell (rep_elems (rep_Condition L)))
      (new_copy Conditions_cell (copy_elems (Condition_DeepCopyInto L)))"
    by (intro copier_ptr copier_elems library_copiers L kinds_ok stored_cells)
  show ?thesis
    by (rule copier_fieldsI [OF p, where f = tm_Conditions and g = st_Conditions
          and put = "\<lambda>r x. r\<lparr>tm_Conditions := x\<rparr>"])
      (simp_all add: rep_HbaseClusterStatus_def HbaseClusterStatus_DeepCopyInto_def inj_def)
qed

lemma copier_cluster:
  assumes L: "copy_lib_ok L"
  shows "copier (cell_typed L) (rep_HbaseCluster L) (HbaseCluster_DeepCopyInto L)"
proof -
  have p: "copier (cell_typed L)
      (rep_pair rep_flat (rep_pair (rep_ObjectMeta L) (rep_pair (rep_HbaseClusterSpec L) (rep_HbaseClusterStatus L))))
      (copy_pair ret_eff (copy_pair (ObjectMeta_DeepCopyInto L)
        (copy_pair (HbaseClusterSpec_DeepCopyInto L) (HbaseClusterStatus_DeepCopyInto L))))"
    by (intro copier_pair copier_flat copier_spec copier_status library_copiers typing_cells L)
  show ?thesis
    by (rule copier_fieldsI [OF p, where f = "\<lambda>r. (hm_TypeMeta r, hm_ObjectMeta r, hm_Spec r, hm_Status r)"
          and g = "\<lambda>v. (hc_TypeMeta v, hc_ObjectMeta v, hc_Spec v, hc_Status v)"
          and put = "\<lambda>r x. r\<lparr>hm_TypeMeta := fst x, hm_ObjectMeta := fst (snd x),
            hm_Spec := fst (snd (snd x)), hm_Status := snd (snd (snd x))\<rparr>"])
      (simp_all add: rep_HbaseCluster_def HbaseCluster_DeepCopyInto_def copy_pair_def bind_eff_assoc
        inj_def del: ret_eff_apply)
qed

lemma copier_list:
  assumes L: "copy_lib_ok L"
  shows "copier (cell_typed L) (rep_HbaseClusterList L) (HbaseClusterList_DeepCopyInto L)"
proof -
  have p: "copier (cell_typed L)
      (rep_pair rep_flat (rep_pair (rep_ListMeta L) (rep_ptr Items_cell (rep_elems (rep_HbaseCluster L)))))
      (copy_pair ret_eff (copy_pair (ListMeta_DeepCopyInto L)
        (new_copy Items_cell (copy_elems (HbaseCluster_DeepCopyInto L)))))"
    by (intro copier_pair copier_ptr copier_elems copier_flat copier_cluster library_copiers typing_cells L
        kinds_ok stored_cells)
  show ?thesis
    by (rule copier_fieldsI [OF p, where f = "\<lambda>r. (lm_TypeMeta r, lm_ListMeta r, lm_Items r)"
          and g = "\<lambda>v. (hl_TypeMeta v, hl_ListMeta v, hl_Items v)"
          and put = "\<lambda>r x. r\<lparr>lm_TypeMeta := fst x, lm_ListMeta := fst (snd x), lm_Items := snd (snd x)\<rparr>"])
      (simp_all add: rep_HbaseClusterList_def HbaseClusterList_DeepCopyInto_def copy_pair_def bind_eff_assoc
        inj_def del: ret_eff_apply)
qed

text \<open>The copies behind a pointer, as the API machinery calls them.\<close>

lemma copier_objects:
  assumes "copy_lib_ok L"
  shows "copier (cell_typed L) (rep_ptr Cluster_cell (rep_HbaseCluster L)) (HbaseCluster_DeepCopy L)"
    "copier (cell_typed L) (rep_ptr List_cell (rep_HbaseClusterList L)) (HbaseClusterList_DeepCopy L)"
  unfolding HbaseCluster_DeepCopy_def [abs_def] HbaseClusterList_DeepCopy_def [abs_def]
  by (intro copier_ptr copier_cluster copier_list assms kinds_ok stored_cells)+

text \<open>
  The interface between the generated code and the library: a library that keeps its
  promise makes every DeepCopy a copier.
\<close>

locale copy_library =
  fixes L :: "'l copy_lib"
  assumes library_ok: "copy_lib_ok L"

sublocale copy_library \<subseteq> cluster: copier "cell_typed L" "rep_ptr Cluster_cell (rep_HbaseCluster L)"
  "HbaseCluster_DeepCopy L"
  by (rule copier_objects(1) [OF library_ok])

sublocale copy_library \<subseteq> list: copier "cell_typed L" "rep_ptr List_cell (rep_HbaseClusterList L)"
  "HbaseClusterList_DeepCopy L"
  by (rule copier_objects(2) [OF library_ok])

context copy_library begin

lemmas cluster_determined = cluster.copy_determined
lemmas cluster_isolated = cluster.copy_isolated
lemmas cluster_typed = cluster.copy_typed
lemmas list_determined = list.copy_determined
lemmas list_typed = list.copy_typed

end

text \<open>A pointer of a program leads nowhere or to a cell of its type.\<close>

lemma typed_pointer_value:
  assumes "heap_typed L h" and K: "kind_ok K" and "points_to K h p"
    and "\<And>r. cell_typed L h UNIV (Emb K r) \<Longrightarrow> \<exists>v. R h UNIV r v"
  shows "\<exists>x. rep_ptr K R h UNIV p x"
proof (cases p)
  case (Some a)
  then obtain r where r: "read_cell K h a = Some r" using assms(3) by (auto simp: points_to_def)
  then have "Some (Emb K r) \<in> set h" by (simp add: read_cell_iff [OF K] cell_in_set)
  then have "cell_typed L h UNIV (Emb K r)"
    using assms(1) by (auto simp: heap_typed_def typed_cells_def)
  with assms(4) Some r show ?thesis by (auto simp: rep_ptr_iff)
qed (auto simp: rep_ptr_iff)

lemma cluster_value:
  "heap_typed L h \<Longrightarrow> points_to Cluster_cell h p \<Longrightarrow> \<exists>x. rep_ptr Cluster_cell (rep_HbaseCluster L) h UNIV p x"
  by (rule typed_pointer_value, assumption, simp, assumption, simp add: cell_typed_def Cluster_cell_def)

lemma list_value:
  "heap_typed L h \<Longrightarrow> points_to List_cell h p \<Longrightarrow> \<exists>x. rep_ptr List_cell (rep_HbaseClusterList L) h UNIV p x"
  by (rule typed_pointer_value, assumption, simp, assumption, simp add: cell_typed_def List_cell_def)

lemma rep_ptr_points_to: "rep_ptr K R h A p x \<Longrightarrow> points_to K h p"
  by (auto simp: rep_ptr_iff points_to_def)

lemma rep_ptr_nil: "rep_ptr K R h A p x \<Longrightarrow> p = None \<longleftrightarrow> x = None"
  by (auto simp: rep_ptr_iff)

lemma DeepCopyObject_apply:
  "HbaseCluster_DeepCopy L p h = (Ok q, h') \<Longrightarrow>
     HbaseCluster_DeepCopyObject L p h = (Ok (map_option (\<lambda>a. ClusterPtr (Some a)) q), h')"
  "HbaseClusterList_DeepCopy L p h = (Ok q, h') \<Longrightarrow>
     HbaseClusterList_DeepCopyObject L p h = (Ok (map_option (\<lambda>a. ListPtr (Some a)) q), h')"
  by (cases q; simp add: HbaseCluster_DeepCopyObject_def HbaseClusterList_DeepCopyObject_def bind_eff_def)+

section \<open>Properties\<close>

text \<open>
  C5. The deep copy of a cluster is the same cluster. When a pointer stands for a value (nil
  standing for none), DeepCopyObject returns an object for that very value: the memory that
  was there is unchanged, the object's pointers lead only to cells that have been added, and
  it stands for no other value. Of nil it makes the nil interface, not an interface that
  holds a nil pointer. The order in which the loops visit the role groups does not matter.
\<close>

theorem HbaseCluster_DeepCopyObject_correct:
  assumes "copy_lib_ok L" and "rep_ptr Cluster_cell (rep_HbaseCluster L) h A p x"
  shows "\<exists>q new. HbaseCluster_DeepCopyObject L p h = (Ok (map_option (\<lambda>a. ClusterPtr (Some a)) q), h @ new)
    \<and> rep_ptr Cluster_cell (rep_HbaseCluster L) (h @ new) (fresh h new) q x
    \<and> (q = None \<longleftrightarrow> p = None)
    \<and> {y. rep_ptr Cluster_cell (rep_HbaseCluster L) (h @ new) UNIV q y} = {x}"
proof -
  obtain q new where q: "HbaseCluster_DeepCopy L p h = (Ok q, h @ new)"
    "rep_ptr Cluster_cell (rep_HbaseCluster L) (h @ new) (fresh h new) q x"
    "{y. rep_ptr Cluster_cell (rep_HbaseCluster L) (h @ new) UNIV q y} = {x}"
    using copy_library.cluster_determined [OF copy_library.intro [OF assms(1)] assms(2)] by blast
  with rep_ptr_nil [OF assms(2)] rep_ptr_nil [OF q(2)] show ?thesis
    using DeepCopyObject_apply(1) [OF q(1)] by blast
qed

lemma copies_behind_pointer:
  "copier W R c \<Longrightarrow> kind_ok K \<Longrightarrow> stored W R K \<Longrightarrow> makes_copies W (rep_ptr K R) (new_copy K c)"
  using copier_ptr [of W R c K] by (simp add: copier_iff)

lemma copier_image:
  "copy_lib_ok L \<Longrightarrow> copier (cell_typed L) rep_flat ImageSpec_DeepCopyInto"
  using copier_flat [OF typing_cells] by (simp add: ImageSpec_DeepCopyInto_def [abs_def] del: ret_eff_apply)

text \<open>
  C21. Every DeepCopy of the file is a deep copy. For each of the seventeen types, a pointer
  that stands for a value is copied to one that stands for the same value, in cells that are
  all new, closed and well typed, while memory only grows; nil stands for nil.
\<close>

theorem every_DeepCopy_copies:
  assumes "copy_lib_ok L"
  shows "makes_copies (cell_typed L) (rep_ptr Oidc_cell rep_OidcSpec) OidcSpec_DeepCopy
   \<and> makes_copies (cell_typed L) (rep_ptr Authentication_cell rep_AuthenticationSpec) AuthenticationSpec_DeepCopy
   \<and> makes_copies (cell_typed L) (rep_ptr ClusterConfig_cell rep_ClusterConfigSpec) ClusterConfigSpec_DeepCopy
   \<and> makes_copies (cell_typed L) (rep_ptr Image_cell rep_flat) ImageSpec_DeepCopy
   \<and> makes_copies (cell_typed L) (rep_ptr (Config_cell MasterKind) (rep_config L master_view)) (MasterConfigSpec_DeepCopy L)
   \<and> makes_copies (cell_typed L) (rep_ptr (RoleGroup_cell MasterKind) (rep_group L master_view MasterKind)) (MasterRoleGroupSpec_DeepCopy L)
   \<and> makes_copies (cell_typed L) (rep_ptr (Role_cell MasterKind) (rep_role L master_view MasterKind)) (MasterSpec_DeepCopy L)
   \<and> makes_copies (cell_typed L) (rep_ptr (Config_cell RegionKind) (rep_config L region_view)) (RegionConfigSpec_DeepCopy L)
   \<and> makes_copies (cell_typed L) (rep_ptr (RoleGroup_cell RegionKind) (rep_group L region_view RegionKind)) (RegionServerRoleGroupSpec_DeepCopy L)
   \<and> makes_copies (cell_typed L) (rep_ptr (Role_cell RegionKind) (rep_role L region_view RegionKind)) (RegionServerSpec_DeepCopy L)
   \<and> makes_copies (cell_typed L) (rep_ptr (Config_cell RestKind) (rep_config L rest_view)) (RestServerConfigSpec_DeepCopy L)
   \<and> makes_copies (cell_typed L) (rep_ptr (RoleGroup_cell RestKind) (rep_group L rest_view RestKind)) (RestServerRoleGroupSpec_DeepCopy L)
   \<and> makes_copies (cell_typed L) (rep_ptr (Role_cell RestKind) (rep_role L rest_view RestKind)) (RestServerSpec_DeepCopy L)
   \<and> makes_copies (cell_typed L) (rep_ptr Spec_cell (rep_HbaseClusterSpec L)) (HbaseClusterSpec_DeepCopy L)
   \<and> makes_copies (cell_typed L) (rep_ptr Status_cell (rep_HbaseClusterStatus L)) (HbaseClusterStatus_DeepCopy L)
   \<and> makes_copies (cell_typed L) (rep_ptr Cluster_cell (rep_HbaseCluster L)) (HbaseCluster_DeepCopy L)
   \<and> makes_copies (cell_typed L) (rep_ptr List_cell (rep_HbaseClusterList L)) (HbaseClusterList_DeepCopy L)"
  unfolding OidcSpec_DeepCopy_def [abs_def] AuthenticationSpec_DeepCopy_def [abs_def]
    ClusterConfigSpec_DeepCopy_def [abs_def] ImageSpec_DeepCopy_def [abs_def]
    MasterConfigSpec_DeepCopy_def [abs_def] MasterRoleGroupSpec_DeepCopy_def [abs_def]
    MasterSpec_DeepCopy_def [abs_def] RegionConfigSpec_DeepCopy_def [abs_def]
    RegionServerRoleGroupSpec_DeepCopy_def [abs_def] RegionServerSpec_DeepCopy_def [abs_def]
    RestServerConfigSpec_DeepCopy_def [abs_def] RestServerRoleGroupSpec_DeepCopy_def [abs_def]
    RestServerSpec_DeepCopy_def [abs_def] HbaseClusterSpec_DeepCopy_def [abs_def]
    HbaseClusterStatus_DeepCopy_def [abs_def] HbaseCluster_DeepCopy_def [abs_def]
    HbaseClusterList_DeepCopy_def [abs_def]
    MasterConfigSpec_DeepCopyInto_def MasterRoleGroupSpec_DeepCopyInto_def
    RegionConfigSpec_DeepCopyInto_def RegionServerRoleGroupSpec_DeepCopyInto_def
    RestServerConfigSpec_DeepCopyInto_def RestServerRoleGroupSpec_DeepCopyInto_def
  by (intro conjI copies_behind_pointer copier_Oidc copier_Authentication copier_ClusterConfig copier_image
      copier_config copier_group copier_roles copier_spec copier_status copier_cluster copier_list
      typing_cells views_ok roles_stored kinds_ok stored_cells assms)

text \<open>
  The same for a list of clusters, with every item in it: the copied list has the same
  items in the same order, a nil list stays nil and an empty one empty.
\<close>

theorem HbaseClusterList_DeepCopyObject_correct:
  assumes "copy_lib_ok L" and "rep_ptr List_cell (rep_HbaseClusterList L) h A p x"
  shows "\<exists>q new. HbaseClusterList_DeepCopyObject L p h = (Ok (map_option (\<lambda>a. ListPtr (Some a)) q), h @ new)
    \<and> rep_ptr List_cell (rep_HbaseClusterList L) (h @ new) (fresh h new) q x
    \<and> (q = None \<longleftrightarrow> p = None)
    \<and> {y. rep_ptr List_cell (rep_HbaseClusterList L) (h @ new) UNIV q y} = {x}"
proof -
  obtain q new where q: "HbaseClusterList_DeepCopy L p h = (Ok q, h @ new)"
    "rep_ptr List_cell (rep_HbaseClusterList L) (h @ new) (fresh h new) q x"
    "{y. rep_ptr List_cell (rep_HbaseClusterList L) (h @ new) UNIV q y} = {x}"
    using copy_library.list_determined [OF copy_library.intro [OF assms(1)] assms(2)] by blast
  with rep_ptr_nil [OF assms(2)] rep_ptr_nil [OF q(2)] show ?thesis
    using DeepCopyObject_apply(2) [OF q(1)] by blast
qed

text \<open>
  C6. The copy and the original do not see each other's later changes. Whatever is stored
  through the copy, in cells it has allocated, the original still stands for its value; and
  whatever is stored in memory that was there before, the original included, the copy still
  stands for it.
\<close>

theorem HbaseCluster_DeepCopy_isolated:
  assumes "copy_lib_ok L" and "rep_ptr Cluster_cell (rep_HbaseCluster L) h A p x"
    and "A \<subseteq> {..<length h}"
  shows "\<exists>q new. HbaseCluster_DeepCopy L p h = (Ok q, h @ new)
    \<and> {ws. fst ` set ws \<subseteq> fresh h new}
        \<subseteq> {ws. rep_ptr Cluster_cell (rep_HbaseCluster L) (write_cells ws (h @ new)) A p x}
    \<and> {ws. fst ` set ws \<subseteq> {..<length h}}
        \<subseteq> {ws. rep_ptr Cluster_cell (rep_HbaseCluster L) (write_cells ws (h @ new)) (fresh h new) q x}"
  by (rule copy_library.cluster_isolated [OF copy_library.intro]) (fact assms)+

text \<open>
  C7. Type safety. In a well-typed memory, where every pointer is nil or leads to a cell of
  its type, DeepCopyObject of a cluster or a list does not panic, whatever the memory holds;
  it returns an object whose pointer leads to a cell of its own type again, and leaves the
  memory well typed.
\<close>

theorem DeepCopyObject_type_safe:
  assumes "copy_lib_ok L" and "heap_typed L h"
    and "points_to Cluster_cell h p" and "points_to List_cell h s"
  shows "(\<exists>q new. HbaseCluster_DeepCopyObject L p h = (Ok (map_option (\<lambda>a. ClusterPtr (Some a)) q), h @ new)
      \<and> points_to Cluster_cell (h @ new) q \<and> heap_typed L (h @ new))
    \<and> (\<exists>q new. HbaseClusterList_DeepCopyObject L s h = (Ok (map_option (\<lambda>a. ListPtr (Some a)) q), h @ new)
      \<and> points_to List_cell (h @ new) q \<and> heap_typed L (h @ new))"
proof
  have lib: "copy_library L" using assms(1) by (rule copy_library.intro)
  obtain x where x: "rep_ptr Cluster_cell (rep_HbaseCluster L) h UNIV p x"
    using cluster_value [OF assms(2,3)] by blast
  show "\<exists>q new. HbaseCluster_DeepCopyObject L p h = (Ok (map_option (\<lambda>a. ClusterPtr (Some a)) q), h @ new)
      \<and> points_to Cluster_cell (h @ new) q \<and> heap_typed L (h @ new)"
    using copy_library.cluster_typed [OF lib assms(2) [unfolded heap_typed_def] x]
    unfolding heap_typed_def by (metis DeepCopyObject_apply(1) rep_ptr_points_to)
  obtain y where y: "rep_ptr List_cell (rep_HbaseClusterList L) h UNIV s y"
    using list_value [OF assms(2,4)] by blast
  show "\<exists>q new. HbaseClusterList_DeepCopyObject L s h = (Ok (map_option (\<lambda>a. ListPtr (Some a)) q), h @ new)
      \<and> points_to List_cell (h @ new) q \<and> heap_typed L (h @ new)"
    using copy_library.list_typed [OF lib assms(2) [unfolded heap_typed_def] y]
    unfolding heap_typed_def by (metis DeepCopyObject_apply(2) rep_ptr_points_to)
qed

section \<open>A concrete memory\<close>

text \<open>
  A library whose structs have no pointers, and a memory with a list of one cluster: its
  OIDC scopes, a master role group with replicas, the rest nil.
\<close>

definition flat_lib :: "unit copy_lib" where
  "flat_lib = \<lparr>
     OverridesSpec_DeepCopyInto = ret_eff, RoleConfigSpec_DeepCopyInto = ret_eff,
     RoleGroupConfigSpec_DeepCopyInto = ret_eff, ObjectMeta_DeepCopyInto = ret_eff,
     ListMeta_DeepCopyInto = ret_eff, Condition_DeepCopyInto = ret_eff,
     Visit = (\<lambda>h kvs. rev kvs),
     rep_OverridesSpec = (\<lambda>h A r v. v = undefined), rep_RoleConfigSpec = (\<lambda>h A r v. v = undefined),
     rep_RoleGroupConfigSpec = (\<lambda>h A r v. v = undefined), rep_ObjectMeta = (\<lambda>h A r v. v = undefined),
     rep_ListMeta = (\<lambda>h A r v. v = undefined), rep_Condition = (\<lambda>h A r v. v = undefined),
     library_typed = (\<lambda>h A l. True)\<rparr>"

lemma flat_lib_sel [simp]:
  "OverridesSpec_DeepCopyInto flat_lib = ret_eff" "RoleConfigSpec_DeepCopyInto flat_lib = ret_eff"
  "RoleGroupConfigSpec_DeepCopyInto flat_lib = ret_eff" "ObjectMeta_DeepCopyInto flat_lib = ret_eff"
  "ListMeta_DeepCopyInto flat_lib = ret_eff" "Condition_DeepCopyInto flat_lib = ret_eff"
  "Visit flat_lib h kvs = rev kvs" "library_typed flat_lib h A l"
  "rep_OverridesSpec flat_lib = (\<lambda>h A r v. v = undefined)" "rep_RoleConfigSpec flat_lib = (\<lambda>h A r v. v = undefined)"
  "rep_RoleGroupConfigSpec flat_lib = (\<lambda>h A r v. v = undefined)"
  "rep_ObjectMeta flat_lib = (\<lambda>h A r v. v = undefined)" "rep_ListMeta flat_lib = (\<lambda>h A r v. v = undefined)"
  "rep_Condition flat_lib = (\<lambda>h A r v. v = undefined)"
  by (simp_all add: flat_lib_def)

lemma flat_library:
  "representation (\<lambda>h A (r :: unit) v. v = undefined)"
  "makes_copies (cell_typed flat_lib) (\<lambda>h A (r :: unit) v. v = undefined) ret_eff"
  by (unfold_locales, simp_all) (auto simp: makes_copies_def copied_def intro!: exI [of _ "[]"])

lemma copy_lib_ok_flat: "copy_lib_ok flat_lib"
  by (simp add: copy_lib_ok_def visits_all_def flat_library)

interpretation flat: copy_library flat_lib
  by unfold_locales (rule copy_lib_ok_flat)

definition sample_oidc :: OidcSpec where
  "sample_oidc = \<lparr>ClientCredentialsSecret = ''oidc'', ExtraScopes = Some [''groups'']\<rparr>"

definition sample_auth :: AuthenticationSpec where
  "sample_auth = \<lparr>AuthenticationClassName = ''keycloak'', Oidc = Some sample_oidc, KerberosSecretClass = '''',
     TlsSecretClass = ''tls''\<rparr>"

definition copy_spec :: HbaseClusterSpec where
  "copy_spec = \<lparr>hs_Image = None,
     hs_ClusterConfigSpec = Some \<lparr>ZookeeperConfigMapName = ''znode'', HdfsConfigMapName = ''hdfs'',
       ListenerClass = '''', Authentication = Some sample_auth, VectorAggregatorConfigMapName = ''''\<rparr>,
     hs_ClusterOperationSpec = None,
     hs_MasterSpec = Some \<lparr>ms_Config = None,
       ms_RoleGroups = [''default'' \<mapsto> \<lparr>mg_Replicas = Some 1, mg_Config = None, mg_OverridesSpec = None\<rparr>],
       ms_RoleConfig = None, ms_OverridesSpec = None\<rparr>,
     hs_RegionServerSpec = None, hs_RestServerSpec = None\<rparr>"

definition copy_cluster :: HbaseCluster where
  "copy_cluster = \<lparr>hc_TypeMeta = \<lparr>tm_Kind = ''HbaseCluster'', tm_APIVersion = ''hbase.kubedoop.dev/v1alpha1''\<rparr>,
     hc_ObjectMeta = undefined, hc_Spec = copy_spec, hc_Status = \<lparr>st_Conditions = Some []\<rparr>\<rparr>"

definition copy_cluster_mem :: "unit cluster_mem" where
  "copy_cluster_mem = \<lparr>
     hm_TypeMeta = \<lparr>tm_Kind = ''HbaseCluster'', tm_APIVersion = ''hbase.kubedoop.dev/v1alpha1''\<rparr>,
     hm_ObjectMeta = (),
     hm_Spec = \<lparr>sm_Image = None, sm_ClusterConfigSpec = Some 3, sm_ClusterOperationSpec = None,
       sm_MasterSpec = Some 6, sm_RegionServerSpec = None, sm_RestServerSpec = None\<rparr>,
     hm_Status = \<lparr>tm_Conditions = Some 7\<rparr>\<rparr>"

definition copy_list_mem :: "unit list_mem" where
  "copy_list_mem = \<lparr>lm_TypeMeta = \<lparr>tm_Kind = ''HbaseClusterList'', tm_APIVersion = ''v1''\<rparr>,
     lm_ListMeta = (), lm_Items = Some 9\<rparr>"

definition copy_objects :: "unit obj list" where
  "copy_objects = [
     StringsObj [''groups''],
     OidcObj \<lparr>xm_ClientCredentialsSecret = ''oidc'', xm_ExtraScopes = Some 0\<rparr>,
     AuthenticationObj \<lparr>am_AuthenticationClass = ''keycloak'', am_Oidc = Some 1, am_KerberosSecretClass = '''',
       am_TlsSecretClass = ''tls''\<rparr>,
     ClusterConfigObj \<lparr>cm_ZookeeperConfigMapName = ''znode'', cm_HdfsConfigMapName = ''hdfs'',
       cm_ListenerClass = '''', cm_Authentication = Some 2, cm_VectorAggregatorConfigMapName = ''''\<rparr>,
     Int32Obj 1,
     RoleGroupsObj MasterKind [(''default'', \<lparr>gm_Replicas = Some 4, gm_Config = None, gm_OverridesSpec = None\<rparr>)],
     RoleObj MasterKind \<lparr>rm_Config = None, rm_RoleGroups = Some 5, rm_RoleConfig = None, rm_OverridesSpec = None\<rparr>,
     ConditionsObj [],
     ClusterObj copy_cluster_mem,
     ItemsObj [copy_cluster_mem],
     ListObj copy_list_mem]"

definition copy_heap :: "unit heap" where
  "copy_heap = map Some copy_objects"

lemma copy_heap_length: "length copy_heap = 11"
  by (simp add: copy_heap_def copy_objects_def)

lemma copy_heap_cells [simp]:
  "read_cell Strings_cell copy_heap 0 = Some [''groups'']"
  "read_cell Oidc_cell copy_heap (Suc 0) = Some \<lparr>xm_ClientCredentialsSecret = ''oidc'', xm_ExtraScopes = Some 0\<rparr>"
  "read_cell Authentication_cell copy_heap 2 = Some \<lparr>am_AuthenticationClass = ''keycloak'', am_Oidc = Some 1,
     am_KerberosSecretClass = '''', am_TlsSecretClass = ''tls''\<rparr>"
  "read_cell ClusterConfig_cell copy_heap 3 = Some \<lparr>cm_ZookeeperConfigMapName = ''znode'',
     cm_HdfsConfigMapName = ''hdfs'', cm_ListenerClass = '''', cm_Authentication = Some 2,
     cm_VectorAggregatorConfigMapName = ''''\<rparr>"
  "read_cell Int32_cell copy_heap 4 = Some 1"
  "read_cell (RoleGroups_cell MasterKind) copy_heap 5 =
     Some [(''default'', \<lparr>gm_Replicas = Some 4, gm_Config = None, gm_OverridesSpec = None\<rparr>)]"
  "read_cell (Role_cell MasterKind) copy_heap 6 =
     Some \<lparr>rm_Config = None, rm_RoleGroups = Some 5, rm_RoleConfig = None, rm_OverridesSpec = None\<rparr>"
  "read_cell Conditions_cell copy_heap 7 = Some []"
  "read_cell Cluster_cell copy_heap 8 = Some copy_cluster_mem"
  "read_cell Items_cell copy_heap 9 = Some [copy_cluster_mem]"
  "read_cell List_cell copy_heap 10 = Some copy_list_mem"
  unfolding cell_defs by (simp_all add: read_cell_def cell_def copy_heap_def copy_objects_def)

text \<open>What the memory stands for, cell by cell from the bottom.\<close>

lemma rep_sample_oidc: "{0, 1} \<subseteq> A \<Longrightarrow> rep_OidcSpec copy_heap A
    \<lparr>xm_ClientCredentialsSecret = ''oidc'', xm_ExtraScopes = Some 0\<rparr> sample_oidc"
  by (simp add: rep_OidcSpec_def rep_flat_def sample_oidc_def)

lemma rep_sample_auth:
  assumes A: "{..<11} \<subseteq> A"
  shows "rep_AuthenticationSpec copy_heap A
    \<lparr>am_AuthenticationClass = ''keycloak'', am_Oidc = Some 1, am_KerberosSecretClass = '''', am_TlsSecretClass = ''tls''\<rparr>
    sample_auth"
proof -
  have "0 \<in> A" "Suc 0 \<in> A" using A by auto
  with rep_sample_oidc [of A] show ?thesis
    by (simp add: rep_AuthenticationSpec_def rep_flat_def sample_auth_def)
qed

lemma rep_sample_group:
  "4 \<in> A \<Longrightarrow> rep_group flat_lib master_view MasterKind copy_heap A
     \<lparr>gm_Replicas = Some 4, gm_Config = None, gm_OverridesSpec = None\<rparr>
     \<lparr>mg_Replicas = Some 1, mg_Config = None, mg_OverridesSpec = None\<rparr>"
  by (simp add: rep_group_def master_view_def rep_flat_def)

lemma rep_sample_config:
  assumes A: "{..<11} \<subseteq> A"
  shows "rep_ClusterConfigSpec copy_heap A
      \<lparr>cm_ZookeeperConfigMapName = ''znode'', cm_HdfsConfigMapName = ''hdfs'', cm_ListenerClass = '''',
       cm_Authentication = Some 2, cm_VectorAggregatorConfigMapName = ''''\<rparr> (the (hs_ClusterConfigSpec copy_spec))"
proof -
  have "2 \<in> A" using A by auto
  with rep_sample_auth [OF A] show ?thesis
    by (simp add: rep_ClusterConfigSpec_def rep_flat_def copy_spec_def)
qed

lemma rep_sample_groups:
  "4 \<in> A \<Longrightarrow> rep_entries (rep_group flat_lib master_view MasterKind) copy_heap A
     [(''default'', \<lparr>gm_Replicas = Some 4, gm_Config = None, gm_OverridesSpec = None\<rparr>)]
     [''default'' \<mapsto> \<lparr>mg_Replicas = Some 1, mg_Config = None, mg_OverridesSpec = None\<rparr>]"
  using rep_sample_group [of A] by (simp add: rep_entries_def)

lemma rep_sample_role:
  assumes A: "{..<11} \<subseteq> A"
  shows "rep_role flat_lib master_view MasterKind copy_heap A
      \<lparr>rm_Config = None, rm_RoleGroups = Some 5, rm_RoleConfig = None, rm_OverridesSpec = None\<rparr>
      (the (hs_MasterSpec copy_spec))"
proof -
  have "4 \<in> A" "5 \<in> A" using A by auto
  with rep_sample_groups [of A] show ?thesis
    by (simp add: rep_role_def master_view_def copy_spec_def)
qed

lemma rep_sample_spec:
  assumes A: "{..<11} \<subseteq> A"
  shows "rep_HbaseClusterSpec flat_lib copy_heap A (hm_Spec copy_cluster_mem) copy_spec"
proof -
  have "3 \<in> A" "6 \<in> A" using A by auto
  with rep_sample_config [OF A] rep_sample_role [OF A] show ?thesis
    by (simp add: rep_HbaseClusterSpec_def copy_cluster_mem_def copy_spec_def)
qed

lemma rep_sample_cluster:
  assumes A: "{..<11} \<subseteq> A"
  shows "rep_HbaseCluster flat_lib copy_heap A copy_cluster_mem copy_cluster"
proof -
  have "7 \<in> A" using A by auto
  then have "rep_HbaseClusterStatus flat_lib copy_heap A (hm_Status copy_cluster_mem) (hc_Status copy_cluster)"
    by (simp add: rep_HbaseClusterStatus_def copy_cluster_mem_def copy_cluster_def rep_elems_def)
  with rep_sample_spec [OF A] show ?thesis
    by (simp add: rep_HbaseCluster_def rep_flat_def copy_cluster_def copy_cluster_mem_def)
qed

definition copy_list :: HbaseClusterList where
  "copy_list = \<lparr>hl_TypeMeta = \<lparr>tm_Kind = ''HbaseClusterList'', tm_APIVersion = ''v1''\<rparr>,
     hl_ListMeta = undefined, hl_Items = Some [copy_cluster]\<rparr>"

lemma rep_sample_pointers:
  "rep_ptr Cluster_cell (rep_HbaseCluster flat_lib) copy_heap {..<11} (Some 8) (Some copy_cluster)"
  "rep_ptr List_cell (rep_HbaseClusterList flat_lib) copy_heap {..<11} (Some 10) (Some copy_list)"
  using rep_sample_cluster [of "{..<11}"]
  by (simp_all add: rep_HbaseClusterList_def rep_flat_def copy_list_def copy_list_mem_def rep_elems_def)

lemma heap_typed_sample: "heap_typed flat_lib copy_heap"
proof -
  have A: "{..<11} \<subseteq> (UNIV :: addr set)" "{0, 1} \<subseteq> (UNIV :: addr set)" "(4 :: addr) \<in> UNIV" by auto
  have list: "rep_HbaseClusterList flat_lib copy_heap UNIV copy_list_mem copy_list"
    using rep_sample_cluster [OF A(1)]
    by (simp add: rep_HbaseClusterList_def rep_flat_def copy_list_def copy_list_mem_def rep_elems_def)
  have items: "\<exists>v. rep_elems (rep_HbaseCluster flat_lib) copy_heap UNIV [copy_cluster_mem] v"
    using rep_sample_cluster [OF A(1)] by (intro exI [of _ "[copy_cluster]"]) (simp add: rep_elems_def)
  have conds: "\<exists>v. rep_elems (rep_Condition flat_lib) copy_heap UNIV [] v"
    by (intro exI [of _ "[]"]) (simp add: rep_elems_def)
  have "\<forall>ob \<in> set copy_objects. cell_typed flat_lib copy_heap UNIV ob"
    unfolding copy_objects_def
    by (simp add: cell_typed_def items conds [simplified], intro conjI)
      (blast intro: rep_sample_oidc [OF A(2), unfolded One_nat_def] rep_sample_auth [OF A(1), unfolded One_nat_def]
        rep_sample_config [OF A(1)] rep_sample_groups [OF A(3)] rep_sample_role [OF A(1)]
        rep_sample_cluster [OF A(1)] list)+
  then show ?thesis by (auto simp: heap_typed_def typed_cells_def copy_heap_def)
qed

section \<open>Witnesses\<close>

theorem HbaseCluster_DeepCopyObject_correct_witness:
  "\<exists>q new. HbaseCluster_DeepCopyObject flat_lib (Some 8) copy_heap
      = (Ok (map_option (\<lambda>a. ClusterPtr (Some a)) q), copy_heap @ new)
    \<and> rep_ptr Cluster_cell (rep_HbaseCluster flat_lib) (copy_heap @ new) (fresh copy_heap new) q (Some copy_cluster)
    \<and> q \<noteq> None"
  using HbaseCluster_DeepCopyObject_correct [OF copy_lib_ok_flat rep_sample_pointers(1)] by blast

theorem every_DeepCopy_copies_witness:
  "copied (cell_typed flat_lib) (rep_ptr Authentication_cell rep_AuthenticationSpec) copy_heap (Some sample_auth)
     (AuthenticationSpec_DeepCopy (Some 2) copy_heap)"
proof -
  have "rep_ptr Authentication_cell rep_AuthenticationSpec copy_heap UNIV (Some 2) (Some sample_auth)"
    using rep_sample_auth [of UNIV] by simp
  moreover have "makes_copies (cell_typed flat_lib) (rep_ptr Authentication_cell rep_AuthenticationSpec)
      (AuthenticationSpec_DeepCopy :: addr option \<Rightarrow> (unit heap, addr option) eff)"
    using every_DeepCopy_copies [OF copy_lib_ok_flat] by (elim conjE)
  ultimately show ?thesis unfolding makes_copies_def by blast
qed

theorem HbaseClusterList_DeepCopyObject_correct_witness:
  "\<exists>q new. HbaseClusterList_DeepCopyObject flat_lib (Some 10) copy_heap
      = (Ok (map_option (\<lambda>a. ListPtr (Some a)) q), copy_heap @ new)
    \<and> rep_ptr List_cell (rep_HbaseClusterList flat_lib) (copy_heap @ new) (fresh copy_heap new) q (Some copy_list)
    \<and> q \<noteq> None"
  using HbaseClusterList_DeepCopyObject_correct [OF copy_lib_ok_flat rep_sample_pointers(2)] by blast

text \<open>Overwriting the original's scopes, its first cell, leaves the copy as it was.\<close>

theorem HbaseCluster_DeepCopy_isolated_witness:
  "\<exists>q new. HbaseCluster_DeepCopy flat_lib (Some 8) copy_heap = (Ok q, copy_heap @ new)
    \<and> rep_ptr Cluster_cell (rep_HbaseCluster flat_lib)
        (write_cells [(0, StringsObj [''email''])] (copy_heap @ new)) (fresh copy_heap new) q (Some copy_cluster)"
proof -
  have "{..<11} \<subseteq> {..<length copy_heap}" by (simp add: copy_heap_length)
  from HbaseCluster_DeepCopy_isolated [OF copy_lib_ok_flat rep_sample_pointers(1) this]
  obtain q new where q: "HbaseCluster_DeepCopy flat_lib (Some 8) copy_heap = (Ok q, copy_heap @ new)"
    "{ws. fst ` set ws \<subseteq> {..<length copy_heap}}
      \<subseteq> {ws. rep_ptr Cluster_cell (rep_HbaseCluster flat_lib) (write_cells ws (copy_heap @ new))
            (fresh copy_heap new) q (Some copy_cluster)}"
    by blast
  have "[(0, StringsObj [''email''])] \<in> {ws. fst ` set ws \<subseteq> {..<length copy_heap}}"
    by (simp add: copy_heap_length)
  from subsetD [OF q(2) this] q(1) show ?thesis by blast
qed

theorem DeepCopyObject_type_safe_witness:
  "(\<exists>q new. HbaseCluster_DeepCopyObject flat_lib (Some 8) copy_heap
        = (Ok (map_option (\<lambda>a. ClusterPtr (Some a)) q), copy_heap @ new)
      \<and> heap_typed flat_lib (copy_heap @ new))
   \<and> (\<exists>q new. HbaseClusterList_DeepCopyObject flat_lib None copy_heap
        = (Ok (map_option (\<lambda>a. ListPtr (Some a)) q), copy_heap @ new)
      \<and> heap_typed flat_lib (copy_heap @ new))"
proof -
  have "points_to Cluster_cell copy_heap (Some 8)" "points_to List_cell copy_heap None"
    by (simp_all add: points_to_def)
  from DeepCopyObject_type_safe [OF copy_lib_ok_flat heap_typed_sample this] show ?thesis by blast
qed

end
