(* ===== verification/Scheme.thy ===== *)
theory Scheme
  imports Api_Types
begin

text \<open>
  The API group: api/v1alpha1/groupversion_info.go, the init function and the webhook methods
  of api/v1alpha1/hbasecluster_types.go, and the init function of cmd/main.go, which fills the
  scheme of the process. The scheme and the registration of other packages are the library's.
\<close>

section \<open>The API group\<close>

record group_version =
  gv_Group :: string
  gv_Version :: string

definition GroupVersion :: group_version where
  "GroupVersion = \<lparr>gv_Group = ''hbase.kubedoop.dev'', gv_Version = ''v1alpha1''\<rparr>"

text \<open>The Go types of the package that are API objects; their kind is the type's name.\<close>

datatype api_type = HbaseClusterType | HbaseClusterListType

fun type_name :: "api_type \<Rightarrow> string" where
  "type_name HbaseClusterType = ''HbaseCluster''"
| "type_name HbaseClusterListType = ''HbaseClusterList''"

text \<open>The builder of controller-runtime: a group version and the objects registered for it.\<close>

record scheme_builder =
  reg_GroupVersion :: group_version
  reg_Objects :: "api_type list"

definition Register :: "api_type list \<Rightarrow> scheme_builder \<Rightarrow> scheme_builder" where
  "Register objs b = b\<lparr>reg_Objects := reg_Objects b @ objs\<rparr>"

definition new_SchemeBuilder :: scheme_builder where
  "new_SchemeBuilder = \<lparr>reg_GroupVersion = GroupVersion, reg_Objects = []\<rparr>"

text \<open>
  The init function of the package registers the resource and its list. AddToScheme is a
  method of the pointer SchemeBuilder, so it sees what is registered after it was defined.
\<close>

definition SchemeBuilder :: scheme_builder where
  "SchemeBuilder = Register [HbaseClusterType, HbaseClusterListType] new_SchemeBuilder"

definition kind_of :: "scheme_builder \<Rightarrow> api_type \<Rightarrow> GroupVersionKind" where
  "kind_of b t = \<lparr>Group = gv_Group (reg_GroupVersion b), Version = gv_Version (reg_GroupVersion b),
     Kind = type_name t\<rparr>"

section \<open>The scheme of the process\<close>

text \<open>
  The library: an empty scheme, the AddToScheme functions of client-go and of the
  authentication API, that of a builder, and which kinds a scheme knows.
\<close>

record 'sch scheme_lib =
  NewScheme :: 'sch
  ClientGo_AddToScheme :: "'sch \<Rightarrow> 'sch res"
  Authentication_AddToScheme :: "'sch \<Rightarrow> 'sch res"
  Builder_AddToScheme :: "scheme_builder \<Rightarrow> 'sch \<Rightarrow> 'sch res"
  Known :: "'sch \<Rightarrow> GroupVersionKind \<Rightarrow> bool"

definition AddToScheme :: "'sch scheme_lib \<Rightarrow> 'sch \<Rightarrow> 'sch res" where
  "AddToScheme lib s = Builder_AddToScheme lib SchemeBuilder s"

text \<open>utilruntime.Must: an error becomes a panic.\<close>

fun error_text :: "go_error \<Rightarrow> string" where
  "error_text (ErrorString s) = s"
| "error_text (ExtError t s) = s"

fun Must :: "'a res \<Rightarrow> 'a res" where
  "Must (Ok x) = Ok x"
| "Must (Err e) = Panic (PanicValue (error_text e))"
| "Must (Panic p) = Panic p"

definition main_init :: "'sch scheme_lib \<Rightarrow> 'sch res" where
  "main_init lib =
     bind_res (Must (ClientGo_AddToScheme lib (NewScheme lib))) (\<lambda>scheme.
     bind_res (Must (Authentication_AddToScheme lib scheme)) (\<lambda>scheme.
     Must (AddToScheme lib scheme)))"

text \<open>The documented effect of a builder: its objects become known, and what was known stays.\<close>

definition scheme_lib_ok :: "'sch scheme_lib \<Rightarrow> bool" where
  "scheme_lib_ok lib \<longleftrightarrow> (\<forall>b s s'. Builder_AddToScheme lib b s = Ok s' \<longrightarrow>
     {g. Known lib s g} \<union> kind_of b ` set (reg_Objects b) \<subseteq> {g. Known lib s' g})"

lemma Must_Ok_iff: "Must m = Ok x \<longleftrightarrow> m = Ok x"
  by (cases m) auto

lemma Must_no_error [simp]: "Must m \<noteq> Err e"
  by (cases m) auto

lemma main_init_known:
  assumes "scheme_lib_ok lib" and "main_init lib = Ok s"
  shows "Known lib s (kind_of SchemeBuilder t)"
proof -
  obtain s' where "Builder_AddToScheme lib SchemeBuilder s' = Ok s"
    using assms(2) by (auto simp: main_init_def AddToScheme_def bind_res_Ok_iff Must_Ok_iff)
  moreover have "t \<in> set (reg_Objects SchemeBuilder)"
    by (cases t) (simp_all add: SchemeBuilder_def Register_def)
  ultimately show ?thesis using assms(1) unfolding scheme_lib_ok_def by blast
qed

section \<open>Webhook methods\<close>

text \<open>The methods of a validating and a defaulting webhook; they are not implemented.\<close>

definition ValidateCreate :: "HbaseCluster \<Rightarrow> 'o \<Rightarrow> string list res" where
  "ValidateCreate r ob = Panic (PanicValue ''unimplemented'')"

definition ValidateDelete :: "HbaseCluster \<Rightarrow> 'o \<Rightarrow> string list res" where
  "ValidateDelete r ob = Panic (PanicValue ''unimplemented'')"

definition ValidateUpdate :: "HbaseCluster \<Rightarrow> 'o \<Rightarrow> 'o \<Rightarrow> string list res" where
  "ValidateUpdate r oldObj newObj = Panic (PanicValue ''unimplemented'')"

definition Default :: "HbaseCluster \<Rightarrow> 'o \<Rightarrow> unit res" where
  "Default r ob = Panic (PanicValue ''unimplemented'')"

end
