(* ===== verification/Go_Flag.thy ===== *)
theory Go_Flag
  imports Go_Strings
begin

text \<open>
  Go's package flag, as far as a command line with string and boolean flags needs it: the
  values a boolean takes, one turn of the parser, and the loop. The variables that the flags
  set are the state, of type \<open>'s\<close>.
\<close>

section \<open>Flags\<close>

text \<open>
  A flag's setter takes the text of its value; none is an error. A boolean flag needs no
  value.
\<close>

record 's flag =
  IsBoolFlag :: bool
  Set :: "string \<Rightarrow> 's \<Rightarrow> 's option"

type_synonym 's flag_set = "(string \<times> 's flag) list"

definition ParseBool :: "string \<Rightarrow> bool option" where
  "ParseBool str =
     (if str \<in> {''1'', ''t'', ''T'', ''true'', ''TRUE'', ''True''} then Some True
      else if str \<in> {''0'', ''f'', ''F'', ''false'', ''FALSE'', ''False''} then Some False
      else None)"

definition StringVar :: "(string \<Rightarrow> 's \<Rightarrow> 's) \<Rightarrow> 's flag" where
  "StringVar upd = \<lparr>IsBoolFlag = False, Set = (\<lambda>v s. Some (upd v s))\<rparr>"

definition BoolVar :: "(bool \<Rightarrow> 's \<Rightarrow> 's) \<Rightarrow> 's flag" where
  "BoolVar upd = \<lparr>IsBoolFlag = True, Set = (\<lambda>v s. map_option (\<lambda>b. upd b s) (ParseBool v))\<rparr>"

section \<open>Parsing\<close>

text \<open>Why parsing stops: help was asked for, or the command line is wrong.\<close>

datatype flag_error = ErrHelp | BadFlag string

text \<open>The name of a flag, and its value when an equals sign, not in front, gives one.\<close>

definition cut_value :: "string \<Rightarrow> string \<times> string option" where
  "cut_value name =
     (let n = hd name # takeWhile (\<lambda>c. c \<noteq> CHR ''='') (tl name);
          r = dropWhile (\<lambda>c. c \<noteq> CHR ''='') (tl name)
      in (n, if r = [] then None else Some (tl r)))"

text \<open>
  One turn: \<open>Done\<close> with the arguments that are left, or \<open>Seen\<close> with the changed
  variables.
\<close>

datatype 's turn =
    Done "string list"
  | Seen 's "string list"
  | Failed flag_error

definition set_flag :: "'s flag \<Rightarrow> string \<Rightarrow> string \<Rightarrow> 's \<Rightarrow> string list \<Rightarrow> 's turn" where
  "set_flag f name val s args = (case Set f val s of
       Some s' \<Rightarrow> Seen s' args
     | None \<Rightarrow> Failed (BadFlag name))"

definition parseOne :: "'s flag_set \<Rightarrow> string list \<Rightarrow> 's \<Rightarrow> 's turn" where
  "parseOne formal args s = (case args of
       [] \<Rightarrow> Done []
     | a # rest \<Rightarrow>
         if length a < 2 \<or> hd a \<noteq> CHR ''-'' then Done args
         else if a = ''--'' then Done rest
         else
           let name = (if a ! 1 = CHR ''-'' then drop 2 a else drop 1 a)
           in if name = [] \<or> hd name = CHR ''-'' \<or> hd name = CHR ''='' then Failed (BadFlag a)
              else case cut_value name of (n, val) \<Rightarrow>
                (case map_of formal n of
                   None \<Rightarrow> Failed (if n = ''help'' \<or> n = ''h'' then ErrHelp else BadFlag n)
                 | Some f \<Rightarrow>
                     if IsBoolFlag f then set_flag f n (case val of None \<Rightarrow> ''true'' | Some v \<Rightarrow> v) s rest
                     else (case val of
                         Some v \<Rightarrow> set_flag f n v s rest
                       | None \<Rightarrow>
                           (case rest of
                              [] \<Rightarrow> Failed (BadFlag n)
                            | v # rest' \<Rightarrow> set_flag f n v s rest'))))"

lemma set_flag_Seen: "set_flag f n v s args = Seen s' args' \<Longrightarrow> args' = args"
  by (simp add: set_flag_def split: option.splits)

lemma set_flag_not_Done [simp]: "set_flag f n v s args \<noteq> Done as"
  by (simp add: set_flag_def split: option.splits)

text \<open>Every turn that goes on has used up an argument, so the loop ends.\<close>

lemma parseOne_shorter: "parseOne formal args s = Seen s' args' \<Longrightarrow> length args' < length args"
  unfolding parseOne_def
  by (auto simp: Let_def dest!: set_flag_Seen split: list.splits if_splits option.splits prod.splits)

function Parse :: "'s flag_set \<Rightarrow> string list \<Rightarrow> 's \<Rightarrow> flag_error + 's \<times> string list" where
  "Parse formal args s = (case parseOne formal args s of
       Done rest \<Rightarrow> Inr (s, rest)
     | Failed e \<Rightarrow> Inl e
     | Seen s' rest \<Rightarrow> Parse formal rest s')"
  by pat_completeness auto

termination
  by (relation "measure (\<lambda>(formal, args, s). length args)") (auto dest: parseOne_shorter)

declare Parse.simps [simp del]

text \<open>With \<open>flag.ExitOnError\<close>, the setting of the command line, an error ends the process.\<close>

definition exit_code :: "flag_error \<Rightarrow> nat" where
  "exit_code e = (case e of ErrHelp \<Rightarrow> 0 | BadFlag n \<Rightarrow> 2)"

section \<open>Facts\<close>

text \<open>A well-formed name: not empty, no dash or equals sign in front, none inside.\<close>

definition plain_name :: "string \<Rightarrow> bool" where
  "plain_name n \<longleftrightarrow> n \<noteq> [] \<and> hd n \<noteq> CHR ''-'' \<and> CHR ''='' \<notin> set n"

lemma cut_value_assign: "plain_name n \<Longrightarrow> cut_value (n @ CHR ''='' # v) = (n, Some v)"
proof -
  assume n: "plain_name n"
  then obtain c cs where n': "n = c # cs" by (cases n) (auto simp: plain_name_def)
  have "CHR ''='' \<notin> set cs" using n by (simp add: n' plain_name_def)
  then have "takeWhile (\<lambda>d. d \<noteq> CHR ''='') (cs @ CHR ''='' # v) = cs"
    "dropWhile (\<lambda>d. d \<noteq> CHR ''='') (cs @ CHR ''='' # v) = CHR ''='' # v"
    by (induction cs) auto
  then show ?thesis by (simp add: n' cut_value_def Let_def)
qed

text \<open>The form \<open>--name=value\<close> of a flag that is defined.\<close>

definition assign :: "string \<Rightarrow> string \<Rightarrow> string" where
  "assign n v = ''--'' @ n @ ''='' @ v"

lemma parseOne_assign:
  assumes "plain_name n" and "map_of formal n = Some f"
  shows "parseOne formal (assign n v # rest) s = set_flag f n v s rest"
proof -
  have n: "n \<noteq> []" "hd n \<noteq> CHR ''-''" "hd n \<noteq> CHR ''=''"
    using assms(1) by (auto simp: plain_name_def dest: hd_in_set)
  then show ?thesis
    using cut_value_assign [OF assms(1), of v] assms(2)
    by (simp add: parseOne_def assign_def Let_def)
qed

text \<open>What a list of assignments does: one after the other, the first bad one failing.\<close>

fun assign_all :: "'s flag_set \<Rightarrow> (string \<times> string) list \<Rightarrow> 's \<Rightarrow> flag_error + 's" where
  "assign_all formal [] s = Inr s"
| "assign_all formal ((n, v) # nvs) s =
     (case map_of formal n of
        None \<Rightarrow> Inl (if n = ''help'' \<or> n = ''h'' then ErrHelp else BadFlag n)
      | Some f \<Rightarrow> (case Set f v s of
          None \<Rightarrow> Inl (BadFlag n)
        | Some s' \<Rightarrow> assign_all formal nvs s'))"

lemma parseOne_undefined:
  assumes "plain_name n" and "map_of formal n = None"
  shows "parseOne formal (assign n v # rest) s = Failed (if n = ''help'' \<or> n = ''h'' then ErrHelp else BadFlag n)"
proof -
  have n: "n \<noteq> []" "hd n \<noteq> CHR ''-''" "hd n \<noteq> CHR ''=''"
    using assms(1) by (auto simp: plain_name_def dest: hd_in_set)
  then show ?thesis
    using cut_value_assign [OF assms(1), of v] assms(2)
    by (simp add: parseOne_def assign_def Let_def)
qed

lemma Parse_assignments:
  "(\<And>n v. (n, v) \<in> set nvs \<Longrightarrow> plain_name n) \<Longrightarrow>
   Parse formal (map (\<lambda>(n, v). assign n v) nvs) s = map_sum id (\<lambda>t. (t, [])) (assign_all formal nvs s)"
proof (induction nvs arbitrary: s)
  case Nil
  then show ?case by (simp add: Parse.simps parseOne_def)
next
  case (Cons nv nvs)
  obtain n v where nv: "nv = (n, v)" by force
  then have n: "plain_name n" using Cons.prems [of n v] by simp
  have IH: "Parse formal (map (\<lambda>(n, v). assign n v) nvs) s = map_sum id (\<lambda>t. (t, [])) (assign_all formal nvs s)" for s
    by (rule Cons.IH) (auto intro: Cons.prems)
  show ?case
  proof (cases "map_of formal n")
    case None
    then show ?thesis using parseOne_undefined [OF n None] by (subst Parse.simps) (simp add: nv)
  next
    case (Some f)
    then show ?thesis
      using parseOne_assign [OF n Some]
      by (subst Parse.simps) (simp add: nv set_flag_def IH split: option.splits)
  qed
qed

end
