(* ===== verification/Start_Up.thy ===== *)
theory Start_Up
  imports Scheme App_Info Go_Flag
begin

text \<open>
  Start-up: cmd/main.go and SetupWithManager of hbasecluster_controller.go. The command line
  is parsed into the variables of main; from them the options of the webhook server, of the
  metrics server and of the manager are made; then the manager is created, set up and
  started, the process ending at the first failure. The calls main makes are recorded in
  order, and each call's answer is the environment's.
\<close>

section \<open>The command line\<close>

text \<open>The variables that flags set; the options of the logger are the library's.\<close>

record 'z main_vars =
  metricsAddr :: string
  metricsCertPath :: string
  metricsCertName :: string
  metricsCertKey :: string
  webhookCertPath :: string
  webhookCertName :: string
  webhookCertKey :: string
  enableLeaderElection :: bool
  probeAddr :: string
  secureMetrics :: bool
  enableHTTP2 :: bool
  showVersion :: bool
  zap_opts :: 'z

definition default_vars :: "'z \<Rightarrow> 'z main_vars" where
  "default_vars z = \<lparr>
     metricsAddr = ''0'',
     metricsCertPath = '''', metricsCertName = ''tls.crt'', metricsCertKey = ''tls.key'',
     webhookCertPath = '''', webhookCertName = ''tls.crt'', webhookCertKey = ''tls.key'',
     enableLeaderElection = False,
     probeAddr = '':8081'',
     secureMetrics = True,
     enableHTTP2 = False,
     showVersion = False,
     zap_opts = z\<rparr>"

definition main_flags :: "'z main_vars flag_set" where
  "main_flags = [
     (''metrics-bind-address'', StringVar (\<lambda>v. metricsAddr_update (\<lambda>_. v))),
     (''health-probe-bind-address'', StringVar (\<lambda>v. probeAddr_update (\<lambda>_. v))),
     (''leader-elect'', BoolVar (\<lambda>b. enableLeaderElection_update (\<lambda>_. b))),
     (''metrics-secure'', BoolVar (\<lambda>b. secureMetrics_update (\<lambda>_. b))),
     (''webhook-cert-path'', StringVar (\<lambda>v. webhookCertPath_update (\<lambda>_. v))),
     (''webhook-cert-name'', StringVar (\<lambda>v. webhookCertName_update (\<lambda>_. v))),
     (''webhook-cert-key'', StringVar (\<lambda>v. webhookCertKey_update (\<lambda>_. v))),
     (''metrics-cert-path'', StringVar (\<lambda>v. metricsCertPath_update (\<lambda>_. v))),
     (''metrics-cert-name'', StringVar (\<lambda>v. metricsCertName_update (\<lambda>_. v))),
     (''metrics-cert-key'', StringVar (\<lambda>v. metricsCertKey_update (\<lambda>_. v))),
     (''enable-http2'', BoolVar (\<lambda>b. enableHTTP2_update (\<lambda>_. b))),
     (''version'', BoolVar (\<lambda>b. showVersion_update (\<lambda>_. b)))]"

section \<open>Options of the servers\<close>

typedecl TlsRest

record tls_config =
  NextProtos :: "string list"
  tls_rest :: TlsRest

type_synonym tls_option = "tls_config \<Rightarrow> tls_config"

text \<open>
  An option is run by the server that is given it, on its own configuration. The line it logs
  then is left out.
\<close>

definition disableHTTP2 :: tls_option where
  "disableHTTP2 c = c\<lparr>NextProtos := [''http/1.1'']\<rparr>"

definition main_tlsOpts :: "'z main_vars \<Rightarrow> tls_option list" where
  "main_tlsOpts v = (if \<not> enableHTTP2 v then [] @ [disableHTTP2] else [])"

record WebhookOptions =
  wo_TLSOpts :: "tls_option list"
  wo_CertDir :: string
  wo_CertName :: string
  wo_KeyName :: string

definition webhookServerOptions :: "'z main_vars \<Rightarrow> WebhookOptions" where
  "webhookServerOptions v =
     (let webhookTLSOpts = main_tlsOpts v;
          opts = \<lparr>wo_TLSOpts = webhookTLSOpts, wo_CertDir = '''', wo_CertName = '''', wo_KeyName = ''''\<rparr>
      in if length (webhookCertPath v) > 0
         then opts\<lparr>wo_CertDir := webhookCertPath v, wo_CertName := webhookCertName v,
                   wo_KeyName := webhookCertKey v\<rparr>
         else opts)"

datatype filter_provider = WithAuthenticationAndAuthorization

record MetricsOptions =
  mo_BindAddress :: string
  mo_SecureServing :: bool
  mo_TLSOpts :: "tls_option list"
  mo_FilterProvider :: "filter_provider option"
  mo_CertDir :: string
  mo_CertName :: string
  mo_KeyName :: string

definition metricsServerOptions :: "'z main_vars \<Rightarrow> MetricsOptions" where
  "metricsServerOptions v =
     (let opts = \<lparr>mo_BindAddress = metricsAddr v, mo_SecureServing = secureMetrics v,
            mo_TLSOpts = main_tlsOpts v, mo_FilterProvider = None,
            mo_CertDir = '''', mo_CertName = '''', mo_KeyName = ''''\<rparr>;
          opts = (if secureMetrics v
            then opts\<lparr>mo_FilterProvider := Some WithAuthenticationAndAuthorization\<rparr> else opts)
      in if length (metricsCertPath v) > 0
         then opts\<lparr>mo_CertDir := metricsCertPath v, mo_CertName := metricsCertName v,
                   mo_KeyName := metricsCertKey v\<rparr>
         else opts)"

record 'sch ManagerOptions =
  mgo_Scheme :: 'sch
  mgo_Metrics :: MetricsOptions
  mgo_HealthProbeBindAddress :: string
  mgo_LeaderElection :: bool
  mgo_WebhookServer :: WebhookOptions
  mgo_LeaderElectionID :: string

section \<open>Calls and the end of the process\<close>

text \<open>The webhook server is given by its options, the manager by those it was created with.\<close>

datatype ('z, 'sch) main_call =
    Println string
  | SetLogger 'z
  | LogInfo string
  | LogError string
  | NewWebhookServer WebhookOptions
  | GetConfigOrDie
  | NewManager "'sch ManagerOptions"
  | ControllerFor api_type
  | AddHealthzCheck string
  | AddReadyzCheck string
  | SetupSignalHandler
  | StartManager

text \<open>
  A part of main: it goes on with a value or ends the process with a code, having made some
  calls. The environment answers a call by an error or none, looking at all calls so far.
\<close>

type_synonym ('z, 'sch, 'a) proc = "('z, 'sch) main_call list \<Rightarrow> (nat + 'a) \<times> ('z, 'sch) main_call list"
type_synonym ('z, 'sch) main_answers = "('z, 'sch) main_call list \<Rightarrow> go_error option"

definition bind_proc :: "('z, 'sch, 'a) proc \<Rightarrow> ('a \<Rightarrow> ('z, 'sch, 'b) proc) \<Rightarrow> ('z, 'sch, 'b) proc" where
  "bind_proc m f = (\<lambda>cs. case m cs of (Inl n, cs') \<Rightarrow> (Inl n, cs') | (Inr x, cs') \<Rightarrow> f x cs')"

definition os_Exit :: "nat \<Rightarrow> ('z, 'sch, 'a) proc" where
  "os_Exit n = (\<lambda>cs. (Inl n, cs))"

definition goes_on :: "('z, 'sch, unit) proc" where
  "goes_on = (\<lambda>cs. (Inr (), cs))"

definition do_call :: "('z, 'sch) main_call \<Rightarrow> ('z, 'sch, unit) proc" where
  "do_call c = (\<lambda>cs. (Inr (), cs @ [c]))"

definition ask_call :: "('z, 'sch) main_answers \<Rightarrow> ('z, 'sch) main_call \<Rightarrow> ('z, 'sch, go_error option) proc" where
  "ask_call env c = (\<lambda>cs. (Inr (env (cs @ [c])), cs @ [c]))"

text \<open>The pattern \<open>if err := ...; err != nil\<close> of main: log, and exit with code 1.\<close>

definition or_exit :: "string \<Rightarrow> ('z, 'sch, go_error option) proc \<Rightarrow> ('z, 'sch, unit) proc" where
  "or_exit msg m = bind_proc m (\<lambda>err.
     if err \<noteq> None then bind_proc (do_call (LogError msg)) (\<lambda>_. os_Exit 1) else goes_on)"

text \<open>SetupWithManager: a controller for HbaseCluster, completed with the reconciler.\<close>

definition SetupWithManager :: "('z, 'sch) main_answers \<Rightarrow> ('z, 'sch, go_error option) proc" where
  "SetupWithManager env = ask_call env (ControllerFor HbaseClusterType)"

section \<open>main\<close>

text \<open>
  What main is given: the flags other packages have registered and the logger's options, the
  build variables and the platform, and the scheme that init has filled.
\<close>

record ('z, 'sch) main_env =
  me_LibFlags :: "'z main_vars flag_set"
  me_Zap :: 'z
  me_Vars :: build_vars
  me_Runtime :: go_runtime
  me_Scheme :: 'sch
  me_Answers :: "('z, 'sch) main_answers"

definition managerOptions :: "('z, 'sch) main_env \<Rightarrow> 'z main_vars \<Rightarrow> 'sch ManagerOptions" where
  "managerOptions env v = \<lparr>
     mgo_Scheme = me_Scheme env,
     mgo_Metrics = metricsServerOptions v,
     mgo_HealthProbeBindAddress = probeAddr v,
     mgo_LeaderElection = enableLeaderElection v,
     mgo_WebhookServer = webhookServerOptions v,
     mgo_LeaderElectionID = ''8a493e83.kubedoop.dev''\<rparr>"

definition run_manager :: "('z, 'sch) main_env \<Rightarrow> 'z main_vars \<Rightarrow> ('z, 'sch, unit) proc" where
  "run_manager env v =
     bind_proc (do_call (SetLogger (zap_opts v))) (\<lambda>_.
     bind_proc (if length (webhookCertPath v) > 0
       then do_call (LogInfo ''Initializing webhook certificate watcher using provided certificates'')
       else goes_on) (\<lambda>_.
     bind_proc (do_call (NewWebhookServer (webhookServerOptions v))) (\<lambda>_.
     bind_proc (if length (metricsCertPath v) > 0
       then do_call (LogInfo ''Initializing metrics certificate watcher using provided certificates'')
       else goes_on) (\<lambda>_.
     bind_proc (bind_proc (ask_call (me_Answers env) GetConfigOrDie)
       (\<lambda>err. if err \<noteq> None then os_Exit 1 else goes_on)) (\<lambda>_.
     bind_proc (or_exit ''unable to start manager''
       (ask_call (me_Answers env) (NewManager (managerOptions env v)))) (\<lambda>_.
     bind_proc (or_exit ''unable to create controller'' (SetupWithManager (me_Answers env))) (\<lambda>_.
     bind_proc (or_exit ''unable to set up health check''
       (ask_call (me_Answers env) (AddHealthzCheck ''healthz''))) (\<lambda>_.
     bind_proc (or_exit ''unable to set up ready check''
       (ask_call (me_Answers env) (AddReadyzCheck ''readyz''))) (\<lambda>_.
     bind_proc (do_call (LogInfo ''starting manager'')) (\<lambda>_.
     bind_proc (do_call SetupSignalHandler) (\<lambda>_.
     or_exit ''problem running manager'' (ask_call (me_Answers env) StartManager))))))))))))"

definition main :: "('z, 'sch) main_env \<Rightarrow> string list \<Rightarrow> ('z, 'sch, unit) proc" where
  "main env args =
     (case Parse (main_flags @ me_LibFlags env) args (default_vars (me_Zap env)) of
        Inl e \<Rightarrow> os_Exit (exit_code e)
      | Inr (v, rest) \<Rightarrow>
          if showVersion v
          then bind_proc (do_call (Println (AppInfo_String (NewAppInfo (me_Vars env) (me_Runtime env)
                 ''zookeeper-operator'')))) (\<lambda>_. os_Exit 0)
          else run_manager env v)"

section \<open>Requests that may fail\<close>

fun is_request :: "('z, 'sch) main_call \<Rightarrow> bool" where
  "is_request GetConfigOrDie = True"
| "is_request (NewManager opts) = True"
| "is_request (ControllerFor t) = True"
| "is_request (AddHealthzCheck n) = True"
| "is_request (AddReadyzCheck n) = True"
| "is_request StartManager = True"
| "is_request c = False"

definition requests :: "('z, 'sch) main_env \<Rightarrow> 'z main_vars \<Rightarrow> ('z, 'sch) main_call list" where
  "requests env v = [GetConfigOrDie, NewManager (managerOptions env v), ControllerFor HbaseClusterType,
     AddHealthzCheck ''healthz'', AddReadyzCheck ''readyz'', StartManager]"

text \<open>
  Of the calls \<open>new\<close> made after \<open>cs\<close>: no request failed; or one did, and it was the
  last.
\<close>

definition no_failure :: "('z, 'sch) main_answers \<Rightarrow> ('z, 'sch) main_call list \<Rightarrow> ('z, 'sch) main_call list \<Rightarrow> bool" where
  "no_failure env cs new \<longleftrightarrow>
     (\<forall>ds c es. new = ds @ c # es \<and> is_request c \<longrightarrow> env (cs @ ds @ [c]) = None)"

definition last_failure :: "('z, 'sch) main_answers \<Rightarrow> ('z, 'sch) main_call list \<Rightarrow> ('z, 'sch) main_call list \<Rightarrow> bool" where
  "last_failure env cs new \<longleftrightarrow>
     (\<exists>ds c es. new = ds @ c # es \<and> is_request c \<and> env (cs @ ds @ [c]) \<noteq> None
        \<and> no_failure env cs ds \<and> filter is_request es = [])"

text \<open>
  A part of main that makes the requests \<open>rs\<close>: it makes them all, none failing, and goes
  on; or it stops after the one that fails, with code 1.
\<close>

definition guarded :: "('z, 'sch) main_answers \<Rightarrow> ('z, 'sch) main_call list \<Rightarrow> ('z, 'sch, unit) proc \<Rightarrow> bool" where
  "guarded env rs m \<longleftrightarrow> (\<forall>cs. \<exists>new.
     (m cs = (Inr (), cs @ new) \<and> filter is_request new = rs \<and> no_failure env cs new)
     \<or> (m cs = (Inl 1, cs @ new) \<and> (\<exists>k < length rs. filter is_request new = take (Suc k) rs)
        \<and> last_failure env cs new))"

lemma no_failure_Nil [simp]: "no_failure env cs []"
  by (simp add: no_failure_def)

lemma no_failure_append:
  assumes "no_failure env cs ds" and "no_failure env (cs @ ds) es"
  shows "no_failure env cs (ds @ es)"
  unfolding no_failure_def
proof (intro allI impI)
  fix xs c ys
  assume a: "ds @ es = xs @ c # ys \<and> is_request c"
  then obtain us where "ds = xs @ us \<and> us @ es = c # ys \<or> ds @ us = xs \<and> es = us @ c # ys"
    by (auto simp: append_eq_append_conv2)
  then consider us' where "ds = xs @ c # us'" | us where "xs = ds @ us" "es = us @ c # ys"
    by (cases us) auto
  then show "env (cs @ xs @ [c]) = None"
    using assms a unfolding no_failure_def by cases auto
qed

lemma guardedE:
  assumes "guarded env rs m"
  obtains new where "m cs = (Inr (), cs @ new)" "filter is_request new = rs" "no_failure env cs new"
  | new k where "m cs = (Inl 1, cs @ new)" "k < length rs" "filter is_request new = take (Suc k) rs"
      "last_failure env cs new"
  using assms unfolding guarded_def by metis

lemma last_failure_append:
  assumes "no_failure env cs ds" and "last_failure env (cs @ ds) es"
  shows "last_failure env cs (ds @ es)"
proof -
  obtain xs c ys where "es = xs @ c # ys" "is_request c" "env ((cs @ ds) @ xs @ [c]) \<noteq> None"
    "no_failure env (cs @ ds) xs" "filter is_request ys = []"
    using assms(2) unfolding last_failure_def by blast
  with no_failure_append [OF assms(1), of xs] show ?thesis
    unfolding last_failure_def
    by (intro exI [of _ "ds @ xs"] exI [of _ c] exI [of _ ys]) auto
qed

lemma guarded_bind:
  assumes m: "guarded env rs m" and f: "guarded env rs' f"
  shows "guarded env (rs @ rs') (bind_proc m (\<lambda>_. f))"
  unfolding guarded_def
proof
  fix cs
  from m show "\<exists>new. (bind_proc m (\<lambda>_. f) cs = (Inr (), cs @ new) \<and> filter is_request new = rs @ rs'
        \<and> no_failure env cs new)
      \<or> (bind_proc m (\<lambda>_. f) cs = (Inl 1, cs @ new)
        \<and> (\<exists>k < length (rs @ rs'). filter is_request new = take (Suc k) (rs @ rs')) \<and> last_failure env cs new)"
  proof (cases rule: guardedE [where cs = cs])
    case (1 new)
    from f show ?thesis
    proof (cases rule: guardedE [where cs = "cs @ new"])
      case (1 new')
      with \<open>m cs = _\<close> \<open>filter is_request new = rs\<close> \<open>no_failure env cs new\<close> show ?thesis
        by (intro exI [of _ "new @ new'"] disjI1) (simp add: bind_proc_def no_failure_append)
    next
      case (2 new' k)
      with \<open>m cs = _\<close> \<open>filter is_request new = rs\<close> \<open>no_failure env cs new\<close> show ?thesis
        by (intro exI [of _ "new @ new'"] disjI2)
          (auto simp: bind_proc_def last_failure_append intro!: exI [of _ "length rs + k"])
    qed
  next
    case (2 new k)
    then show ?thesis
      by (intro exI [of _ new] disjI2) (auto simp: bind_proc_def intro!: exI [of _ k])
  qed
qed

lemma guarded_call: "\<not> is_request c \<Longrightarrow> guarded env [] (do_call c)"
  by (auto simp: guarded_def do_call_def no_failure_def Cons_eq_append_conv intro!: exI [of _ "[c]"])

lemma guarded_goes_on: "guarded env [] goes_on"
  by (simp add: guarded_def goes_on_def)

lemma guarded_ask:
  assumes "is_request c" and "\<And>cs. fail cs = (Inl 1, cs @ log)" and "filter is_request log = []"
  shows "guarded env [c] (bind_proc (ask_call env c) (\<lambda>err. if err \<noteq> None then fail else goes_on))"
  unfolding guarded_def
proof
  fix cs
  show "\<exists>new. (bind_proc (ask_call env c) (\<lambda>err. if err \<noteq> None then fail else goes_on) cs = (Inr (), cs @ new)
        \<and> filter is_request new = [c] \<and> no_failure env cs new)
      \<or> (bind_proc (ask_call env c) (\<lambda>err. if err \<noteq> None then fail else goes_on) cs = (Inl 1, cs @ new)
        \<and> (\<exists>k < length [c]. filter is_request new = take (Suc k) [c]) \<and> last_failure env cs new)"
  proof (cases "env (cs @ [c])")
    case None
    then show ?thesis
      using assms(1)
      by (intro exI [of _ "[c]"] disjI1)
        (simp add: bind_proc_def ask_call_def goes_on_def no_failure_def Cons_eq_append_conv)
  next
    case (Some e)
    have "last_failure env cs (c # log)"
      using assms(1,3) Some unfolding last_failure_def by (intro exI [of _ "[]"] exI [of _ c] exI [of _ log]) simp
    with Some assms show ?thesis
      by (intro exI [of _ "c # log"] disjI2) (simp add: bind_proc_def ask_call_def)
  qed
qed

lemma guarded_or_exit: "is_request c \<Longrightarrow> guarded env [c] (or_exit msg (ask_call env c))"
  unfolding or_exit_def
  by (rule guarded_ask [where log = "[LogError msg]"]) (simp_all add: bind_proc_def do_call_def os_Exit_def)

lemma guarded_run_manager: "guarded (me_Answers env) (requests env v) (run_manager env v)"
proof -
  have cfg: "guarded (me_Answers env) [GetConfigOrDie]
      (bind_proc (ask_call (me_Answers env) GetConfigOrDie) (\<lambda>err. if err \<noteq> None then os_Exit 1 else goes_on))"
    by (rule guarded_ask [where log = "[]"]) (simp_all add: os_Exit_def)
  have opt: "guarded (me_Answers env) [] (if b then do_call (LogInfo msg) else goes_on)" for b msg
    using guarded_call [of "LogInfo msg"] guarded_goes_on by auto
  have "guarded (me_Answers env) ([] @ [] @ [] @ [] @ [GetConfigOrDie] @ [NewManager (managerOptions env v)]
      @ [ControllerFor HbaseClusterType] @ [AddHealthzCheck ''healthz''] @ [AddReadyzCheck ''readyz'']
      @ [] @ [] @ [StartManager]) (run_manager env v)"
    unfolding run_manager_def SetupWithManager_def
    by (intro guarded_bind guarded_or_exit guarded_call opt cfg; simp)
  then show ?thesis by (simp add: requests_def)
qed

lemma main_run:
  assumes "Parse (main_flags @ me_LibFlags env) args (default_vars (me_Zap env)) = Inr (v, rest)"
    and "\<not> showVersion v"
  shows "main env args = run_manager env v"
  using assms by (simp add: main_def)

lemma flag_names [simp]:
  "map_of main_flags ''version'' = Some (BoolVar (\<lambda>b. showVersion_update (\<lambda>_. b)))"
  "map_of main_flags ''enable-http2'' = Some (BoolVar (\<lambda>b. enableHTTP2_update (\<lambda>_. b)))"
  "map_of main_flags ''metrics-bind-address'' = Some (StringVar (\<lambda>v. metricsAddr_update (\<lambda>_. v)))"
  "map_of main_flags ''webhook-cert-path'' = Some (StringVar (\<lambda>v. webhookCertPath_update (\<lambda>_. v)))"
  by (simp_all add: main_flags_def)

lemma Parse_no_args: "Parse formal [] s = Inr (s, [])"
  by (simp add: Parse.simps parseOne_def)

section \<open>Properties\<close>

text \<open>
  C8. main stops at the first failure. Once the command line is accepted, the requests to the
  environment are made in this order: configuration, manager, controller, health check, ready
  check, start. Either all six are made, none fails and main returns; or some request fails,
  it is the last one that is made, and the process ends with code 1.
\<close>

theorem main_stops_at_first_failure:
  assumes "Parse (main_flags @ me_LibFlags env) args (default_vars (me_Zap env)) = Inr (v, rest)"
    and "\<not> showVersion v" and "main env args [] = (out, cs)"
  shows "(out = Inr () \<and> filter is_request cs = requests env v \<and> no_failure (me_Answers env) [] cs)
    \<or> (out = Inl 1 \<and> (\<exists>k < length (requests env v). filter is_request cs = take (Suc k) (requests env v))
        \<and> last_failure (me_Answers env) [] cs)"
proof -
  have run: "run_manager env v [] = (out, cs)" using assms by (simp add: main_run)
  show ?thesis
    by (rule guardedE [OF guarded_run_manager [of env v], of "[]"]) (use run in auto)
qed

text \<open>A concrete start: no library flags, and an environment that refuses a given request.\<close>

definition refuses :: "(unit, 'sch) main_call option \<Rightarrow> (unit, 'sch) main_answers" where
  "refuses bad cs = (if cs \<noteq> [] \<and> Some (last cs) = bad then Some (ErrorString ''refused'') else None)"

definition sample_main_env :: "'sch \<Rightarrow> (unit, 'sch) main_call option \<Rightarrow> (unit, 'sch) main_env" where
  "sample_main_env sch bad = \<lparr>me_LibFlags = [], me_Zap = (), me_Vars = default_build_vars,
     me_Runtime = \<lparr>GoVersion = ''go1.25.5'', Compiler = ''gc'', GOOS = ''linux'', GOARCH = ''amd64''\<rparr>,
     me_Scheme = sch, me_Answers = refuses bad\<rparr>"

lemma sample_main_sel [simp]:
  "me_LibFlags (sample_main_env sch bad) = []" "me_Zap (sample_main_env sch bad) = ()"
  "me_Answers (sample_main_env sch bad) = refuses bad" "me_Scheme (sample_main_env sch bad) = sch"
  by (simp_all add: sample_main_env_def)

lemma default_vars_no_version [simp]: "\<not> showVersion (default_vars z)"
  by (simp add: default_vars_def)

text \<open>When the ready check is refused, the manager is not started.\<close>

theorem main_stops_at_first_failure_witness:
  "\<exists>cs. main (sample_main_env () (Some (AddReadyzCheck ''readyz''))) [] [] = (Inl 1, cs)
     \<and> StartManager \<notin> set cs \<and> last_failure (refuses (Some (AddReadyzCheck ''readyz''))) [] cs"
proof -
  let ?env = "sample_main_env () (Some (AddReadyzCheck ''readyz''))" and ?v = "default_vars ()"
  have "\<exists>cs. main ?env [] [] = (Inl 1, cs) \<and> StartManager \<notin> set cs"
    by (simp add: main_run [OF _ default_vars_no_version] Parse_no_args run_manager_def SetupWithManager_def
        or_exit_def bind_proc_def do_call_def ask_call_def goes_on_def os_Exit_def default_vars_def refuses_def)
  then obtain cs where cs: "main ?env [] [] = (Inl 1, cs)" "StartManager \<notin> set cs" by blast
  have parse: "Parse (main_flags @ me_LibFlags ?env) [] (default_vars (me_Zap ?env)) = Inr (?v, [])"
    by (simp add: Parse_no_args)
  from main_stops_at_first_failure [OF parse default_vars_no_version cs(1)] cs show ?thesis by auto
qed

text \<open>
  C39. HTTP/2 is off unless it is asked for. Applied to any TLS configuration, the options of
  the webhook server and of the metrics server leave exactly HTTP/1.1 as the protocol when
  the flag enable-http2 is not set, and leave the configuration alone when it is; and without
  arguments it is not set.
\<close>

theorem http2_only_when_enabled:
  "foldl (\<lambda>c opt. opt c) c (wo_TLSOpts (webhookServerOptions v))
     = (if enableHTTP2 v then c else c\<lparr>NextProtos := [''http/1.1'']\<rparr>)
   \<and> foldl (\<lambda>c opt. opt c) c (mo_TLSOpts (metricsServerOptions v))
     = (if enableHTTP2 v then c else c\<lparr>NextProtos := [''http/1.1'']\<rparr>)
   \<and> map_sum id (\<lambda>(v, rest). enableHTTP2 v) (Parse (main_flags @ lib) [] (default_vars z)) = Inr False"
  by (simp add: webhookServerOptions_def metricsServerOptions_def main_tlsOpts_def disableHTTP2_def
      Let_def Parse_no_args default_vars_def)

text \<open>
  C40. The flag --version. The process prints one line, the build information as a JSON object,
  makes no request and ends with code 0. The name it prints is that of another operator.
\<close>

theorem version_flag:
  assumes "Parse (main_flags @ me_LibFlags env) args (default_vars (me_Zap env)) = Inr (v, rest)"
    and "showVersion v"
  shows "\<exists>line. main env args cs = (Inl 0, cs @ [Println line])
    \<and> list_all one_line_html_safe line
    \<and> map_option (\<lambda>kvs. map_of kvs ''AppName'') (read_object line) = Some (Some ''zookeeper-operator'')
    \<and> map_option (\<lambda>kvs. map_of kvs ''AppVersion'') (read_object line)
        = Some (Some (to_valid (BuildVersion (me_Vars env))))"
  using assms
  by (simp add: main_def bind_proc_def do_call_def os_Exit_def AppInfo_one_line read_AppInfo
      AppInfo_fields_def NewAppInfo_def byte_def)

lemma Parse_version:
  "Parse (main_flags @ lib) [''--version''] s = Inr (s\<lparr>showVersion := True\<rparr>, [])"
  by (simp add: Parse.simps parseOne_def cut_value_def Let_def set_flag_def BoolVar_def ParseBool_def
      map_add_def)

theorem version_flag_witness:
  "\<exists>line. main (sample_main_env () None) [''--version''] [] = (Inl 0, [Println line])
    \<and> map_option (\<lambda>kvs. map_of kvs ''AppName'') (read_object line) = Some (Some ''zookeeper-operator'')"
proof -
  let ?env = "sample_main_env () None"
  have "Parse (main_flags @ me_LibFlags ?env) [''--version''] (default_vars (me_Zap ?env))
      = Inr ((default_vars ())\<lparr>showVersion := True\<rparr>, [])"
    using Parse_version [of "[]"] by simp
  from version_flag [OF this, of "[]"] show ?thesis by auto
qed

text \<open>
  A wrong command line ends the process before anything happens. Flags are assigned from
  left to right, a later one overriding an earlier one; when one is not defined or does not
  take its value, nothing is called and the code is 2, and when help is asked for it is 0.
\<close>

theorem command_line_errors:
  assumes "set (map fst nvs) \<subseteq> {n. plain_name n}"
    and "assign_all (main_flags @ me_LibFlags env) nvs (default_vars (me_Zap env)) = Inl e"
  shows "main env (map (\<lambda>(n, v). assign n v) nvs) cs = (Inl (exit_code e), cs)"
proof -
  have "Parse (main_flags @ me_LibFlags env) (map (\<lambda>(n, v). assign n v) nvs) (default_vars (me_Zap env)) = Inl e"
    using assms by (subst Parse_assignments) auto
  then show ?thesis by (simp add: main_def os_Exit_def)
qed

theorem command_line_errors_witness:
  "main (sample_main_env () None) [''--webhook-cert-path=/certs'', ''--enable-http2=maybe''] [] = (Inl 2, [])"
proof -
  let ?nvs = "[(''webhook-cert-path'', ''/certs''), (''enable-http2'', ''maybe'')]"
  have "set (map fst ?nvs) \<subseteq> {n. plain_name n}" by (simp add: plain_name_def)
  moreover have "assign_all (main_flags @ me_LibFlags (sample_main_env () None)) ?nvs
      (default_vars (me_Zap (sample_main_env () None))) = Inl (BadFlag ''enable-http2'')"
    by (simp add: StringVar_def BoolVar_def ParseBool_def)
  ultimately show ?thesis
    using command_line_errors [of ?nvs "sample_main_env () None" "BadFlag ''enable-http2''" "[]"]
    by (simp add: assign_def exit_code_def)
qed

text \<open>
  How the metrics endpoint is served. It is protected by authentication and authorization
  exactly when it is served securely; certificate files are configured exactly when a
  directory is given, the name and the key then being those of the flags; and without
  arguments the endpoint is disabled, with secure serving as the default.
\<close>

theorem metrics_endpoint_options:
  "(mo_FilterProvider (metricsServerOptions v) = Some WithAuthenticationAndAuthorization
      \<longleftrightarrow> mo_SecureServing (metricsServerOptions v))
   \<and> (mo_CertDir (metricsServerOptions v), mo_CertName (metricsServerOptions v), mo_KeyName (metricsServerOptions v))
      = (if metricsCertPath v = '''' then ('''', '''', '''')
         else (metricsCertPath v, metricsCertName v, metricsCertKey v))
   \<and> map_sum id (\<lambda>(v, rest). (mo_BindAddress (metricsServerOptions v), mo_SecureServing (metricsServerOptions v)))
       (Parse (main_flags @ lib) [] (default_vars z)) = Inr (''0'', True)"
  by (simp add: metricsServerOptions_def Let_def Parse_no_args default_vars_def)

text \<open>
  C20. From the scheme to the controller. When init has filled the scheme and main returns, a
  manager was created with that very scheme, a controller was set up for HbaseCluster, and
  the scheme knows the kind of the resource and of its list in the operator's API group.
\<close>

theorem started_with_known_types:
  assumes "scheme_lib_ok lib" and "main_init lib = Ok (me_Scheme env)"
    and "Parse (main_flags @ me_LibFlags env) args (default_vars (me_Zap env)) = Inr (v, rest)"
    and "\<not> showVersion v" and "main env args [] = (Inr (), cs)"
  shows "\<exists>opts. NewManager opts \<in> set cs \<and> ControllerFor HbaseClusterType \<in> set cs
    \<and> Known lib (mgo_Scheme opts) \<lparr>Group = ''hbase.kubedoop.dev'', Version = ''v1alpha1'', Kind = ''HbaseCluster''\<rparr>
    \<and> Known lib (mgo_Scheme opts) \<lparr>Group = ''hbase.kubedoop.dev'', Version = ''v1alpha1'', Kind = ''HbaseClusterList''\<rparr>"
proof -
  have run: "run_manager env v [] = (Inr (), cs)" using assms(3-5) by (simp add: main_run)
  have "filter is_request cs = requests env v"
    by (rule guardedE [OF guarded_run_manager [of env v], of "[]"]) (use run in auto)
  then have "set (requests env v) \<subseteq> set cs" by (metis filter_is_subset)
  moreover have "kind_of SchemeBuilder t = \<lparr>Group = ''hbase.kubedoop.dev'', Version = ''v1alpha1'', Kind = type_name t\<rparr>" for t
    by (simp add: kind_of_def SchemeBuilder_def Register_def new_SchemeBuilder_def GroupVersion_def)
  then have "Known lib (me_Scheme env) \<lparr>Group = ''hbase.kubedoop.dev'', Version = ''v1alpha1'', Kind = type_name t\<rparr>" for t
    using main_init_known [OF assms(1,2), of t] by simp
  from this [of HbaseClusterType] this [of HbaseClusterListType]
  have "Known lib (mgo_Scheme (managerOptions env v)) \<lparr>Group = ''hbase.kubedoop.dev'', Version = ''v1alpha1'', Kind = ''HbaseCluster''\<rparr>"
    "Known lib (mgo_Scheme (managerOptions env v)) \<lparr>Group = ''hbase.kubedoop.dev'', Version = ''v1alpha1'', Kind = ''HbaseClusterList''\<rparr>"
    by (simp_all add: managerOptions_def)
  ultimately show ?thesis by (auto simp: requests_def)
qed

text \<open>A scheme that is the list of the kinds it knows.\<close>

definition list_scheme_lib :: "GroupVersionKind list scheme_lib" where
  "list_scheme_lib = \<lparr>NewScheme = [], ClientGo_AddToScheme = Ok, Authentication_AddToScheme = Ok,
     Builder_AddToScheme = (\<lambda>b s. Ok (s @ map (kind_of b) (reg_Objects b))),
     Known = (\<lambda>s g. g \<in> set s)\<rparr>"


theorem started_with_known_types_witness:
  "\<exists>opts cs. main (sample_main_env (map (kind_of SchemeBuilder) (reg_Objects SchemeBuilder)) None) [] [] = (Inr (), cs)
    \<and> NewManager opts \<in> set cs \<and> ControllerFor HbaseClusterType \<in> set cs
    \<and> Known list_scheme_lib (mgo_Scheme opts)
        \<lparr>Group = ''hbase.kubedoop.dev'', Version = ''v1alpha1'', Kind = ''HbaseCluster''\<rparr>"
proof -
  let ?s = "map (kind_of SchemeBuilder) (reg_Objects SchemeBuilder)"
  let ?env = "sample_main_env ?s None"
  have lib: "scheme_lib_ok list_scheme_lib" by (simp add: scheme_lib_ok_def list_scheme_lib_def)
  have init: "main_init list_scheme_lib = Ok (me_Scheme ?env)"
    by (simp add: main_init_def AddToScheme_def list_scheme_lib_def)
  have parse: "Parse (main_flags @ me_LibFlags ?env) [] (default_vars (me_Zap ?env)) = Inr (default_vars (), [])"
    by (simp add: Parse_no_args)
  obtain cs where cs: "main ?env [] [] = (Inr (), cs)"
    by (simp add: main_run [OF parse default_vars_no_version] run_manager_def SetupWithManager_def
        or_exit_def bind_proc_def do_call_def ask_call_def goes_on_def default_vars_def refuses_def)
  from started_with_known_types [OF lib init parse default_vars_no_version cs] cs show ?thesis by blast
qed

end
