(* ===== verification/Spec2Isabelle.thy ===== *)
theory Spec2Isabelle
  imports Controller Deep_Copy_Correct Start_Up Go_Path Go_Encoding
begin

text \<open>
  A model of the HBase operator: the Kubernetes controller that turns an HbaseCluster
  resource into StatefulSets, Services and ConfigMaps for HBase masters, region servers and
  REST servers.

  The program. cmd/main.go reads the command line, creates a manager of controller-runtime with
  the API group of api/v1alpha1 in its scheme, and starts it; the manager hands out deep copies
  of its cached resources (zz_generated.deepcopy.go) and calls the controller.
  internal/controller/hbasecluster_controller.go is called with the name of a
  resource; it reads it, makes a cluster reconciler (internal/controller/cluster), lets it
  register its resources, has the library write them, and asks whether they are ready.
  Registering goes through three role reconcilers (internal/controller/master,
  regionserver, restserver), and for every role group makes a StatefulSet, a Service, a
  ConfigMap and a metrics Service (internal/controller/common). The StatefulSet and the
  ConfigMap take their Kerberos, TLS and OIDC parts from internal/controller/authz. The
  library operator-go, controller-runtime and the Kubernetes API are used by all of them.

  The theories, in the order of their imports.

  Prelude: Go's control flow. A call's outcome is a value, an error or a panic
  (\<^typ>\<open>'a res\<close>); a method with a pointer receiver is a function from the
  receiver's state to an outcome and a state (\<^typ>\<open>('s, 'a) eff\<close>), so that what it
  wrote before an error or a panic stays written. A range loop over a map takes the order of
  the visit as an argument, which the language leaves open; \<open>range_order\<close> says that
  an order is one Go may choose. The locale \<open>collecting_loop\<close> is the contract of a
  loop whose body appends to a collection: it succeeds exactly when every turn does, and
  the collection is the same, up to order, in every order of the visit.

  Api_Types: api/v1alpha1 as records, the Kubernetes objects the operator writes, the
  library's constants and accessors (the record \<^typ>\<open>opgo\<close>) and its client.
  Go_Strings, Go_Path, Go_Encoding, Go_Sha256: the functions of Go's standard library the
  code uses (strings.Split and Join, strconv.Itoa, path.Join and Clean, hex and base64,
  the escaping of net/url, sha256.Sum256), executable, with their round trips; the locales
  \<open>codec\<close> and \<open>codec_pair\<close> are the contract of an encoding and of two
  encodings one after the other.

  Znode: common/zookeeper.go. The locale \<open>field_store\<close> is the contract between
  AddData and the getters. Affinity: common/affinity.go. Krb5: authz/krb5.go. Oidc_Proxy:
  authz/oidc.go. Services: internal/constant, internal/util, the three ports.go and
  common/service.go; the locale \<open>port_table\<close> is what probes, services and the
  side-car rely on in a role's ports. ConfigMap_Builder: common/configmap.go and
  common/role.go; the locale \<open>config_step\<close> is the contract of a step of the
  builder, which either adds calls that write exactly its files or fails and changes
  nothing. StatefulSet_Builder: common/statefulset.go. Roles: the three role.go, whose
  loops interpret \<open>collecting_loop\<close>. App_Info: internal/util/version, with the
  escaping of encoding/json. Cluster: cluster/cluster.go. Controller:
  hbasecluster_controller.go, with the state machine of its phases as an inductive step
  relation.

  Go_Heap, Go_Copy: memory as a list of cells, allocation, loads and stores, and the contract
  of a deep copy: the locale \<open>representation\<close> says what it is for a struct in memory to
  stand for a value, \<open>typing\<close> what a well-typed cell is, \<open>copier\<close> that a copy
  only adds cells and stands for the same value in them; pointers, slices, maps and structs of
  copiers are copiers. Deep_Copy: api/v1alpha1/zz_generated.deepcopy.go, every DeepCopyInto,
  DeepCopy and DeepCopyObject over that memory, the three roles' functions being instances of
  one that takes the role as a tag. Deep_Copy_Correct: what each struct stands for, as a value
  of Api_Types, and that each function is a copier; the locale \<open>copy_library\<close> is the
  interface to the deep copies of the library's own types.

  Scheme: groupversion_info.go, the init function and the webhook methods of
  hbasecluster_types.go, and the init function of cmd/main.go. Go_Flag: package flag.
  Start_Up: cmd/main.go and SetupWithManager, as the calls that are made in order, each
  answered by the environment, and the code the process ends with.

  How state corresponds. Objects of the library that the operator drives by calls (its
  ConfigMap, StatefulSet and container builders, its XML documents) are represented by the
  list of calls made on them; what the library makes of the calls is a parameter, and where
  a property needs its documented meaning it is a named hypothesis. \<open>sts_lib_ok\<close>: the
  object is a template that has the containers and volumes that were added, with the user's
  overrides merged into it when there are any; the merge is a parameter of which nothing is
  assumed, so the theorems speak of the template, which is the object when there are no
  overrides. \<open>cm_lib_ok\<close>: the ConfigMap depends on the data that was added, and its
  write creates or updates. \<open>accessors_ok\<close>, \<open>role_lib_ok\<close>,
  \<open>cluster_lib_ok\<close>: the accessors return what the constructor was given, and the
  name of a role group is made of cluster, role and group. \<open>copy_lib_ok\<close> and
  \<open>scheme_lib_ok\<close>: the deep copies and the scheme of the library. The API server is a
  state that the write of a ConfigMap is a function of (the parameter \<open>'s\<close> of
  \<open>cm_lib\<close>); a client stands for the answers the server gives to lookups at the time
  of a reconciliation, so a later one is a reconciliation with another client. In the
  controller's model the library's answers are those of one reconciliation. Each property
  with a hypothesis is followed by a witness on a concrete library, client and resource (the \<open>sample\<close>
  definitions). Nil pointers are \<^term>\<open>None\<close>, and reading through one panics;
  32-bit integers are words. All recursion is structural or over a list that gets shorter,
  and there is no fuel. In the deep copies a pointer is the address of a cell, a slice the
  address of its elements (two slices do not overlap in part) and a map the address of its
  entries; \<open>*in\<close> and \<open>*out\<close> are different structs, as they are wherever the
  generated code is called. A nil map stands for the same value as an empty one; that a copy
  is nil exactly when the original is, is a lemma of its own (\<open>copy_map_nil\<close>,
  \<open>role_copy_keeps_nil\<close>). Everywhere else a pointer is an option, which the theorems of
  Deep_Copy_Correct justify: a copy stands for the same value and shares nothing.

  What the lemmas show. Znode: AddData and the getters are inverse to each other on the
  accepted strings, and what is accepted. ConfigMap_Builder: which files are there after any
  outcome, that reconciling again asks for the same object whatever the server has become, how
  the connection data reaches hbase-site.xml and how a missing entry is reported. StatefulSet_Builder: every outcome of
  Build, the agreement of volumes and mounts, the containers of the pod's template and what
  is appended after the overrides, the start-up script and the process it starts, the three
  probes, the side-car. Krb5: every file that is named is mounted, principals
  are unambiguous, passwords agree. Oidc_Proxy: the issuer URL, the scopes, the cookie
  secret. Services: the metrics Service and port. Roles and Cluster: what is registered,
  that the order of Go's loops does not matter, when registration fails or panics, what may
  be left out of a resource, which names are distinct. Controller: the function is its state
  machine, which needs at most four steps, the order of the calls that leave the process,
  when a reconciliation is settled, which errors it reports. Deep_Copy_Correct:
  copies are equal, isolated and well typed. App_Info: the version line is read back. Start_Up:
  main stops at the first failure, HTTP/2 is off by default, the version flag, that the
  controller's types are known to the manager's scheme. This theory: a role group end
  to end, from the registration to the built StatefulSet and the written ConfigMap.

  Not modelled: log output (but for what main itself logs), the usage text of package flag,
  common/rbac.go, which has only comments for the code generator, and the set-up of the
  controller's test suite.
\<close>

section \<open>A role group end to end\<close>

lemma call_data_stages:
  assumes "ConfigMap_Reconcile lib K ks r (b, s) = (Ok x, (u, s'))" and "cb_Calls b = []"
  shows "dom (call_data (cb_Calls u)) = \<Union> (set (stage_files K b))"
    and "\<exists>obj. CM_Build lib (cb_Name b) (cb_Options b) (cb_Calls u) = Ok obj
      \<and> ResourceReconcile lib obj s = (Ok x, s')"
proof -
  obtain obj where obj: "config_object lib K ks r b = (Ok obj, u)"
    and wrote: "ResourceReconcile lib obj s = (Ok x, s')"
    using assms(1)
    by (auto simp: ConfigMap_Reconcile_steps on_fst_then_snd split: prod.splits res.splits)
  obtain znode v where steps: "run_steps (map fst (config_steps lib K ks znode)) b = (Ok v, u)"
    and built: "CM_Build lib (cb_Name u) (cb_Options u) (cb_Calls u) = Ok obj"
    using config_object_Ok [OF obj] by blast
  let ?sfs = "config_steps lib K ks znode"
  obtain cs n where u: "u = b\<lparr>cb_Calls := cb_Calls b @ cs\<rparr>" and n: "is_Ok (Ok v) \<longleftrightarrow> n = length ?sfs"
    and d: "dom (call_data cs) = (\<Union>f \<in> set (take n (map snd ?sfs)). f b)"
    using run_steps_files [OF config_steps_ok steps] by blast
  have "dom (call_data cs) = \<Union> (set (stage_files K b))"
    unfolding d stage_files_eq [of K b lib ks znode] using n by auto
  with u assms(2) show "dom (call_data (cb_Calls u)) = \<Union> (set (stage_files K b))" by simp
  from built wrote u show "\<exists>obj. CM_Build lib (cb_Name b) (cb_Options b) (cb_Calls u) = Ok obj
      \<and> ResourceReconcile lib obj s = (Ok x, s')" by simp
qed

text \<open>
  C1. The StatefulSet and the ConfigMap of a role group are made for each other. For a
  group of any of the three roles, once the library has built the StatefulSet and
  reconciled the ConfigMap that the role registered: in the pod template Build hands to the
  library the volume hbase-config is the ConfigMap of that name; what is written to the API
  server is the object built from the files the reconciliation has added; ssl-server.xml is
  among them exactly when the role's container mounts the TLS volume; and with Kerberos
  every keytab that the written hbase-site.xml names is under a mount of the role's
  container. The StatefulSet is that template, with the user's overrides merged in when the
  group or the role has any, and the log agent behind it.
\<close>

theorem role_group_end_to_end:
  assumes K: "accessors_ok K" and rl: "role_lib_ok rl" and sl: "sts_lib_ok sl"
    and grp: "Ok [StatefulSetResource sts, svc, ConfigMapResource cm, metrics]
       \<in> {master_role_group rl K os m name mg, regionserver_role_group rl K os g name gg,
          restserver_role_group rl K os t name tg}"
    and build: "STS_Build sl K (sr_Builder sts) = (Ok obj, b)"
    and reconcile: "ConfigMap_Reconcile cl K ks cm (cr_Builder cm, s) = (Ok x, (u, s'))"
    and vec: "VectorConfigFile K \<noteq> ''ssl-server.xml''"
  shows "\<exists>template merged main rest. sts_Containers template = main # rest
    \<and> (case base_Overrides (sb_Base (sr_Builder sts)) of None \<Rightarrow> Ok template
        | Some ov \<Rightarrow> MergeOverrides sl ov template) = Ok merged
    \<and> prefix (sts_Containers merged) (sts_Containers obj) \<and> prefix (sts_Volumes merged) (sts_Volumes obj)
    \<and> \<lparr>VolumeName = ''hbase-config'', VolumeSrc = ConfigMapVolume 420 (cb_Name (cr_Builder cm))\<rparr>
        \<in> set (sts_Volumes template)
    \<and> (\<exists>object. CM_Build cl (cb_Name (cr_Builder cm)) (cb_Options (cr_Builder cm)) (cb_Calls u) = Ok object
        \<and> ResourceReconcile cl object s = (Ok x, s'))
    \<and> (''ssl-server.xml'' \<in> dom (call_data (cb_Calls u))
        \<longleftrightarrow> ''tls'' \<in> MountName ` set (added_mounts (ct_Calls main)))
    \<and> (\<forall>c. cb_krb5Config (cr_Builder cm) = Some c \<longrightarrow>
        GetHbaseSite K c ` set keytab_keys \<subseteq> Some ` {p. in_mount (added_mounts (ct_Calls main)) p})"
proof -
  obtain base cc img ports where
    "group_registered K base cc img ports name
       [StatefulSetResource sts, svc, ConfigMapResource cm, metrics]"
    using grp role_group_Ok [OF K rl] by (metis (no_types, lifting) empty_iff insert_iff)
  then obtain c where cfg: "sb_ClusterConfig (sr_Builder sts) = Some c"
    and new: "sb_Calls (sr_Builder sts) = []" "cb_Calls (cr_Builder cm) = []"
    and name: "base_Name (sb_Base (sr_Builder sts)) = cb_Name (cr_Builder cm)"
    and krb: "sb_krb5Config (sr_Builder sts) = cb_krb5Config (cr_Builder cm)"
    by (auto simp: group_registered_def Let_def)
  let ?main = "main_container sl K (sr_Builder sts)"
  obtain template merged rest where tmpl: "sts_Containers template = ?main # rest"
      "sts_Volumes template = config_volumes sl (sr_Builder sts) c @ krb5_volumes (sr_Builder sts)"
    and merged: "overridden sl (sb_Base (sr_Builder sts)) template = Ok merged"
      "prefix (sts_Containers merged) (sts_Containers obj)" "prefix (sts_Volumes merged) (sts_Volumes obj)"
    using STS_Build_template [OF sl cfg new(1) build] by blast
  have "STS_GetName sl base' = base_Name base'" for base'
    using sl by (simp add: sts_lib_ok_def)
  then have vol: "\<lparr>VolumeName = ''hbase-config'', VolumeSrc = ConfigMapVolume 420 (cb_Name (cr_Builder cm))\<rparr>
        \<in> set (sts_Volumes template)"
    by (simp add: tmpl config_volumes_def name)
  have "''ssl-server.xml'' \<in> dom (call_data (cb_Calls u)) \<longleftrightarrow> cb_krb5Config (cr_Builder cm) \<noteq> None"
    using vec unfolding call_data_stages(1) [OF reconcile new(2)] stage_files_def
    by (simp add: file_names)
  moreover have "''tls'' \<in> MountName ` set (added_mounts (ct_Calls ?main)) \<longleftrightarrow>
      cb_krb5Config (cr_Builder cm) \<noteq> None"
    unfolding set_map [symmetric] main_mount_names krb by simp
  moreover have "GetHbaseSite K c ` set keytab_keys \<subseteq> Some ` {p. in_mount (added_mounts (ct_Calls ?main)) p}"
    if "cb_krb5Config (cr_Builder cm) = Some c" for c
  proof -
    have "in_mount (added_mounts (ct_Calls ?main)) (KetytabFile K)"
      using krb5_in_mount(4) [of K c] that krb by (auto simp: in_mount_def mounts_main_container)
    then show ?thesis by (auto simp: site_keytab)
  qed
  ultimately show ?thesis
    using tmpl(1) merged [unfolded overridden_def] vol call_data_stages(2) [OF reconcile new(2)]
    by (intro exI [of _ template] exI [of _ merged] exI [of _ ?main] exI [of _ rest]) simp
qed

text \<open>The master's first role group of the concrete cluster.\<close>

definition sample_group :: MasterRoleGroupSpec where
  "sample_group = \<lparr>mg_Replicas = Some 1, mg_Config = None, mg_OverridesSpec = None\<rparr>"

lemma sample_group_resources:
  "\<exists>sts svc metrics. master_role_group sample_role_lib sample_opgo sample_orders sample_master
     ''default'' sample_group
     = Ok [StatefulSetResource sts, svc, ConfigMapResource sample_cm_reconciler, metrics]"
proof -
  let ?info = "sample_info ''master''"
  have cm: "NewConfigMapReconciler sample_opgo znode_client (Some sample_cluster_config) None ?info
      = Ok sample_cm_reconciler"
    by (simp add: sample_cm_reconciler_def NewConfigMapReconciler_def sample_cluster_config_def Let_def)
  have info: "\<lparr>rgi_RoleInfo = sample_role_info ''master'', rgi_RoleGroupName = ''default''\<rparr> = ?info"
    by (simp add: sample_role_info_def sample_info_def)
  obtain sts where sts: "NewStatefulSetReconciler sample_opgo znode_client (Some sample_cluster_config)
      ?info master_Ports sample_image False (Some 1) None None = Ok sts"
    using constructors_is_Ok(1) [of sample_opgo znode_client "Some sample_cluster_config" ?info]
    unfolding is_Ok_iff by blast
  have "known_role (ri_RoleName (rgi_RoleInfo ?info))"
    by (simp add: sample_info_def known_role_def role_names)
  then obtain m where m: "NewRoleGroupMetricsService sample_opgo (ord_Labels sample_orders ?info)
      (ord_Annotations sample_orders ?info) ?info = Ok m"
    using NewRoleGroupMetricsService_is_Ok [OF accessors_ok_sample, of _ _ ?info]
    unfolding is_Ok_iff by blast
  have sel: "rr_Base sample_master = \<lparr>rb_Client = znode_client, rb_ClusterStopped = False,
        rb_RoleInfo = sample_role_info ''master''\<rparr>"
    "rr_ClusterConfig sample_master = Some sample_cluster_config" "rr_Image sample_master = sample_image"
    by (simp_all add: sample_master_def master_NewReconciler_def role_names)
  have lib: "ClusterStopped sample_role_lib b = rb_ClusterStopped b" "Role_GetClient sample_role_lib b = rb_Client b"
    "Merge_MasterConfigSpec sample_role_lib None None = Ok None"
    "Merge_OverridesSpec sample_role_lib None None = Ok None" for b
    by (simp_all add: sample_role_lib_def prefer_second_def)
  have spec: "ms_Config sample_master_spec = None" "ms_OverridesSpec sample_master_spec = None"
    by (simp_all add: sample_master_spec_def)
  show ?thesis
    by (simp add: master_role_group_def register_group_copies register_group_def sel sample_roles_sel
        spec sample_group_def lib info sts cm m GetRoleLoggingConfig_def Let_def)
qed

lemma sample_group_build:
  assumes "sb_ClusterConfig b = Some sample_cluster_config" and "sb_RoleName b = ''master''"
  shows "\<exists>obj t. STS_Build sample_sts_lib K b = (Ok obj, t)"
  using assms
  by (simp add: STS_Build_eq [OF assms(1)] known_role_def role_names buildOidcContainer_def
      sample_cluster_config_def sample_sts_lib_def sample_merge_def add_vector_def Let_def
      split: option.split)

theorem role_group_end_to_end_witness:
  "\<exists>sts svc metrics obj b u object template merged main rest.
     master_role_group sample_role_lib sample_opgo sample_orders sample_master ''default'' sample_group
       = Ok [StatefulSetResource sts, svc, ConfigMapResource sample_cm_reconciler, metrics]
     \<and> STS_Build sample_sts_lib sample_opgo (sr_Builder sts) = (Ok obj, b)
     \<and> ConfigMap_Reconcile sample_cm_lib sample_opgo [''java.security.krb5.conf'']
         sample_cm_reconciler (cr_Builder sample_cm_reconciler, None) = (Ok 1, (u, Some object))
     \<and> sts_Containers template = main # rest
     \<and> overridden sample_sts_lib (sb_Base (sr_Builder sts)) template = Ok merged
     \<and> prefix (sts_Containers merged) (sts_Containers obj)
     \<and> (''ssl-server.xml'' \<in> dom (call_data (cb_Calls u))
        \<longleftrightarrow> ''tls'' \<in> MountName ` set (added_mounts (ct_Calls main)))"
proof -
  obtain sts svc metrics where grp: "master_role_group sample_role_lib sample_opgo sample_orders sample_master
       ''default'' sample_group
     = Ok [StatefulSetResource sts, svc, ConfigMapResource sample_cm_reconciler, metrics]"
    using sample_group_resources by blast
  have cfg: "rr_ClusterConfig sample_master = Some sample_cluster_config"
    "ri_RoleName (rb_RoleInfo (rr_Base sample_master)) = ''master''"
    by (simp_all add: sample_master_def master_NewReconciler_def role_names sample_role_info_def sample_info_def)
  have "sb_ClusterConfig (sr_Builder sts) = Some sample_cluster_config" "sb_RoleName (sr_Builder sts) = ''master''"
    using role_group_Ok(1) [OF accessors_ok_sample role_lib_ok_sample grp] cfg
    by (auto simp: group_registered_def Let_def)
  then obtain obj b where build: "STS_Build sample_sts_lib sample_opgo (sr_Builder sts) = (Ok obj, b)"
    using sample_group_build by blast
  obtain u object where reconcile: "ConfigMap_Reconcile sample_cm_lib sample_opgo [''java.security.krb5.conf'']
      sample_cm_reconciler (cr_Builder sample_cm_reconciler, None) = (Ok 1, (u, Some object))"
    using sample_cm_reconcile by blast
  have vec: "VectorConfigFile sample_opgo \<noteq> ''ssl-server.xml''" by (simp add: sample_opgo_def)
  have mem: "Ok [StatefulSetResource sts, svc, ConfigMapResource sample_cm_reconciler, metrics]
      \<in> {master_role_group sample_role_lib sample_opgo sample_orders sample_master ''default'' sample_group,
         regionserver_role_group sample_role_lib sample_opgo sample_orders sample_region ''default''
           \<lparr>rg_Replicas = None, rg_Config = None, rg_OverridesSpec = None\<rparr>,
         restserver_role_group sample_role_lib sample_opgo sample_orders sample_rest ''default''
           \<lparr>tg_Replicas = None, tg_Config = None, tg_OverridesSpec = None\<rparr>}"
    using grp by simp
  obtain template merged main rest where
    "sts_Containers template = main # rest"
    "(case base_Overrides (sb_Base (sr_Builder sts)) of None \<Rightarrow> Ok template
        | Some ov \<Rightarrow> MergeOverrides sample_sts_lib ov template) = Ok merged"
    "prefix (sts_Containers merged) (sts_Containers obj)"
    "''ssl-server.xml'' \<in> dom (call_data (cb_Calls u))
        \<longleftrightarrow> ''tls'' \<in> MountName ` set (added_mounts (ct_Calls main))"
    using role_group_end_to_end [OF accessors_ok_sample role_lib_ok_sample sts_lib_ok_sample mem build reconcile vec]
    by (elim exE conjE) (rule that, assumption+)
  with grp build reconcile show ?thesis unfolding overridden_def by blast
qed

end
